(* ===== verification/Prelude.thy ===== *)
theory Prelude
  imports Main "HOL-Library.Sublist"
begin

text \<open>
  The vocabulary every component shares: Go's error values and the standard
  library's way of looking into them, Go computations over an explicit state that
  may return or panic, the loop and \<^verbatim>\<open>defer\<close> shapes of the sources, and the
  \<^verbatim>\<open>strings\<close> and \<^verbatim>\<open>fmt\<close> routines the sources call. The lemmas collected in
  \<open>go_simps\<close> and \<open>inv_intros\<close> carry the component proofs.
\<close>

named_theorems go_simps \<open>symbolic execution of Go computations\<close>
named_theorems inv_intros \<open>compositional rules for state invariants of Go computations\<close>

section \<open>Errors\<close>

text \<open>
  A Go \<^verbatim>\<open>error\<close> value as far as the sources can tell errors apart: one that wraps
  nothing (\<^verbatim>\<open>errors.New\<close>, \<^verbatim>\<open>fmt.Errorf\<close> without \<^verbatim>\<open>%w\<close>, and the opaque
  errors of third parties), a server error of PostgreSQL with its SQLSTATE, an error
  that wraps one other error, and the result of \<^verbatim>\<open>errors.Join\<close>. Every leaf and
  every wrapper carries the text its \<^verbatim>\<open>Error()\<close> method returns. A variable of type
  \<^verbatim>\<open>error\<close> is an \<open>error option\<close>; \<^verbatim>\<open>nil\<close> is \<open>None\<close>.
\<close>

datatype error =
    ErrorString string
  | PgError string string
  | WrapError string error
  | JoinError "error list"

fun strings_Join :: "string list \<Rightarrow> string \<Rightarrow> string" where
  "strings_Join [] sep = []"
| "strings_Join [x] sep = x"
| "strings_Join (x # y # xs) sep = x @ sep @ strings_Join (y # xs) sep"

fun error_Error :: "error \<Rightarrow> string" where
  "error_Error (ErrorString t) = t"
| "error_Error (PgError code t) = t"
| "error_Error (WrapError t e) = t"
| "error_Error (JoinError es) = strings_Join (map error_Error es) ''\<newline>''"

text \<open>
  \<^verbatim>\<open>errors.As(err, &pgErr)\<close>: the first PostgreSQL error of the tree in depth-first
  order, here its SQLSTATE.
\<close>

fun errors_As_PgError :: "error \<Rightarrow> string option"
  and errors_As_PgError_list :: "error list \<Rightarrow> string option" where
  "errors_As_PgError (ErrorString t) = None"
| "errors_As_PgError (PgError code t) = Some code"
| "errors_As_PgError (WrapError t e) = errors_As_PgError e"
| "errors_As_PgError (JoinError es) = errors_As_PgError_list es"
| "errors_As_PgError_list [] = None"
| "errors_As_PgError_list (e # es) =
     (case errors_As_PgError e of Some c \<Rightarrow> Some c | None \<Rightarrow> errors_As_PgError_list es)"

section \<open>Go computations\<close>

text \<open>
  A computation reads and updates a state and either returns a value or panics. Errors
  are ordinary returned values, as in the sources. A panic runs the deferred calls on
  its way up and then ends the computation.
\<close>

datatype 'a outcome = Returned 'a | Panicked

type_synonym ('s, 'a) go = "'s \<Rightarrow> 'a outcome \<times> 's"

definition go_return :: "'a \<Rightarrow> ('s, 'a) go" where
  "go_return x = (\<lambda>s. (Returned x, s))"

definition go_panic :: "('s, 'a) go" where
  "go_panic = (\<lambda>s. (Panicked, s))"

definition go_bind :: "('s, 'a) go \<Rightarrow> ('a \<Rightarrow> ('s, 'b) go) \<Rightarrow> ('s, 'b) go" where
  "go_bind m f = (\<lambda>s. case m s of
     (Returned x, s') \<Rightarrow> f x s'
   | (Panicked, s') \<Rightarrow> (Panicked, s'))"

definition go_get :: "('s \<Rightarrow> 'a) \<Rightarrow> ('s, 'a) go" where
  "go_get g = (\<lambda>s. (Returned (g s), s))"

definition go_modify :: "('s \<Rightarrow> 's) \<Rightarrow> ('s, unit) go" where
  "go_modify f = (\<lambda>s. (Returned (), f s))"

text \<open>
  \<open>go_defer d m\<close> is a function body \<open>m\<close> in front of which \<^verbatim>\<open>defer d()\<close> stands:
  \<open>d\<close> runs when \<open>m\<close> returns and when it panics, and its own result is dropped.
\<close>

definition go_defer :: "('s, 'b) go \<Rightarrow> ('s, 'a) go \<Rightarrow> ('s, 'a) go" where
  "go_defer d m = (\<lambda>s. case m s of (r, s') \<Rightarrow>
     (case d s' of (Returned _, s'') \<Rightarrow> (r, s'') | (Panicked, s'') \<Rightarrow> (Panicked, s'')))"

text \<open>\<^verbatim>\<open>if err := m; err != nil { return err }\<close> in front of \<open>k\<close>.\<close>

definition go_check :: "('s, error option) go \<Rightarrow> ('s, error option) go \<Rightarrow> ('s, error option) go" where
  "go_check m k = go_bind m (\<lambda>err. case err of Some e \<Rightarrow> go_return (Some e) | None \<Rightarrow> k)"

text \<open>
  \<^verbatim>\<open>x, err := m; if err != nil { return h(err) }\<close> in front of \<open>k\<close>, which goes on with \<open>x\<close>.
\<close>

definition go_try :: "(error \<Rightarrow> error) \<Rightarrow> ('s, error + 'a) go \<Rightarrow> ('a \<Rightarrow> ('s, error option) go) \<Rightarrow>
    ('s, error option) go" where
  "go_try h m k = go_bind m (\<lambda>res. case res of Inl err \<Rightarrow> go_return (Some (h err)) | Inr x \<Rightarrow> k x)"

text \<open>\<^verbatim>\<open>for _, x := range xs { if err := f(x); err != nil { return err } }; return nil\<close>.\<close>

primrec go_for :: "('a \<Rightarrow> ('s, error option) go) \<Rightarrow> 'a list \<Rightarrow> ('s, error option) go" where
  "go_for f [] = go_return None"
| "go_for f (x # xs) = go_check (f x) (go_for f xs)"

lemma go_bind_return [simp]: "go_bind (go_return x) f = f x"
  by (simp add: go_bind_def go_return_def)

lemma go_bind_return_right [simp]: "go_bind m go_return = m"
proof
  fix s
  show "go_bind m go_return s = m s"
    by (cases "m s"; cases "fst (m s)") (auto simp: go_bind_def go_return_def)
qed

lemma go_bind_assoc: "go_bind (go_bind m f) g = go_bind m (\<lambda>x. go_bind (f x) g)"
proof
  fix s
  show "go_bind (go_bind m f) g s = go_bind m (\<lambda>x. go_bind (f x) g) s"
    by (cases "m s"; cases "fst (m s)") (auto simp: go_bind_def)
qed

lemma go_return_apply [go_simps]: "go_return x s = (Returned x, s)"
  by (simp add: go_return_def)

lemma go_panic_apply [go_simps]: "go_panic s = (Panicked, s)"
  by (simp add: go_panic_def)

lemma go_get_apply [go_simps]: "go_get g s = (Returned (g s), s)"
  by (simp add: go_get_def)

lemma go_modify_apply [go_simps]: "go_modify f s = (Returned (), f s)"
  by (simp add: go_modify_def)

lemma go_bind_Returned [go_simps]: "m s = (Returned x, s') \<Longrightarrow> go_bind m f s = f x s'"
  by (simp add: go_bind_def)

lemma go_bind_Panicked [go_simps]: "m s = (Panicked, s') \<Longrightarrow> go_bind m f s = (Panicked, s')"
  by (simp add: go_bind_def)

lemma go_bind_get [go_simps]: "go_bind (go_get g) f s = f (g s) s"
  by (simp add: go_bind_def go_get_def)

lemma go_bind_modify [go_simps]: "go_bind (go_modify g) f s = f () (g s)"
  by (simp add: go_bind_def go_modify_def)

lemma go_bind_panic [simp]: "go_bind go_panic f = go_panic"
  by (simp add: go_bind_def go_panic_def)

lemma go_check_Some [go_simps]: "m s = (Returned (Some e), s') \<Longrightarrow> go_check m k s = (Returned (Some e), s')"
  by (simp add: go_check_def go_bind_def go_return_def)

lemma go_check_None [go_simps]: "m s = (Returned None, s') \<Longrightarrow> go_check m k s = k s'"
  by (simp add: go_check_def go_bind_def)

lemma go_check_Panicked [go_simps]: "m s = (Panicked, s') \<Longrightarrow> go_check m k s = (Panicked, s')"
  by (simp add: go_check_def go_bind_def)

lemma go_check_return_None [simp]: "go_check m (go_return None) = m"
proof
  fix s
  show "go_check m (go_return None) s = m s"
    by (cases "m s"; cases "fst (m s)")
      (auto simp: go_check_def go_bind_def go_return_def split: option.splits)
qed

lemma go_try_None:
  assumes "go_try h m k s = (Returned None, t)"
  obtains x u where "m s = (Returned (Inr x), u)" and "k x u = (Returned None, t)"
  using assms
  by (auto simp: go_try_def go_bind_def go_return_def split: prod.splits outcome.splits sum.splits)

lemma go_try_Inr [go_simps]: "m s = (Returned (Inr x), t) \<Longrightarrow> go_try h m k s = k x t"
  by (simp add: go_try_def go_bind_def)

lemma go_try_Inl [go_simps]: "m s = (Returned (Inl e), t) \<Longrightarrow> go_try h m k s = (Returned (Some (h e)), t)"
  by (simp add: go_try_def go_bind_def go_return_def)

lemma go_check_NoneE:
  assumes "go_check m k s = (Returned None, t)"
  obtains u where "m s = (Returned None, u)" and "k u = (Returned None, t)"
  using assms
  by (auto simp: go_check_def go_bind_def go_return_def split: prod.splits outcome.splits option.splits)

lemma go_defer_ReturnedE:
  assumes "go_defer d m s = (Returned x, t)"
  obtains u y where "m s = (Returned x, u)" and "d u = (Returned y, t)"
  using assms by (auto simp: go_defer_def split: prod.splits outcome.splits)

lemma go_defer_Returned [go_simps]:
  "m s = (r, s') \<Longrightarrow> d s' = (Returned x, s'') \<Longrightarrow> go_defer d m s = (r, s'')"
  by (simp add: go_defer_def)

lemma go_check_assoc: "go_check (go_check m k) l = go_check m (go_check k l)"
proof
  fix s
  show "go_check (go_check m k) l s = go_check m (go_check k l) s"
    by (cases "m s"; cases "fst (m s)")
      (auto simp: go_check_def go_bind_def go_return_def split: option.splits)
qed

lemma go_for_append: "go_for f (xs @ ys) = go_check (go_for f xs) (go_for f ys)"
proof (induction xs)
  case Nil
  show ?case by (simp add: go_check_def)
next
  case (Cons x xs)
  then show ?case by (simp add: go_check_assoc)
qed

lemma go_for_map: "go_for f (map g xs) = go_for (\<lambda>x. f (g x)) xs"
  by (induction xs) simp_all

lemma go_for_cong: "(\<And>x. x \<in> set xs \<Longrightarrow> f x = g x) \<Longrightarrow> go_for f xs = go_for g xs"
  by (induction xs) simp_all

text \<open>
  What a loop that stopped with an error has done: a prefix of the list went through
  without error, the next element failed, and nothing after it was started.
\<close>

lemma go_for_Some:
  assumes "go_for f xs s = (Returned (Some e), t)"
  shows "\<exists>ys x zs u. xs = ys @ x # zs \<and> go_for f ys s = (Returned None, u) \<and>
           f x u = (Returned (Some e), t)"
  using assms
proof (induction xs arbitrary: s)
  case Nil
  then show ?case by (simp add: go_return_def)
next
  case (Cons x xs)
  show ?case
  proof (cases "f x s = (Returned (Some e), t)")
    case True
    then have "x # xs = [] @ x # xs \<and> go_for f [] s = (Returned None, s) \<and> f x s = (Returned (Some e), t)"
      by (simp add: go_return_def)
    then show ?thesis by blast
  next
    case False
    with Cons.prems obtain u where u: "f x s = (Returned None, u)"
        "go_for f xs u = (Returned (Some e), t)"
      by (auto simp: go_check_def go_bind_def go_return_def
          split: prod.splits outcome.splits option.splits)
    from Cons.IH [OF u(2)] obtain ys y zs v where
      "xs = ys @ y # zs" "go_for f ys u = (Returned None, v)" "f y v = (Returned (Some e), t)"
      by blast
    with u(1) have "x # xs = (x # ys) @ y # zs \<and> go_for f (x # ys) s = (Returned None, v) \<and>
        f y v = (Returned (Some e), t)"
      by (simp add: go_simps)
    then show ?thesis by blast
  qed
qed

text \<open>And one that ended without an error: a chain of states, one step for each element.\<close>

primrec along :: "('a \<Rightarrow> 's \<Rightarrow> 's \<Rightarrow> bool) \<Rightarrow> 'a list \<Rightarrow> 's \<Rightarrow> 's \<Rightarrow> bool" where
  "along R [] s t \<longleftrightarrow> t = s"
| "along R (x # xs) s t \<longleftrightarrow> (\<exists>u. R x s u \<and> along R xs u t)"

lemma along_append: "along R (xs @ ys) s t \<longleftrightarrow> (\<exists>u. along R xs s u \<and> along R ys u t)"
  by (induction xs arbitrary: s) auto

lemma go_for_along:
  assumes "go_for f xs s = (Returned None, t)" and "\<And>x s t. f x s = (Returned None, t) \<Longrightarrow> R x s t"
  shows "along R xs s t"
  using assms(1) by (induction xs arbitrary: s) (auto simp: go_return_def elim!: go_check_NoneE dest!: assms(2))

lemma along_go_for:
  assumes "along R xs s t" and "\<And>x s t. R x s t \<Longrightarrow> f x s = (Returned None, t)"
  shows "go_for f xs s = (Returned None, t)"
  using assms(1) by (induction xs arbitrary: s) (auto simp: go_return_def go_check_None dest!: assms(2))

text \<open>
  A loop whose body is described by \<open>R\<close> ends without error exactly along a whole chain, and
  with an error exactly after the chain of the elements before the one that failed.
\<close>

lemma go_for_iff:
  assumes "\<And>x s e t. f x s = (Returned e, t) \<longleftrightarrow> R x s e t"
  shows "go_for f xs s = (Returned None, t) \<longleftrightarrow> along (\<lambda>x s. R x s None) xs s t"
    and "go_for f xs s = (Returned (Some e), t) \<longleftrightarrow>
      (\<exists>ys x zs u. xs = ys @ x # zs \<and> along (\<lambda>x s. R x s None) ys s u \<and> R x u (Some e) t)"
proof -
  show none: "go_for f xs s = (Returned None, t) \<longleftrightarrow> along (\<lambda>x s. R x s None) xs s t" for xs s t
    using go_for_along [of f xs s t "\<lambda>x s. R x s None"] along_go_for [of "\<lambda>x s. R x s None" xs s t f] assms by blast
  show "go_for f xs s = (Returned (Some e), t) \<longleftrightarrow>
      (\<exists>ys x zs u. xs = ys @ x # zs \<and> along (\<lambda>x s. R x s None) ys s u \<and> R x u (Some e) t)"
  proof
    assume "go_for f xs s = (Returned (Some e), t)"
    from go_for_Some [OF this] show "\<exists>ys x zs u. xs = ys @ x # zs \<and> along (\<lambda>x s. R x s None) ys s u \<and> R x u (Some e) t"
      unfolding none assms .
  next
    assume "\<exists>ys x zs u. xs = ys @ x # zs \<and> along (\<lambda>x s. R x s None) ys s u \<and> R x u (Some e) t"
    then obtain ys x zs u where split: "xs = ys @ x # zs" "go_for f ys s = (Returned None, u)" "f x u = (Returned (Some e), t)"
      unfolding none [symmetric] assms [symmetric] by blast
    show "go_for f xs s = (Returned (Some e), t)"
      by (simp add: split go_for_append go_check_None go_check_Some)
  qed
qed

section \<open>Invariants of computations\<close>

text \<open>
  \<open>preserves I m\<close>: from every state with \<open>I\<close> the computation ends, by returning or
  by panicking, in a state with \<open>I\<close>. \<open>keeps g m\<close>: it does not change what \<open>g\<close>
  reads.
\<close>

definition preserves :: "('s \<Rightarrow> bool) \<Rightarrow> ('s, 'a) go \<Rightarrow> bool" where
  "preserves I m \<longleftrightarrow> (\<forall>s. I s \<longrightarrow> I (snd (m s)))"

definition keeps :: "('s \<Rightarrow> 'v) \<Rightarrow> ('s, 'a) go \<Rightarrow> bool" where
  "keeps g m \<longleftrightarrow> (\<forall>s. g (snd (m s)) = g s)"

lemma preservesD: "preserves I m \<Longrightarrow> I s \<Longrightarrow> m s = (r, t) \<Longrightarrow> I t"
  by (metis preserves_def snd_conv)

lemma preserves_snd: "preserves I m \<Longrightarrow> I s \<Longrightarrow> I (snd (m s))"
  by (simp add: preserves_def)

lemma keepsD: "keeps g m \<Longrightarrow> m s = (r, t) \<Longrightarrow> g t = g s"
  by (metis keeps_def snd_conv)

lemma keeps_preserves: "keeps g m \<longleftrightarrow> (\<forall>v. preserves (\<lambda>s. g s = v) m)"
  by (auto simp: keeps_def preserves_def)

lemma preserves_return [inv_intros]: "preserves I (go_return x)"
  by (simp add: preserves_def go_return_def)

lemma preserves_True [simp]: "preserves (\<lambda>_. True) m"
  by (simp add: preserves_def)

lemma preserves_panic [inv_intros]: "preserves I go_panic"
  by (simp add: preserves_def go_panic_def)

lemma preserves_modify: "(\<And>s. I s \<Longrightarrow> I (f s)) \<Longrightarrow> preserves I (go_modify f)"
  by (simp add: preserves_def go_modify_def)

lemma preserves_get [inv_intros]: "preserves I (go_get g)"
  by (simp add: preserves_def go_get_def)

lemma preserves_bind_result:
  assumes "preserves I m" and "\<And>s x t. m s = (Returned x, t) \<Longrightarrow> preserves I (f x)"
  shows "preserves I (go_bind m f)"
  unfolding preserves_def
proof (intro allI impI)
  fix s
  assume "I s"
  with assms(1) have "I (snd (m s))" by (simp add: preserves_def)
  with assms(2) show "I (snd (go_bind m f s))"
    by (cases "m s"; cases "fst (m s)") (auto simp: go_bind_def preserves_def)
qed

lemma preserves_bind [inv_intros]:
  "preserves I m \<Longrightarrow> (\<And>x. preserves I (f x)) \<Longrightarrow> preserves I (go_bind m f)"
  by (rule preserves_bind_result)

lemma preserves_check [inv_intros]:
  "preserves I m \<Longrightarrow> preserves I k \<Longrightarrow> preserves I (go_check m k)"
  unfolding go_check_def
  by (rule preserves_bind) (auto intro: inv_intros split: option.splits)

lemma preserves_try_result:
  "preserves I m \<Longrightarrow> (\<And>s x t. m s = (Returned (Inr x), t) \<Longrightarrow> preserves I (k x)) \<Longrightarrow>
    preserves I (go_try h m k)"
  unfolding go_try_def
  by (rule preserves_bind_result) (auto intro: preserves_return split: sum.splits)

lemma preserves_try [inv_intros]:
  "preserves I m \<Longrightarrow> (\<And>x. preserves I (k x)) \<Longrightarrow> preserves I (go_try h m k)"
  by (rule preserves_try_result)

lemma preserves_defer [inv_intros]:
  assumes "preserves I d" and "preserves I m"
  shows "preserves I (go_defer d m)"
  unfolding preserves_def
proof (intro allI impI)
  fix s
  assume "I s"
  with assms(2) have "I (snd (m s))" by (simp add: preserves_def)
  with assms(1) have "I (snd (d (snd (m s))))" by (simp add: preserves_def)
  then show "I (snd (go_defer d m s))"
    by (auto simp: go_defer_def split: prod.splits outcome.splits)
qed

lemma preserves_for [inv_intros]:
  "(\<And>x. x \<in> set xs \<Longrightarrow> preserves I (f x)) \<Longrightarrow> preserves I (go_for f xs)"
  by (induction xs) (auto intro: inv_intros)

lemma keeps_return [inv_intros]: "keeps g (go_return x)"
  by (simp add: keeps_def go_return_def)

lemma keeps_panic [inv_intros]: "keeps g go_panic"
  by (simp add: keeps_def go_panic_def)

lemma keeps_get [inv_intros]: "keeps g (go_get h)"
  by (simp add: keeps_def go_get_def)

lemma keeps_modify [inv_intros]: "(\<And>s. g (h s) = g s) \<Longrightarrow> keeps g (go_modify h)"
  by (simp add: keeps_def go_modify_def)

lemma keeps_bind [inv_intros]:
  "keeps g m \<Longrightarrow> (\<And>x. keeps g (f x)) \<Longrightarrow> keeps g (go_bind m f)"
  by (auto simp: keeps_preserves intro: preserves_bind)

lemma keeps_bind_result:
  "keeps g m \<Longrightarrow> (\<And>s x t. m s = (Returned x, t) \<Longrightarrow> keeps g (f x)) \<Longrightarrow> keeps g (go_bind m f)"
  unfolding keeps_preserves by (blast intro: preserves_bind_result)

lemma keeps_try_result:
  "keeps g m \<Longrightarrow> (\<And>s x t. m s = (Returned (Inr x), t) \<Longrightarrow> keeps g (k x)) \<Longrightarrow> keeps g (go_try h m k)"
  unfolding keeps_preserves by (blast intro: preserves_try_result)

lemma keeps_check [inv_intros]: "keeps g m \<Longrightarrow> keeps g k \<Longrightarrow> keeps g (go_check m k)"
  by (auto simp: keeps_preserves intro: preserves_check)

lemma keeps_defer [inv_intros]: "keeps g d \<Longrightarrow> keeps g m \<Longrightarrow> keeps g (go_defer d m)"
  by (auto simp: keeps_preserves intro: preserves_defer)

lemma keeps_for [inv_intros]:
  "(\<And>x. x \<in> set xs \<Longrightarrow> keeps g (f x)) \<Longrightarrow> keeps g (go_for f xs)"
  by (auto simp: keeps_preserves intro: preserves_for)

text \<open>\<open>returns I m\<close>: from every state with \<open>I\<close> the computation returns (no panic).\<close>

definition returns :: "('s \<Rightarrow> bool) \<Rightarrow> ('s, 'a) go \<Rightarrow> bool" where
  "returns I m \<longleftrightarrow> (\<forall>s. I s \<longrightarrow> fst (m s) \<noteq> Panicked)"

lemma returnsE:
  assumes "returns I m" and "I s"
  obtains x t where "m s = (Returned x, t)"
  using assms by (cases "m s"; cases "fst (m s)") (auto simp: returns_def)

lemma returns_mono: "returns J m \<Longrightarrow> (\<And>s. I s \<Longrightarrow> J s) \<Longrightarrow> returns I m"
  by (simp add: returns_def)

lemma returns_return [inv_intros]: "returns I (go_return x)"
  by (simp add: returns_def go_return_def)

lemma returns_get [inv_intros]: "returns I (go_get g)"
  by (simp add: returns_def go_get_def)

lemma returns_modify [inv_intros]: "returns I (go_modify g)"
  by (simp add: returns_def go_modify_def)

lemma returns_bind_result:
  assumes "returns I m" and "\<And>s x t. I s \<Longrightarrow> m s = (Returned x, t) \<Longrightarrow> fst (f x t) \<noteq> Panicked"
  shows "returns I (go_bind m f)"
  unfolding returns_def
proof (intro allI impI)
  fix s
  assume "I s"
  with assms(1) obtain x t where "m s = (Returned x, t)" by (rule returnsE)
  with assms(2) \<open>I s\<close> show "fst (go_bind m f s) \<noteq> Panicked" by (simp add: go_simps)
qed

lemma returns_bind [inv_intros]:
  "returns I m \<Longrightarrow> preserves I m \<Longrightarrow> (\<And>x. returns I (f x)) \<Longrightarrow> returns I (go_bind m f)"
  by (rule returns_bind_result) (auto simp: returns_def dest: preservesD)

lemma returns_try_result:
  "returns I m \<Longrightarrow> (\<And>s x t. I s \<Longrightarrow> m s = (Returned (Inr x), t) \<Longrightarrow> fst (k x t) \<noteq> Panicked) \<Longrightarrow>
    returns I (go_try h m k)"
  unfolding go_try_def
  by (rule returns_bind_result) (auto simp: go_return_def split: sum.splits)

lemma returns_try [inv_intros]:
  "returns I m \<Longrightarrow> preserves I m \<Longrightarrow> (\<And>x. returns I (k x)) \<Longrightarrow> returns I (go_try h m k)"
  by (rule returns_try_result) (auto simp: returns_def dest: preservesD)

lemma returns_check [inv_intros]:
  "returns I m \<Longrightarrow> preserves I m \<Longrightarrow> returns I k \<Longrightarrow> returns I (go_check m k)"
  unfolding go_check_def
  by (rule returns_bind) (auto intro: inv_intros split: option.splits)

lemma returns_defer [inv_intros]:
  assumes "returns I m" and "preserves I m" and "returns I d"
  shows "returns I (go_defer d m)"
  unfolding returns_def
proof (intro allI impI)
  fix s
  assume s: "I s"
  with assms(1) obtain x t where m: "m s = (Returned x, t)" by (rule returnsE)
  with assms(2) s have "I t" by (blast dest: preservesD)
  with assms(3) obtain y u where "d t = (Returned y, u)" by (rule returnsE)
  with m show "fst (go_defer d m s) \<noteq> Panicked" by (simp add: go_simps)
qed

lemma returns_for [inv_intros]:
  "(\<And>x. x \<in> set xs \<Longrightarrow> returns I (f x)) \<Longrightarrow> (\<And>x. x \<in> set xs \<Longrightarrow> preserves I (f x)) \<Longrightarrow>
    returns I (go_for f xs)"
  by (induction xs) (auto intro: inv_intros)

end
