(* ===== verification/Go_Stdlib.thy ===== *)
theory Go_Stdlib
  imports Prelude
begin

text \<open>
  What the sources use of Go's standard library beyond errors: \<^verbatim>\<open>strings.Split\<close>,
  \<^verbatim>\<open>strings.ReplaceAll\<close>, the decimal verb of \<^verbatim>\<open>fmt\<close>, \<^verbatim>\<open>filepath.Clean\<close>,
  \<^verbatim>\<open>filepath.Join\<close> and \<^verbatim>\<open>filepath.Dir\<close> of a Unix system, and a file system with
  \<^verbatim>\<open>os.MkdirAll\<close>, \<^verbatim>\<open>os.WriteFile\<close> and \<^verbatim>\<open>os.Remove\<close>. A Go string is its list of
  bytes.
\<close>

section \<open>strings and fmt\<close>

text \<open>
  The separators and the replaced strings of the sources are all one byte long, so
  \<^verbatim>\<open>Split\<close> and \<^verbatim>\<open>ReplaceAll\<close> take that byte.
\<close>

fun strings_Split :: "string \<Rightarrow> char \<Rightarrow> string list" where
  "strings_Split [] c = [[]]"
| "strings_Split (x # xs) c =
     (if x = c then [] # strings_Split xs c
      else (case strings_Split xs c of [] \<Rightarrow> [[x]] | p # ps \<Rightarrow> (x # p) # ps))"

fun strings_ReplaceAll :: "string \<Rightarrow> char \<Rightarrow> string \<Rightarrow> string" where
  "strings_ReplaceAll [] c new = []"
| "strings_ReplaceAll (x # xs) c new =
     (if x = c then new else [x]) @ strings_ReplaceAll xs c new"

definition decimal_digits :: string where
  "decimal_digits = ''0123456789''"

definition digit_char :: "nat \<Rightarrow> char" where
  "digit_char d = decimal_digits ! d"

fun fmt_nat :: "nat \<Rightarrow> string" where
  "fmt_nat n = (if n < 10 then [digit_char n] else fmt_nat (n div 10) @ [digit_char (n mod 10)])"

declare fmt_nat.simps [simp del]

definition fmt_d :: "int \<Rightarrow> string" where
  "fmt_d i = (if i < 0 then ''-'' @ fmt_nat (nat (- i)) else fmt_nat (nat i))"

lemma strings_Split_not_Nil [simp]: "strings_Split s c \<noteq> []"
  by (cases s) (auto split: list.splits)

lemma strings_Join_Cons: "xs \<noteq> [] \<Longrightarrow> strings_Join (x # xs) sep = x @ sep @ strings_Join xs sep"
  by (cases xs) auto

lemma strings_Join_Split: "strings_Join (strings_Split s c) [c] = s"
proof (induction s)
  case Nil
  show ?case by simp
next
  case (Cons x xs)
  obtain p ps where sp: "strings_Split xs c = p # ps"
    by (cases "strings_Split xs c") auto
  show ?case
  proof (cases ps)
    case Nil
    with Cons.IH sp show ?thesis by simp
  next
    case (Cons q qs)
    with Cons.IH sp show ?thesis by (simp add: strings_Join_Cons)
  qed
qed

lemma strings_Split_parts: "p \<in> set (strings_Split s c) \<Longrightarrow> c \<notin> set p"
proof (induction s arbitrary: p)
  case Nil
  then show ?case by simp
next
  case (Cons x xs)
  then show ?case by (auto split: if_splits list.splits)
qed

lemma strings_Split_no_sep: "c \<notin> set s \<Longrightarrow> strings_Split s c = [s]"
  by (induction s) auto

lemma strings_Split_append_sep:
  "c \<notin> set p \<Longrightarrow> strings_Split (p @ c # s) c = p # strings_Split s c"
  by (induction p) auto

lemma strings_Split_Join:
  "ps \<noteq> [] \<Longrightarrow> (\<And>p. p \<in> set ps \<Longrightarrow> c \<notin> set p) \<Longrightarrow>
    strings_Split (strings_Join ps [c]) c = ps"
proof (induction ps)
  case Nil
  then show ?case by simp
next
  case (Cons p ps)
  show ?case
  proof (cases "ps = []")
    case True
    with Cons.prems show ?thesis by (simp add: strings_Split_no_sep)
  next
    case False
    with Cons show ?thesis by (simp add: strings_Join_Cons strings_Split_append_sep)
  qed
qed

lemma set_strings_Join: "set (strings_Join ps sep) \<subseteq> (\<Union>p \<in> set ps. set p) \<union> set sep"
  by (induction ps sep rule: strings_Join.induct) auto

lemma strings_ReplaceAll_append [simp]:
  "strings_ReplaceAll (xs @ ys) c new = strings_ReplaceAll xs c new @ strings_ReplaceAll ys c new"
  by (induction xs) auto

lemma strings_ReplaceAll_delete: "strings_ReplaceAll s c [] = filter (\<lambda>x. x \<noteq> c) s"
  by (induction s) auto

lemma strings_ReplaceAll_id: "c \<notin> set s \<Longrightarrow> strings_ReplaceAll s c new = s"
  by (induction s) auto

lemma set_strings_ReplaceAll: "set (strings_ReplaceAll s c new) \<subseteq> set s \<union> set new"
  by (induction s) auto

lemma digit_char_range: "d < 10 \<Longrightarrow> digit_char d \<in> set decimal_digits"
  unfolding digit_char_def by (rule nth_mem) (simp add: decimal_digits_def)

lemma fmt_nat_digits: "set (fmt_nat n) \<subseteq> set decimal_digits"
proof (induction n rule: fmt_nat.induct)
  case (1 n)
  then show ?case
    using digit_char_range [of n] digit_char_range [of "n mod 10"]
    by (subst fmt_nat.simps) auto
qed

lemma fmt_d_chars: "set (fmt_d i) \<subseteq> insert (CHR ''-'') (set decimal_digits)"
  using fmt_nat_digits [of "nat i"] fmt_nat_digits [of "nat (- i)"]
  by (auto simp: fmt_d_def)

section \<open>path/filepath on Unix\<close>

text \<open>
  \<^verbatim>\<open>Clean\<close> walks over the slash-separated elements and keeps the elements of the
  output on a stack (last element first): empty elements and \<^verbatim>\<open>.\<close> vanish, \<^verbatim>\<open>..\<close>
  takes the last element back, is dropped at the root of a rooted path and kept at the
  front of a relative one.
\<close>

definition clean_step :: "bool \<Rightarrow> string list \<Rightarrow> string \<Rightarrow> string list" where
  "clean_step rooted out e =
     (if e = [] \<or> e = ''.'' then out
      else if e = ''..'' then
        (case out of
           [] \<Rightarrow> (if rooted then [] else [''..''])
         | t # ts \<Rightarrow> (if t = ''..'' then ''..'' # out else ts))
      else e # out)"

definition filepath_Clean :: "string \<Rightarrow> string" where
  "filepath_Clean path =
     (if path = [] then ''.''
      else let rooted = (hd path = CHR ''/'');
               out = rev (foldl (clean_step rooted) [] (strings_Split path (CHR ''/'')));
               body = strings_Join out ''/''
           in if rooted then CHR ''/'' # body else if body = [] then ''.'' else body)"

definition filepath_Join :: "string list \<Rightarrow> string" where
  "filepath_Join elem =
     (case dropWhile (\<lambda>e. e = []) elem of
        [] \<Rightarrow> []
      | es \<Rightarrow> filepath_Clean (strings_Join es ''/''))"

definition filepath_Dir :: "string \<Rightarrow> string" where
  "filepath_Dir path = filepath_Clean (rev (dropWhile (\<lambda>c. c \<noteq> CHR ''/'') (rev path)))"

text \<open>An ordinary path element: not empty, not \<^verbatim>\<open>.\<close> or \<^verbatim>\<open>..\<close>, and without a slash.\<close>

definition plain_elem :: "string \<Rightarrow> bool" where
  "plain_elem e \<longleftrightarrow> e \<noteq> [] \<and> e \<noteq> ''.'' \<and> e \<noteq> ''..'' \<and> CHR ''/'' \<notin> set e"

lemma clean_step_plain: "plain_elem e \<Longrightarrow> clean_step r out e = e # out"
  by (simp add: clean_step_def plain_elem_def)

lemma foldl_clean_step_plain:
  "(\<And>e. e \<in> set es \<Longrightarrow> plain_elem e) \<Longrightarrow> foldl (clean_step r) out es = rev es @ out"
  by (induction es arbitrary: out) (auto simp: clean_step_plain)

text \<open>A rooted path of ordinary elements is already clean.\<close>

lemma filepath_Clean_rooted:
  assumes "\<And>e. e \<in> set es \<Longrightarrow> plain_elem e"
  shows "filepath_Clean (CHR ''/'' # strings_Join es ''/'') = CHR ''/'' # strings_Join es ''/''"
proof (cases "es = []")
  case True
  then show ?thesis by (simp add: filepath_Clean_def clean_step_def)
next
  case False
  have "strings_Split (strings_Join es ''/'') (CHR ''/'') = es"
    using False assms by (intro strings_Split_Join) (auto simp: plain_elem_def)
  with assms show ?thesis
    by (simp add: filepath_Clean_def clean_step_def foldl_clean_step_plain)
qed

lemma strings_Join_snoc_not_Nil: "e \<noteq> [] \<Longrightarrow> strings_Join (xs @ [e]) sep \<noteq> []"
  by (induction xs) (auto simp: strings_Join_Cons)

lemma last_strings_Join: "e \<noteq> [] \<Longrightarrow> last (strings_Join (xs @ [e]) sep) = last e"
  by (induction xs) (auto simp: strings_Join_Cons strings_Join_snoc_not_Nil)

lemma last_strings_Split_append:
  "c \<notin> set t \<Longrightarrow> last (strings_Split (s @ t) c) = last (strings_Split s c) @ t"
proof (induction s)
  case Nil
  then show ?case by (simp add: strings_Split_no_sep)
next
  case (Cons x s)
  obtain p ps where sp: "strings_Split s c = p # ps" by (cases "strings_Split s c") auto
  obtain q qs where sq: "strings_Split (s @ t) c = q # qs" by (cases "strings_Split (s @ t) c") auto
  have "length qs = length ps"
  proof -
    have "length (strings_Split (s @ t) c) = length (strings_Split s c)" for s
      using Cons.prems by (induction s) (auto simp: strings_Split_no_sep split: list.splits)
    from this [of s] sp sq show ?thesis by simp
  qed
  with Cons sp sq show ?case by (cases ps; cases qs) auto
qed

text \<open>Cleaning keeps the last element of a path when it is an ordinary one.\<close>

lemma last_filepath_Clean:
  assumes "plain_elem (last (strings_Split p (CHR ''/'')))"
  shows "last (filepath_Clean p) = last p"
proof -
  obtain es e where sp: "strings_Split p (CHR ''/'') = es @ [e]"
    using strings_Split_not_Nil [of p "CHR ''/''"] by (metis rev_exhaust)
  with assms have pl: "plain_elem e" and e: "e \<noteq> []" by (simp_all add: plain_elem_def)
  from strings_Join_Split [of p "CHR ''/''"] sp have p: "p = strings_Join (es @ [e]) ''/''" by simp
  define out where "out = foldl (clean_step (hd p = CHR ''/'')) [] es"
  have "foldl (clean_step (hd p = CHR ''/'')) [] (strings_Split p (CHR ''/'')) = e # out"
    by (simp add: sp out_def clean_step_plain [OF pl])
  moreover have "p \<noteq> []" "last p = last e"
    using p strings_Join_snoc_not_Nil [OF e] last_strings_Join [OF e] by simp_all
  ultimately show ?thesis
    using strings_Join_snoc_not_Nil [OF e, of "rev out" "''/''"] last_strings_Join [OF e, of "rev out" "''/''"]
    by (cases "hd p = CHR ''/''") (simp_all add: filepath_Clean_def Let_def)
qed

section \<open>Files\<close>

text \<open>
  A node is a directory or a regular file with its permission bits and its contents.
  \<open>fs_deny\<close> is what the operating system has against a call (missing permission, a
  full disk, a directory that is not empty); the structural errors are spelled out.
\<close>

datatype OsCall = OsMkdirAll | OsWriteFile | OsRemove

datatype Node = File nat string | Directory

record FileSystem =
  fs_nodes :: "string \<Rightarrow> Node option"
  fs_deny :: "OsCall \<Rightarrow> string \<Rightarrow> error option"

definition errNotDir :: error where "errNotDir = ErrorString ''not a directory''"
definition errIsDir :: error where "errIsDir = ErrorString ''is a directory''"
definition errNotExist :: error where "errNotExist = ErrorString ''file does not exist''"

text \<open>The directories \<^verbatim>\<open>MkdirAll\<close> makes: the path and what is above it, outermost first.\<close>

fun path_prefixes :: "string \<Rightarrow> string list \<Rightarrow> string list" where
  "path_prefixes acc [] = []"
| "path_prefixes acc [e] = [acc @ e]"
| "path_prefixes acc (e # f # es) = (acc @ e) # path_prefixes (acc @ e @ ''/'') (f # es)"

definition dirs_of :: "string \<Rightarrow> string list" where
  "dirs_of path = filter (\<lambda>p. p \<noteq> []) (path_prefixes [] (strings_Split path (CHR ''/'')))"

primrec mkdirs :: "string list \<Rightarrow> (string \<Rightarrow> Node option) \<Rightarrow> error option \<times> (string \<Rightarrow> Node option)" where
  "mkdirs [] nodes = (None, nodes)"
| "mkdirs (d # ds) nodes =
     (case nodes d of
        Some (File perm c) \<Rightarrow> (Some errNotDir, nodes)
      | Some Directory \<Rightarrow> mkdirs ds nodes
      | None \<Rightarrow> mkdirs ds (nodes(d \<mapsto> Directory)))"

definition os_MkdirAll :: "string \<Rightarrow> FileSystem \<Rightarrow> error option \<times> FileSystem" where
  "os_MkdirAll path fs =
     (case fs_deny fs OsMkdirAll path of
        Some e \<Rightarrow> (Some e, fs)
      | None \<Rightarrow> (let (err, nodes) = mkdirs (dirs_of path) (fs_nodes fs)
                 in (err, fs\<lparr>fs_nodes := nodes\<rparr>)))"

definition os_WriteFile :: "string \<Rightarrow> string \<Rightarrow> nat \<Rightarrow> FileSystem \<Rightarrow> error option \<times> FileSystem" where
  "os_WriteFile path data perm fs =
     (case fs_deny fs OsWriteFile path of
        Some e \<Rightarrow> (Some e, fs)
      | None \<Rightarrow>
        (case fs_nodes fs path of
           Some Directory \<Rightarrow> (Some errIsDir, fs)
         | Some (File perm' c) \<Rightarrow> (None, fs\<lparr>fs_nodes := (fs_nodes fs)(path \<mapsto> File perm' data)\<rparr>)
         | None \<Rightarrow>
             if fs_nodes fs (filepath_Dir path) = Some Directory
             then (None, fs\<lparr>fs_nodes := (fs_nodes fs)(path \<mapsto> File perm data)\<rparr>)
             else (Some errNotExist, fs)))"

definition os_Remove :: "string \<Rightarrow> FileSystem \<Rightarrow> error option \<times> FileSystem" where
  "os_Remove path fs =
     (case fs_deny fs OsRemove path of
        Some e \<Rightarrow> (Some e, fs)
      | None \<Rightarrow>
        (case fs_nodes fs path of
           None \<Rightarrow> (Some errNotExist, fs)
         | Some n \<Rightarrow> (None, fs\<lparr>fs_nodes := (fs_nodes fs)(path := None)\<rparr>)))"

lemma mkdirs_other: "p \<notin> set ds \<Longrightarrow> snd (mkdirs ds nodes) p = nodes p"
  by (induction ds arbitrary: nodes) (auto split: option.splits Node.splits)

lemma mkdirs_keeps: "nodes p = Some n \<Longrightarrow> snd (mkdirs ds nodes) p = Some n"
proof (induction ds arbitrary: nodes)
  case Nil
  then show ?case by simp
next
  case (Cons d ds)
  show ?case
  proof (cases "nodes d")
    case None
    with Cons.prems have "(nodes(d \<mapsto> Directory)) p = Some n" by auto
    with None Cons.IH show ?thesis by simp
  next
    case (Some nd)
    with Cons show ?thesis by (cases nd) simp_all
  qed
qed

lemma mkdirs_made: "mkdirs ds nodes = (None, nodes') \<Longrightarrow> d \<in> set ds \<Longrightarrow> nodes' d = Some Directory"
proof (induction ds arbitrary: nodes)
  case Nil
  then show ?case by simp
next
  case (Cons x ds)
  have made: "nodes x = Some Directory \<Longrightarrow> mkdirs ds nodes = (None, nodes') \<Longrightarrow> nodes' x = Some Directory"
    "mkdirs ds (nodes(x \<mapsto> Directory)) = (None, nodes') \<Longrightarrow> nodes' x = Some Directory"
    using mkdirs_keeps [of nodes x Directory ds]
      mkdirs_keeps [of "nodes(x \<mapsto> Directory)" x Directory ds] by simp_all
  show ?case
    using Cons.prems Cons.IH made by (auto split: option.splits Node.splits)
qed

lemma last_path_prefixes:
  "es \<noteq> [] \<Longrightarrow> path_prefixes acc es \<noteq> [] \<and> last (path_prefixes acc es) = acc @ strings_Join es ''/''"
  by (induction acc es rule: path_prefixes.induct) auto

lemma dirs_of_self: "path \<noteq> [] \<Longrightarrow> path \<in> set (dirs_of path)"
  using last_path_prefixes [of "strings_Split path (CHR ''/'')" "[]"]
  by (simp add: dirs_of_def strings_Join_Split) (metis last_in_set)

text \<open>A file is no directory above itself: \<^verbatim>\<open>MkdirAll\<close> of its directory leaves it alone.\<close>

lemma os_MkdirAll_ok:
  assumes "os_MkdirAll path fs = (None, fs')" and "path \<noteq> []"
  shows "fs_nodes fs' path = Some Directory" and "fs_deny fs' = fs_deny fs"
    and "fs_nodes fs p = Some n \<Longrightarrow> fs_nodes fs' p = Some n"
proof -
  from assms(1) obtain nodes where
    mk: "mkdirs (dirs_of path) (fs_nodes fs) = (None, nodes)" "fs' = fs\<lparr>fs_nodes := nodes\<rparr>"
    by (auto simp: os_MkdirAll_def split: option.splits prod.splits)
  from mkdirs_made [OF mk(1) dirs_of_self [OF assms(2)]] mk(2)
  show "fs_nodes fs' path = Some Directory" by simp
  from mk(2) show "fs_deny fs' = fs_deny fs" by simp
  from mkdirs_keeps [of "fs_nodes fs" p n "dirs_of path"] mk
  show "fs_nodes fs p = Some n \<Longrightarrow> fs_nodes fs' p = Some n" by simp
qed

lemma os_WriteFile_ok:
  assumes "os_WriteFile path data perm fs = (None, fs')"
  shows "\<exists>perm'. fs_nodes fs' = (fs_nodes fs)(path \<mapsto> File perm' data) \<and>
           (fs_nodes fs path = None \<longrightarrow> perm' = perm)"
    and "fs_deny fs' = fs_deny fs"
  using assms by (auto simp: os_WriteFile_def split: option.splits Node.splits if_splits)

end
