(* ===== verification/Api_Types.thy ===== *)
theory Api_Types
  imports Prelude
begin

text \<open>
  The custom resources of \<^verbatim>\<open>src/api/v1alpha1\<close> as records, one field per field of the
  Go struct. A pointer field is an \<open>option\<close>; a string type with constants keeps
  its string. Of the Kubernetes \<^verbatim>\<open>ObjectMeta\<close> the records carry what the operator
  reads or writes, and the resource version it hands back on an update.
\<close>

section \<open>common.go\<close>

record NamespacedName =
  nn_Namespace :: string
  nn_Name :: string

record SecretRef =
  secret_Secret :: NamespacedName
  secret_Key :: string

record Name =
  name_Name :: string

record StatusSummary =
  Ready :: bool
  Message :: string

definition NamespacedName_ToNamespacedName :: "NamespacedName \<Rightarrow> NamespacedName" where
  "NamespacedName_ToNamespacedName n = n"

definition Name_ToNamespacedName :: "Name \<Rightarrow> NamespacedName" where
  "Name_ToNamespacedName n = \<lparr>nn_Namespace = [], nn_Name = name_Name n\<rparr>"

record ObjectMeta =
  meta_Name :: string
  meta_Namespace :: string
  meta_ResourceVersion :: string
  meta_Finalizers :: "string list"
  meta_DeletionTimestamp :: "int option"
  meta_OwnerReferences :: "string list"

section \<open>user_types.go\<close>

record DatabaseRef =
  ref_Name :: string
  ref_PasswordSecret :: SecretRef
  ref_CreatedSecret :: NamespacedName
  ref_Privileges :: "Name list"

record UserSpec =
  Databases :: "DatabaseRef list"

record UserStatus =
  Summary :: StatusSummary

record User =
  user_Meta :: ObjectMeta
  user_Spec :: UserSpec
  user_Status :: UserStatus

section \<open>privileges_types.go\<close>

type_synonym PrivilegeType = string

record PrivilegeSpec =
  Privilege :: PrivilegeType
  On :: string
  Database :: string

record Privileges =
  privileges_Meta :: ObjectMeta
  privileges_Privileges :: "PrivilegeSpec list"

section \<open>database_types.go\<close>

type_synonym DatabaseType = string

definition PostgreSQL_type :: DatabaseType where "PostgreSQL_type = ''PostgreSQL''"
definition MySQL_type :: DatabaseType where "MySQL_type = ''MySQL''"

type_synonym PostgresSSLMode = string

definition SSLModeDISABLE :: PostgresSSLMode where "SSLModeDISABLE = ''disable''"
definition SSLModeALLOW :: PostgresSSLMode where "SSLModeALLOW = ''allow''"
definition SSLModePREFER :: PostgresSSLMode where "SSLModePREFER = ''prefer''"
definition SSLModeREQUIRE :: PostgresSSLMode where "SSLModeREQUIRE = ''require''"
definition SSLModeVERIFYCA :: PostgresSSLMode where "SSLModeVERIFYCA = ''verify-ca''"
definition SSLModeVERIFYFULL :: PostgresSSLMode where "SSLModeVERIFYFULL = ''verify-full''"

lemmas ssl_mode_defs = SSLModeDISABLE_def SSLModeALLOW_def SSLModePREFER_def
  SSLModeREQUIRE_def SSLModeVERIFYCA_def SSLModeVERIFYFULL_def

record PostgreSQLConfig =
  pgspec_Host :: string
  pgspec_Port :: int
  pgspec_User :: string
  pgspec_SSLMode :: PostgresSSLMode
  pgspec_DatabaseName :: string
  pgspec_SSLCredentialsSecret :: NamespacedName
  pgspec_SSLCAKey :: SecretRef
  pgspec_PasswordSecret :: SecretRef

record MySQLConfig =
  myspec_Host :: string
  myspec_Port :: int
  myspec_DatabaseName :: string
  myspec_User :: string
  myspec_PasswordSecret :: SecretRef
  myspec_UsersHostname :: string

record DatabaseSpec =
  spec_Type :: DatabaseType
  spec_PostgreSQL :: "PostgreSQLConfig option"
  spec_MySQL :: "MySQLConfig option"

record DatabaseCR =
  database_Meta :: ObjectMeta
  database_Spec :: DatabaseSpec

text \<open>
  The validation rule on \<^verbatim>\<open>DatabaseSpec\<close> that the API server evaluates before it
  stores a \<^verbatim>\<open>Database\<close>: the configuration that is present is that of the type.
\<close>

definition DatabaseSpec_XValidation :: "DatabaseSpec \<Rightarrow> bool" where
  "DatabaseSpec_XValidation s \<longleftrightarrow>
     (spec_Type s = PostgreSQL_type \<and> spec_PostgreSQL s \<noteq> None \<and> spec_MySQL s = None) \<or>
     (spec_Type s = MySQL_type \<and> spec_MySQL s \<noteq> None \<and> spec_PostgreSQL s = None)"

section \<open>The core Secret\<close>

text \<open>
  A Kubernetes secret with its two data maps. A Go \<^verbatim>\<open>map[string]string\<close> is an
  association list without duplicate keys; the nil map is the empty one.
\<close>

type_synonym StrMap = "(string \<times> string) list"

record K8sSecret =
  k8ssecret_Meta :: ObjectMeta
  k8ssecret_Data :: StrMap
  k8ssecret_StringData :: StrMap

text \<open>Indexing a Go map: the zero value for a missing key.\<close>

definition map_index :: "StrMap \<Rightarrow> string \<Rightarrow> string" where
  "map_index m k = (case map_of m k of Some v \<Rightarrow> v | None \<Rightarrow> [])"

end
