(* ===== verification/World.thy ===== *)
theory World
  imports Go_Stdlib Api_Types
begin

text \<open>
  The state a run of the operator works on. \<open>kube\<close> is the cluster behind the
  Kubernetes API and \<open>dbms\<close> the database servers; neither is under \<^verbatim>\<open>src/\<close>, so
  their types are parameters and the operator reaches them only through the operations
  of the parameter records of \<open>Connection\<close> and \<open>Kube\<close>. The rest is the operator's
  own process: its file system, its log, the events it recorded, the heap of
  \<^verbatim>\<open>DefaultConnector\<close> objects, the one \<^verbatim>\<open>FakeConnection\<close> of the test double, and a
  counter that says how often a random source or the clock was read.
\<close>

text \<open>An opaque \<^verbatim>\<open>*sqlx.DB\<close>.\<close>

type_synonym DBHandle = nat

record DefaultConnector =
  connector_db :: "DBHandle option"

record FakeConnection =
  fake_queries :: "(string \<Rightarrow> int option) option"
  fake_count :: int
  fake_connections :: "(string \<Rightarrow> bool option) option"

datatype EventType = EventTypeNormal | EventTypeWarning

record Event =
  event_Object :: string
  event_Type :: EventType
  event_Reason :: string
  event_Message :: string

record ('k, 'd) World =
  kube :: 'k
  dbms :: 'd
  filesystem :: FileSystem
  env_HOME :: string
  logs :: "string list"
  events :: "Event list"
  connectors :: "DefaultConnector list"
  fake :: FakeConnection
  draws :: nat

text \<open>Calls on one part of the world, run as computations on the whole.\<close>

definition on_kube :: "('k \<Rightarrow> 'a \<times> 'k) \<Rightarrow> (('k, 'd) World, 'a) go" where
  "on_kube f = (\<lambda>w. case f (kube w) of (a, k) \<Rightarrow> (Returned a, w\<lparr>kube := k\<rparr>))"

definition on_dbms :: "(FileSystem \<Rightarrow> 'd \<Rightarrow> 'a \<times> 'd) \<Rightarrow> (('k, 'd) World, 'a) go" where
  "on_dbms f = (\<lambda>w. case f (filesystem w) (dbms w) of (a, d) \<Rightarrow> (Returned a, w\<lparr>dbms := d\<rparr>))"

definition on_files :: "(FileSystem \<Rightarrow> 'a \<times> FileSystem) \<Rightarrow> (('k, 'd) World, 'a) go" where
  "on_files f = (\<lambda>w. case f (filesystem w) of (a, fs) \<Rightarrow> (Returned a, w\<lparr>filesystem := fs\<rparr>))"

definition log_Info :: "string \<Rightarrow> (('k, 'd) World, unit) go" where
  "log_Info msg = go_modify (\<lambda>w. w\<lparr>logs := logs w @ [msg]\<rparr>)"

text \<open>Each read of the clock or of a random source gets the next number.\<close>

definition draw :: "(('k, 'd) World, nat) go" where
  "draw = (\<lambda>w. (Returned (draws w), w\<lparr>draws := Suc (draws w)\<rparr>))"

definition utils_PathFromHome :: "string list \<Rightarrow> (('k, 'd) World, string) go" where
  "utils_PathFromHome paths = go_get (\<lambda>w. filepath_Join (env_HOME w # paths))"

lemma on_kube_apply [go_simps]:
  "on_kube f w = (Returned (fst (f (kube w))), w\<lparr>kube := snd (f (kube w))\<rparr>)"
  by (simp add: on_kube_def split: prod.splits)

lemma on_dbms_apply [go_simps]:
  "on_dbms f w = (Returned (fst (f (filesystem w) (dbms w))), w\<lparr>dbms := snd (f (filesystem w) (dbms w))\<rparr>)"
  by (simp add: on_dbms_def split: prod.splits)

lemma on_files_apply [go_simps]:
  "on_files f w = (Returned (fst (f (filesystem w))), w\<lparr>filesystem := snd (f (filesystem w))\<rparr>)"
  by (simp add: on_files_def split: prod.splits)

lemma log_Info_apply [go_simps]: "log_Info msg w = (Returned (), w\<lparr>logs := logs w @ [msg]\<rparr>)"
  by (simp add: log_Info_def go_simps)

lemma draw_apply [go_simps]: "draw w = (Returned (draws w), w\<lparr>draws := Suc (draws w)\<rparr>)"
  by (simp add: draw_def)

lemma utils_PathFromHome_apply [go_simps]:
  "utils_PathFromHome ps w = (Returned (filepath_Join (env_HOME w # ps)), w)"
  by (simp add: utils_PathFromHome_def go_simps)

text \<open>What the primitive calls leave alone, and that they return.\<close>

lemma keeps_on_kube [inv_intros]:
  "(\<And>w k. g (w\<lparr>kube := k\<rparr>) = g w) \<Longrightarrow> keeps g (on_kube f)"
  by (simp add: keeps_def go_simps)

lemma keeps_on_dbms [inv_intros]:
  "(\<And>w d. g (w\<lparr>dbms := d\<rparr>) = g w) \<Longrightarrow> keeps g (on_dbms f)"
  by (simp add: keeps_def go_simps)

lemma keeps_on_files [inv_intros]:
  "(\<And>w fs. g (w\<lparr>filesystem := fs\<rparr>) = g w) \<Longrightarrow> keeps g (on_files f)"
  by (simp add: keeps_def go_simps)

lemma keeps_log_Info [inv_intros]:
  "(\<And>w l. g (w\<lparr>logs := l\<rparr>) = g w) \<Longrightarrow> keeps g (log_Info msg)"
  by (simp add: keeps_def go_simps)

lemma keeps_draw [inv_intros]: "(\<And>w n. g (w\<lparr>draws := n\<rparr>) = g w) \<Longrightarrow> keeps g draw"
  by (simp add: keeps_def go_simps)

lemma keeps_PathFromHome [inv_intros]: "keeps g (utils_PathFromHome ps)"
  by (simp add: keeps_def go_simps)

lemma returns_primitive [inv_intros]:
  "returns I (on_kube f)" "returns I (on_dbms h)" "returns I (on_files j)"
  "returns I (log_Info msg)" "returns I draw" "returns I (utils_PathFromHome ps)"
  by (simp_all add: returns_def go_simps)

end
