(* ===== verification/Kube.thy ===== *)
theory Kube
  imports World "HOL-Library.AList"
begin

text \<open>
  What the operator uses of Kubernetes, and \<^verbatim>\<open>src/pkg/utils/utils.go\<close>. The client of
  controller-runtime, the helpers of \<^verbatim>\<open>controllerutil\<close> and the constructors and tests of
  \<^verbatim>\<open>apierrors\<close> are a parameter: a call acts on the cluster, and between two calls the
  cluster may have changed in any way. An update or a status update hands the object
  back as the client leaves it.
\<close>

record 'k Client =
  Client_Get_User :: "NamespacedName \<Rightarrow> 'k \<Rightarrow> (error + User) \<times> 'k"
  Client_Get_Database :: "NamespacedName \<Rightarrow> 'k \<Rightarrow> (error + DatabaseCR) \<times> 'k"
  Client_Get_Privileges :: "NamespacedName \<Rightarrow> 'k \<Rightarrow> (error + Privileges) \<times> 'k"
  Client_Get_Secret :: "NamespacedName \<Rightarrow> 'k \<Rightarrow> (error + K8sSecret) \<times> 'k"
  Client_Update_User :: "User \<Rightarrow> 'k \<Rightarrow> (error option \<times> User) \<times> 'k"
  Client_Status_Update_User :: "User \<Rightarrow> 'k \<Rightarrow> (error option \<times> User) \<times> 'k"
  Client_Create_Secret :: "K8sSecret \<Rightarrow> 'k \<Rightarrow> error option \<times> 'k"
  Client_Delete_Secret :: "K8sSecret \<Rightarrow> 'k \<Rightarrow> error option \<times> 'k"
  apierrors_IsNotFound :: "error \<Rightarrow> bool"
  apierrors_NewInvalid :: "string \<Rightarrow> string \<Rightarrow> string \<Rightarrow> error"
  controllerutil_ContainsFinalizer :: "User \<Rightarrow> string \<Rightarrow> bool"
  controllerutil_AddFinalizer :: "User \<Rightarrow> string \<Rightarrow> User"
  controllerutil_RemoveFinalizer :: "User \<Rightarrow> string \<Rightarrow> User"
  ctrl_SetControllerReference :: "User \<Rightarrow> K8sSecret \<Rightarrow> error + K8sSecret"

section \<open>utils.go\<close>

definition utils_Secret :: "'k Client \<Rightarrow> NamespacedName \<Rightarrow> (('k, 'd) World, error + K8sSecret) go" where
  "utils_Secret E nn = on_kube (Client_Get_Secret E nn)"

text \<open>\<^verbatim>\<open>for key, value := range secret.Data { data[key] = string(value) }\<close>\<close>

definition copy_data :: "StrMap \<Rightarrow> StrMap" where
  "copy_data d = fold (\<lambda>(key, value) data. AList.update key value data) d []"

definition utils_DecodeSecretData ::
  "'k Client \<Rightarrow> NamespacedName \<Rightarrow> (('k, 'd) World, error + StrMap) go" where
  "utils_DecodeSecretData E nn =
     go_bind (utils_Secret E nn) (\<lambda>res.
       case res of
         Inl err \<Rightarrow> go_return (Inl err)
       | Inr secret \<Rightarrow> go_return (Inr (copy_data (k8ssecret_Data secret))))"

lemma map_of_fold_update:
  "map_of (fold (\<lambda>(k, v) m. AList.update k v m) xs acc) x =
     (case map_of (rev xs) x of Some v \<Rightarrow> Some v | None \<Rightarrow> map_of acc x)"
  by (induction xs arbitrary: acc) (auto simp: map_add_def AList.update_conv' split: option.splits prod.splits)

text \<open>The decoded data has the entries of the secret.\<close>

lemma map_of_rev_distinct: "distinct (map fst d) \<Longrightarrow> map_of (rev d) = map_of d"
  by (rule map_of_eqI) (auto simp: rev_map [symmetric])

lemma map_of_copy_data: "distinct (map fst d) \<Longrightarrow> map_of (copy_data d) = map_of d"
  by (rule ext) (simp add: copy_data_def map_of_fold_update map_of_rev_distinct split: option.split)

lemma utils_Secret_apply [go_simps]:
  "utils_Secret E nn w =
     (Returned (fst (Client_Get_Secret E nn (kube w))), w\<lparr>kube := snd (Client_Get_Secret E nn (kube w))\<rparr>)"
  by (simp add: utils_Secret_def go_simps)

lemma keeps_DecodeSecretData [inv_intros]:
  "(\<And>w k. g (w\<lparr>kube := k\<rparr>) = g w) \<Longrightarrow> keeps g (utils_DecodeSecretData E nn)"
  by (auto simp: utils_DecodeSecretData_def utils_Secret_def intro!: inv_intros split: sum.split)

lemma keeps_utils_Secret [inv_intros]:
  "(\<And>w k. g (w\<lparr>kube := k\<rparr>) = g w) \<Longrightarrow> keeps g (utils_Secret E nn)"
  by (auto simp: utils_Secret_def intro!: inv_intros)

lemma returns_DecodeSecretData [inv_intros]: "returns I (utils_DecodeSecretData E nn)"
  by (auto simp: utils_DecodeSecretData_def returns_def go_bind_def go_return_def utils_Secret_apply
      split: sum.split)

end
