(* ===== verification/Connection.thy ===== *)
theory Connection
  imports World
begin

text \<open>
  \<^verbatim>\<open>src/pkg/database/connection\<close>: the \<^verbatim>\<open>Connection\<close> interface (\<^verbatim>\<open>common.go\<close>), the
  \<^verbatim>\<open>DefaultConnector\<close> over \<^verbatim>\<open>sqlx\<close> (\<^verbatim>\<open>default.go\<close>) and the \<^verbatim>\<open>FakeConnection\<close> of
  the tests (\<^verbatim>\<open>fake.go\<close>). The locale \<open>connection\<close> states what the PostgreSQL and MySQL
  drivers rely on; both implementations are interpretations of it.
\<close>

section \<open>common.go\<close>

type_synonym LogInfo = int

definition DisableLogger :: LogInfo where "DisableLogger = 1"
definition EnableLogger :: LogInfo where "EnableLogger = 0"

text \<open>The values passed for the placeholders of a statement, all of string kind.\<close>

datatype Arg = ArgString string | ArgPrivilege PrivilegeType

fun arg_text :: "Arg \<Rightarrow> string" where
  "arg_text (ArgString s) = s"
| "arg_text (ArgPrivilege p) = p"

text \<open>
  An interface value: its methods over the pointer \<open>'c\<close> that implements it.
\<close>

record ('c, 's) Connection =
  Connection_Copy :: "'c \<Rightarrow> ('s, 'c) go"
  Connection_Close :: "'c \<Rightarrow> ('s, error option) go"
  Connection_Connect :: "'c \<Rightarrow> string \<Rightarrow> string \<Rightarrow> ('s, error option) go"
  Connection_Exec :: "'c \<Rightarrow> LogInfo \<Rightarrow> string \<Rightarrow> Arg list \<Rightarrow> ('s, error option) go"

section \<open>default.go\<close>

text \<open>
  The operations of \<^verbatim>\<open>sqlx\<close> and its drivers, a parameter: they act on the database
  servers and may read the operator's files (the certificates a connection string
  names). \<^verbatim>\<open>ConnectContext\<close> opens a database and pings it: it returns an open handle and no
  error, or an error and, when it was the ping that failed, the handle that is open all the
  same.
\<close>

record 'd Sqlx =
  sqlx_ConnectContext :: "string \<Rightarrow> string \<Rightarrow> FileSystem \<Rightarrow> 'd \<Rightarrow>
    (error \<times> DBHandle option + DBHandle) \<times> 'd"
  sqlx_SetMaxIdleConns :: "DBHandle \<Rightarrow> int \<Rightarrow> FileSystem \<Rightarrow> 'd \<Rightarrow> unit \<times> 'd"
  sqlx_SetMaxOpenConns :: "DBHandle \<Rightarrow> int \<Rightarrow> FileSystem \<Rightarrow> 'd \<Rightarrow> unit \<times> 'd"
  sqlx_Close :: "DBHandle \<Rightarrow> FileSystem \<Rightarrow> 'd \<Rightarrow> error option \<times> 'd"
  sqlx_ExecContext :: "DBHandle \<Rightarrow> string \<Rightarrow> Arg list \<Rightarrow> FileSystem \<Rightarrow> 'd \<Rightarrow> error option \<times> 'd"

text \<open>A pointer to a connector is an index of the heap \<open>connectors\<close>.\<close>

definition NewDefaultConnector :: "(('k, 'd) World, nat) go" where
  "NewDefaultConnector = (\<lambda>w. (Returned (length (connectors w)),
     w\<lparr>connectors := connectors w @ [\<lparr>connector_db = None\<rparr>]\<rparr>))"

definition DefaultConnector_Copy :: "nat \<Rightarrow> (('k, 'd) World, nat) go" where
  "DefaultConnector_Copy d = NewDefaultConnector"

text \<open>Reading \<^verbatim>\<open>d.db\<close> to call a method on it: a nil handle panics.\<close>

definition connector_handle :: "nat \<Rightarrow> (('k, 'd) World, DBHandle) go" where
  "connector_handle d = (\<lambda>w.
     if d < length (connectors w)
     then (case connector_db (connectors w ! d) of
             Some h \<Rightarrow> (Returned h, w)
           | None \<Rightarrow> (Panicked, w))
     else (Panicked, w))"

text \<open>An error returns at once: the handle that may come with it is dropped.\<close>

definition DefaultConnector_Connect ::
  "'d Sqlx \<Rightarrow> nat \<Rightarrow> string \<Rightarrow> string \<Rightarrow> (('k, 'd) World, error option) go" where
  "DefaultConnector_Connect X d driver connString =
     go_bind (on_dbms (sqlx_ConnectContext X driver connString)) (\<lambda>res.
       case res of
         Inl (err, db) \<Rightarrow> go_return (Some err)
       | Inr db \<Rightarrow>
           go_bind (on_dbms (sqlx_SetMaxIdleConns X db 0)) (\<lambda>_.
           go_bind (on_dbms (sqlx_SetMaxOpenConns X db 1)) (\<lambda>_.
           go_bind (go_modify (\<lambda>w. w\<lparr>connectors := (connectors w)[d := \<lparr>connector_db = Some db\<rparr>]\<rparr>)) (\<lambda>_.
           go_return None))))"

definition DefaultConnector_Close :: "'d Sqlx \<Rightarrow> nat \<Rightarrow> (('k, 'd) World, error option) go" where
  "DefaultConnector_Close X d = go_bind (connector_handle d) (\<lambda>db. on_dbms (sqlx_Close X db))"

definition statement_log :: "string \<Rightarrow> Arg list \<Rightarrow> string" where
  "statement_log query args =
     ''Executing statement '' @ [CHR 0x27] @ query @ [CHR 0x27] @ '' with values ['' @
     strings_Join (map arg_text args) '' '' @ '']''"

definition DefaultConnector_infoLog :: "LogInfo \<Rightarrow> string \<Rightarrow> Arg list \<Rightarrow> (('k, 'd) World, unit) go" where
  "DefaultConnector_infoLog disableLog query args =
     (if disableLog = DisableLogger then go_return () else log_Info (statement_log query args))"

definition DefaultConnector_Exec ::
  "'d Sqlx \<Rightarrow> nat \<Rightarrow> LogInfo \<Rightarrow> string \<Rightarrow> Arg list \<Rightarrow> (('k, 'd) World, error option) go" where
  "DefaultConnector_Exec X d disableLog query args =
     go_bind (DefaultConnector_infoLog disableLog query args) (\<lambda>_.
     go_bind (connector_handle d) (\<lambda>db.
     on_dbms (sqlx_ExecContext X db query args)))"

definition DefaultConnector_Connection :: "'d Sqlx \<Rightarrow> (nat, ('k, 'd) World) Connection" where
  "DefaultConnector_Connection X = \<lparr>
     Connection_Copy = DefaultConnector_Copy,
     Connection_Close = DefaultConnector_Close X,
     Connection_Connect = DefaultConnector_Connect X,
     Connection_Exec = DefaultConnector_Exec X\<rparr>"

section \<open>fake.go\<close>

text \<open>
  One \<^verbatim>\<open>FakeConnection\<close> object is shared by everything that points to it, \<^verbatim>\<open>Copy\<close>
  included; its pointer carries no information. The mutex only orders concurrent calls
  and a call here is one step.
\<close>

definition NewFakeConnection :: "(('k, 'd) World, unit) go" where
  "NewFakeConnection = go_modify (\<lambda>w. w\<lparr>fake :=
     \<lparr>fake_queries = None, fake_count = 0, fake_connections = None\<rparr>\<rparr>)"

definition FakeConnection_Connect :: "unit \<Rightarrow> string \<Rightarrow> string \<Rightarrow> (('k, 'd) World, error option) go" where
  "FakeConnection_Connect m driver connString = (\<lambda>w.
     let f = fake w;
         queries = (case fake_queries f of None \<Rightarrow> Map.empty | Some q \<Rightarrow> q);
         conns = (case fake_connections f of None \<Rightarrow> Map.empty | Some c \<Rightarrow> c)
     in (Returned None, w\<lparr>fake := f\<lparr>
           fake_queries := Some queries,
           fake_connections := Some (conns(driver @ '':'' @ connString \<mapsto> True))\<rparr>\<rparr>))"

definition FakeConnection_Close :: "unit \<Rightarrow> (('k, 'd) World, error option) go" where
  "FakeConnection_Close m = go_return None"

definition FakeConnection_Copy :: "unit \<Rightarrow> (('k, 'd) World, unit) go" where
  "FakeConnection_Copy m = go_return m"

text \<open>\<^verbatim>\<open>fmt.Sprint\<close> puts no space next to an operand of string kind.\<close>

definition fmt_Sprint :: "string \<Rightarrow> Arg list \<Rightarrow> string" where
  "fmt_Sprint query args = query @ concat (map arg_text args)"

definition FakeConnection_Exec ::
  "unit \<Rightarrow> LogInfo \<Rightarrow> string \<Rightarrow> Arg list \<Rightarrow> (('k, 'd) World, error option) go" where
  "FakeConnection_Exec m disableLog query args = (\<lambda>w.
     let q = fmt_Sprint query args;
         f = (fake w)\<lparr>fake_count := fake_count (fake w) + 1\<rparr>
     in case fake_queries f of
          None \<Rightarrow> (Panicked, w\<lparr>fake := f\<rparr>)
        | Some queries \<Rightarrow>
            (Returned None, w\<lparr>fake := f\<lparr>fake_queries := Some (queries(q \<mapsto> fake_count f))\<rparr>\<rparr>))"

definition FakeConnection_Queries :: "unit \<Rightarrow> (('k, 'd) World, (string \<Rightarrow> int option) option) go" where
  "FakeConnection_Queries m = go_get (\<lambda>w. fake_queries (fake w))"

definition FakeConnection_Connections :: "unit \<Rightarrow> (('k, 'd) World, (string \<Rightarrow> bool option) option) go" where
  "FakeConnection_Connections m = go_get (\<lambda>w. fake_connections (fake w))"

definition FakeConnection_ResetDB :: "unit \<Rightarrow> (('k, 'd) World, unit) go" where
  "FakeConnection_ResetDB m = go_modify (\<lambda>w. w\<lparr>fake := (fake w)\<lparr>
     fake_queries := Some Map.empty, fake_connections := Some Map.empty\<rparr>\<rparr>)"

definition FakeConnection_Connection :: "(unit, ('k, 'd) World) Connection" where
  "FakeConnection_Connection = \<lparr>
     Connection_Copy = FakeConnection_Copy,
     Connection_Close = FakeConnection_Close,
     Connection_Connect = FakeConnection_Connect,
     Connection_Exec = FakeConnection_Exec\<rparr>"

section \<open>The contract of the interface\<close>

text \<open>The parts of the world a connection has no business with.\<close>

definition beyond_conn :: "('k, 'd) World \<Rightarrow> 'k \<times> FileSystem \<times> string \<times> Event list \<times> nat" where
  "beyond_conn w = (kube w, filesystem w, env_HOME w, events w, draws w)"

text \<open>
  \<open>valid c\<close>: \<open>c\<close> points to a connector. \<open>live c\<close>: a \<^verbatim>\<open>Connect\<close> on it has
  returned without error, so that a statement can be executed and the connection
  closed.
\<close>

locale connection =
  fixes C :: "('c, ('k, 'd) World) Connection"
    and valid :: "'c \<Rightarrow> ('k, 'd) World \<Rightarrow> bool"
    and live :: "'c \<Rightarrow> ('k, 'd) World \<Rightarrow> bool"
  assumes frame:
      "keeps beyond_conn (Connection_Copy C c)"
      "keeps beyond_conn (Connection_Close C c)"
      "keeps beyond_conn (Connection_Connect C c driver cs)"
      "keeps beyond_conn (Connection_Exec C c l q as)"
    and quiet:
      "keeps logs (Connection_Copy C c)"
      "keeps logs (Connection_Close C c)"
      "keeps logs (Connection_Connect C c driver cs)"
      "keeps logs (Connection_Exec C c DisableLogger q as)"
    and exec_log:
      "logs (snd (Connection_Exec C c l q as w)) = logs w \<or>
       logs (snd (Connection_Exec C c l q as w)) = logs w @ [statement_log q as]"
    and live_valid: "live c w \<Longrightarrow> valid c w"
    and stays_valid:
      "preserves (valid c') (Connection_Copy C c)"
      "preserves (valid c') (Connection_Close C c)"
      "preserves (valid c') (Connection_Connect C c driver cs)"
      "preserves (valid c') (Connection_Exec C c l q as)"
    and stays_live:
      "preserves (live c') (Connection_Copy C c)"
      "preserves (live c') (Connection_Close C c)"
      "preserves (live c') (Connection_Connect C c driver cs)"
      "preserves (live c') (Connection_Exec C c l q as)"
    and returning:
      "returns (valid c) (Connection_Copy C c)"
      "returns (valid c) (Connection_Connect C c driver cs)"
      "returns (live c) (Connection_Exec C c l q as)"
      "returns (live c) (Connection_Close C c)"
    and copy_valid: "Connection_Copy C c w = (Returned c', w') \<Longrightarrow> valid c w \<Longrightarrow> valid c' w'"
    and connect_live: "Connection_Connect C c driver cs w = (Returned None, w') \<Longrightarrow> valid c w \<Longrightarrow> live c w'"
    and valid_local: "valid c (w\<lparr>filesystem := fs\<rparr>) = valid c w" "valid c (w\<lparr>draws := n\<rparr>) = valid c w"
      "valid c (w\<lparr>kube := k\<rparr>) = valid c w"
    and live_local: "live c (w\<lparr>filesystem := fs\<rparr>) = live c w" "live c (w\<lparr>draws := n\<rparr>) = live c w"
      "live c (w\<lparr>kube := k\<rparr>) = live c w" "live c (w\<lparr>logs := ls\<rparr>) = live c w"
begin

text \<open>The frame, one part of the world at a time.\<close>

lemma keeps_part:
  assumes "keeps beyond_conn m"
  shows "keeps kube m" "keeps filesystem m" "keeps env_HOME m" "keeps events m" "keeps draws m"
  using assms by (simp_all add: keeps_def beyond_conn_def)

lemmas frame_kube [inv_intros] = frame [THEN keeps_part(1)]
lemmas frame_filesystem [inv_intros] = frame [THEN keeps_part(2)]
lemmas frame_HOME [inv_intros] = frame [THEN keeps_part(3)]
lemmas frame_events [inv_intros] = frame [THEN keeps_part(4)]

end

section \<open>Both implementations keep the contract\<close>

definition connector_valid :: "nat \<Rightarrow> ('k, 'd) World \<Rightarrow> bool" where
  "connector_valid d w \<longleftrightarrow> d < length (connectors w)"

definition connector_live :: "nat \<Rightarrow> ('k, 'd) World \<Rightarrow> bool" where
  "connector_live d w \<longleftrightarrow> d < length (connectors w) \<and> connector_db (connectors w ! d) \<noteq> None"

lemmas connector_defs = DefaultConnector_Copy_def NewDefaultConnector_def
  DefaultConnector_Close_def DefaultConnector_Connect_def DefaultConnector_Exec_def
  DefaultConnector_infoLog_def connector_handle_def go_bind_def go_return_def go_modify_def
  log_Info_def on_dbms_apply

lemma DefaultConnector_Connection_sel [simp]:
  "Connection_Copy (DefaultConnector_Connection X) = DefaultConnector_Copy"
  "Connection_Close (DefaultConnector_Connection X) = DefaultConnector_Close X"
  "Connection_Connect (DefaultConnector_Connection X) = DefaultConnector_Connect X"
  "Connection_Exec (DefaultConnector_Connection X) = DefaultConnector_Exec X"
  by (simp_all add: DefaultConnector_Connection_def)

lemma FakeConnection_Connection_sel [simp]:
  "Connection_Copy FakeConnection_Connection = FakeConnection_Copy"
  "Connection_Close FakeConnection_Connection = FakeConnection_Close"
  "Connection_Connect FakeConnection_Connection = FakeConnection_Connect"
  "Connection_Exec FakeConnection_Connection = FakeConnection_Exec"
  by (simp_all add: FakeConnection_Connection_def)

lemma connector_db_update:
  "connector_db (cs[c := \<lparr>connector_db = Some h\<rparr>] ! d) =
     (if c = d \<and> d < length cs then Some h else connector_db (cs ! d))"
  by (cases "c = d"; cases "d < length cs") (auto simp: list_update_beyond)

interpretation dc: connection "DefaultConnector_Connection X" connector_valid connector_live for X
  by unfold_locales
    (auto simp: keeps_def preserves_def returns_def beyond_conn_def connector_valid_def
      connector_live_def connector_defs DisableLogger_def nth_append connector_db_update less_Suc_eq
      split: sum.splits option.splits if_splits prod.splits outcome.splits)

definition fake_valid :: "unit \<Rightarrow> ('k, 'd) World \<Rightarrow> bool" where
  "fake_valid m w \<longleftrightarrow> True"

definition fake_live :: "unit \<Rightarrow> ('k, 'd) World \<Rightarrow> bool" where
  "fake_live m w \<longleftrightarrow> fake_queries (fake w) \<noteq> None"

lemmas fake_defs = FakeConnection_Copy_def FakeConnection_Close_def FakeConnection_Connect_def
  FakeConnection_Exec_def go_return_def Let_def

interpretation fc: connection FakeConnection_Connection fake_valid fake_live
  by unfold_locales
    (auto simp: keeps_def preserves_def returns_def beyond_conn_def fake_valid_def fake_live_def
      fake_defs split: option.splits)

section \<open>The test double records the statements in order\<close>

text \<open>The statements of a list executed one after the other until one fails.\<close>

definition exec_all ::
  "('c, 's) Connection \<Rightarrow> 'c \<Rightarrow> LogInfo \<Rightarrow> (string \<times> Arg list) list \<Rightarrow> ('s, error option) go" where
  "exec_all C c l stmts = go_for (\<lambda>(query, args). Connection_Exec C c l query args) stmts"

fun stmt_text :: "string \<times> Arg list \<Rightarrow> string" where
  "stmt_text (query, args) = fmt_Sprint query args"

fun number_from :: "int \<Rightarrow> string list \<Rightarrow> (string \<Rightarrow> int option) \<Rightarrow> (string \<Rightarrow> int option)" where
  "number_from n [] m = m"
| "number_from n (t # ts) m = number_from (n + 1) ts (m(t \<mapsto> n + 1))"

lemma number_from_other: "t \<notin> set ts \<Longrightarrow> number_from n ts m t = m t"
  by (induction n ts m rule: number_from.induct) auto

lemma number_from_nth:
  "distinct ts \<Longrightarrow> i < length ts \<Longrightarrow> number_from n ts m (ts ! i) = Some (n + 1 + int i)"
proof (induction ts arbitrary: n m i)
  case Nil
  then show ?case by simp
next
  case (Cons t ts)
  show ?case
  proof (cases i)
    case 0
    with Cons.prems show ?thesis by (simp add: number_from_other)
  next
    case (Suc j)
    with Cons.prems Cons.IH [of j "n + 1"] show ?thesis by simp
  qed
qed

lemma fake_exec_all:
  assumes "fake_queries (fake w) = Some m"
  shows "exec_all FakeConnection_Connection c l stmts w =
    (Returned None, w\<lparr>fake := (fake w)\<lparr>
       fake_queries := Some (number_from (fake_count (fake w)) (map stmt_text stmts) m),
       fake_count := fake_count (fake w) + int (length stmts)\<rparr>\<rparr>)"
  using assms
proof (induction stmts arbitrary: w m)
  case Nil
  then show ?case by (simp add: exec_all_def go_return_def)
next
  case (Cons st stmts)
  obtain q as where st: "st = (q, as)" by (cases st)
  let ?w = "w\<lparr>fake := (fake w)\<lparr>fake_count := fake_count (fake w) + 1,
    fake_queries := Some (m(fmt_Sprint q as \<mapsto> fake_count (fake w) + 1))\<rparr>\<rparr>"
  have "FakeConnection_Exec c l q as w = (Returned None, ?w)"
    using Cons.prems by (simp add: FakeConnection_Exec_def Let_def)
  moreover have "exec_all FakeConnection_Connection c l stmts ?w =
    (Returned None, ?w\<lparr>fake := (fake ?w)\<lparr>
       fake_queries := Some (number_from (fake_count (fake ?w)) (map stmt_text stmts)
         (m(fmt_Sprint q as \<mapsto> fake_count (fake w) + 1))),
       fake_count := fake_count (fake ?w) + int (length stmts)\<rparr>\<rparr>)"
    by (rule Cons.IH) (simp add: fun_upd_def)
  ultimately show ?case
    by (simp add: exec_all_def st go_simps algebra_simps)
qed

end
