(* ===== verification/Db_Interface.thy ===== *)
theory Db_Interface
  imports Connection
begin

text \<open>
  The \<^verbatim>\<open>Database\<close> interface of \<^verbatim>\<open>src/pkg/database/database.go\<close>, and the contract on
  which the controller's lemmas rest. An interface value is the tuple of its methods,
  already applied to the driver object behind it.
\<close>

record 's Database =
  Database_Close :: "('s, error option) go"
  Database_CreateUser :: "string \<Rightarrow> string \<Rightarrow> ('s, StrMap \<times> error option) go"
  Database_DeleteUser :: "string \<Rightarrow> ('s, error option) go"
  Database_ApplyPrivileges :: "string \<Rightarrow> PrivilegeSpec list \<Rightarrow> ('s, error option) go"
  Database_RevokePrivileges :: "string \<Rightarrow> PrivilegeSpec list \<Rightarrow> ('s, error option) go"

text \<open>
  A database driver does not touch the cluster or the recorded events, does not log
  while it creates a user with a password, and, while it is \<open>open_db\<close>, does not panic
  and stays open.
\<close>

locale database =
  fixes db :: "('k, 'd) World Database"
    and open_db :: "('k, 'd) World \<Rightarrow> bool"
  assumes keeps_kube:
      "keeps kube (Database_Close db)"
      "keeps kube (Database_CreateUser db u pw)"
      "keeps kube (Database_DeleteUser db u)"
      "keeps kube (Database_ApplyPrivileges db u prs)"
      "keeps kube (Database_RevokePrivileges db u prs)"
    and keeps_events:
      "keeps events (Database_Close db)"
      "keeps events (Database_CreateUser db u pw)"
      "keeps events (Database_DeleteUser db u)"
      "keeps events (Database_ApplyPrivileges db u prs)"
      "keeps events (Database_RevokePrivileges db u prs)"
    and quiet_CreateUser: "pw \<noteq> [] \<Longrightarrow> keeps logs (Database_CreateUser db u pw)"
    and quiet_Close: "keeps logs (Database_Close db)"
    and returning:
      "returns open_db (Database_Close db)"
      "returns open_db (Database_CreateUser db u pw)"
      "returns open_db (Database_DeleteUser db u)"
      "returns open_db (Database_ApplyPrivileges db u prs)"
      "returns open_db (Database_RevokePrivileges db u prs)"
    and stays_open:
      "preserves open_db (Database_Close db)"
      "preserves open_db (Database_CreateUser db u pw)"
      "preserves open_db (Database_DeleteUser db u)"
      "preserves open_db (Database_ApplyPrivileges db u prs)"
      "preserves open_db (Database_RevokePrivileges db u prs)"
    and open_local: "open_db (w\<lparr>kube := k\<rparr>) = open_db w" "open_db (w\<lparr>logs := ls\<rparr>) = open_db w"

end
