(* ===== verification/Pg_Utils.thy ===== *)
theory Pg_Utils
  imports Go_Stdlib
begin

text \<open>
  \<^verbatim>\<open>src/pkg/database/postgresql/utils.go\<close>: quoting of identifiers and strings for the
  SQL text the operator composes, and the classification of server errors. The quoting
  is judged against a lexer for the part of PostgreSQL's lexical structure these
  statements use.
\<close>

section \<open>Quoting\<close>

text \<open>The double quote, the single quote and the zero byte.\<close>

definition dquote :: char where "dquote = CHR 0x22"
definition squote :: char where "squote = CHR 0x27"
definition nul :: char where "nul = CHR 0x00"

definition escapeLiteral :: "string \<Rightarrow> string" where
  "escapeLiteral str =
     strings_Join (map (\<lambda>ident.
       let part = strings_ReplaceAll (strings_ReplaceAll ident nul []) dquote [dquote, dquote]
       in if part \<noteq> ''*'' then [dquote] @ part @ [dquote] else part)
     (strings_Split str (CHR ''.''))) ''.''"

definition escapeString :: "string \<Rightarrow> string" where
  "escapeString str = [squote] @ strings_ReplaceAll str squote [squote, squote] @ [squote]"

text \<open>The second assignment to the part starts again from \<^verbatim>\<open>tmp\<close>, as in the source.\<close>

definition escapeLiteralWithoutQuotes :: "string \<Rightarrow> string" where
  "escapeLiteralWithoutQuotes str =
     strings_Join (map (\<lambda>ident.
       let tmp = strings_ReplaceAll ident nul [];
           tmp = strings_ReplaceAll tmp dquote [dquote, dquote];
           part = strings_ReplaceAll tmp (CHR ''#'') [];
           part = strings_ReplaceAll tmp (CHR '';'') []
       in part)
     (strings_Split str (CHR ''.''))) ''.''"

section \<open>Errors of the server\<close>

definition notAPostgresError :: string where
  "notAPostgresError = ''Not a postgres error''"

definition ProcessToPostgressError :: "error option \<Rightarrow> string" where
  "ProcessToPostgressError err =
     (case err of
        None \<Rightarrow> []
      | Some e \<Rightarrow> (case errors_As_PgError e of Some code \<Rightarrow> code | None \<Rightarrow> notAPostgresError))"

definition isAlreadyExists :: "error option \<Rightarrow> bool" where
  "isAlreadyExists err \<longleftrightarrow> ProcessToPostgressError err = ''42710''"

definition ignoreAlreadyExists :: "error option \<Rightarrow> error option" where
  "ignoreAlreadyExists err = (if isAlreadyExists err then None else err)"

definition isNotExists :: "error option \<Rightarrow> bool" where
  "isNotExists err \<longleftrightarrow> ProcessToPostgressError err = ''42704''"

definition ignoreNotExists :: "error option \<Rightarrow> error option" where
  "ignoreNotExists err = (if isNotExists err then None else err)"

lemma isAlreadyExists_iff:
  "isAlreadyExists err \<longleftrightarrow> (\<exists>e. err = Some e \<and> errors_As_PgError e = Some ''42710'')"
  by (auto simp: isAlreadyExists_def ProcessToPostgressError_def notAPostgresError_def split: option.splits)

lemma isNotExists_iff:
  "isNotExists err \<longleftrightarrow> (\<exists>e. err = Some e \<and> errors_As_PgError e = Some ''42704'')"
  by (auto simp: isNotExists_def ProcessToPostgressError_def notAPostgresError_def split: option.splits)

lemma not_isAlreadyExists_None [simp]: "\<not> isAlreadyExists None"
  by (simp add: isAlreadyExists_iff)

lemma not_isNotExists_None [simp]: "\<not> isNotExists None"
  by (simp add: isNotExists_iff)

lemma ignoreNotExists_None [simp]: "ignoreNotExists None = None"
  by (simp add: ignoreNotExists_def)

lemma ignoreAlreadyExists_None [simp]: "ignoreAlreadyExists None = None"
  by (simp add: ignoreAlreadyExists_def)

section \<open>A lexer for the composed statements\<close>

text \<open>
  Key words and plain identifiers, quoted identifiers and string constants (a doubled
  quote stands for one quote; strings as with \<^verbatim>\<open>standard_conforming_strings\<close>), single
  special characters, and white space. Where a comment, a number, a dollar-quoted
  string, an escape string or an identifier with other than ASCII letters could start,
  the lexer gives up, so that what it accepts means the same to the server.
\<close>

datatype Token = TWord string | TQuoted string | TString string | TPunct char

fun scan_quoted :: "char \<Rightarrow> string \<Rightarrow> (string \<times> string) option" where
  "scan_quoted q [] = None"
| "scan_quoted q [c] = (if c = q then Some ([], []) else None)"
| "scan_quoted q (c # d # s) =
     (if c = q then
        (if d = q then map_option (\<lambda>(b, r). (q # b, r)) (scan_quoted q s) else Some ([], d # s))
      else map_option (\<lambda>(b, r). (c # b, r)) (scan_quoted q (d # s)))"

definition letter :: "char \<Rightarrow> bool" where
  "letter c \<longleftrightarrow> c \<in> set ''ABCDEFGHIJKLMNOPQRSTUVWXYZabcdefghijklmnopqrstuvwxyz_''"

definition blank :: "char \<Rightarrow> bool" where
  "blank c \<longleftrightarrow> c = CHR '' '' \<or> c = CHR 0x09 \<or> c = CHR 0x0A \<or> c = CHR 0x0C \<or> c = CHR 0x0D"

definition gives_up :: "char \<Rightarrow> bool" where
  "gives_up c \<longleftrightarrow> c \<in> {CHR ''-'', CHR ''/'', CHR ''$'', CHR ''&'', nul} \<or> c \<in> set decimal_digits \<or>
     (of_char c :: nat) \<ge> 128"

lemma scan_quoted_shorter: "scan_quoted q s = Some (b, r) \<Longrightarrow> length r < length s"
  by (induction q s arbitrary: b r rule: scan_quoted.induct) (auto split: if_splits)

function lex_sql :: "string \<Rightarrow> Token list option" where
  "lex_sql [] = Some []"
| "lex_sql (c # s) =
     (if blank c then lex_sql s
      else if c = dquote then
        (case scan_quoted dquote s of
           None \<Rightarrow> None
         | Some (b, r) \<Rightarrow> map_option ((#) (TQuoted b)) (lex_sql r))
      else if c = squote then
        (case scan_quoted squote s of
           None \<Rightarrow> None
         | Some (b, r) \<Rightarrow> map_option ((#) (TString b)) (lex_sql r))
      else if letter c then
        (let w = takeWhile letter s; r = dropWhile letter s
         in if r \<noteq> [] \<and> (hd r = squote \<or> gives_up (hd r)) then None
            else map_option ((#) (TWord (c # w))) (lex_sql r))
      else if gives_up c then None
      else map_option ((#) (TPunct c)) (lex_sql s))"
  by pat_completeness auto
termination
  by (relation "measure length")
    (auto dest: scan_quoted_shorter simp: le_imp_less_Suc length_dropWhile_le)

declare lex_sql.simps(2) [simp del]

lemma quotes_distinct [simp]:
  "dquote \<noteq> squote" "squote \<noteq> dquote" "\<not> blank dquote" "\<not> blank squote" "\<not> letter dquote" "\<not> letter squote"
  "nul \<noteq> dquote" "dquote \<noteq> nul"
  by (simp_all add: dquote_def squote_def blank_def letter_def nul_def)

lemma scan_quoted_step: "c \<noteq> q \<Longrightarrow> s \<noteq> [] \<Longrightarrow>
    scan_quoted q (c # s) = map_option (\<lambda>(b, r). (c # b, r)) (scan_quoted q s)"
  by (cases s) auto

text \<open>Doubling the quotes of a body makes it scan back to itself, up to the closing quote.\<close>

lemma scan_quoted_doubled:
  assumes "rest = [] \<or> hd rest \<noteq> q"
  shows "scan_quoted q (strings_ReplaceAll b q [q, q] @ q # rest) = Some (b, rest)"
proof (induction b)
  case Nil
  from assms show ?case by (cases rest) auto
next
  case (Cons x b)
  then show ?case by (simp add: scan_quoted_step)
qed

lemma lex_sql_blank [simp]: "blank c \<Longrightarrow> lex_sql (c # s) = lex_sql s"
  by (simp add: lex_sql.simps(2))

lemma lex_sql_quoted:
  assumes "rest = [] \<or> hd rest \<noteq> dquote"
  shows "lex_sql (dquote # strings_ReplaceAll b dquote [dquote, dquote] @ dquote # rest) =
           map_option ((#) (TQuoted b)) (lex_sql rest)"
  using scan_quoted_doubled [OF assms, of b] by (simp add: lex_sql.simps(2))

lemma lex_sql_string:
  assumes "rest = [] \<or> hd rest \<noteq> squote"
  shows "lex_sql (squote # strings_ReplaceAll b squote [squote, squote] @ squote # rest) =
           map_option ((#) (TString b)) (lex_sql rest)"
  using scan_quoted_doubled [OF assms, of b] by (simp add: lex_sql.simps(2))

lemma lex_sql_escapeString:
  assumes "rest = [] \<or> hd rest \<noteq> squote"
  shows "lex_sql (escapeString str @ rest) = map_option ((#) (TString str)) (lex_sql rest)"
  using lex_sql_string [OF assms, of str] by (simp add: escapeString_def)

lemma special_chars:
  "c \<in> {CHR ''.'', CHR ''*'', CHR '','', CHR ''('', CHR '')'', CHR '';'', CHR ''#''} \<Longrightarrow>
    \<not> blank c \<and> c \<noteq> dquote \<and> c \<noteq> squote \<and> \<not> letter c \<and> \<not> gives_up c"
  by (elim insertE emptyE)
    (simp_all add: blank_def dquote_def squote_def letter_def gives_up_def nul_def decimal_digits_def)

lemma lex_sql_punct:
  "c \<in> {CHR ''.'', CHR ''*'', CHR '','', CHR ''('', CHR '')'', CHR '';'', CHR ''#''} \<Longrightarrow>
    lex_sql (c # s) = map_option ((#) (TPunct c)) (lex_sql s)"
  using special_chars [of c] by (simp add: lex_sql.simps(2))

text \<open>The key words of the statements: letters up to the next blank.\<close>

lemma takeWhile_letter_append:
  "\<forall>x \<in> set w. letter x \<Longrightarrow> blank c \<Longrightarrow> takeWhile letter (w @ c # s) = w \<and> dropWhile letter (w @ c # s) = c # s"
  by (induction w) (auto simp: blank_def letter_def)

lemma blank_stops: "blank c \<Longrightarrow> c \<noteq> squote \<and> \<not> gives_up c"
  by (auto simp: blank_def squote_def gives_up_def nul_def decimal_digits_def)

lemma letter_starts: "letter c \<Longrightarrow> \<not> blank c \<and> c \<noteq> dquote \<and> c \<noteq> squote"
  by (auto simp: letter_def blank_def dquote_def squote_def)

lemma lex_sql_word:
  assumes "letter c" and "\<forall>x \<in> set w. letter x" and "blank b"
  shows "lex_sql (c # w @ b # s) = map_option ((#) (TWord (c # w))) (lex_sql s)"
  using assms letter_starts [OF assms(1)] takeWhile_letter_append [OF assms(2,3), of s] blank_stops [OF assms(3)]
  by (simp add: lex_sql.simps(2) [of c])

text \<open>A text that lexes on its own keeps its tokens when a blank follows.\<close>

lemma scan_quoted_append: "scan_quoted q s = Some (b, r) \<Longrightarrow> r \<noteq> [] \<or> hd t \<noteq> q \<Longrightarrow>
    scan_quoted q (s @ t) = Some (b, r @ t)"
proof (induction q s arbitrary: b r rule: scan_quoted.induct)
  case (2 q c)
  then show ?case by (cases t) (auto split: if_splits)
qed (auto split: if_splits)

lemma lex_sql_append_blank:
  assumes "lex_sql a = Some ts" and "blank c"
  shows "lex_sql (a @ c # s) = map_option ((@) ts) (lex_sql s)"
  using assms(1)
proof (induction a arbitrary: ts rule: lex_sql.induct)
  case 1
  with assms(2) show ?case by (simp add: option.map_id0 [unfolded id_def])
next
  case (2 x xs)
  have hd: "hd (c # s) \<noteq> dquote" "hd (c # s) \<noteq> squote"
    using assms(2) blank_stops by (auto simp: blank_def dquote_def)
  consider (bl) "blank x" | (dq) "x = dquote" | (sq) "x = squote"
    | (le) "letter x" "\<not> blank x" "x \<noteq> dquote" "x \<noteq> squote"
    | (pu) "\<not> letter x" "\<not> blank x" "x \<noteq> dquote" "x \<noteq> squote" by blast
  then show ?case
  proof cases
    case bl
    with 2 show ?thesis by simp
  next
    case dq
    with "2.prems" obtain b r ts' where sc: "scan_quoted dquote xs = Some (b, r)"
      and lx: "lex_sql r = Some ts'" "ts = TQuoted b # ts'"
      by (auto simp: lex_sql.simps(2) split: option.splits)
    have "lex_sql (r @ c # s) = map_option ((@) ts') (lex_sql s)"
      using "2.IH"(2) dq sc lx by simp
    with dq lx(2) scan_quoted_append [OF sc, of "c # s"] hd show ?thesis
      by (simp add: lex_sql.simps(2) option.map_comp comp_def)
  next
    case sq
    with "2.prems" obtain b r ts' where sc: "scan_quoted squote xs = Some (b, r)"
      and lx: "lex_sql r = Some ts'" "ts = TString b # ts'"
      by (auto simp: lex_sql.simps(2) split: option.splits)
    have "lex_sql (r @ c # s) = map_option ((@) ts') (lex_sql s)"
      using "2.IH"(3) sq sc lx by simp
    with sq lx(2) scan_quoted_append [OF sc, of "c # s"] hd show ?thesis
      by (simp add: lex_sql.simps(2) option.map_comp comp_def)
  next
    case le
    let ?r = "dropWhile letter xs"
    from le "2.prems" obtain ts' where r: "\<not> (?r \<noteq> [] \<and> (hd ?r = squote \<or> gives_up (hd ?r)))"
      and lx: "lex_sql ?r = Some ts'" "ts = TWord (x # takeWhile letter xs) # ts'"
      by (auto simp: lex_sql.simps(2) Let_def split: if_splits)
    have ih: "lex_sql (?r @ c # s) = map_option ((@) ts') (lex_sql s)"
      using "2.IH"(4) le r lx by simp
    have nl: "\<not> letter c" using assms(2) by (auto simp: blank_def letter_def)
    have tw: "takeWhile letter (xs @ c # s) = takeWhile letter xs"
      "dropWhile letter (xs @ c # s) = ?r @ c # s"
      using nl by (induction xs) auto
    have "\<not> (hd (?r @ c # s) = squote \<or> gives_up (hd (?r @ c # s)))"
      using r blank_stops [OF assms(2)] by (simp only: hd_append list.sel split: if_split) blast
    with le lx(2) tw ih show ?thesis
      by (simp add: lex_sql.simps(2) Let_def option.map_comp comp_def)
  next
    case pu
    with "2.prems" obtain ts' where nup: "\<not> gives_up x"
      and lx: "lex_sql xs = Some ts'" "ts = TPunct x # ts'"
      by (auto simp: lex_sql.simps(2) split: if_splits)
    have "lex_sql (xs @ c # s) = map_option ((@) ts') (lex_sql s)"
      using "2.IH"(5) pu nup lx by simp
    with pu nup lx(2) show ?thesis
      by (simp add: lex_sql.simps(2) option.map_comp comp_def)
  qed
qed

text \<open>A special character among the tokens stands in the text.\<close>

lemma scan_quoted_rest: "scan_quoted q s = Some (b, r) \<Longrightarrow> set r \<subseteq> set s"
  by (induction q s arbitrary: b r rule: scan_quoted.induct) (fastforce split: if_splits)+

lemma lex_sql_punct_in: "lex_sql s = Some ts \<Longrightarrow> TPunct c \<in> set ts \<Longrightarrow> c \<in> set s"
proof (induction s arbitrary: ts rule: lex_sql.induct)
  case 1
  then show ?case by simp
next
  case (2 x xs)
  have drop: "set (dropWhile letter xs) \<subseteq> set xs" by (meson set_dropWhileD subsetI)
  show ?case
    using 2 drop scan_quoted_rest [of dquote xs] scan_quoted_rest [of squote xs]
    by (auto simp: lex_sql.simps(2) [of x xs] Let_def split: if_splits option.splits) blast+
qed

section \<open>What the quoting achieves\<close>

text \<open>The tokens of a dotted name: one per part, a part that is just a star stays a star.\<close>

definition part_token :: "string \<Rightarrow> Token" where
  "part_token p = (if p = ''*'' then TPunct (CHR ''*'') else TQuoted p)"

fun dotted :: "Token list \<Rightarrow> Token list" where
  "dotted [] = []"
| "dotted [t] = [t]"
| "dotted (t # u # ts) = t # TPunct (CHR ''.'') # dotted (u # ts)"

definition identifier_tokens :: "string \<Rightarrow> Token list" where
  "identifier_tokens str =
     dotted (map (\<lambda>p. part_token (filter (\<lambda>c. c \<noteq> nul) p)) (strings_Split str (CHR ''.'')))"

definition quoted_part :: "string \<Rightarrow> string" where
  "quoted_part ident =
     (let part = strings_ReplaceAll (strings_ReplaceAll ident nul []) dquote [dquote, dquote]
      in if part \<noteq> ''*'' then [dquote] @ part @ [dquote] else part)"

lemma escapeLiteral_parts:
  "escapeLiteral str = strings_Join (map quoted_part (strings_Split str (CHR ''.''))) ''.''"
  by (simp add: escapeLiteral_def quoted_part_def [abs_def])

lemma star_not_quote [simp]: "CHR ''*'' \<noteq> dquote" "CHR ''.'' \<noteq> dquote" "CHR '' '' \<noteq> dquote" "CHR '' '' \<noteq> squote"
  by (simp_all add: dquote_def squote_def)

lemma ReplaceAll_star: "strings_ReplaceAll p dquote [dquote, dquote] = ''*'' \<longleftrightarrow> p = ''*''"
proof
  assume a: "strings_ReplaceAll p dquote [dquote, dquote] = ''*''"
  have "length p \<le> length (strings_ReplaceAll p dquote [dquote, dquote])"
    by (induction p) auto
  with a obtain c where "p = [c] \<or> p = []"
    by (cases p; cases "tl p") auto
  with a show "p = ''*''" by (auto split: if_splits)
qed simp

lemma lex_sql_quoted_part:
  assumes "rest = [] \<or> hd rest \<noteq> dquote"
  shows "lex_sql (quoted_part p @ rest) =
           map_option ((#) (part_token (filter (\<lambda>c. c \<noteq> nul) p))) (lex_sql rest)"
  using lex_sql_quoted [OF assms] lex_sql_punct [of "CHR ''*''" rest]
  by (auto simp: quoted_part_def part_token_def Let_def strings_ReplaceAll_delete ReplaceAll_star)

lemma lex_sql_quoted_parts:
  assumes "rest = [] \<or> hd rest \<noteq> dquote"
  shows "ps \<noteq> [] \<Longrightarrow> lex_sql (strings_Join (map quoted_part ps) ''.'' @ rest) =
    map_option ((@) (dotted (map (\<lambda>p. part_token (filter (\<lambda>c. c \<noteq> nul) p)) ps))) (lex_sql rest)"
proof (induction ps rule: induct_list012)
  case (2 p)
  from lex_sql_quoted_part [OF assms, of p] show ?case by simp
next
  case (3 p p' ps)
  let ?tail = "strings_Join (map quoted_part (p' # ps)) ''.'' @ rest"
  have "lex_sql (quoted_part p @ CHR ''.'' # ?tail) =
      map_option ((#) (part_token (filter (\<lambda>c. c \<noteq> nul) p))) (lex_sql (CHR ''.'' # ?tail))"
    by (rule lex_sql_quoted_part) simp
  also have "lex_sql (CHR ''.'' # ?tail) = map_option ((#) (TPunct (CHR ''.''))) (lex_sql ?tail)"
    by (rule lex_sql_punct) simp
  finally show ?case
    using 3 by (simp add: option.map_comp comp_def)
qed simp

lemma lex_sql_escapeLiteral:
  assumes "rest = [] \<or> hd rest \<noteq> dquote"
  shows "lex_sql (escapeLiteral str @ rest) = map_option ((@) (identifier_tokens str)) (lex_sql rest)"
  using lex_sql_quoted_parts [OF assms, of "strings_Split str (CHR ''.'')"]
  by (simp add: escapeLiteral_parts identifier_tokens_def)

lemma dotted_punct: "TPunct c \<in> set (dotted ts) \<Longrightarrow> TPunct c \<in> set ts \<or> c = CHR ''.''"
  by (induction ts rule: dotted.induct) auto

lemma identifier_tokens_punct: "TPunct c \<in> set (identifier_tokens str) \<Longrightarrow> c = CHR ''.'' \<or> c = CHR ''*''"
  by (auto simp: identifier_tokens_def part_token_def dest!: dotted_punct split: if_splits)

text \<open>
  Working part by part on a dotted text and joining again is working byte by byte, when
  the dot itself is left alone.
\<close>

lemma strings_Join_map_Split:
  assumes "f [] = []" and "\<And>x xs. f (x # xs) = g x @ f xs" and "g c = [c]"
  shows "strings_Join (map f (strings_Split s c)) [c] = f s"
proof (induction s)
  case Nil
  with assms(1) show ?case by simp
next
  case (Cons x xs)
  obtain p ps where sp: "strings_Split xs c = p # ps"
    by (cases "strings_Split xs c") auto
  show ?case
  proof (cases "x = c")
    case True
    with Cons.IH sp assms show ?thesis by (simp add: strings_Join_Cons)
  next
    case False
    with Cons.IH sp assms show ?thesis by (cases ps) (simp_all add: strings_Join_Cons)
  qed
qed

lemma escapeLiteralWithoutQuotes_form:
  "escapeLiteralWithoutQuotes str =
     strings_ReplaceAll (filter (\<lambda>c. c \<noteq> nul \<and> c \<noteq> CHR '';'') str) dquote [dquote, dquote]"
proof -
  let ?f = "\<lambda>ident. strings_ReplaceAll (strings_ReplaceAll (strings_ReplaceAll ident nul []) dquote [dquote, dquote]) (CHR '';'') []"
  let ?g = "\<lambda>x. ?f [x]"
  have dot: "?g (CHR ''.'') = [CHR ''.'']" by (simp add: nul_def dquote_def)
  have "strings_Join (map ?f (strings_Split str (CHR ''.''))) ''.'' = ?f str"
    by (rule strings_Join_map_Split [where g = ?g]) (use dot in simp_all)
  moreover have "?f str = strings_ReplaceAll (filter (\<lambda>c. c \<noteq> nul \<and> c \<noteq> CHR '';'') str) dquote [dquote, dquote]"
    by (induction str) (auto simp: nul_def dquote_def)
  ultimately show ?thesis by (simp add: escapeLiteralWithoutQuotes_def Let_def)
qed

end
