(* ===== verification/Pg_Config.thy ===== *)
theory Pg_Config
  imports World
begin

text \<open>
  \<^verbatim>\<open>src/pkg/database/postgresql/config.go\<close>: the connection configuration, the
  connection string, and the certificate files that live from \<^verbatim>\<open>ConnString\<close> to
  \<^verbatim>\<open>Close\<close>.
\<close>

record Config =
  Host :: string
  config_User :: string
  Password :: string
  DatabaseName :: string
  Port :: int
  SSLMode :: PostgresSSLMode
  SSLCACert :: string
  SSLUserCert :: string
  SSLUserKey :: string
  SSLCAKey :: string
  createCertificates :: bool
  sslCACertFile :: string
  sslUserCertFile :: string
  sslUserKeyFile :: string

definition NewConfig ::
  "string \<Rightarrow> int \<Rightarrow> string \<Rightarrow> string \<Rightarrow> string \<Rightarrow> PostgresSSLMode \<Rightarrow> string \<Rightarrow> string \<Rightarrow> string \<Rightarrow> string \<Rightarrow> Config" where
  "NewConfig host port user pass dbname sslmode sslCaCert sslUserCert sslUserKey sslCAKey = \<lparr>
     Host = host, config_User = user, Password = pass, DatabaseName = dbname, Port = port,
     SSLMode = sslmode, SSLCACert = sslCaCert, SSLUserCert = sslUserCert,
     SSLUserKey = sslUserKey, SSLCAKey = sslCAKey, createCertificates = False,
     sslCACertFile = [], sslUserCertFile = [], sslUserKeyFile = []\<rparr>"

definition createCertFile :: "string \<Rightarrow> string \<Rightarrow> (('k, 'd) World, error option) go" where
  "createCertFile path data =
     (let dir = filepath_Dir path
      in go_check (on_files (os_MkdirAll dir)) (on_files (os_WriteFile path data 384)))"

text \<open>The relative path of a certificate file, \<^verbatim>\<open>postgres-certs/HOST/DB_USER.EXT\<close>.\<close>

definition cert_path :: "Config \<Rightarrow> string \<Rightarrow> string" where
  "cert_path c ext =
     ''postgres-certs/'' @ Host c @ ''/'' @ DatabaseName c @ ''_'' @ config_User c @ ''.'' @ ext"

text \<open>
  \<^verbatim>\<open>if data != "" { if err := createCertFile(path, data); err != nil ... }\<close>, which
  \<^verbatim>\<open>ConnString\<close> does three times.
\<close>

definition createCertIfSet :: "string \<Rightarrow> string \<Rightarrow> (('k, 'd) World, error option) go" where
  "createCertIfSet path data = (if data \<noteq> [] then createCertFile path data else go_return None)"

text \<open>\<^verbatim>\<open>if data != "" { c.createCertificates = true ... }\<close>\<close>

definition markCreateCerts :: "string \<Rightarrow> Config \<Rightarrow> Config" where
  "markCreateCerts data c = (if data \<noteq> [] then c\<lparr>createCertificates := True\<rparr> else c)"

text \<open>\<^verbatim>\<open>if cond { connSlice = append(connSlice, x) }\<close>\<close>

definition appendIf :: "bool \<Rightarrow> string \<Rightarrow> string list \<Rightarrow> string list" where
  "appendIf cond x connSlice = (if cond then connSlice @ [x] else connSlice)"

text \<open>
  The result of \<^verbatim>\<open>ConnString\<close> is the configuration with the fields it assigned, and the
  string or the error.
\<close>

definition Config_ConnString :: "Config \<Rightarrow> (('k, 'd) World, Config \<times> (error + string)) go" where
  "Config_ConnString c =
     (let connSlice = [''host='' @ Host c, ''user='' @ config_User c, ''port='' @ fmt_d (Port c)];
          connSlice = appendIf (DatabaseName c \<noteq> []) (''dbname='' @ DatabaseName c) connSlice;
          connSlice = appendIf (Password c \<noteq> []) (''password='' @ Password c) connSlice;
          connSlice = appendIf (SSLMode c \<noteq> []) (''sslmode='' @ SSLMode c) connSlice
      in
      go_bind (utils_PathFromHome [cert_path c ''ca'']) (\<lambda>caFile.
      go_bind (utils_PathFromHome [cert_path c ''crt'']) (\<lambda>crtFile.
      go_bind (utils_PathFromHome [cert_path c ''key'']) (\<lambda>keyFile.
      let c = c\<lparr>sslCACertFile := caFile, sslUserCertFile := crtFile, sslUserKeyFile := keyFile\<rparr>
      in
      go_bind (createCertIfSet (sslCACertFile c) (SSLCACert c)) (\<lambda>err.
      case err of Some e \<Rightarrow> go_return (c, Inl e) | None \<Rightarrow>
      let connSlice = appendIf (SSLCACert c \<noteq> []) (''sslrootcert='' @ sslCACertFile c) connSlice;
          c = markCreateCerts (SSLUserCert c) c
      in
      go_bind (createCertIfSet (sslUserCertFile c) (SSLUserCert c)) (\<lambda>err.
      case err of Some e \<Rightarrow> go_return (c, Inl e) | None \<Rightarrow>
      let connSlice = appendIf (SSLUserCert c \<noteq> []) (''sslcert='' @ sslUserCertFile c) connSlice;
          c = markCreateCerts (SSLUserKey c) c
      in
      go_bind (createCertIfSet (sslUserKeyFile c) (SSLUserKey c)) (\<lambda>err.
      case err of Some e \<Rightarrow> go_return (c, Inl e) | None \<Rightarrow>
      let connSlice = appendIf (SSLUserKey c \<noteq> []) (''sslkey='' @ sslUserKeyFile c) connSlice
      in go_return (c, Inr (strings_Join connSlice '' '')))))))))"

text \<open>Deferred calls run last in, first out: the key, the certificate, the CA.\<close>

definition Config_Close :: "Config \<Rightarrow> (('k, 'd) World, error option) go" where
  "Config_Close c =
     go_defer (on_files (os_Remove (sslCACertFile c)))
       (go_defer (on_files (os_Remove (sslUserCertFile c)))
         (go_defer (on_files (os_Remove (sslUserKeyFile c)))
           (go_return None)))"

definition Config_Copy :: "Config \<Rightarrow> Config" where
  "Config_Copy c = c"

definition Config_CreateCerts :: "Config \<Rightarrow> bool" where
  "Config_CreateCerts c = createCertificates c"

section \<open>Regular files\<close>

text \<open>The regular files of a file system, with permission bits and contents.\<close>

definition regular :: "FileSystem \<Rightarrow> string \<Rightarrow> (nat \<times> string) option" where
  "regular fs p = (case fs_nodes fs p of Some (File perm d) \<Rightarrow> Some (perm, d) | _ \<Rightarrow> None)"

lemma regular_mkdirs: "fs_nodes fs' = snd (mkdirs ds (fs_nodes fs)) \<Longrightarrow> regular fs' = regular fs"
proof
  fix p
  assume a: "fs_nodes fs' = snd (mkdirs ds (fs_nodes fs))"
  show "regular fs' p = regular fs p"
  proof (cases "fs_nodes fs p")
    case (Some n)
    with a mkdirs_keeps [of "fs_nodes fs" p n ds, OF Some] show ?thesis by (simp add: regular_def)
  next
    case None
    have new: "snd (mkdirs ds nodes) p \<in> {None, Some Directory}" if "nodes p = None \<or> nodes p = Some Directory" for nodes
      using that by (induction ds arbitrary: nodes) (auto split: option.splits Node.splits)
    from new [of "fs_nodes fs"] a None show ?thesis by (auto simp: regular_def)
  qed
qed

lemma os_MkdirAll_regular:
  "regular (snd (os_MkdirAll d fs)) = regular fs" "fs_deny (snd (os_MkdirAll d fs)) = fs_deny fs"
  using regular_mkdirs [of "fs\<lparr>fs_nodes := snd (mkdirs (dirs_of d) (fs_nodes fs))\<rparr>" "dirs_of d" fs]
  by (simp_all add: os_MkdirAll_def Let_def case_prod_beta split: option.splits)

lemma os_WriteFile_regular:
  "fst (os_WriteFile p d m fs) = None \<Longrightarrow> \<exists>m'. regular (snd (os_WriteFile p d m fs)) = (regular fs)(p \<mapsto> (m', d)) \<and>
     m' = (case regular fs p of Some (m0, _) \<Rightarrow> m0 | None \<Rightarrow> m)"
  "fst (os_WriteFile p d m fs) \<noteq> None \<Longrightarrow> regular (snd (os_WriteFile p d m fs)) = regular fs"
  "fs_deny (snd (os_WriteFile p d m fs)) = fs_deny fs"
  by (auto simp: os_WriteFile_def regular_def fun_eq_iff split: option.splits Node.splits if_splits)

lemma os_Remove_regular:
  "regular (snd (os_Remove p fs)) = (if fs_deny fs OsRemove p = None then (regular fs)(p := None) else regular fs)"
  "fs_deny (snd (os_Remove p fs)) = fs_deny fs"
  by (auto simp: os_Remove_def regular_def fun_eq_iff split: option.splits)

section \<open>The certificate files\<close>

text \<open>One certificate step as a function of the file system.\<close>

definition cert_write :: "string \<Rightarrow> string \<Rightarrow> FileSystem \<Rightarrow> error option \<times> FileSystem" where
  "cert_write path data fs =
     (case os_MkdirAll (filepath_Dir path) fs of
        (Some e, fs') \<Rightarrow> (Some e, fs')
      | (None, fs') \<Rightarrow> os_WriteFile path data 384 fs')"

definition cert_step :: "string \<Rightarrow> string \<Rightarrow> FileSystem \<Rightarrow> error option \<times> FileSystem" where
  "cert_step path data fs = (if data \<noteq> [] then cert_write path data fs else (None, fs))"

lemma createCertFile_apply [go_simps]:
  "createCertFile path data w =
     (Returned (fst (cert_write path data (filesystem w))),
      w\<lparr>filesystem := snd (cert_write path data (filesystem w))\<rparr>)"
  by (auto simp: createCertFile_def cert_write_def go_check_def go_bind_def go_return_def
      on_files_apply Let_def split: option.splits prod.splits)

lemma createCertIfSet_apply [go_simps]:
  "createCertIfSet path data w =
     (Returned (fst (cert_step path data (filesystem w))),
      w\<lparr>filesystem := snd (cert_step path data (filesystem w))\<rparr>)"
  by (simp add: createCertIfSet_def cert_step_def go_simps)

lemma cert_step_effect:
  assumes "cert_step path data fs = (err, fs')"
  shows "fs_deny fs' = fs_deny fs"
    and "p \<noteq> path \<Longrightarrow> regular fs' p = regular fs p"
    and "err \<noteq> None \<or> data = [] \<Longrightarrow> regular fs' = regular fs"
    and "err = None \<Longrightarrow> data \<noteq> [] \<Longrightarrow> \<exists>m. regular fs' path = Some (m, data) \<and> (regular fs path = None \<longrightarrow> m = 384)"
proof -
  obtain e1 fs1 where mk: "os_MkdirAll (filepath_Dir path) fs = (e1, fs1)" by fastforce
  from os_MkdirAll_regular [of "filepath_Dir path" fs] mk
  have r1: "regular fs1 = regular fs" "fs_deny fs1 = fs_deny fs" by simp_all
  obtain e2 fs2 where wr: "os_WriteFile path data 384 fs1 = (e2, fs2)" by fastforce
  have r2: "fs_deny fs2 = fs_deny fs" "e2 \<noteq> None \<Longrightarrow> regular fs2 = regular fs"
    "e2 = None \<Longrightarrow> \<exists>m'. regular fs2 = (regular fs)(path \<mapsto> (m', data)) \<and> (regular fs path = None \<longrightarrow> m' = 384)"
    using os_WriteFile_regular [of path data 384 fs1] wr r1 by auto
  note c = assms [unfolded cert_step_def cert_write_def mk prod.case wr]
  show "fs_deny fs' = fs_deny fs"
    using c r1 r2(1) by (auto split: if_splits option.splits)
  show "p \<noteq> path \<Longrightarrow> regular fs' p = regular fs p"
    using c r1 r2(2,3) by (cases e2) (auto split: if_splits option.splits)
  show "err \<noteq> None \<or> data = [] \<Longrightarrow> regular fs' = regular fs"
    using c r1 r2(2) by (auto split: if_splits option.splits)
  show "err = None \<Longrightarrow> data \<noteq> [] \<Longrightarrow> \<exists>m. regular fs' path = Some (m, data) \<and> (regular fs path = None \<longrightarrow> m = 384)"
    using c r2(3) by (auto split: if_splits option.splits)
qed

text \<open>
  A set of files that can be written one after the other: the system lets it happen, the
  directories above are there or can be made, and no file is one of those directories.
\<close>

definition writable_certs :: "FileSystem \<Rightarrow> string set \<Rightarrow> bool" where
  "writable_certs fs F \<longleftrightarrow> (\<forall>f \<in> F.
     filepath_Dir f \<noteq> [] \<and> fs_nodes fs f \<noteq> Some Directory \<and>
     fs_deny fs OsMkdirAll (filepath_Dir f) = None \<and> fs_deny fs OsWriteFile f = None \<and>
     (\<forall>d \<in> set (dirs_of (filepath_Dir f)). d \<notin> F \<and> (fs_nodes fs d = None \<or> fs_nodes fs d = Some Directory)))"

lemma mkdirs_succeeds:
  "\<forall>d \<in> set ds. nodes d = None \<or> nodes d = Some Directory \<Longrightarrow> fst (mkdirs ds nodes) = None"
proof (induction ds arbitrary: nodes)
  case Nil
  then show ?case by simp
next
  case (Cons d ds)
  then have "nodes d = None \<or> nodes d = Some Directory" by simp
  moreover from Cons have "fst (mkdirs ds nodes) = None" by simp
  moreover from Cons.prems have "fst (mkdirs ds (nodes(d \<mapsto> Directory))) = None"
    by (intro Cons.IH) simp
  ultimately show ?case by auto
qed

lemma mkdirs_nodes: "snd (mkdirs ds nodes) p = nodes p \<or> (p \<in> set ds \<and> snd (mkdirs ds nodes) p = Some Directory)"
proof (induction ds arbitrary: nodes)
  case Nil
  then show ?case by simp
next
  case (Cons d ds)
  from Cons.IH [of nodes] Cons.IH [of "nodes(d \<mapsto> Directory)"] show ?case
    by (cases "p = d") (auto simp del: fun_upd_apply simp: fun_upd_same fun_upd_other split: option.split Node.split)
qed

lemma cert_step_succeeds:
  assumes "writable_certs fs F" and "f \<in> F"
  shows "\<exists>fs'. cert_step f data fs = (None, fs') \<and> writable_certs fs' F"
proof (cases "data = []")
  case True
  with assms(1) show ?thesis by (simp add: cert_step_def)
next
  case False
  let ?dir = "filepath_Dir f"
  obtain nodes where mk: "mkdirs (dirs_of ?dir) (fs_nodes fs) = (None, nodes)"
    using mkdirs_succeeds [of "dirs_of ?dir" "fs_nodes fs"] assms
    by (cases "mkdirs (dirs_of ?dir) (fs_nodes fs)") (auto simp: writable_certs_def)
  have dir: "nodes ?dir = Some Directory"
    using mkdirs_made [OF mk] dirs_of_self [of ?dir] assms by (simp add: writable_certs_def)
  have nodes: "nodes p = fs_nodes fs p \<or> (p \<in> set (dirs_of ?dir) \<and> nodes p = Some Directory)" for p
    using mkdirs_nodes [of "dirs_of ?dir" "fs_nodes fs" p] mk by simp
  have "nodes f \<noteq> Some Directory" using nodes [of f] assms by (auto simp: writable_certs_def)
  with dir obtain perm where "cert_step f data fs = (None, fs\<lparr>fs_nodes := nodes(f \<mapsto> File perm data)\<rparr>)"
    using False assms mk
    by (cases "nodes f"; cases "the (nodes f)")
      (auto simp: cert_step_def cert_write_def os_MkdirAll_def os_WriteFile_def writable_certs_def)
  moreover have "writable_certs (fs\<lparr>fs_nodes := nodes(f \<mapsto> File perm data)\<rparr>) F"
    unfolding writable_certs_def
  proof (intro ballI)
    fix g
    assume g: "g \<in> F"
    have "g \<notin> set (dirs_of ?dir)" using assms g by (auto simp: writable_certs_def)
    moreover have "d \<notin> F \<and> d \<noteq> f \<and> (nodes d = None \<or> nodes d = Some Directory)" if "d \<in> set (dirs_of (filepath_Dir g))" for d
    proof -
      have "d \<notin> F \<and> (fs_nodes fs d = None \<or> fs_nodes fs d = Some Directory)"
        using assms(1) g that by (auto simp: writable_certs_def)
      with assms(2) nodes [of d] show ?thesis by auto
    qed
    ultimately show "filepath_Dir g \<noteq> [] \<and> fs_nodes (fs\<lparr>fs_nodes := nodes(f \<mapsto> File perm data)\<rparr>) g \<noteq> Some Directory \<and>
      fs_deny (fs\<lparr>fs_nodes := nodes(f \<mapsto> File perm data)\<rparr>) OsMkdirAll (filepath_Dir g) = None \<and>
      fs_deny (fs\<lparr>fs_nodes := nodes(f \<mapsto> File perm data)\<rparr>) OsWriteFile g = None \<and>
      (\<forall>d \<in> set (dirs_of (filepath_Dir g)). d \<notin> F \<and>
        (fs_nodes (fs\<lparr>fs_nodes := nodes(f \<mapsto> File perm data)\<rparr>) d = None \<or>
         fs_nodes (fs\<lparr>fs_nodes := nodes(f \<mapsto> File perm data)\<rparr>) d = Some Directory))"
      using assms(1) g nodes [of g] by (auto simp: writable_certs_def)
  qed
  ultimately show ?thesis by blast
qed

section \<open>The connection string\<close>

definition with_cert_paths :: "string \<Rightarrow> Config \<Rightarrow> Config" where
  "with_cert_paths home c = c\<lparr>
     sslCACertFile := filepath_Join [home, cert_path c ''ca''],
     sslUserCertFile := filepath_Join [home, cert_path c ''crt''],
     sslUserKeyFile := filepath_Join [home, cert_path c ''key'']\<rparr>"

text \<open>The settings of a connection string, as keywords and values.\<close>

definition conn_settings :: "Config \<Rightarrow> (string \<times> string) list" where
  "conn_settings c =
     [(''host'', Host c), (''user'', config_User c), (''port'', fmt_d (Port c))] @
     (if DatabaseName c \<noteq> [] then [(''dbname'', DatabaseName c)] else []) @
     (if Password c \<noteq> [] then [(''password'', Password c)] else []) @
     (if SSLMode c \<noteq> [] then [(''sslmode'', SSLMode c)] else []) @
     (if SSLCACert c \<noteq> [] then [(''sslrootcert'', sslCACertFile c)] else []) @
     (if SSLUserCert c \<noteq> [] then [(''sslcert'', sslUserCertFile c)] else []) @
     (if SSLUserKey c \<noteq> [] then [(''sslkey'', sslUserKeyFile c)] else [])"

fun setting_text :: "string \<times> string \<Rightarrow> string" where
  "setting_text (k, v) = k @ ''='' @ v"

lemma markCreateCerts_sel [simp]:
  "SSLUserCert (markCreateCerts d c) = SSLUserCert c" "SSLUserKey (markCreateCerts d c) = SSLUserKey c"
  "sslUserCertFile (markCreateCerts d c) = sslUserCertFile c" "sslUserKeyFile (markCreateCerts d c) = sslUserKeyFile c"
  "sslCACertFile (markCreateCerts d c) = sslCACertFile c" "conn_settings (markCreateCerts d c) = conn_settings c"
  by (simp_all add: markCreateCerts_def conn_settings_def)

lemma map_setting_text_conn_settings:
  "map setting_text (conn_settings c) =
     appendIf (SSLUserKey c \<noteq> []) (''sslkey='' @ sslUserKeyFile c)
    (appendIf (SSLUserCert c \<noteq> []) (''sslcert='' @ sslUserCertFile c)
    (appendIf (SSLCACert c \<noteq> []) (''sslrootcert='' @ sslCACertFile c)
    (appendIf (SSLMode c \<noteq> []) (''sslmode='' @ SSLMode c)
    (appendIf (Password c \<noteq> []) (''password='' @ Password c)
    (appendIf (DatabaseName c \<noteq> []) (''dbname='' @ DatabaseName c)
       [''host='' @ Host c, ''user='' @ config_User c, ''port='' @ fmt_d (Port c)])))))"
  by (simp add: conn_settings_def appendIf_def)

lemma Config_ConnString_steps:
  fixes c :: Config and w :: "('k, 'd) World"
  defines "c1 \<equiv> with_cert_paths (env_HOME w) c"
  defines "c2 \<equiv> markCreateCerts (SSLUserCert c) c1"
  defines "c3 \<equiv> markCreateCerts (SSLUserKey c) c2"
  shows "Config_ConnString c w =
    (case cert_step (sslCACertFile c1) (SSLCACert c) (filesystem w) of
       (Some e, fs1) \<Rightarrow> (Returned (c1, Inl e), w\<lparr>filesystem := fs1\<rparr>)
     | (None, fs1) \<Rightarrow>
    (case cert_step (sslUserCertFile c1) (SSLUserCert c) fs1 of
       (Some e, fs2) \<Rightarrow> (Returned (c2, Inl e), w\<lparr>filesystem := fs2\<rparr>)
     | (None, fs2) \<Rightarrow>
    (case cert_step (sslUserKeyFile c1) (SSLUserKey c) fs2 of
       (Some e, fs3) \<Rightarrow> (Returned (c3, Inl e), w\<lparr>filesystem := fs3\<rparr>)
     | (None, fs3) \<Rightarrow>
         (Returned (c3, Inr (strings_Join (map setting_text (conn_settings c3)) '' '')),
          w\<lparr>filesystem := fs3\<rparr>))))"
  unfolding c3_def c2_def c1_def Config_ConnString_def Let_def with_cert_paths_def
  by (simp add: go_bind_def createCertIfSet_apply utils_PathFromHome_apply go_return_apply
      map_setting_text_conn_settings split: prod.split option.split)

section \<open>What ConnString and Close do to the files\<close>

definition cert_files :: "Config \<Rightarrow> string set" where
  "cert_files c = {sslCACertFile c, sslUserCertFile c, sslUserKeyFile c}"

lemma filepath_Join_home:
  assumes "CHR ''/'' \<notin> set ext" and "ext \<noteq> []" and "last ext \<noteq> CHR ''.''"
  shows "last (filepath_Join [home, s @ ext]) = last ext"
proof -
  define t where "t = (if home = [] then s else home @ ''/'' @ s)"
  define p where "p = t @ ext"
  have l: "last (strings_Split p (CHR ''/'')) = last (strings_Split t (CHR ''/'')) @ ext" (is "_ = ?e @ ext")
    using assms(1) by (simp add: p_def last_strings_Split_append)
  have "last (strings_Split t (CHR ''/'')) \<in> set (strings_Split t (CHR ''/''))" by simp
  then have "CHR ''/'' \<notin> set ?e" by (rule strings_Split_parts)
  moreover have "x \<noteq> ''.'' \<and> x \<noteq> ''..''" if "last x \<noteq> CHR ''.''" for x :: string
    using that by auto
  then have "?e @ ext \<noteq> ''.'' \<and> ?e @ ext \<noteq> ''..''" using assms by simp
  ultimately have "plain_elem (?e @ ext)"
    using assms(1,2) by (auto simp: plain_elem_def)
  with l have "last (filepath_Clean p) = last p" by (simp add: last_filepath_Clean)
  moreover have "filepath_Join [home, s @ ext] = filepath_Clean p"
    using assms(2) by (simp add: filepath_Join_def p_def t_def)
  ultimately show ?thesis using assms(2) by (simp add: p_def)
qed

lemma cert_paths_distinct:
  "sslCACertFile (with_cert_paths home c) \<noteq> sslUserCertFile (with_cert_paths home c)"
  "sslCACertFile (with_cert_paths home c) \<noteq> sslUserKeyFile (with_cert_paths home c)"
  "sslUserCertFile (with_cert_paths home c) \<noteq> sslUserKeyFile (with_cert_paths home c)"
proof -
  let ?s = "''postgres-certs/'' @ Host c @ ''/'' @ DatabaseName c @ ''_'' @ config_User c"
  have "last (filepath_Join [home, ?s @ ''.ca'']) = CHR ''a''"
    "last (filepath_Join [home, ?s @ ''.crt'']) = CHR ''t''"
    "last (filepath_Join [home, ?s @ ''.key'']) = CHR ''y''"
    using filepath_Join_home [of "''.ca''" home ?s] filepath_Join_home [of "''.crt''" home ?s]
      filepath_Join_home [of "''.key''" home ?s] by simp_all
  then show "sslCACertFile (with_cert_paths home c) \<noteq> sslUserCertFile (with_cert_paths home c)"
    "sslCACertFile (with_cert_paths home c) \<noteq> sslUserKeyFile (with_cert_paths home c)"
    "sslUserCertFile (with_cert_paths home c) \<noteq> sslUserKeyFile (with_cert_paths home c)"
    by (auto simp: with_cert_paths_def cert_path_def)
qed

lemma cert_files_mark [simp]: "cert_files (markCreateCerts d c) = cert_files c"
  by (simp add: cert_files_def)

text \<open>In every outcome only the three certificate files are touched.\<close>

lemma Config_ConnString_frame:
  assumes "Config_ConnString c w = (r, w')"
  obtains c' res fs' where "r = Returned (c', res)" and "w' = w\<lparr>filesystem := fs'\<rparr>"
    and "fs_deny fs' = fs_deny (filesystem w)"
    and "cert_files c' = cert_files (with_cert_paths (env_HOME w) c)"
    and "\<And>p. p \<notin> cert_files c' \<Longrightarrow> regular fs' p = regular (filesystem w) p"
proof -
  let ?c1 = "with_cert_paths (env_HOME w) c"
  obtain e1 fs1 where s1: "cert_step (sslCACertFile ?c1) (SSLCACert c) (filesystem w) = (e1, fs1)" by fastforce
  obtain e2 fs2 where s2: "cert_step (sslUserCertFile ?c1) (SSLUserCert c) fs1 = (e2, fs2)" by fastforce
  obtain e3 fs3 where s3: "cert_step (sslUserKeyFile ?c1) (SSLUserKey c) fs2 = (e3, fs3)" by fastforce
  note eff = cert_step_effect(1,2) [OF s1] cert_step_effect(1,2) [OF s2] cert_step_effect(1,2) [OF s3]
  have reg: "regular fs1 p = regular (filesystem w) p" "regular fs2 p = regular (filesystem w) p"
    "regular fs3 p = regular (filesystem w) p" if "p \<notin> cert_files ?c1" for p
    using that eff by (simp_all add: cert_files_def)
  from assms show thesis
    unfolding Config_ConnString_steps s1 prod.case s2 s3
    by (cases e1; cases e2; cases e3) (use eff reg in \<open>auto intro!: that\<close>)
qed

text \<open>A successful call has written the data of each certificate into its file.\<close>

lemma Config_ConnString_ok:
  assumes "Config_ConnString c w = (Returned (c', Inr cs), w')"
  shows "c' = markCreateCerts (SSLUserKey c) (markCreateCerts (SSLUserCert c) (with_cert_paths (env_HOME w) c))"
    and "cs = strings_Join (map setting_text (conn_settings c')) '' ''"
    and "SSLCACert c \<noteq> [] \<Longrightarrow> \<exists>m. regular (filesystem w') (sslCACertFile c') = Some (m, SSLCACert c)"
    and "SSLUserCert c \<noteq> [] \<Longrightarrow> \<exists>m. regular (filesystem w') (sslUserCertFile c') = Some (m, SSLUserCert c)"
    and "SSLUserKey c \<noteq> [] \<Longrightarrow> \<exists>m. regular (filesystem w') (sslUserKeyFile c') = Some (m, SSLUserKey c)"
proof -
  let ?c1 = "with_cert_paths (env_HOME w) c"
  from assms obtain fs1 fs2 fs3 where
    s1: "cert_step (sslCACertFile ?c1) (SSLCACert c) (filesystem w) = (None, fs1)" and
    s2: "cert_step (sslUserCertFile ?c1) (SSLUserCert c) fs1 = (None, fs2)" and
    s3: "cert_step (sslUserKeyFile ?c1) (SSLUserKey c) fs2 = (None, fs3)" and
    c': "c' = markCreateCerts (SSLUserKey c) (markCreateCerts (SSLUserCert c) ?c1)" and
    cs: "cs = strings_Join (map setting_text (conn_settings c')) '' ''" and
    w': "w' = w\<lparr>filesystem := fs3\<rparr>"
    by (auto simp: Config_ConnString_steps split: prod.splits option.splits)
  show "c' = markCreateCerts (SSLUserKey c) (markCreateCerts (SSLUserCert c) ?c1)" by (rule c')
  show "cs = strings_Join (map setting_text (conn_settings c')) '' ''" by (rule cs)
  note d = cert_paths_distinct [of "env_HOME w" c]
  have o2: "regular fs2 (sslCACertFile ?c1) = regular fs1 (sslCACertFile ?c1)"
    by (rule cert_step_effect(2) [OF s2 d(1)])
  have o3: "regular fs3 (sslCACertFile ?c1) = regular fs2 (sslCACertFile ?c1)"
    "regular fs3 (sslUserCertFile ?c1) = regular fs2 (sslUserCertFile ?c1)"
    by (rule cert_step_effect(2) [OF s3 d(2)], rule cert_step_effect(2) [OF s3 d(3)])
  show "SSLCACert c \<noteq> [] \<Longrightarrow> \<exists>m. regular (filesystem w') (sslCACertFile c') = Some (m, SSLCACert c)"
    using cert_step_effect(4) [OF s1] o2 o3 by (auto simp: w' c')
  show "SSLUserCert c \<noteq> [] \<Longrightarrow> \<exists>m. regular (filesystem w') (sslUserCertFile c') = Some (m, SSLUserCert c)"
    using cert_step_effect(4) [OF s2] o3 by (auto simp: w' c')
  show "SSLUserKey c \<noteq> [] \<Longrightarrow> \<exists>m. regular (filesystem w') (sslUserKeyFile c') = Some (m, SSLUserKey c)"
    using cert_step_effect(4) [OF s3] by (auto simp: w' c')
qed

lemma Config_Close_apply [go_simps]:
  "Config_Close c w = (Returned None, w\<lparr>filesystem :=
     snd (os_Remove (sslCACertFile c) (snd (os_Remove (sslUserCertFile c)
       (snd (os_Remove (sslUserKeyFile c) (filesystem w))))))\<rparr>)"
  by (simp add: Config_Close_def go_defer_def go_return_def on_files_apply)

lemma Config_Close_regular:
  assumes "\<And>p. p \<in> cert_files c \<Longrightarrow> fs_deny (filesystem w) OsRemove p = None"
  shows "regular (filesystem (snd (Config_Close c w))) = (regular (filesystem w)) |` (- cert_files c)"
proof
  fix p
  show "regular (filesystem (snd (Config_Close c w))) p = ((regular (filesystem w)) |` (- cert_files c)) p"
    using assms by (simp add: Config_Close_apply os_Remove_regular cert_files_def restrict_map_def)
qed

text \<open>
  \<^bold>\<open>C22\<close> No certificate outlives its connection: whatever \<^verbatim>\<open>ConnString\<close> did to the files,
  \<^verbatim>\<open>Close\<close> of the configuration leaves no regular file at the three certificate paths,
  and every other regular file is as it was before \<^verbatim>\<open>ConnString\<close>, permissions and
  contents included (given that the system lets the operator remove files).
\<close>

theorem ConnString_Close_files:
  assumes "Config_ConnString c w = (Returned (c', res), w1)"
    and "Config_Close c' w1 = (r, w2)"
    and "\<And>p. fs_deny (filesystem w) OsRemove p = None"
  shows "regular (filesystem w2) = (regular (filesystem w)) |` (- cert_files c')"
proof -
  from assms(1) obtain fs1 where fs1: "w1 = w\<lparr>filesystem := fs1\<rparr>" "fs_deny fs1 = fs_deny (filesystem w)"
    "\<And>p. p \<notin> cert_files c' \<Longrightarrow> regular fs1 p = regular (filesystem w) p"
    by (rule Config_ConnString_frame) auto
  have "regular (filesystem w2) = (regular fs1) |` (- cert_files c')"
    using Config_Close_regular [of c' w1] assms(2,3) fs1(1,2) by simp
  with fs1(3) show ?thesis by (auto simp: restrict_map_def fun_eq_iff)
qed

lemma ConnString_writable:
  assumes "writable_certs (filesystem w) (cert_files (with_cert_paths (env_HOME w) c))"
  shows "\<exists>c' cs fs'. Config_ConnString c w = (Returned (c', Inr cs), w\<lparr>filesystem := fs'\<rparr>) \<and>
    writable_certs fs' (cert_files (with_cert_paths (env_HOME w) c))"
proof -
  let ?c1 = "with_cert_paths (env_HOME w) c"
  have mem: "sslCACertFile ?c1 \<in> cert_files ?c1" "sslUserCertFile ?c1 \<in> cert_files ?c1"
    "sslUserKeyFile ?c1 \<in> cert_files ?c1" by (simp_all add: cert_files_def)
  from cert_step_succeeds [OF assms mem(1)] obtain fs1 where
    s1: "cert_step (sslCACertFile ?c1) (SSLCACert c) (filesystem w) = (None, fs1)" "writable_certs fs1 (cert_files ?c1)" by blast
  from cert_step_succeeds [OF s1(2) mem(2)] obtain fs2 where
    s2: "cert_step (sslUserCertFile ?c1) (SSLUserCert c) fs1 = (None, fs2)" "writable_certs fs2 (cert_files ?c1)" by blast
  from cert_step_succeeds [OF s2(2) mem(3)] obtain fs3 where
    s3: "cert_step (sslUserKeyFile ?c1) (SSLUserKey c) fs2 = (None, fs3)" "writable_certs fs3 (cert_files ?c1)" by blast
  have "\<exists>c' cs. Config_ConnString c w = (Returned (c', Inr cs), w\<lparr>filesystem := fs3\<rparr>)"
    by (simp add: Config_ConnString_steps s1(1) s2(1) s3(1))
  with s3(2) show ?thesis by blast
qed

section \<open>Reading a connection string back\<close>

definition parse_setting :: "string \<Rightarrow> string \<times> string" where
  "parse_setting s = (takeWhile (\<lambda>x. x \<noteq> CHR ''='') s, drop 1 (dropWhile (\<lambda>x. x \<noteq> CHR ''='') s))"

definition parse_conn_string :: "string \<Rightarrow> (string \<times> string) list" where
  "parse_conn_string s = map parse_setting (strings_Split s (CHR '' ''))"

lemma parse_setting_text:
  "CHR ''='' \<notin> set k \<Longrightarrow> parse_setting (setting_text (k, v)) = (k, v)"
  by (induction k) (auto simp: parse_setting_def)

definition conn_keywords :: "string list" where
  "conn_keywords = [''host'', ''user'', ''port'', ''dbname'', ''password'', ''sslmode'',
     ''sslrootcert'', ''sslcert'', ''sslkey'']"

lemma conn_settings_keywords: "(k, v) \<in> set (conn_settings c) \<Longrightarrow> k \<in> set conn_keywords"
  by (auto simp: conn_settings_def conn_keywords_def split: if_splits)

lemma conn_keywords_plain: "k \<in> set conn_keywords \<Longrightarrow> CHR ''='' \<notin> set k \<and> CHR '' '' \<notin> set k"
  by (auto simp: conn_keywords_def)

text \<open>
  \<^bold>\<open>C24\<close> A connection string says what the configuration says: splitting the string at
  blanks and each piece at its first equals sign gives back exactly the settings of the
  configuration, keyword by keyword, as long as no value contains a blank.
\<close>

theorem ConnString_parses:
  assumes "Config_ConnString c w = (Returned (c', Inr cs), w')"
    and "\<forall>v \<in> snd ` set (conn_settings c'). CHR '' '' \<notin> set v"
  shows "parse_conn_string cs = conn_settings c'"
proof -
  let ?ts = "map setting_text (conn_settings c')"
  have plain: "CHR ''='' \<notin> set k" "CHR '' '' \<notin> set (setting_text (k, v))" if "(k, v) \<in> set (conn_settings c')" for k v
    using conn_keywords_plain [OF conn_settings_keywords [OF that]] assms(2) that by force+
  have "strings_Split (strings_Join ?ts '' '') (CHR '' '') = ?ts"
  proof (rule strings_Split_Join)
    show "?ts \<noteq> []" by (simp add: conn_settings_def)
    show "CHR '' '' \<notin> set t" if "t \<in> set ?ts" for t
      using that plain(2) by fastforce
  qed
  then have "parse_conn_string cs = map (parse_setting \<circ> setting_text) (conn_settings c')"
    using Config_ConnString_ok(2) [OF assms(1)] by (simp add: parse_conn_string_def)
  also have "\<dots> = conn_settings c'"
    by (rule map_idI) (use plain(1) in \<open>auto simp: parse_setting_text simp del: setting_text.simps\<close>)
  finally show ?thesis .
qed

end
