(* ===== verification/Go_Encoding.thy ===== *)
theory Go_Encoding
  imports Prelude
begin

text \<open>
  \<^verbatim>\<open>encoding/base64\<close> with the standard alphabet and \<^verbatim>\<open>encoding/pem\<close>, as far as the sources
  use them: \<^verbatim>\<open>pem.Decode\<close> and \<^verbatim>\<open>pem.EncodeToMemory\<close> of blocks without headers. A byte is
  a \<open>char\<close>. The main result is that decoding undoes encoding.
\<close>

section \<open>encoding/base64\<close>

text \<open>The standard alphabet, from a value to its character and back.\<close>

definition b64_char :: "nat \<Rightarrow> char" where
  "b64_char n = char_of
     (if n < 26 then n + 65 else if n < 52 then n + 71 else if n < 62 then n - 4 else if n = 62 then 43 else 47)"

definition b64_value :: "char \<Rightarrow> nat option" where
  "b64_value c =
     (let n = of_char c :: nat in
      if 65 \<le> n \<and> n \<le> 90 then Some (n - 65)
      else if 97 \<le> n \<and> n \<le> 122 then Some (n - 71)
      else if 48 \<le> n \<and> n \<le> 57 then Some (n + 4)
      else if n = 43 then Some 62
      else if n = 47 then Some 63
      else None)"

definition b64_pad :: char where "b64_pad = CHR ''=''"

text \<open>Three bytes are four characters; one or two bytes at the end are padded.\<close>

fun base64_EncodeToString :: "string \<Rightarrow> string" where
  "base64_EncodeToString [] = []"
| "base64_EncodeToString [x] =
     (let a = of_char x in [b64_char (a div 4), b64_char (a mod 4 * 16), b64_pad, b64_pad])"
| "base64_EncodeToString [x, y] =
     (let a = of_char x; b = of_char y
      in [b64_char (a div 4), b64_char (a mod 4 * 16 + b div 16), b64_char (b mod 16 * 4), b64_pad])"
| "base64_EncodeToString (x # y # z # s) =
     (let a = of_char x; b = of_char y; c = of_char z
      in b64_char (a div 4) # b64_char (a mod 4 * 16 + b div 16) # b64_char (b mod 16 * 4 + c div 64) #
         b64_char (c mod 64) # base64_EncodeToString s)"

text \<open>
  Decoding takes four characters at a time; padding ends the text. Bits that the padding
  leaves over are ignored, and line ends are skipped wherever they are.
\<close>

fun base64_quanta :: "string \<Rightarrow> string option" where
  "base64_quanta [] = Some []"
| "base64_quanta (a # b # c # d # s) =
     (case (b64_value a, b64_value b) of
       (Some p, Some q) \<Rightarrow>
         if c = b64_pad then
           (if d = b64_pad \<and> s = [] then Some [char_of (p * 4 + q div 16)] else None)
         else (case b64_value c of None \<Rightarrow> None | Some r \<Rightarrow>
           if d = b64_pad then
             (if s = [] then Some [char_of (p * 4 + q div 16), char_of (q mod 16 * 16 + r div 4)] else None)
           else (case b64_value d of None \<Rightarrow> None | Some t \<Rightarrow>
             map_option (\<lambda>bs. char_of (p * 4 + q div 16) # char_of (q mod 16 * 16 + r div 4) #
                char_of (r mod 4 * 64 + t) # bs) (base64_quanta s)))
     | _ \<Rightarrow> None)"
| "base64_quanta _ = None"

definition newline :: char where "newline = CHR 0x0A"
definition carriage_return :: char where "carriage_return = CHR 0x0D"

definition base64_Decode :: "string \<Rightarrow> string option" where
  "base64_Decode s = base64_quanta (filter (\<lambda>c. c \<noteq> newline \<and> c \<noteq> carriage_return) s)"

lemma b64_value_char: "n < 64 \<Longrightarrow> b64_value (b64_char n) = Some n"
  unfolding b64_value_def b64_char_def Let_def by simp linarith

lemma b64_char_code: "n < 64 \<Longrightarrow> (of_char (b64_char n) :: nat) \<in> {43, 47} \<union> {48..57} \<union> {65..90} \<union> {97..122}"
  by (auto simp: b64_char_def)

lemma b64_char_not:
  assumes "n < 64" and "(of_char c :: nat) \<notin> {43, 47} \<union> {48..57} \<union> {65..90} \<union> {97..122}"
  shows "b64_char n \<noteq> c"
  using b64_char_code [OF assms(1)] assms(2) by metis

lemma b64_char_not_pad: "n < 64 \<Longrightarrow> b64_char n \<noteq> b64_pad"
  by (rule b64_char_not) (simp_all add: b64_pad_def)

lemma of_char_less: "(of_char c :: nat) < 256"
  using of_char_mod_256 [of c, where 'a = nat] mod_less_divisor [of 256 "of_char c :: nat"] by simp

text \<open>The six-bit groups of three bytes, and the bytes from the groups.\<close>

lemma group_split:
  fixes p m q :: nat
  assumes "q < m"
  shows "(p * m + q) div m = p" and "(p * m + q) mod m = q"
  using assms by (simp_all add: div_mult1_eq)

lemma six_bit_groups:
  fixes a b c :: nat
  assumes "a < 256" "b < 256" "c < 256"
  shows "a div 4 < 64" and "a mod 4 * 16 + b div 16 < 64" and "b mod 16 * 4 + c div 64 < 64"
    and "a div 4 * 4 + (a mod 4 * 16 + b div 16) div 16 = a"
    and "(a mod 4 * 16 + b div 16) mod 16 * 16 + (b mod 16 * 4 + c div 64) div 4 = b"
    and "(b mod 16 * 4 + c div 64) mod 4 * 64 + c mod 64 = c"
proof -
  have b: "b div 16 < 16" and c: "c div 64 < 4" and a: "a mod 4 < 4" "b mod 16 < 16" using assms by auto
  show "a div 4 < 64" using assms(1) by auto
  show "a mod 4 * 16 + b div 16 < 64" "b mod 16 * 4 + c div 64 < 64" using a b c by linarith+
  show "a div 4 * 4 + (a mod 4 * 16 + b div 16) div 16 = a"
    "(a mod 4 * 16 + b div 16) mod 16 * 16 + (b mod 16 * 4 + c div 64) div 4 = b"
    "(b mod 16 * 4 + c div 64) mod 4 * 64 + c mod 64 = c"
    by (simp_all only: group_split [OF b] group_split [OF c] div_mult_mod_eq)
qed

lemmas char_groups = six_bit_groups [OF of_char_less of_char_less of_char_less]

lemma char_group_low:
  fixes a :: nat
  shows "a mod 4 * 16 < 64" and "a mod 16 * 4 < 64" and "a mod 4 * 16 div 16 = a mod 4" and "a mod 16 * 4 div 4 = a mod 16"
    and "a div 4 * 4 + a mod 4 = a" and "a mod 4 * 16 mod 16 = 0"
  by simp_all

lemma base64_quanta_Encode: "base64_quanta (base64_EncodeToString bs) = Some bs"
proof (induction bs rule: base64_EncodeToString.induct)
  case (2 x)
  show ?case
    by (simp add: Let_def b64_value_char char_groups char_group_low)
next
  case (3 x y)
  have "(of_char y :: nat) div 16 < 16" by (rule less_mult_imp_div_less) (simp add: of_char_less)
  then show ?case
    by (simp add: Let_def b64_value_char b64_char_not_pad char_groups char_group_low)
next
  case (4 x y z s)
  moreover have "(of_char y :: nat) div 16 < 16" by (rule less_mult_imp_div_less) (simp add: of_char_less)
  moreover have "(of_char z :: nat) div 64 < 4" by (rule less_mult_imp_div_less) (simp add: of_char_less)
  ultimately show ?case
    by (simp add: Let_def b64_value_char b64_char_not_pad char_groups char_group_low)
qed simp



text \<open>The encoded text: letters, digits, \<^verbatim>\<open>+\<close>, \<^verbatim>\<open>/\<close> and padding.\<close>

definition base64_text :: "string \<Rightarrow> bool" where
  "base64_text s \<longleftrightarrow> (\<forall>c\<in>set s. (of_char c :: nat) \<in> {43, 47, 61} \<union> {48..57} \<union> {65..90} \<union> {97..122})"

lemma base64_text_Encode: "base64_text (base64_EncodeToString bs)"
proof -
  have char: "(of_char (b64_char n) :: nat) \<in> {43, 47, 61} \<union> {48..57} \<union> {65..90} \<union> {97..122}" if "n < 64" for n
    using b64_char_code [OF that] by blast
  have pad: "(of_char b64_pad :: nat) = 61" by (simp add: b64_pad_def)
  show ?thesis
  proof (induction bs rule: base64_EncodeToString.induct)
    case (2 x)
    then show ?case by (simp add: Let_def base64_text_def pad char [simplified] char_groups char_group_low)
  next
    case (3 x y)
    then show ?case by (simp add: Let_def base64_text_def pad char [simplified] char_groups char_group_low)
  next
    case (4 x y z s)
    then show ?case by (simp add: Let_def base64_text_def pad char [simplified] char_groups char_group_low)
  qed (simp add: base64_text_def)
qed

lemma base64_text_not_in:
  "base64_text s \<Longrightarrow> (of_char c :: nat) \<notin> {43, 47, 61} \<union> {48..57} \<union> {65..90} \<union> {97..122} \<Longrightarrow> c \<notin> set s"
  unfolding base64_text_def by blast

section \<open>encoding/pem\<close>

text \<open>
  The helpers of Go's \<^verbatim>\<open>bytes\<close> package and of \<^verbatim>\<open>encoding/pem\<close>: cutting at the first
  occurrence of a separator, and taking a line without the blanks at its end.
\<close>

fun bytes_Cut :: "string \<Rightarrow> string \<Rightarrow> (string \<times> string) option" where
  "bytes_Cut sep [] = (if sep = [] then Some ([], []) else None)"
| "bytes_Cut sep (c # s) =
     (if prefix sep (c # s) then Some ([], drop (length sep) (c # s))
      else map_option (\<lambda>(before, after). (c # before, after)) (bytes_Cut sep s))"

definition is_blank :: "char \<Rightarrow> bool" where
  "is_blank c \<longleftrightarrow> c = CHR '' '' \<or> c = CHR 0x09"

definition trim_blanks :: "string \<Rightarrow> string" where
  "trim_blanks s = rev (dropWhile is_blank (rev s))"

definition getLine :: "string \<Rightarrow> string \<times> string" where
  "getLine s =
     (let line = takeWhile (\<lambda>c. c \<noteq> newline) s in
      case dropWhile (\<lambda>c. c \<noteq> newline) s of
        [] \<Rightarrow> (trim_blanks line, [])
      | _ # rest \<Rightarrow>
          (trim_blanks (if line \<noteq> [] \<and> last line = carriage_return then butlast line else line), rest))"

lemma getLine_shorter: "s \<noteq> [] \<Longrightarrow> length (snd (getLine s)) < length s"
  using length_dropWhile_le [of "\<lambda>c. c \<noteq> newline" s]
  by (auto simp: getLine_def Let_def split: list.split)

lemma getLine_le: "length (snd (getLine s)) \<le> length s"
  using getLine_shorter [of s] by (cases "s = []") (simp_all add: getLine_def Let_def)

lemma getLine_pair:
  shows getLine_shorter': "(line, rest) = getLine s \<Longrightarrow> s \<noteq> [] \<Longrightarrow> length rest < length s"
    and getLine_le': "(line, rest) = getLine s \<Longrightarrow> length rest \<le> length s"
  using getLine_shorter [of s] getLine_le [of s] by (metis snd_conv)+

text \<open>
  The lines with a colon after the first line of a block are its headers. The result is
  whether there were any and the text from the first other line on; \<open>None\<close> when the text
  ends before.
\<close>

function skip_headers :: "bool \<Rightarrow> string \<Rightarrow> (bool \<times> string) option" where
  "skip_headers seen s =
     (if s = [] then None
      else case getLine s of (line, rest) \<Rightarrow>
        if CHR '':'' \<in> set line then skip_headers True rest else Some (seen, s))"
  by pat_completeness auto
termination
  by (relation "measure (\<lambda>(_, s). length s)") (auto dest: getLine_shorter')

declare skip_headers.simps [simp del]

record Block =
  block_Type :: string
  block_Bytes :: string

definition dashes :: string where "dashes = ''-----''"
definition pem_begin :: string where "pem_begin = ''-----BEGIN ''"
definition pem_end :: string where "pem_end = ''-----END ''"

text \<open>
  The three ways one round of \<^verbatim>\<open>Decode\<close> ends are a block, another round on the rest, and
  \<^verbatim>\<open>nil\<close>. \<open>pem_body\<close> is the round from the first line of the body on.
\<close>

definition pem_start :: "string \<Rightarrow> string option" where
  "pem_start s =
     (if prefix pem_begin s then Some (drop (length pem_begin) s)
      else map_option snd (bytes_Cut (newline # pem_begin) s))"

definition pem_body :: "string \<Rightarrow> bool \<Rightarrow> string \<Rightarrow> Block option" where
  "pem_body label headers body =
     (case (if \<not> headers \<and> prefix pem_end body then Some ([], drop (length pem_end) body)
            else bytes_Cut (newline # pem_end) body) of
       None \<Rightarrow> None
     | Some (base64Data, endTrailer) \<Rightarrow>
         let n = length label + length dashes in
         if length endTrailer < n then None
         else if \<not> prefix label (take n endTrailer) \<or> \<not> suffix dashes (take n endTrailer) then None
         else if fst (getLine (drop n endTrailer)) \<noteq> [] then None
         else map_option (\<lambda>bs. \<lparr>block_Type = label, block_Bytes = bs\<rparr>)
                (base64_Decode (filter (\<lambda>c. \<not> is_blank c) base64Data)))"

lemma bytes_Cut_length: "bytes_Cut sep s = Some (before, after) \<Longrightarrow> length s = length before + length sep + length after"
  by (induction sep s arbitrary: before rule: bytes_Cut.induct)
    (auto split: if_splits dest: prefix_length_le)

lemma pem_start_shorter: "pem_start s = Some r \<Longrightarrow> length r < length s"
  by (auto simp: pem_start_def pem_begin_def split: if_splits dest!: bytes_Cut_length prefix_length_le)

lemma skip_headers_le: "skip_headers seen s = Some (h, body) \<Longrightarrow> length body \<le> length s"
proof (induction seen s arbitrary: h rule: skip_headers.induct)
  case (1 seen s)
  obtain line rest where g: "getLine s = (line, rest)" by fastforce
  with 1 getLine_le [of s] show ?case
    by (subst (asm) (2) skip_headers.simps) (fastforce split: if_splits)
qed

function pem_Decode :: "string \<Rightarrow> Block option" where
  "pem_Decode s =
     (case pem_start s of
       None \<Rightarrow> None
     | Some r \<Rightarrow>
         (case getLine r of (typeLine, rest) \<Rightarrow>
           if \<not> suffix dashes typeLine then pem_Decode rest
           else
             (let label = take (length typeLine - length dashes) typeLine in
              case skip_headers False rest of
                None \<Rightarrow> None
              | Some (headers, body) \<Rightarrow>
                  (case pem_body label headers body of
                    None \<Rightarrow> pem_Decode body
                  | Some block \<Rightarrow> Some block))))"
  by pat_completeness auto
termination
  by (relation "measure length") (auto dest!: pem_start_shorter skip_headers_le getLine_le')

declare pem_Decode.simps [simp del]

text \<open>\<^verbatim>\<open>EncodeToMemory\<close> of a block without headers: lines of 64 characters.\<close>

fun pem_lines :: "string \<Rightarrow> string" where
  "pem_lines s = (if s = [] then [] else take 64 s @ newline # pem_lines (drop 64 s))"

declare pem_lines.simps [simp del]

definition pem_EncodeToMemory :: "string \<Rightarrow> string \<Rightarrow> string" where
  "pem_EncodeToMemory label bs =
     pem_begin @ label @ dashes @ newline # pem_lines (base64_EncodeToString bs) @
     pem_end @ label @ dashes @ [newline]"

section \<open>Decoding undoes encoding\<close>

lemma getLine_line:
  assumes "newline \<notin> set l" and "l \<noteq> [] \<Longrightarrow> \<not> is_blank (last l) \<and> last l \<noteq> carriage_return"
  shows "getLine (l @ newline # s) = (l, s)"
proof -
  have nl: "newline \<noteq> x" if "x \<in> set l" for x using assms(1) that by metis
  have trim: "trim_blanks l = l"
    using assms(2) by (cases l rule: rev_cases) (simp_all add: trim_blanks_def)
  have split: "takeWhile (\<lambda>c. c \<noteq> newline) (l @ newline # s) = l"
    "dropWhile (\<lambda>c. c \<noteq> newline) (l @ newline # s) = newline # s"
    using assms(1) by (auto simp: takeWhile_append dropWhile_append)
  show ?thesis unfolding getLine_def Let_def split using assms(2) trim by auto
qed

lemma bytes_Cut_pem_end:
  "CHR ''-'' \<notin> set s \<Longrightarrow> bytes_Cut (newline # pem_end) (s @ newline # pem_end @ x) = Some (s, x)"
proof (induction s)
  case Nil
  then show ?case by simp
next
  case (Cons c s)
  have "\<not> prefix (newline # pem_end) ((c # s) @ newline # pem_end @ x)"
    using Cons.prems by (cases s) (auto simp: pem_end_def newline_def)
  with Cons show ?case by simp
qed

text \<open>A body is a list of lines of base64 text.\<close>

definition text_lines :: "string list \<Rightarrow> string" where
  "text_lines ls = concat (map (\<lambda>l. l @ [newline]) ls)"

definition base64_lines :: "string list \<Rightarrow> bool" where
  "base64_lines ls \<longleftrightarrow> ls \<noteq> [] \<and> (\<forall>l\<in>set ls. l \<noteq> [] \<and> base64_text l)"

lemma pem_lines_text:
  "s \<noteq> [] \<Longrightarrow> base64_text s \<Longrightarrow> \<exists>ls. pem_lines s = text_lines ls \<and> concat ls = s \<and> base64_lines ls"
proof (induction s rule: pem_lines.induct)
  case (1 s)
  have parts: "base64_text (take 64 s)" "base64_text (drop 64 s)"
    using 1(3) by (auto simp: base64_text_def dest: in_set_takeD in_set_dropD)
  show ?case
  proof (cases "drop 64 s = []")
    case True
    with 1(2,3) have "pem_lines s = text_lines [s] \<and> base64_lines [s]"
      by (simp add: pem_lines.simps [of s] pem_lines.simps [of "[]"] text_lines_def base64_lines_def)
    then show ?thesis by (intro exI [of _ "[s]"]) simp
  next
    case False
    with 1(1,2) parts obtain ls where "pem_lines (drop 64 s) = text_lines ls" "concat ls = drop 64 s"
      "base64_lines ls" by blast
    with 1(2) parts have "pem_lines s = text_lines (take 64 s # ls) \<and> concat (take 64 s # ls) = s \<and>
        base64_lines (take 64 s # ls)"
      by (simp add: pem_lines.simps [of s] text_lines_def base64_lines_def)
    then show ?thesis by blast
  qed
qed

lemma base64_text_append: "base64_text (s @ r) \<longleftrightarrow> base64_text s \<and> base64_text r"
  unfolding base64_text_def by (simp only: set_append ball_Un)

lemma base64_text_chars:
  assumes "base64_text s"
  shows "newline \<notin> set s" and "carriage_return \<notin> set s" and "CHR ''-'' \<notin> set s" and "CHR '':'' \<notin> set s"
    and "c \<in> set s \<Longrightarrow> \<not> is_blank c"
  using assms by (auto simp: base64_text_def newline_def carriage_return_def is_blank_def)

lemma getLine_base64:
  assumes "base64_text l"
  shows "getLine (l @ newline # x) = (l, x)"
proof (rule getLine_line)
  show "newline \<notin> set l" using base64_text_chars(1) [OF assms] .
  show "\<not> is_blank (last l) \<and> last l \<noteq> carriage_return" if "l \<noteq> []"
    using last_in_set [OF that] base64_text_chars [OF assms] by metis
qed

lemma getLine_dashes:
  "newline \<notin> set l \<Longrightarrow> getLine (l @ dashes @ newline # x) = (l @ dashes, x)"
  using getLine_line [of "l @ dashes" x] by (simp add: dashes_def newline_def is_blank_def carriage_return_def)

lemma skip_no_headers:
  "s \<noteq> [] \<Longrightarrow> CHR '':'' \<notin> set (fst (getLine s)) \<Longrightarrow> skip_headers False s = Some (False, s)"
  by (simp add: skip_headers.simps [of _ s] case_prod_unfold)

text \<open>The end line, after the type it names, leaves nothing on its line.\<close>

lemma pem_trailer:
  assumes "base64_Decode (filter (\<lambda>c. \<not> is_blank c) text) = Some bs"
    and "(if \<not> headers \<and> prefix pem_end body then Some ([], drop (length pem_end) body)
          else bytes_Cut (newline # pem_end) body) = Some (text, label @ dashes @ [newline])"
  shows "pem_body label headers body = Some \<lparr>block_Type = label, block_Bytes = bs\<rparr>"
  using getLine_line [of "[]" "[]"] unfolding pem_body_def assms(2)
  by (simp add: Let_def assms(1) suffix_def)

lemma text_lines_butlast:
  assumes "base64_lines ls"
  obtains l where "text_lines ls = l @ [newline]" and "CHR ''-'' \<notin> set l"
    and "filter (\<lambda>c. c \<noteq> newline \<and> c \<noteq> carriage_return) (filter (\<lambda>c. \<not> is_blank c) l) = concat ls"
proof -
  obtain ls' m where ls: "ls = ls' @ [m]" using assms by (cases ls rule: rev_cases) (auto simp: base64_lines_def)
  have plain: "filter (\<lambda>c. c \<noteq> newline \<and> c \<noteq> carriage_return) (filter (\<lambda>c. \<not> is_blank c) k) = k \<and> CHR ''-'' \<notin> set k"
    if "k \<in> set ls" for k
  proof -
    have "base64_text k" using assms that by (simp add: base64_lines_def)
    note chars = base64_text_chars [OF this]
    have "filter (\<lambda>c. \<not> is_blank c) k = k" using chars(5) by (intro filter_True) blast
    moreover have "filter (\<lambda>c. c \<noteq> newline \<and> c \<noteq> carriage_return) k = k" using chars(1,2) by (intro filter_True) metis
    ultimately show ?thesis using chars(3) by simp
  qed
  have "CHR ''-'' \<notin> set (text_lines ls') \<and>
      filter (\<lambda>c. c \<noteq> newline \<and> c \<noteq> carriage_return) (filter (\<lambda>c. \<not> is_blank c) (text_lines ls')) = concat ls'"
    using plain unfolding ls by (induction ls') (simp_all add: text_lines_def newline_def is_blank_def)
  with plain [of m] that [of "text_lines ls' @ m"] show ?thesis by (simp add: ls text_lines_def)
qed

lemma pem_body_lines:
  fixes label :: string
  assumes ls: "base64_lines ls" and bs: "base64_quanta (concat ls) = Some bs"
  defines "body \<equiv> text_lines ls @ pem_end @ label @ dashes @ [newline]"
  shows "skip_headers False body = Some (False, body)"
    and "pem_body label False body = Some \<lparr>block_Type = label, block_Bytes = bs\<rparr>"
proof -
  obtain m ms where m: "ls = m # ms" "m \<noteq> []" "base64_text m" using ls by (cases ls) (auto simp: base64_lines_def)
  have line: "getLine body = (m, text_lines ms @ pem_end @ label @ dashes @ [newline])"
    using getLine_base64 [OF m(3)] by (simp add: body_def m(1) text_lines_def)
  show "skip_headers False body = Some (False, body)"
    by (rule skip_no_headers) (use base64_text_chars(4) [OF m(3)] in \<open>simp_all add: line, simp add: body_def pem_end_def\<close>)
  obtain l where l: "text_lines ls = l @ [newline]" "CHR ''-'' \<notin> set l"
    "filter (\<lambda>c. c \<noteq> newline \<and> c \<noteq> carriage_return) (filter (\<lambda>c. \<not> is_blank c) l) = concat ls"
    using text_lines_butlast [OF ls] by blast
  have cut: "bytes_Cut (newline # pem_end) body = Some (l, label @ dashes @ [newline])"
    using bytes_Cut_pem_end [OF l(2)] by (simp add: body_def l(1))
  have "hd body = hd m" using m(2) by (simp add: body_def m(1) text_lines_def)
  moreover have "hd m \<noteq> CHR ''-''" using base64_text_chars(3) [OF m(3)] m(2) hd_in_set by metis
  ultimately have no_end: "\<not> prefix pem_end body" by (auto simp: pem_end_def prefix_def)
  show "pem_body label False body = Some \<lparr>block_Type = label, block_Bytes = bs\<rparr>"
  proof (rule pem_trailer)
    show "base64_Decode (filter (\<lambda>c. \<not> is_blank c) l) = Some bs" by (simp only: base64_Decode_def l(3) bs)
  qed (simp add: no_end cut)
qed

text \<open>A block between its begin and its end line, at the start of the text or on a line of its own.\<close>

lemma pem_start_begin:
  "pem_start (pem_begin @ s) = Some s" "pem_start (newline # pem_begin @ s) = Some s"
  by (simp_all add: pem_start_def pem_begin_def newline_def)

lemma pem_Decode_block:
  assumes start: "pem_start s = Some (label @ dashes @ newline # body)" and label: "newline \<notin> set label"
    and "skip_headers False body = Some (False, body)"
    and "pem_body label False body = Some \<lparr>block_Type = label, block_Bytes = bs\<rparr>"
  shows "pem_Decode s = Some \<lparr>block_Type = label, block_Bytes = bs\<rparr>"
  using assms by (simp add: pem_Decode.simps [of s] getLine_dashes [OF label] suffix_def)

lemma pem_Decode_EncodeToMemory:
  assumes label: "newline \<notin> set label" and colon: "bs = [] \<Longrightarrow> CHR '':'' \<notin> set label"
  shows "pem_Decode (pem_EncodeToMemory label bs) = Some \<lparr>block_Type = label, block_Bytes = bs\<rparr>"
proof -
  let ?e = "base64_EncodeToString bs" and ?trailer = "pem_end @ label @ dashes @ [newline]"
  have start: "pem_start (pem_EncodeToMemory label bs) = Some (label @ dashes @ newline # pem_lines ?e @ ?trailer)"
    by (simp add: pem_EncodeToMemory_def pem_start_begin)
  show ?thesis
  proof (cases "bs = []")
    case True
    then have e: "pem_lines ?e @ ?trailer = (pem_end @ label) @ dashes @ [newline]" by (simp add: pem_lines.simps [of "[]"])
    have "getLine (pem_lines ?e @ ?trailer) = ((pem_end @ label) @ dashes, [])"
      unfolding e using label by (intro getLine_dashes) (simp add: pem_end_def newline_def)
    then have "skip_headers False (pem_lines ?e @ ?trailer) = Some (False, pem_lines ?e @ ?trailer)"
      using True colon by (intro skip_no_headers) (simp_all add: pem_end_def dashes_def)
    moreover have "pem_body label False (pem_lines ?e @ ?trailer) = Some \<lparr>block_Type = label, block_Bytes = bs\<rparr>"
      unfolding e by (rule pem_trailer [of "[]"]) (simp_all add: base64_Decode_def True)
    ultimately show ?thesis by (rule pem_Decode_block [OF start label])
  next
    case False
    then have "?e \<noteq> []" by (cases bs rule: base64_EncodeToString.cases) (auto simp: Let_def)
    then obtain ls where "pem_lines ?e = text_lines ls" "concat ls = ?e" "base64_lines ls"
      using pem_lines_text base64_text_Encode by blast
    with pem_body_lines [of ls bs label] pem_Decode_block [OF start label] show ?thesis
      by (simp add: base64_quanta_Encode)
  qed
qed

text \<open>
  A PEM text written out in lines. Four characters of the alphabet at a time decode, and so
  does a last quantum with padding.
\<close>

lemma pem_Decode_text:
  assumes "newline \<notin> set label" and "base64_lines ls" and "base64_quanta (concat ls) = Some bs"
  shows "pem_Decode (newline # pem_begin @ label @ dashes @ newline # text_lines ls @ pem_end @ label @ dashes @ [newline]) =
     Some \<lparr>block_Type = label, block_Bytes = bs\<rparr>"
  by (rule pem_Decode_block [OF pem_start_begin(2) assms(1)]) (use pem_body_lines [OF assms(2,3)] in simp_all)

fun base64_quads :: "string \<Rightarrow> bool" where
  "base64_quads (a # b # c # d # s) \<longleftrightarrow>
     b64_value a \<noteq> None \<and> b64_value b \<noteq> None \<and> b64_value c \<noteq> None \<and> b64_value d \<noteq> None \<and> base64_quads s"
| "base64_quads s \<longleftrightarrow> s = []"

definition base64_line :: "string \<Rightarrow> bool" where
  "base64_line l \<longleftrightarrow> l \<noteq> [] \<and> base64_quads l"

lemma b64_value_text: "b64_value c \<noteq> None \<Longrightarrow> base64_text [c]"
  by (auto simp: base64_text_def b64_value_def Let_def split: if_splits)

lemma base64_line_text: "base64_line l \<Longrightarrow> l \<noteq> [] \<and> base64_text l"
proof -
  have "base64_quads l \<Longrightarrow> base64_text l"
  proof (induction l rule: base64_quads.induct)
    case (1 a b c d s)
    then have "base64_text ([a] @ [b] @ [c] @ [d] @ s)"
      unfolding base64_text_append by (simp add: b64_value_text)
    then show ?case by simp
  qed (simp_all add: base64_text_def)
  then show "base64_line l \<Longrightarrow> l \<noteq> [] \<and> base64_text l" by (simp add: base64_line_def)
qed

lemma base64_quanta_line:
  "base64_quads l \<Longrightarrow> base64_quanta r = Some bs \<Longrightarrow> \<exists>bs'. base64_quanta (l @ r) = Some (bs' @ bs)"
proof (induction l rule: base64_quads.induct)
  case (1 a b c d s)
  have pad: "b64_value b64_pad = None" by (simp add: b64_value_def b64_pad_def)
  from 1(2) obtain p q t u where vals: "b64_value a = Some p" "b64_value b = Some q" "b64_value c = Some t"
    "b64_value d = Some u" by auto
  then have "c \<noteq> b64_pad" "d \<noteq> b64_pad" using pad by auto
  moreover obtain bs' where "base64_quanta (s @ r) = Some (bs' @ bs)" using 1 by auto
  ultimately show ?case using vals by simp
qed simp_all

lemma base64_quanta_lines:
  "list_all base64_line ls \<Longrightarrow> base64_quanta r = Some bs \<Longrightarrow> \<exists>bs'. base64_quanta (concat ls @ r) = Some (bs' @ bs)"
proof (induction ls)
  case (Cons l ls)
  then obtain bs' where "base64_quanta (concat ls @ r) = Some (bs' @ bs)" by auto
  with Cons(2) base64_quanta_line [of l "concat ls @ r" "bs' @ bs"] show ?case
    by (auto simp: base64_line_def)
qed simp


end
