(* ===== verification/Postgresql.thy ===== *)
theory Postgresql
  imports Db_Interface Pg_Utils Pg_Config Go_Encoding
begin

text \<open>
  \<^verbatim>\<open>src/pkg/database/postgresql/postgresql.go\<close>: the statements the operator sends to
  PostgreSQL, the per-database connections for privileges inside a database, and the
  client certificates it issues.
\<close>

section \<open>The cryptographic library\<close>

text \<open>
  X.509 and RSA stay a parameter. A call that reads the clock or a random source
  takes the number of that read.
\<close>

record CertTemplate =
  tmpl_SerialNumber :: int
  tmpl_CommonName :: string
  tmpl_NotBefore :: int
  tmpl_NotAfter :: int

record Crypto =
  x509_ParsePKCS1PrivateKey :: "string \<Rightarrow> error + string"
  x509_MarshalPKCS1PrivateKey :: "string \<Rightarrow> string"
  x509_ParseCertificate :: "string \<Rightarrow> error + string"
  x509_CreateCertificate :: "nat \<Rightarrow> CertTemplate \<Rightarrow> string \<Rightarrow> string \<Rightarrow> string \<Rightarrow> error + string"
  rsa_GenerateKey :: "nat \<Rightarrow> int \<Rightarrow> error + string"
  rsa_PublicKey :: "string \<Rightarrow> string"
  rand_Int63 :: "nat \<Rightarrow> int"
  time_Now :: "nat \<Rightarrow> int"
  time_AddDate :: "int \<Rightarrow> int \<Rightarrow> int \<Rightarrow> int \<Rightarrow> int"

section \<open>Statements\<close>

definition createUserQuery :: "string \<Rightarrow> string \<Rightarrow> string \<times> LogInfo" where
  "createUserQuery username password =
     (let logInfo = EnableLogger;
          stmt = ''CREATE USER '' @ escapeLiteral username
      in if password \<noteq> [] then (stmt @ '' WITH PASSWORD '' @ escapeString password, DisableLogger)
         else (stmt, logInfo))"

definition deleteUserQuery :: "string \<Rightarrow> string" where
  "deleteUserQuery username = ''DROP USER '' @ escapeLiteral username"

definition pg_prepareStatementForPrivilege ::
  "string \<Rightarrow> string \<Rightarrow> string \<Rightarrow> string \<Rightarrow> string \<Rightarrow> PrivilegeType \<Rightarrow> string" where
  "pg_prepareStatementForPrivilege statement arg username dbname on privilege =
     statement @ '' '' @ escapeLiteralWithoutQuotes privilege @
     (if on \<noteq> [] then '' ON '' @ escapeLiteral on
      else if dbname \<noteq> [] then '' ON DATABASE '' @ escapeLiteral dbname
      else []) @
     '' '' @ arg @ '' '' @ escapeLiteral username"

section \<open>The driver\<close>

record 'c Postgresql =
  pg_db :: 'c
  pg_config :: Config

definition NewPostgresql :: "'c \<Rightarrow> Config \<Rightarrow> 'c Postgresql" where
  "NewPostgresql c config = \<lparr>pg_db = c, pg_config = config\<rparr>"

text \<open>\<^verbatim>\<open>Connect\<close> assigns fields of the configuration: the driver comes back updated.\<close>

definition Postgresql_Connect ::
  "('c, ('k, 'd) World) Connection \<Rightarrow> 'c Postgresql \<Rightarrow> (('k, 'd) World, 'c Postgresql \<times> error option) go" where
  "Postgresql_Connect C p =
     go_bind (Config_ConnString (pg_config p)) (\<lambda>(config, res).
       let p = p\<lparr>pg_config := config\<rparr> in
       case res of
         Inl err \<Rightarrow> go_return (p, Some err)
       | Inr connString \<Rightarrow>
           go_bind (Connection_Connect C (pg_db p) ''pgx'' connString) (\<lambda>err. go_return (p, err)))"

definition Postgresql_Close ::
  "('c, ('k, 'd) World) Connection \<Rightarrow> 'c Postgresql \<Rightarrow> (('k, 'd) World, error option) go" where
  "Postgresql_Close C p = go_bind (Config_Close (pg_config p)) (\<lambda>_. Connection_Close C (pg_db p))"

text \<open>The result is the certificate bundle or an error; a text that is no PEM panics.\<close>

definition genPostgresCertFromCA ::
  "Crypto \<Rightarrow> Config \<Rightarrow> string \<Rightarrow> (('k, 'd) World, error + StrMap) go" where
  "genPostgresCertFromCA K config userName =
     (case pem_Decode (SSLCAKey config) of None \<Rightarrow> go_panic | Some caKeyBlock \<Rightarrow>
     (case x509_ParsePKCS1PrivateKey K (block_Bytes caKeyBlock) of Inl err \<Rightarrow> go_return (Inl err) | Inr caPrivKey \<Rightarrow>
     (case pem_Decode (SSLCACert config) of None \<Rightarrow> go_panic | Some caCertBlock \<Rightarrow>
     (case x509_ParseCertificate K (block_Bytes caCertBlock) of Inl err \<Rightarrow> go_return (Inl err) | Inr caCert \<Rightarrow>
     go_bind draw (\<lambda>n1. go_bind draw (\<lambda>n2. go_bind draw (\<lambda>n3.
     let cert = \<lparr>tmpl_SerialNumber = rand_Int63 K n1, tmpl_CommonName = userName,
                 tmpl_NotBefore = time_Now K n2,
                 tmpl_NotAfter = time_AddDate K (time_Now K n3) 1 0 0\<rparr>
     in
     go_bind draw (\<lambda>n4.
     case rsa_GenerateKey K n4 4096 of Inl err \<Rightarrow> go_return (Inl err) | Inr privKey \<Rightarrow>
     go_bind draw (\<lambda>n5.
     case x509_CreateCertificate K n5 cert caCert (rsa_PublicKey K privKey) caPrivKey of
       Inl err \<Rightarrow> go_return (Inl err)
     | Inr certBytes \<Rightarrow>
         let certPEM = pem_EncodeToMemory ''CERTIFICATE'' certBytes;
             privKeyPEM = pem_EncodeToMemory ''RSA PRIVATE KEY'' (x509_MarshalPKCS1PrivateKey K privKey)
         in go_return (Inr [(''tls.crt'', certPEM), (''tls.key'', privKeyPEM),
              (''ca.crt'', SSLCACert config)]))))))))))"

definition Postgresql_CreateUser ::
  "('c, ('k, 'd) World) Connection \<Rightarrow> Crypto \<Rightarrow> 'c Postgresql \<Rightarrow> string \<Rightarrow> string \<Rightarrow>
     (('k, 'd) World, StrMap \<times> error option) go" where
  "Postgresql_CreateUser C K p username password =
     (case createUserQuery username password of (query, logInfo) \<Rightarrow>
      go_bind (Connection_Exec C (pg_db p) logInfo query []) (\<lambda>err.
        if Config_CreateCerts (pg_config p) \<and> \<not> isAlreadyExists err
        then go_bind (genPostgresCertFromCA K (pg_config p) username) (\<lambda>res.
               case res of
                 Inl err' \<Rightarrow> go_return ([], Some err')
               | Inr sslCertificates \<Rightarrow> go_return (sslCertificates, ignoreAlreadyExists err))
        else go_return ([], ignoreAlreadyExists err)))"

definition Postgresql_DeleteUser ::
  "('c, ('k, 'd) World) Connection \<Rightarrow> 'c Postgresql \<Rightarrow> string \<Rightarrow> (('k, 'd) World, error option) go" where
  "Postgresql_DeleteUser C p username =
     go_bind (Connection_Exec C (pg_db p) EnableLogger (deleteUserQuery username) [])
       (\<lambda>err. go_return (ignoreNotExists err))"

definition Postgresql_inDatabasePrivilege ::
  "('c, ('k, 'd) World) Connection \<Rightarrow> 'c Postgresql \<Rightarrow> string \<Rightarrow> string \<Rightarrow> string \<Rightarrow> PrivilegeType \<Rightarrow>
     string \<Rightarrow> string \<Rightarrow> (('k, 'd) World, error option) go" where
  "Postgresql_inDatabasePrivilege C p username dbname on privilege statement arg =
     (let newconf = (Config_Copy (pg_config p))\<lparr>DatabaseName := dbname\<rparr> in
      go_bind (Connection_Copy C (pg_db p)) (\<lambda>conn.
      go_bind (Postgresql_Connect C (NewPostgresql conn newconf)) (\<lambda>(newP, err).
      case err of
        Some e \<Rightarrow> go_return (Some e)
      | None \<Rightarrow>
          go_defer (Postgresql_Close C newP)
            (let query = pg_prepareStatementForPrivilege statement arg username dbname on privilege
             in Connection_Exec C (pg_db newP) EnableLogger query []))))"

definition Postgresql_databasePrivilege ::
  "('c, ('k, 'd) World) Connection \<Rightarrow> 'c Postgresql \<Rightarrow> string \<Rightarrow> string \<Rightarrow> PrivilegeType \<Rightarrow>
     string \<Rightarrow> string \<Rightarrow> (('k, 'd) World, error option) go" where
  "Postgresql_databasePrivilege C p username dbname privilege statement arg =
     Connection_Exec C (pg_db p) EnableLogger
       (pg_prepareStatementForPrivilege statement arg username dbname [] privilege) []"

definition Postgresql_privilege ::
  "('c, ('k, 'd) World) Connection \<Rightarrow> 'c Postgresql \<Rightarrow> string \<Rightarrow> PrivilegeType \<Rightarrow>
     string \<Rightarrow> string \<Rightarrow> (('k, 'd) World, error option) go" where
  "Postgresql_privilege C p username privilege statement arg =
     Connection_Exec C (pg_db p) EnableLogger
       (pg_prepareStatementForPrivilege statement arg username [] [] privilege) []"

definition errPrivilegeType :: error where
  "errPrivilegeType = ErrorString ''can't use this type of privilege''"

text \<open>The body of the loop: the first case that applies.\<close>

definition Postgresql_processPrivilege ::
  "('c, ('k, 'd) World) Connection \<Rightarrow> 'c Postgresql \<Rightarrow> string \<Rightarrow> string \<Rightarrow> string \<Rightarrow>
     PrivilegeSpec \<Rightarrow> (('k, 'd) World, error option) go" where
  "Postgresql_processPrivilege C p username statement arg privilege =
     (if Database privilege \<noteq> [] \<and> On privilege \<noteq> [] \<and> Privilege privilege \<noteq> [] then
        Postgresql_inDatabasePrivilege C p username (Database privilege) (On privilege)
          (Privilege privilege) statement arg
      else if Database privilege \<noteq> [] \<and> Privilege privilege \<noteq> [] then
        Postgresql_databasePrivilege C p username (Database privilege) (Privilege privilege) statement arg
      else if Privilege privilege \<noteq> [] then
        Postgresql_privilege C p username (Privilege privilege) statement arg
      else go_return (Some errPrivilegeType))"

definition Postgresql_privilegesProcessor ::
  "('c, ('k, 'd) World) Connection \<Rightarrow> 'c Postgresql \<Rightarrow> string \<Rightarrow> PrivilegeSpec list \<Rightarrow> string \<Rightarrow> string \<Rightarrow>
     (('k, 'd) World, error option) go" where
  "Postgresql_privilegesProcessor C p username privileges statement arg =
     go_for (Postgresql_processPrivilege C p username statement arg) privileges"

definition Postgresql_ApplyPrivileges ::
  "('c, ('k, 'd) World) Connection \<Rightarrow> 'c Postgresql \<Rightarrow> string \<Rightarrow> PrivilegeSpec list \<Rightarrow>
     (('k, 'd) World, error option) go" where
  "Postgresql_ApplyPrivileges C p username privileges =
     Postgresql_privilegesProcessor C p username privileges ''GRANT'' ''TO''"

definition Postgresql_RevokePrivileges ::
  "('c, ('k, 'd) World) Connection \<Rightarrow> 'c Postgresql \<Rightarrow> string \<Rightarrow> PrivilegeSpec list \<Rightarrow>
     (('k, 'd) World, error option) go" where
  "Postgresql_RevokePrivileges C p username privileges =
     go_bind (Postgresql_privilegesProcessor C p username privileges ''REVOKE'' ''FROM'')
       (\<lambda>err. go_return (ignoreNotExists err))"

section \<open>The statements mean what they should\<close>

text \<open>Key words: letters up to a blank or the end.\<close>

lemma letters [simp]:
  "letter CHR ''A''" "letter CHR ''B''" "letter CHR ''C''" "letter CHR ''D''" "letter CHR ''E''"
  "letter CHR ''H''" "letter CHR ''I''" "letter CHR ''N''" "letter CHR ''O''" "letter CHR ''P''"
  "letter CHR ''R''" "letter CHR ''S''" "letter CHR ''T''" "letter CHR ''U''" "letter CHR ''W''"
  "letter CHR ''F''" "letter CHR ''G''" "letter CHR ''K''" "letter CHR ''M''" "letter CHR ''V''"
  by (simp_all add: letter_def)

lemma blank_space [simp]: "blank CHR '' ''"
  by (simp add: blank_def)

lemma lex_keyword:
  "w \<noteq> [] \<Longrightarrow> \<forall>x \<in> set w. letter x \<Longrightarrow> lex_sql (w @ CHR '' '' # s) = map_option ((#) (TWord w)) (lex_sql s)"
  using lex_sql_word [of "hd w" "tl w" "CHR '' ''" s] by (cases w) auto

text \<open>
  \<^bold>\<open>C11\<close> The account statement cannot be broken out of: for every user name and password
  the text of \<^verbatim>\<open>createUserQuery\<close> lexes as the key words, the parts of the name as quoted
  identifiers, and, exactly when a password is given, the password as one string constant
  with the password itself as its value. And the statement is kept out of the log exactly
  when it carries a password.
\<close>

theorem createUserQuery_lexes:
  "lex_sql (fst (createUserQuery u pw)) =
     Some ([TWord ''CREATE'', TWord ''USER''] @ identifier_tokens u @
       (if pw = [] then [] else [TWord ''WITH'', TWord ''PASSWORD'', TString pw])) \<and>
   (snd (createUserQuery u pw) = DisableLogger \<longleftrightarrow> pw \<noteq> [])"
proof -
  have create: "lex_sql (''CREATE USER '' @ s) =
      map_option (\<lambda>ts. [TWord ''CREATE'', TWord ''USER''] @ ts) (lex_sql s)" for s
    using lex_keyword [of "''CREATE''" "''USER '' @ s"] lex_keyword [of "''USER''" s]
    by (simp add: option.map_comp comp_def)
  have pwd: "lex_sql ('' WITH PASSWORD '' @ s) =
      map_option (\<lambda>ts. [TWord ''WITH'', TWord ''PASSWORD''] @ ts) (lex_sql s)" for s
    using lex_keyword [of "''WITH''" "''PASSWORD '' @ s"] lex_keyword [of "''PASSWORD''" s]
    by (simp add: option.map_comp comp_def)
  have name: "lex_sql (escapeLiteral u) = Some (identifier_tokens u)"
    using lex_sql_escapeLiteral [of "[]" u] by simp
  have "lex_sql (escapeLiteral u @ '' WITH PASSWORD '' @ escapeString pw) =
      Some (identifier_tokens u @ [TWord ''WITH'', TWord ''PASSWORD'', TString pw])"
    using lex_sql_escapeLiteral [of "'' WITH PASSWORD '' @ escapeString pw" u]
      pwd [of "escapeString pw"] lex_sql_escapeString [of "[]" pw] by simp
  with name create show ?thesis
    by (simp add: createUserQuery_def EnableLogger_def DisableLogger_def)
qed

lemma deleteUserQuery_lexes:
  "lex_sql (deleteUserQuery u) = Some ([TWord ''DROP'', TWord ''USER''] @ identifier_tokens u)"
  using lex_keyword [of "''DROP''" "''USER '' @ escapeLiteral u"] lex_keyword [of "''USER''" "escapeLiteral u"]
    lex_sql_escapeLiteral [of "[]" u]
  by (simp add: deleteUserQuery_def)

text \<open>
  \<^bold>\<open>C12\<close> A privilege statement is one statement with the parts where they belong: if the
  privilege of the \<^verbatim>\<open>Privileges\<close> resource, after \<^verbatim>\<open>escapeLiteralWithoutQuotes\<close>, is a
  sequence of tokens at all, then the composed text is the verb, those tokens, the object
  as quoted identifiers (after \<^verbatim>\<open>ON\<close> for a table, after \<^verbatim>\<open>ON DATABASE\<close> for a database),
  the preposition and the user name as quoted identifiers, and no token of the whole
  text is a semicolon.
\<close>

theorem pg_privilege_statement_lexes:
  assumes "(statement, arg) \<in> {(''GRANT'', ''TO''), (''REVOKE'', ''FROM'')}"
    and "lex_sql (escapeLiteralWithoutQuotes priv) = Some pts"
  shows "\<exists>ts. lex_sql (pg_prepareStatementForPrivilege statement arg u db on priv) = Some ts \<and>
      ts = [TWord statement] @ pts @
        (if on \<noteq> [] then [TWord ''ON''] @ identifier_tokens on
         else if db \<noteq> [] then [TWord ''ON'', TWord ''DATABASE''] @ identifier_tokens db else []) @
        [TWord arg] @ identifier_tokens u \<and>
      TPunct (CHR '';'') \<notin> set ts"
proof -
  let ?obj = "if on \<noteq> [] then '' ON '' @ escapeLiteral on
    else if db \<noteq> [] then '' ON DATABASE '' @ escapeLiteral db else []"
  let ?objts = "if on \<noteq> [] then [TWord ''ON''] @ identifier_tokens on
         else if db \<noteq> [] then [TWord ''ON'', TWord ''DATABASE''] @ identifier_tokens db else []"
  let ?tail = "arg @ CHR '' '' # escapeLiteral u"
  have words: "arg \<noteq> []" "\<forall>x \<in> set arg. letter x" "statement \<noteq> []" "\<forall>x \<in> set statement. letter x"
    using assms(1) by auto
  have tail: "lex_sql ?tail = Some (TWord arg # identifier_tokens u)"
    using lex_keyword [OF words(1,2), of "escapeLiteral u"] lex_sql_escapeLiteral [of "[]" u] by simp
  have obj: "lex_sql (escapeLiteralWithoutQuotes priv @ ?obj @ CHR '' '' # ?tail) =
      Some (pts @ ?objts @ TWord arg # identifier_tokens u)"
    using lex_sql_append_blank [OF assms(2), of "CHR '' ''"] tail
      lex_keyword [of "''ON''"] lex_keyword [of "''DATABASE''"]
      lex_sql_escapeLiteral [of "CHR '' '' # ?tail"]
    by simp
  have "pg_prepareStatementForPrivilege statement arg u db on priv =
      statement @ CHR '' '' # escapeLiteralWithoutQuotes priv @ ?obj @ CHR '' '' # ?tail"
    by (simp add: pg_prepareStatementForPrivilege_def)
  then have lex: "lex_sql (pg_prepareStatementForPrivilege statement arg u db on priv) =
      Some ([TWord statement] @ pts @ ?objts @ [TWord arg] @ identifier_tokens u)"
    using lex_keyword [OF words(3,4)] obj by simp
  have "CHR '';'' \<notin> set (escapeLiteralWithoutQuotes priv)"
    using set_strings_ReplaceAll [of "filter (\<lambda>c. c \<noteq> nul \<and> c \<noteq> CHR '';'') priv" dquote "[dquote, dquote]"]
    by (auto simp: escapeLiteralWithoutQuotes_form dquote_def)
  then have "TPunct (CHR '';'') \<notin> set pts"
    using lex_sql_punct_in [OF assms(2)] by blast
  with lex show ?thesis
    using identifier_tokens_punct [of "CHR '';''"] by auto
qed

text \<open>Witness: granting a table privilege on a table of a database.\<close>

theorem pg_privilege_statement_lexes_witness:
  "\<exists>ts. lex_sql (pg_prepareStatementForPrivilege ''GRANT'' ''TO'' ''john'' ''shop'' ''orders'' ''SELECT'') = Some ts \<and>
      TPunct (CHR '';'') \<notin> set ts"
proof -
  have "lex_sql (escapeLiteralWithoutQuotes ''SELECT'') = Some [TWord ''SELECT'']"
    by (simp add: escapeLiteralWithoutQuotes_form lex_sql.simps nul_def dquote_def squote_def blank_def
        letter_def gives_up_def)
  from pg_privilege_statement_lexes [OF _ this, of "''GRANT''" "''TO''" "''john''" "''shop''" "''orders''"]
  show ?thesis by auto
qed

section \<open>Invariants of the driver\<close>

lemma preserves_ConnString:
  assumes "\<And>w fs. I w \<Longrightarrow> I (w\<lparr>filesystem := fs\<rparr>)"
  shows "preserves I (Config_ConnString c)"
  unfolding preserves_def
proof (intro allI impI)
  fix w :: "('a, 'b) World"
  assume "I w"
  obtain r w' where cs: "Config_ConnString c w = (r, w')" by fastforce
  then obtain fs where "w' = w\<lparr>filesystem := fs\<rparr>" by (rule Config_ConnString_frame)
  with assms \<open>I w\<close> cs show "I (snd (Config_ConnString c w))" by simp
qed

lemma returns_ConnString [inv_intros]: "returns I (Config_ConnString c)"
  unfolding returns_def
proof (intro allI impI)
  fix w :: "('a, 'b) World"
  obtain r w' where cs: "Config_ConnString c w = (r, w')" by fastforce
  then obtain c' res where "r = Returned (c', res)" by (rule Config_ConnString_frame)
  with cs show "fst (Config_ConnString c w) \<noteq> Panicked" by simp
qed

lemma preserves_Config_Close:
  "(\<And>w fs. I w \<Longrightarrow> I (w\<lparr>filesystem := fs\<rparr>)) \<Longrightarrow> preserves I (Config_Close c)"
  by (simp add: preserves_def Config_Close_apply)

lemma returns_Config_Close [inv_intros]: "returns I (Config_Close c)"
  by (simp add: returns_def Config_Close_apply)

lemma preserves_draw: "(\<And>w n. I w \<Longrightarrow> I (w\<lparr>draws := n\<rparr>)) \<Longrightarrow> preserves I draw"
  by (simp add: preserves_def draw_apply)

lemma preserves_gen:
  assumes "\<And>w n. I w \<Longrightarrow> I (w\<lparr>draws := n\<rparr>)"
  shows "preserves I (genPostgresCertFromCA K c u)"
  using preserves_draw [of I, OF assms]
  by (auto simp: genPostgresCertFromCA_def Let_def intro!: inv_intros split: option.split sum.split)

definition certs_decode :: "Config \<Rightarrow> bool" where
  "certs_decode c \<longleftrightarrow>
     (createCertificates c \<longrightarrow> pem_Decode (SSLCAKey c) \<noteq> None \<and> pem_Decode (SSLCACert c) \<noteq> None)"

lemma returns_gen:
  assumes "pem_Decode (SSLCAKey c) \<noteq> None" and "pem_Decode (SSLCACert c) \<noteq> None"
  shows "returns (\<lambda>_. True) (genPostgresCertFromCA K c u)"
  using assms
  by (auto simp: genPostgresCertFromCA_def Let_def intro!: inv_intros preserves_draw
      split: option.split sum.split)

lemma preserves_Postgresql_Connect:
  assumes "\<And>c drv cs. preserves I (Connection_Connect C c drv cs)"
    and "\<And>w fs. I w \<Longrightarrow> I (w\<lparr>filesystem := fs\<rparr>)"
  shows "preserves I (Postgresql_Connect C p)"
  unfolding Postgresql_Connect_def Let_def
  by (intro inv_intros preserves_ConnString assms)
    (auto intro!: inv_intros assms split: prod.split sum.split)

text \<open>
  An invariant that the connection keeps and that does not look at the files or at the
  random source is kept by every operation of the driver.
\<close>

lemma Postgresql_preserves:
  fixes C :: "('c, ('k, 'd) World) Connection"
  assumes ops: "\<And>c. preserves I (Connection_Copy C c)" "\<And>c. preserves I (Connection_Close C c)"
      "\<And>c drv cs. preserves I (Connection_Connect C c drv cs)"
      "\<And>c l q as. preserves I (Connection_Exec C c l q as)"
    and fs: "\<And>w fs. I w \<Longrightarrow> I (w\<lparr>filesystem := fs\<rparr>)"
    and dr: "\<And>w n. I w \<Longrightarrow> I (w\<lparr>draws := n\<rparr>)"
  shows "preserves I (Postgresql_Connect C p)"
    and "preserves I (Postgresql_Close C p)"
    and "preserves I (Postgresql_CreateUser C K p u pw)"
    and "preserves I (Postgresql_DeleteUser C p u)"
    and "preserves I (Postgresql_processPrivilege C p u st arg pr)"
    and "preserves I (Postgresql_ApplyPrivileges C p u prs)"
    and "preserves I (Postgresql_RevokePrivileges C p u prs)"
proof -
  note base = ops preserves_ConnString [of I, OF fs] preserves_Config_Close [of I, OF fs]
    preserves_gen [of I, OF dr]
  show connect: "preserves I (Postgresql_Connect C p)" for p
    by (rule preserves_Postgresql_Connect) (use ops fs in auto)
  show close: "preserves I (Postgresql_Close C p)" for p
    unfolding Postgresql_Close_def by (intro inv_intros base)
  show "preserves I (Postgresql_CreateUser C K p u pw)"
    unfolding Postgresql_CreateUser_def
    by (auto intro!: inv_intros base split: prod.split sum.split)
  show "preserves I (Postgresql_DeleteUser C p u)"
    unfolding Postgresql_DeleteUser_def by (intro inv_intros base)
  show process: "preserves I (Postgresql_processPrivilege C p u st arg pr)" for st arg pr
    unfolding Postgresql_processPrivilege_def Postgresql_inDatabasePrivilege_def
      Postgresql_databasePrivilege_def Postgresql_privilege_def Let_def
    by (auto intro!: inv_intros base connect close split: prod.split option.split)
  show "preserves I (Postgresql_ApplyPrivileges C p u prs)"
    unfolding Postgresql_ApplyPrivileges_def Postgresql_privilegesProcessor_def
    by (intro inv_intros process)
  show "preserves I (Postgresql_RevokePrivileges C p u prs)"
    unfolding Postgresql_RevokePrivileges_def Postgresql_privilegesProcessor_def
    by (intro inv_intros process)
qed

section \<open>The driver over any connection that keeps its contract\<close>

definition Postgresql_Database ::
  "('c, ('k, 'd) World) Connection \<Rightarrow> Crypto \<Rightarrow> 'c Postgresql \<Rightarrow> ('k, 'd) World Database" where
  "Postgresql_Database C K p = \<lparr>
     Database_Close = Postgresql_Close C p,
     Database_CreateUser = Postgresql_CreateUser C K p,
     Database_DeleteUser = Postgresql_DeleteUser C p,
     Database_ApplyPrivileges = Postgresql_ApplyPrivileges C p,
     Database_RevokePrivileges = Postgresql_RevokePrivileges C p\<rparr>"

lemma Postgresql_Database_sel [simp]:
  "Database_Close (Postgresql_Database C K p) = Postgresql_Close C p"
  "Database_CreateUser (Postgresql_Database C K p) = Postgresql_CreateUser C K p"
  "Database_DeleteUser (Postgresql_Database C K p) = Postgresql_DeleteUser C p"
  "Database_ApplyPrivileges (Postgresql_Database C K p) = Postgresql_ApplyPrivileges C p"
  "Database_RevokePrivileges (Postgresql_Database C K p) = Postgresql_RevokePrivileges C p"
  by (simp_all add: Postgresql_Database_def)

context connection
begin

lemma conn_keeps:
  assumes "\<And>c. keeps g (Connection_Copy C c)" "\<And>c. keeps g (Connection_Close C c)"
      "\<And>c drv cs. keeps g (Connection_Connect C c drv cs)"
      "\<And>c l q as. keeps g (Connection_Exec C c l q as)"
    and "\<And>w fs. g (w\<lparr>filesystem := fs\<rparr>) = g w" "\<And>w n. g (w\<lparr>draws := n\<rparr>) = g w"
  shows "keeps g (Postgresql_Connect C p)" "keeps g (Postgresql_Close C p)"
    "keeps g (Postgresql_CreateUser C K p u pw)" "keeps g (Postgresql_DeleteUser C p u)"
    "keeps g (Postgresql_ApplyPrivileges C p u prs)" "keeps g (Postgresql_RevokePrivileges C p u prs)"
  using assms unfolding keeps_preserves by (simp_all add: Postgresql_preserves)

lemmas pg_keeps_kube = conn_keeps [of kube, OF frame_kube]
lemmas pg_keeps_events = conn_keeps [of events, OF frame_events]

lemma pg_quiet: "pw \<noteq> [] \<Longrightarrow> keeps logs (Postgresql_CreateUser C K p u pw)"
  unfolding Postgresql_CreateUser_def keeps_preserves
  by (auto simp: createUserQuery_def intro!: inv_intros preserves_gen quiet [unfolded keeps_preserves, rule_format]
      split: sum.split)

lemma pg_quiet_Close: "keeps logs (Postgresql_Close C p)"
  unfolding Postgresql_Close_def
  by (intro inv_intros quiet) (simp add: keeps_def Config_Close_apply)

lemma pg_live: "preserves (live c) (Postgresql_Connect C p)"
    "preserves (live c) (Postgresql_Close C p)"
    "preserves (live c) (Postgresql_CreateUser C K p u pw)"
    "preserves (live c) (Postgresql_DeleteUser C p u)"
    "preserves (live c) (Postgresql_processPrivilege C p u st arg pr)"
    "preserves (live c) (Postgresql_ApplyPrivileges C p u prs)"
    "preserves (live c) (Postgresql_RevokePrivileges C p u prs)"
  by (rule Postgresql_preserves; simp add: stays_live live_local)+

lemma pg_Connect_live:
  assumes "Postgresql_Connect C p w = (Returned (p', None), w')" and "valid (pg_db p) w"
  shows "live (pg_db p') w'" and "pg_db p' = pg_db p"
  using assms
  by (auto simp: Postgresql_Connect_def go_bind_def go_return_def Let_def valid_local
      elim!: Config_ConnString_frame intro!: connect_live
      split: prod.splits outcome.splits sum.splits)

lemma pg_Connect_returns: "returns (valid (pg_db p)) (Postgresql_Connect C p)"
  unfolding Postgresql_Connect_def Let_def
  by (rule returns_bind) (auto intro!: inv_intros preserves_ConnString returning stays_valid
      simp: valid_local split: prod.split sum.split)

lemma pg_inDatabasePrivilege_returns:
  "returns (valid (pg_db p)) (Postgresql_inDatabasePrivilege C p u dbn on pr st arg)"
  unfolding returns_def
proof (intro allI impI)
  fix w
  assume v: "valid (pg_db p) w"
  with returning(1) obtain conn w1 where cp: "Connection_Copy C (pg_db p) w = (Returned conn, w1)"
    by (rule returnsE)
  with v have v1: "valid conn w1" by (blast intro: copy_valid)
  let ?new = "NewPostgresql conn ((Config_Copy (pg_config p))\<lparr>DatabaseName := dbn\<rparr>)"
  have new: "pg_db ?new = conn" by (simp add: NewPostgresql_def)
  with pg_Connect_returns [of ?new] v1 obtain newP err w2
    where cn: "Postgresql_Connect C ?new w1 = (Returned (newP, err), w2)"
    by (metis returnsE surj_pair)
  show "fst (Postgresql_inDatabasePrivilege C p u dbn on pr st arg w) \<noteq> Panicked"
  proof (cases err)
    case (Some e)
    then show ?thesis
      by (simp add: Postgresql_inDatabasePrivilege_def Let_def go_simps cp cn)
  next
    case None
    with cn new v1 have l: "live (pg_db newP) w2" using pg_Connect_live(1) [of ?new w1 newP w2] by simp
    have "returns (live (pg_db newP)) (go_defer (Postgresql_Close C newP)
        (Connection_Exec C (pg_db newP) EnableLogger q []))" for q
      unfolding Postgresql_Close_def
      by (intro inv_intros returning stays_live preserves_Config_Close) (simp add: live_local)
    with l None show ?thesis
      by (simp add: Postgresql_inDatabasePrivilege_def Let_def go_simps cp cn returns_def)
  qed
qed

lemma pg_process_returns: "returns (live (pg_db p)) (Postgresql_processPrivilege C p u st arg pr)"
proof -
  have "returns (live (pg_db p)) (Postgresql_inDatabasePrivilege C p u dbn on pri st arg)" for dbn on pri
    using pg_inDatabasePrivilege_returns [of p] live_valid by (simp add: returns_def)
  then show ?thesis
    unfolding Postgresql_processPrivilege_def Postgresql_databasePrivilege_def Postgresql_privilege_def
    by (auto intro: inv_intros returning)
qed

lemma pg_returns:
  "returns (live (pg_db p)) (Postgresql_Close C p)"
  "certs_decode (pg_config p) \<Longrightarrow> returns (live (pg_db p)) (Postgresql_CreateUser C K p u pw)"
  "returns (live (pg_db p)) (Postgresql_DeleteUser C p u)"
  "returns (live (pg_db p)) (Postgresql_ApplyPrivileges C p u prs)"
  "returns (live (pg_db p)) (Postgresql_RevokePrivileges C p u prs)"
proof -
  show "returns (live (pg_db p)) (Postgresql_Close C p)"
    unfolding Postgresql_Close_def
    by (intro inv_intros returning preserves_Config_Close) (simp add: live_local)
  show "returns (live (pg_db p)) (Postgresql_CreateUser C K p u pw)" if "certs_decode (pg_config p)"
  proof -
    have "returns (live (pg_db p)) (genPostgresCertFromCA K (pg_config p) u)" if "createCertificates (pg_config p)"
      using \<open>certs_decode (pg_config p)\<close> that
      by (intro returns_mono [OF returns_gen]) (simp_all add: certs_decode_def)
    then show ?thesis
      unfolding Postgresql_CreateUser_def Config_CreateCerts_def
      by (auto intro!: inv_intros returning stays_live preserves_gen simp: live_local split: prod.split sum.split)
  qed
  show "returns (live (pg_db p)) (Postgresql_DeleteUser C p u)"
    unfolding Postgresql_DeleteUser_def by (intro inv_intros returning stays_live)
  have proc: "returns (live (pg_db p)) (Postgresql_privilegesProcessor C p u prs st arg)"
    "preserves (live (pg_db p)) (Postgresql_privilegesProcessor C p u prs st arg)" for st arg
    unfolding Postgresql_privilegesProcessor_def
    by (intro inv_intros pg_process_returns pg_live(5))+
  show "returns (live (pg_db p)) (Postgresql_ApplyPrivileges C p u prs)"
    unfolding Postgresql_ApplyPrivileges_def by (rule proc)
  show "returns (live (pg_db p)) (Postgresql_RevokePrivileges C p u prs)"
    unfolding Postgresql_RevokePrivileges_def by (intro inv_intros proc)
qed

end

sublocale connection \<subseteq> pg: database "Postgresql_Database C K p"
  "\<lambda>w. live (pg_db p) w \<and> certs_decode (pg_config p)" for K p
  by unfold_locales
    (use pg_keeps_kube pg_keeps_events pg_quiet pg_quiet_Close pg_returns pg_live in
      \<open>auto simp: live_local returns_def preserves_def\<close>)

end
