(* ===== verification/Mysql.thy ===== *)
theory Mysql
  imports Db_Interface
begin

text \<open>
  \<^verbatim>\<open>src/pkg/database/mysql\<close>: the connection configuration (\<^verbatim>\<open>config.go\<close>) and the driver
  (\<^verbatim>\<open>mysql.go\<close>), which passes names and privileges as values for placeholders.
\<close>

section \<open>config.go\<close>

datatype Userinfo = UserOnly string | UserPassword string string

record URL =
  url_Scheme :: string
  url_Host :: string
  url_User :: Userinfo
  url_Path :: string
  url_RawQuery :: string
  url_Transport :: string

record MysqlConfig =
  mysql_Host :: string
  mysql_Port :: int
  mysql_User :: string
  mysql_Password :: string
  mysql_DatabaseName :: string
  mysql_usersHostname :: string

definition mysql_NewConfig :: "string \<Rightarrow> int \<Rightarrow> string \<Rightarrow> string \<Rightarrow> string \<Rightarrow> string \<Rightarrow> MysqlConfig" where
  "mysql_NewConfig host port user pass dbname usersHostname = \<lparr>
     mysql_Host = host, mysql_Port = port, mysql_User = user, mysql_Password = pass,
     mysql_DatabaseName = dbname, mysql_usersHostname = usersHostname\<rparr>"

text \<open>
  \<^verbatim>\<open>dburl.GenMysql\<close>, which turns the URL into a data source name, is the parameter
  \<open>GenMysql\<close>.
\<close>

definition MysqlConfig_ConnString :: "(URL \<Rightarrow> error + string) \<Rightarrow> MysqlConfig \<Rightarrow> error + string" where
  "MysqlConfig_ConnString GenMysql c =
     (let userInfo = UserOnly (mysql_User c);
          userInfo = (if mysql_Password c \<noteq> [] then UserPassword (mysql_User c) (mysql_Password c) else userInfo)
      in GenMysql \<lparr>
           url_Scheme = ''mysql'',
           url_Host = mysql_Host c @ '':'' @ fmt_d (mysql_Port c),
           url_User = userInfo,
           url_Path = mysql_DatabaseName c,
           url_RawQuery = ''interpolateParams=true'',
           url_Transport = ''tcp''\<rparr>)"

definition MysqlConfig_UsersHostname :: "MysqlConfig \<Rightarrow> string" where
  "MysqlConfig_UsersHostname c =
     (if mysql_usersHostname c = [] then ''*'' else mysql_usersHostname c)"

section \<open>mysql.go\<close>

record 'c Mysql =
  my_db :: 'c
  my_config :: MysqlConfig

definition NewMysql :: "'c \<Rightarrow> MysqlConfig \<Rightarrow> 'c Mysql" where
  "NewMysql conn config = \<lparr>my_db = conn, my_config = config\<rparr>"

definition Mysql_Connect ::
  "('c, ('k, 'd) World) Connection \<Rightarrow> (URL \<Rightarrow> error + string) \<Rightarrow> 'c Mysql \<Rightarrow>
     (('k, 'd) World, error option) go" where
  "Mysql_Connect C GenMysql m =
     (case MysqlConfig_ConnString GenMysql (my_config m) of
        Inl err \<Rightarrow> go_return (Some err)
      | Inr connString \<Rightarrow> Connection_Connect C (my_db m) ''mysql'' connString)"

definition Mysql_Close ::
  "('c, ('k, 'd) World) Connection \<Rightarrow> 'c Mysql \<Rightarrow> (('k, 'd) World, error option) go" where
  "Mysql_Close C m = Connection_Close C (my_db m)"

definition Mysql_CreateUser ::
  "('c, ('k, 'd) World) Connection \<Rightarrow> 'c Mysql \<Rightarrow> string \<Rightarrow> string \<Rightarrow>
     (('k, 'd) World, StrMap \<times> error option) go" where
  "Mysql_CreateUser C m username password =
     go_bind (Connection_Exec C (my_db m) DisableLogger ''CREATE USER ?@? IDENTIFIED BY ?''
         [ArgString username, ArgString (MysqlConfig_UsersHostname (my_config m)), ArgString password])
       (\<lambda>err. go_return ([], err))"

definition Mysql_DeleteUser ::
  "('c, ('k, 'd) World) Connection \<Rightarrow> 'c Mysql \<Rightarrow> string \<Rightarrow> (('k, 'd) World, error option) go" where
  "Mysql_DeleteUser C m username =
     Connection_Exec C (my_db m) EnableLogger ''DROP USER ?@?''
       [ArgString username, ArgString (MysqlConfig_UsersHostname (my_config m))]"

definition my_prepareStatementForPrivilege ::
  "string \<Rightarrow> string \<Rightarrow> string \<Rightarrow> string \<Rightarrow> string \<Rightarrow> PrivilegeType \<Rightarrow> string \<times> Arg list" where
  "my_prepareStatementForPrivilege statement arg username dbname on privilege =
     (let stmt = statement @ '' '' @ ''?'';
          args = [ArgPrivilege privilege];
          (stmt, args) =
            (if on \<noteq> [] \<and> dbname \<noteq> [] then (stmt @ '' ON '' @ ''?.?'', args @ [ArgString dbname, ArgString on])
             else if dbname \<noteq> [] then (stmt @ '' ON '' @ ''?.*'', args @ [ArgString dbname])
             else (stmt, args));
          stmt = stmt @ '' '' @ arg @ '' ?''
      in (stmt, args @ [ArgString username]))"

definition Mysql_privilegesProcessor ::
  "('c, ('k, 'd) World) Connection \<Rightarrow> 'c Mysql \<Rightarrow> string \<Rightarrow> PrivilegeSpec list \<Rightarrow> string \<Rightarrow> string \<Rightarrow>
     (('k, 'd) World, error option) go" where
  "Mysql_privilegesProcessor C m username privileges statement arg =
     go_for (\<lambda>privilege.
       case my_prepareStatementForPrivilege statement arg username (Database privilege)
              (On privilege) (Privilege privilege) of
         (query, args) \<Rightarrow> Connection_Exec C (my_db m) EnableLogger query args) privileges"

definition Mysql_ApplyPrivileges ::
  "('c, ('k, 'd) World) Connection \<Rightarrow> 'c Mysql \<Rightarrow> string \<Rightarrow> PrivilegeSpec list \<Rightarrow>
     (('k, 'd) World, error option) go" where
  "Mysql_ApplyPrivileges C m username privileges =
     Mysql_privilegesProcessor C m username privileges ''GRANT'' ''TO''"

definition Mysql_RevokePrivileges ::
  "('c, ('k, 'd) World) Connection \<Rightarrow> 'c Mysql \<Rightarrow> string \<Rightarrow> PrivilegeSpec list \<Rightarrow>
     (('k, 'd) World, error option) go" where
  "Mysql_RevokePrivileges C m username privileges =
     Mysql_privilegesProcessor C m username privileges ''REVOKE'' ''FROM''"

definition Mysql_Database ::
  "('c, ('k, 'd) World) Connection \<Rightarrow> 'c Mysql \<Rightarrow> ('k, 'd) World Database" where
  "Mysql_Database C m = \<lparr>
     Database_Close = Mysql_Close C m,
     Database_CreateUser = Mysql_CreateUser C m,
     Database_DeleteUser = Mysql_DeleteUser C m,
     Database_ApplyPrivileges = Mysql_ApplyPrivileges C m,
     Database_RevokePrivileges = Mysql_RevokePrivileges C m\<rparr>"

section \<open>The driver as a list of statements\<close>

lemma Mysql_Database_sel [simp]:
  "Database_Close (Mysql_Database C m) = Mysql_Close C m"
  "Database_CreateUser (Mysql_Database C m) = Mysql_CreateUser C m"
  "Database_DeleteUser (Mysql_Database C m) = Mysql_DeleteUser C m"
  "Database_ApplyPrivileges (Mysql_Database C m) = Mysql_ApplyPrivileges C m"
  "Database_RevokePrivileges (Mysql_Database C m) = Mysql_RevokePrivileges C m"
  by (simp_all add: Mysql_Database_def)

text \<open>The statements of a list of privileges, in its order.\<close>

definition privilege_statements ::
  "string \<Rightarrow> string \<Rightarrow> string \<Rightarrow> PrivilegeSpec list \<Rightarrow> (string \<times> Arg list) list" where
  "privilege_statements statement arg username privileges =
     map (\<lambda>p. my_prepareStatementForPrivilege statement arg username (Database p) (On p) (Privilege p)) privileges"

lemma Mysql_privilegesProcessor_exec_all:
  "Mysql_privilegesProcessor C m u prs statement arg =
     exec_all C (my_db m) EnableLogger (privilege_statements statement arg u prs)"
  by (simp add: Mysql_privilegesProcessor_def exec_all_def privilege_statements_def go_for_map)

lemma Mysql_preserves:
  fixes C :: "('c, ('k, 'd) World) Connection"
  assumes ops: "\<And>c. preserves I (Connection_Close C c)"
      "\<And>c drv cs. preserves I (Connection_Connect C c drv cs)"
      "\<And>c l q as. preserves I (Connection_Exec C c l q as)"
  shows "preserves I (Mysql_Connect C G m)" and "preserves I (Mysql_Close C m)"
    and "preserves I (Mysql_CreateUser C m u pw)" and "preserves I (Mysql_DeleteUser C m u)"
    and "preserves I (Mysql_ApplyPrivileges C m u prs)"
    and "preserves I (Mysql_RevokePrivileges C m u prs)"
  by (auto simp: Mysql_Connect_def Mysql_Close_def Mysql_CreateUser_def Mysql_DeleteUser_def
      Mysql_ApplyPrivileges_def Mysql_RevokePrivileges_def Mysql_privilegesProcessor_def
      intro!: inv_intros ops split: sum.split prod.split)

context connection
begin

lemma my_keeps_kube:
  "keeps kube (Mysql_Connect C G m)" "keeps kube (Mysql_Close C m)"
  "keeps kube (Mysql_CreateUser C m u pw)" "keeps kube (Mysql_DeleteUser C m u)"
  "keeps kube (Mysql_ApplyPrivileges C m u prs)" "keeps kube (Mysql_RevokePrivileges C m u prs)"
  using frame_kube unfolding keeps_preserves by (simp_all add: Mysql_preserves)

lemma my_keeps_events:
  "keeps events (Mysql_Connect C G m)" "keeps events (Mysql_Close C m)"
  "keeps events (Mysql_CreateUser C m u pw)" "keeps events (Mysql_DeleteUser C m u)"
  "keeps events (Mysql_ApplyPrivileges C m u prs)" "keeps events (Mysql_RevokePrivileges C m u prs)"
  using frame_events unfolding keeps_preserves by (simp_all add: Mysql_preserves)

lemma my_quiet: "keeps logs (Mysql_CreateUser C m u pw)" "keeps logs (Mysql_Close C m)"
  by (auto simp: Mysql_CreateUser_def Mysql_Close_def intro!: inv_intros quiet)

lemma my_live: "preserves (live c) (Mysql_Connect C G m)" "preserves (live c) (Mysql_Close C m)"
  "preserves (live c) (Mysql_CreateUser C m u pw)" "preserves (live c) (Mysql_DeleteUser C m u)"
  "preserves (live c) (Mysql_ApplyPrivileges C m u prs)"
  "preserves (live c) (Mysql_RevokePrivileges C m u prs)"
  by (rule Mysql_preserves; simp add: stays_live)+

lemma my_returns:
  "returns (live (my_db m)) (Mysql_Close C m)"
  "returns (live (my_db m)) (Mysql_CreateUser C m u pw)"
  "returns (live (my_db m)) (Mysql_DeleteUser C m u)"
  "returns (live (my_db m)) (Mysql_ApplyPrivileges C m u prs)"
  "returns (live (my_db m)) (Mysql_RevokePrivileges C m u prs)"
  by (auto simp: Mysql_Close_def Mysql_CreateUser_def Mysql_DeleteUser_def Mysql_ApplyPrivileges_def
      Mysql_RevokePrivileges_def Mysql_privilegesProcessor_def
      intro!: inv_intros returning stays_live split: prod.split)

lemma my_Connect_live:
  "Mysql_Connect C G m w = (Returned None, w') \<Longrightarrow> valid (my_db m) w \<Longrightarrow> live (my_db m) w'"
  by (auto simp: Mysql_Connect_def go_return_def intro: connect_live split: sum.splits)

lemma my_Connect_returns: "returns (valid (my_db m)) (Mysql_Connect C G m)"
  by (auto simp: Mysql_Connect_def intro!: inv_intros returning split: sum.split)

end

sublocale connection \<subseteq> my: database "Mysql_Database C m" "\<lambda>w. live (my_db m) w" for m
  by unfold_locales
    (use my_keeps_kube my_keeps_events my_quiet my_returns my_live in \<open>auto simp: live_local\<close>)

end
