(* ===== verification/Databases.thy ===== *)
theory Databases
  imports Kube Postgresql Mysql
begin

text \<open>
  \<^verbatim>\<open>src/pkg/database/database.go\<close> and \<^verbatim>\<open>fake.go\<close>: choosing and connecting the driver for a
  \<^verbatim>\<open>Database\<close> resource. A constructor returns the connected driver or an error; the
  object that Go returns beside an error is not used by any caller.
\<close>

definition passwordFromSecret :: "'k Client \<Rightarrow> SecretRef \<Rightarrow> (('k, 'd) World, error + string) go" where
  "passwordFromSecret E secretNN =
     (if secret_Key secretNN \<noteq> [] \<and> nn_Name (secret_Secret secretNN) \<noteq> [] \<and>
         nn_Namespace (secret_Secret secretNN) \<noteq> []
      then go_bind (utils_DecodeSecretData E (secret_Secret secretNN)) (\<lambda>res.
             case res of
               Inl err \<Rightarrow> go_return (Inl err)
             | Inr data \<Rightarrow> go_return (Inr (map_index data (secret_Key secretNN))))
      else go_return (Inr []))"

definition uses_ssl :: "PostgresSSLMode \<Rightarrow> bool" where
  "uses_ssl m \<longleftrightarrow> m = SSLModeREQUIRE \<or> m = SSLModeVERIFYCA \<or> m = SSLModeVERIFYFULL"

text \<open>The certificate data and the CA key of a configuration; nothing without TLS.\<close>

definition sslMaterial :: "'k Client \<Rightarrow> PostgreSQLConfig \<Rightarrow> (('k, 'd) World, error + StrMap \<times> string) go" where
  "sslMaterial E c =
     (if uses_ssl (pgspec_SSLMode c)
      then go_bind (utils_DecodeSecretData E (pgspec_SSLCredentialsSecret c)) (\<lambda>res.
             case res of Inl err \<Rightarrow> go_return (Inl err) | Inr sslData \<Rightarrow>
             go_bind (utils_DecodeSecretData E (secret_Secret (pgspec_SSLCAKey c))) (\<lambda>res.
             case res of Inl err \<Rightarrow> go_return (Inl err) | Inr sslCAData \<Rightarrow>
             go_return (Inr (sslData, map_index sslCAData (secret_Key (pgspec_SSLCAKey c))))))
      else go_return (Inr ([], [])))"

definition newPostgresql ::
  "('c, ('k, 'd) World) Connection \<Rightarrow> Crypto \<Rightarrow> 'k Client \<Rightarrow> 'c \<Rightarrow> PostgreSQLConfig option \<Rightarrow>
     (('k, 'd) World, error + ('k, 'd) World Database) go" where
  "newPostgresql C K E conn c =
     (case c of None \<Rightarrow> go_panic | Some c \<Rightarrow>
      go_bind (sslMaterial E c) (\<lambda>res.
      case res of Inl err \<Rightarrow> go_return (Inl err) | Inr (sslData, sslCAKey) \<Rightarrow>
      go_bind (passwordFromSecret E (pgspec_PasswordSecret c)) (\<lambda>res.
      case res of Inl err \<Rightarrow> go_return (Inl err) | Inr password \<Rightarrow>
      let cfg = NewConfig (pgspec_Host c) (pgspec_Port c) (pgspec_User c) password
                  (pgspec_DatabaseName c) (pgspec_SSLMode c) (map_index sslData ''ca.crt'')
                  (map_index sslData ''tls.crt'') (map_index sslData ''tls.key'') sslCAKey
      in go_bind (Postgresql_Connect C (NewPostgresql conn cfg)) (\<lambda>(p, err).
           case err of
             Some e \<Rightarrow> go_return (Inl e)
           | None \<Rightarrow> go_return (Inr (Postgresql_Database C K p))))))"

definition newMysql ::
  "('c, ('k, 'd) World) Connection \<Rightarrow> (URL \<Rightarrow> error + string) \<Rightarrow> 'k Client \<Rightarrow> 'c \<Rightarrow> MySQLConfig option \<Rightarrow>
     (('k, 'd) World, error + ('k, 'd) World Database) go" where
  "newMysql C GenMysql E conn c =
     (case c of None \<Rightarrow> go_panic | Some c \<Rightarrow>
      go_bind (passwordFromSecret E (myspec_PasswordSecret c)) (\<lambda>res.
      case res of Inl err \<Rightarrow> go_return (Inl err) | Inr password \<Rightarrow>
      let cfg = mysql_NewConfig (myspec_Host c) (myspec_Port c) (myspec_User c) password
                  (myspec_DatabaseName c) (myspec_UsersHostname c);
          m = NewMysql conn cfg
      in go_bind (Mysql_Connect C GenMysql m) (\<lambda>err.
           case err of
             Some e \<Rightarrow> go_return (Inl e)
           | None \<Rightarrow> go_return (Inr (Mysql_Database C m)))))"

definition newDatabase ::
  "('c, ('k, 'd) World) Connection \<Rightarrow> Crypto \<Rightarrow> (URL \<Rightarrow> error + string) \<Rightarrow> 'k Client \<Rightarrow> 'c \<Rightarrow> DatabaseSpec \<Rightarrow>
     (('k, 'd) World, error + ('k, 'd) World Database) go" where
  "newDatabase C K GenMysql E conn s =
     (if spec_Type s = PostgreSQL_type then newPostgresql C K E conn (spec_PostgreSQL s)
      else if spec_Type s = MySQL_type then newMysql C GenMysql E conn (spec_MySQL s)
      else go_return (Inl (ErrorString (''can't find supported DB type '' @ [CHR 0x27] @ spec_Type s @ [CHR 0x27]))))"

definition NewDatabase ::
  "'d Sqlx \<Rightarrow> Crypto \<Rightarrow> (URL \<Rightarrow> error + string) \<Rightarrow> 'k Client \<Rightarrow> DatabaseSpec \<Rightarrow>
     (('k, 'd) World, error + ('k, 'd) World Database) go" where
  "NewDatabase X K GenMysql E s =
     go_bind NewDefaultConnector (\<lambda>conn.
       newDatabase (DefaultConnector_Connection X) K GenMysql E conn s)"

text \<open>
  The test double: its connection can also be read and reset, and every driver it creates
  shares the one fake connection.
\<close>

record 's fakeConnection =
  conn_Connection :: "(unit, 's) Connection"
  conn_Queries :: "unit \<Rightarrow> ('s, (string \<Rightarrow> int option) option) go"
  conn_Connections :: "unit \<Rightarrow> ('s, (string \<Rightarrow> bool option) option) go"
  conn_ResetDB :: "unit \<Rightarrow> ('s, unit) go"

record 's FakeDatabase =
  Conn :: "'s fakeConnection"

definition shared_FakeDatabase :: "('k, 'd) World FakeDatabase" where
  "shared_FakeDatabase = \<lparr>Conn = \<lparr>
     conn_Connection = FakeConnection_Connection,
     conn_Queries = FakeConnection_Queries,
     conn_Connections = FakeConnection_Connections,
     conn_ResetDB = FakeConnection_ResetDB\<rparr>\<rparr>"

definition NewFakeDatabase :: "(('k, 'd) World, ('k, 'd) World FakeDatabase) go" where
  "NewFakeDatabase = go_bind NewFakeConnection (\<lambda>_. go_return shared_FakeDatabase)"

definition FakeDatabase_DatabaseCreatorFunc ::
  "('k, 'd) World FakeDatabase \<Rightarrow> Crypto \<Rightarrow> (URL \<Rightarrow> error + string) \<Rightarrow> 'k Client \<Rightarrow> DatabaseSpec \<Rightarrow>
     (('k, 'd) World, error + ('k, 'd) World Database) go" where
  "FakeDatabase_DatabaseCreatorFunc f K GenMysql E s =
     newDatabase (conn_Connection (Conn f)) K GenMysql E () s"

lemma shared_Conn [simp]: "conn_Connection (Conn shared_FakeDatabase) = FakeConnection_Connection"
  by (simp add: shared_FakeDatabase_def)

section \<open>The contract of a creator\<close>

text \<open>
  With TLS a driver issues certificates when the credentials hold a client certificate or
  key. Then the key and the certificate of the authority have to be PEM texts.
\<close>

definition decodable_tls :: "'k Client \<Rightarrow> PostgreSQLConfig \<Rightarrow> bool" where
  "decodable_tls E c \<longleftrightarrow>
     (\<forall>k k' sec ca. fst (Client_Get_Secret E (pgspec_SSLCredentialsSecret c) k) = Inr sec \<longrightarrow>
        fst (Client_Get_Secret E (secret_Secret (pgspec_SSLCAKey c)) k') = Inr ca \<longrightarrow>
        map_index (copy_data (k8ssecret_Data sec)) ''tls.crt'' \<noteq> [] \<or> map_index (copy_data (k8ssecret_Data sec)) ''tls.key'' \<noteq> [] \<longrightarrow>
        pem_Decode (map_index (copy_data (k8ssecret_Data ca)) (secret_Key (pgspec_SSLCAKey c))) \<noteq> None \<and>
        pem_Decode (map_index (copy_data (k8ssecret_Data sec)) ''ca.crt'') \<noteq> None)"

text \<open>
  A specification for which creating and using the driver cannot panic: it passes the
  validation of the API server, and if it asks for TLS, then the secrets it names decode.
\<close>

definition safe_spec :: "'k Client \<Rightarrow> DatabaseSpec \<Rightarrow> bool" where
  "safe_spec E s \<longleftrightarrow> DatabaseSpec_XValidation s \<and>
     (case spec_PostgreSQL s of None \<Rightarrow> True | Some c \<Rightarrow> uses_ssl (pgspec_SSLMode c) \<longrightarrow> decodable_tls E c)"

text \<open>
  What the controller relies on in a creator: it reads secrets and nothing else of the
  cluster, is silent, returns for a safe specification, and what it returns is a driver
  that keeps the contract of \<open>database\<close>, open in the safe case.
\<close>

locale database_creator =
  fixes E :: "'k Client"
    and create :: "DatabaseSpec \<Rightarrow> (('k, 'd) World, error + ('k, 'd) World Database) go"
  assumes creator_events: "keeps events (create s)"
    and creator_logs: "keeps logs (create s)"
    and creator_kube: "(\<And>nn k. P k \<Longrightarrow> P (snd (Client_Get_Secret E nn k))) \<Longrightarrow>
      preserves (\<lambda>w. P (kube w)) (create s)"
    and creator_returns: "safe_spec E s \<Longrightarrow> returns (\<lambda>_. True) (create s)"
    and creator_contract: "create s w = (Returned (Inr db), w') \<Longrightarrow>
      \<exists>open_db. database db open_db \<and> (safe_spec E s \<longrightarrow> open_db w')"

lemma database_types_differ [simp]: "PostgreSQL_type \<noteq> MySQL_type" "MySQL_type \<noteq> PostgreSQL_type"
  by (simp_all add: PostgreSQL_type_def MySQL_type_def)

lemma safe_spec_config:
  "safe_spec E s \<Longrightarrow> spec_Type s = PostgreSQL_type \<Longrightarrow> spec_PostgreSQL s \<noteq> None"
  "safe_spec E s \<Longrightarrow> spec_Type s = MySQL_type \<Longrightarrow> spec_MySQL s \<noteq> None"
  by (auto simp: safe_spec_def DatabaseSpec_XValidation_def)

lemmas new_defs = newDatabase_def newPostgresql_def newMysql_def sslMaterial_def
  passwordFromSecret_def utils_DecodeSecretData_def

lemma preserves_on_kube: "(\<And>w. I w \<Longrightarrow> I (w\<lparr>kube := snd (f (kube w))\<rparr>)) \<Longrightarrow> preserves I (on_kube f)"
  by (simp add: preserves_def on_kube_apply)

text \<open>
  An invariant that reading a secret and connecting keep is kept by creating a driver.
\<close>

lemma new_preserves:
  fixes C :: "('c, ('k, 'd) World) Connection"
  assumes conn: "\<And>c drv cs. preserves I (Connection_Connect C c drv cs)"
    and fs: "\<And>w fs. I w \<Longrightarrow> I (w\<lparr>filesystem := fs\<rparr>)"
    and kb: "\<And>w nn. I w \<Longrightarrow> I (w\<lparr>kube := snd (Client_Get_Secret E nn (kube w))\<rparr>)"
  shows "preserves I (sslMaterial E c)" "preserves I (passwordFromSecret E sn)"
    "preserves I (newDatabase C K G E conn s)"
proof -
  note secret = preserves_on_kube [of I "Client_Get_Secret E nn" for nn, OF kb]
  note pg = preserves_Postgresql_Connect [of I, OF conn fs]
  have my: "preserves I (Mysql_Connect C G m)" for m
    by (auto simp: Mysql_Connect_def intro!: inv_intros conn split: sum.split)
  have dec: "preserves I (utils_DecodeSecretData E nn)" for nn
    by (auto simp: utils_DecodeSecretData_def utils_Secret_def intro!: inv_intros secret split: sum.split)
  show ssl: "preserves I (sslMaterial E c)" for c
    by (auto simp: sslMaterial_def intro!: inv_intros dec split: sum.split)
  show pwd: "preserves I (passwordFromSecret E sn)" for sn
    by (auto simp: passwordFromSecret_def intro!: inv_intros dec split: sum.split)
  show "preserves I (newDatabase C K G E conn s)"
    by (auto simp: newDatabase_def newPostgresql_def newMysql_def Let_def
        intro!: inv_intros ssl pwd pg my split: sum.split option.split prod.split)
qed

lemma returns_secret_reads [inv_intros]:
  "returns I (sslMaterial E c)" "returns I (passwordFromSecret E sn)"
  by (auto simp: sslMaterial_def passwordFromSecret_def returns_def go_bind_def go_return_def
      utils_DecodeSecretData_def utils_Secret_apply split: sum.split)

lemma sslMaterial_decodes:
  assumes "sslMaterial E c w = (Returned (Inr (d, k)), w')" and "uses_ssl (pgspec_SSLMode c) \<longrightarrow> decodable_tls E c"
    and "map_index d ''tls.crt'' \<noteq> [] \<or> map_index d ''tls.key'' \<noteq> []"
  shows "pem_Decode k \<noteq> None \<and> pem_Decode (map_index d ''ca.crt'') \<noteq> None"
proof (cases "uses_ssl (pgspec_SSLMode c)")
  case True
  let ?k1 = "snd (Client_Get_Secret E (pgspec_SSLCredentialsSecret c) (kube w))"
  from True assms(1) obtain sec ca where
    "fst (Client_Get_Secret E (pgspec_SSLCredentialsSecret c) (kube w)) = Inr sec" "d = copy_data (k8ssecret_Data sec)"
    "fst (Client_Get_Secret E (secret_Secret (pgspec_SSLCAKey c)) ?k1) = Inr ca"
    "k = map_index (copy_data (k8ssecret_Data ca)) (secret_Key (pgspec_SSLCAKey c))"
    by (auto simp: sslMaterial_def utils_DecodeSecretData_def go_bind_def go_return_def utils_Secret_apply
        split: sum.splits)
  with True assms(2,3) show ?thesis unfolding decodable_tls_def by blast
next
  case False
  with assms(1,3) show ?thesis by (simp add: sslMaterial_def go_return_def map_index_def)
qed

text \<open>A driver that holds no client certificate and no key never issues one.\<close>

lemma pg_Connect_certs_decode:
  assumes "Postgresql_Connect C p w = (Returned (p', None), w')" and "\<not> createCertificates (pg_config p)"
    and "SSLUserCert (pg_config p) \<noteq> [] \<or> SSLUserKey (pg_config p) \<noteq> [] \<Longrightarrow>
      pem_Decode (SSLCAKey (pg_config p)) \<noteq> None \<and> pem_Decode (SSLCACert (pg_config p)) \<noteq> None"
  shows "certs_decode (pg_config p')"
proof -
  obtain c' cs w1 where "Config_ConnString (pg_config p) w = (Returned (c', Inr cs), w1)" "pg_config p' = c'"
    using assms(1)
    by (auto simp: Postgresql_Connect_def go_bind_def go_return_def Let_def split: prod.splits outcome.splits sum.splits)
  then show ?thesis
    using Config_ConnString_ok(1) [of "pg_config p" w c' cs w1] assms(2,3)
    by (auto simp: certs_decode_def markCreateCerts_def with_cert_paths_def split: if_splits)
qed

text \<open>What a constructor went through when it returns a driver.\<close>

lemma newPostgresql_steps:
  assumes "newPostgresql C K E conn (Some c) w = (Returned (Inr db), w')"
  obtains d k w1 pw w2 cfg p where
    "sslMaterial E c w = (Returned (Inr (d, k)), w1)"
    "passwordFromSecret E (pgspec_PasswordSecret c) w1 = (Returned (Inr pw), w2)"
    "cfg = NewConfig (pgspec_Host c) (pgspec_Port c) (pgspec_User c) pw
                  (pgspec_DatabaseName c) (pgspec_SSLMode c) (map_index d ''ca.crt'')
                  (map_index d ''tls.crt'') (map_index d ''tls.key'') k"
    "Postgresql_Connect C (NewPostgresql conn cfg) w2 = (Returned (p, None), w')"
    "db = Postgresql_Database C K p"
  using assms
  by (auto simp: newPostgresql_def go_bind_def go_return_def Let_def
      split: prod.splits outcome.splits sum.splits option.splits)

lemma NewMysql_sel: "my_db (NewMysql conn cfg) = conn" "my_config (NewMysql conn cfg) = cfg"
  by (simp_all add: NewMysql_def)

lemma newMysql_steps:
  assumes "newMysql C G E conn (Some c) w = (Returned (Inr db), w')"
  obtains pw w1 m where
    "passwordFromSecret E (myspec_PasswordSecret c) w = (Returned (Inr pw), w1)"
    "m = NewMysql conn (mysql_NewConfig (myspec_Host c) (myspec_Port c) (myspec_User c) pw
                  (myspec_DatabaseName c) (myspec_UsersHostname c))"
    "Mysql_Connect C G m w1 = (Returned None, w')"
    "db = Mysql_Database C m"
  using assms
  by (auto simp: newMysql_def go_bind_def go_return_def Let_def
      split: prod.splits outcome.splits sum.splits option.splits)

context connection
begin

lemma new_keeps:
  "keeps events (newDatabase C K G E conn s)" "keeps logs (newDatabase C K G E conn s)"
proof -
  show "keeps events (newDatabase C K G E conn s)"
    unfolding keeps_preserves
    by (intro allI new_preserves) (simp_all add: frame_events [unfolded keeps_preserves])
  show "keeps logs (newDatabase C K G E conn s)"
    unfolding keeps_preserves
    by (intro allI new_preserves) (simp_all add: quiet [unfolded keeps_preserves])
qed

lemma new_kube:
  assumes "\<And>nn k. P k \<Longrightarrow> P (snd (Client_Get_Secret E nn k))"
  shows "preserves (\<lambda>w. P (kube w)) (newDatabase C K G E conn s)"
proof (rule new_preserves)
  show "preserves (\<lambda>w. P (kube w)) (Connection_Connect C c drv cs)" for c drv cs
    using frame_kube(3) by (simp add: keeps_def preserves_def)
qed (simp_all add: assms)

lemma valid_secret_reads:
  "preserves (valid c) (sslMaterial E cfg)" "preserves (valid c) (passwordFromSecret E sn)"
  using new_preserves(1,2) [where C = C and I = "valid c", of E] by (simp_all add: stays_valid valid_local)

lemma new_returns:
  assumes "spec_Type s = PostgreSQL_type \<Longrightarrow> spec_PostgreSQL s \<noteq> None"
    and "spec_Type s = MySQL_type \<Longrightarrow> spec_MySQL s \<noteq> None"
  shows "returns (valid conn) (newDatabase C K G E conn s)"
proof -
  have pg: "returns (valid conn) (Postgresql_Connect C (NewPostgresql conn cfg))" for cfg
    using pg_Connect_returns [of "NewPostgresql conn cfg"] by (simp add: NewPostgresql_def)
  have my: "returns (valid conn) (Mysql_Connect C G (NewMysql conn cfg))" for cfg
    using my_Connect_returns [of "NewMysql conn cfg"] by (simp add: NewMysql_def)
  have pgp: "preserves (valid conn) (Postgresql_Connect C p)" for p
    by (rule preserves_Postgresql_Connect) (simp_all add: stays_valid valid_local)
  have myp: "preserves (valid conn) (Mysql_Connect C G m)" for m
    by (auto simp: Mysql_Connect_def intro!: inv_intros stays_valid split: sum.split)
  show ?thesis
    using assms
    by (auto simp: newDatabase_def newPostgresql_def newMysql_def Let_def
        intro!: inv_intros pg my pgp myp valid_secret_reads split: sum.split option.split prod.split)
qed

lemma newPostgresql_contract:
  assumes "newPostgresql C K E conn (Some c) w = (Returned (Inr db), w')" and "valid conn w"
  shows "\<exists>p. db = Postgresql_Database C K p \<and> live (pg_db p) w' \<and>
    ((uses_ssl (pgspec_SSLMode c) \<longrightarrow> decodable_tls E c) \<longrightarrow> certs_decode (pg_config p))"
proof -
  from newPostgresql_steps [OF assms(1)] obtain d k w1 pw w2 cfg p where
    ssl: "sslMaterial E c w = (Returned (Inr (d, k)), w1)" and
    pwd: "passwordFromSecret E (pgspec_PasswordSecret c) w1 = (Returned (Inr pw), w2)" and
    cfg: "cfg = NewConfig (pgspec_Host c) (pgspec_Port c) (pgspec_User c) pw
                  (pgspec_DatabaseName c) (pgspec_SSLMode c) (map_index d ''ca.crt'')
                  (map_index d ''tls.crt'') (map_index d ''tls.key'') k" and
    con: "Postgresql_Connect C (NewPostgresql conn cfg) w2 = (Returned (p, None), w')" and
    db: "db = Postgresql_Database C K p" by metis
  have "valid conn w2"
    using valid_secret_reads assms(2) ssl pwd by (blast dest: preservesD)
  then have "live (pg_db p) w'"
    using pg_Connect_live(1) [OF con] by (simp add: NewPostgresql_def)
  moreover have "certs_decode (pg_config p)" if "uses_ssl (pgspec_SSLMode c) \<longrightarrow> decodable_tls E c"
    by (rule pg_Connect_certs_decode [OF con])
      (use sslMaterial_decodes [OF ssl that] in \<open>simp_all add: NewPostgresql_def cfg NewConfig_def\<close>)
  ultimately show ?thesis using db by blast
qed

lemma newMysql_contract:
  assumes "newMysql C G E conn (Some c) w = (Returned (Inr db), w')" and "valid conn w"
  shows "\<exists>m. db = Mysql_Database C m \<and> live (my_db m) w'"
proof -
  from newMysql_steps [OF assms(1)] obtain pw w1 m where
    pwd: "passwordFromSecret E (myspec_PasswordSecret c) w = (Returned (Inr pw), w1)" and
    con: "Mysql_Connect C G m w1 = (Returned None, w')" and
    m: "my_db m = conn" "db = Mysql_Database C m"
    by (metis NewMysql_sel(1))
  have "valid (my_db m) w1"
    using valid_secret_reads assms(2) pwd m(1) by (blast dest: preservesD)
  with con m(2) show ?thesis by (blast dest: my_Connect_live)
qed

lemma new_contract:
  assumes "newDatabase C K G E conn s w = (Returned (Inr db), w')" and "valid conn w"
  shows "\<exists>open_db. database db open_db \<and> (safe_spec E s \<longrightarrow> open_db w')"
proof (cases "spec_Type s = PostgreSQL_type")
  case True
  with assms(1) obtain c where c: "spec_PostgreSQL s = Some c"
    and "newPostgresql C K E conn (Some c) w = (Returned (Inr db), w')"
    by (cases "spec_PostgreSQL s") (auto simp: newDatabase_def newPostgresql_def go_panic_def)
  with assms(2) obtain p where p: "db = Postgresql_Database C K p" "live (pg_db p) w'"
    "(uses_ssl (pgspec_SSLMode c) \<longrightarrow> decodable_tls E c) \<longrightarrow> certs_decode (pg_config p)"
    using newPostgresql_contract by blast
  show ?thesis
    by (rule exI [of _ "\<lambda>w. live (pg_db p) w \<and> certs_decode (pg_config p)"])
      (use p c in \<open>auto simp: safe_spec_def intro: pg.database_axioms\<close>)
next
  case False
  with assms(1) obtain c where "newMysql C G E conn (Some c) w = (Returned (Inr db), w')"
    by (cases "spec_MySQL s") (auto simp: newDatabase_def newMysql_def go_panic_def go_return_def split: if_splits)
  with assms(2) obtain m where "db = Mysql_Database C m" "live (my_db m) w'"
    using newMysql_contract by blast
  then show ?thesis by (blast intro: my.database_axioms)
qed

end

interpretation fake_creator: database_creator E "FakeDatabase_DatabaseCreatorFunc shared_FakeDatabase K G E" for K G E
proof unfold_locales
  fix s w db w'
  assume "FakeDatabase_DatabaseCreatorFunc shared_FakeDatabase K G E s w = (Returned (Inr db), w')"
  then show "\<exists>open_db. database db open_db \<and> (safe_spec E s \<longrightarrow> open_db w')"
    by (auto simp: FakeDatabase_DatabaseCreatorFunc_def fake_valid_def intro: fc.new_contract)
next
  fix s
  assume "safe_spec E s"
  then show "returns (\<lambda>_. True) (FakeDatabase_DatabaseCreatorFunc shared_FakeDatabase K G E s)"
    using fc.new_returns [of s "()"] safe_spec_config [of E s]
    by (simp add: FakeDatabase_DatabaseCreatorFunc_def fake_valid_def returns_def)
qed (simp_all add: FakeDatabase_DatabaseCreatorFunc_def fc.new_keeps fc.new_kube)

lemma NewDefaultConnector_apply [go_simps]:
  "NewDefaultConnector w = (Returned (length (connectors w)),
     w\<lparr>connectors := connectors w @ [\<lparr>connector_db = None\<rparr>]\<rparr>)"
  by (simp add: NewDefaultConnector_def)

lemma NewDatabase_apply:
  "\<exists>d w1. NewDatabase X K G E s w = newDatabase (DefaultConnector_Connection X) K G E d s w1 \<and>
     connector_valid d w1 \<and> w1 = w\<lparr>connectors := connectors w1\<rparr>"
  by (rule exI [of _ "length (connectors w)"],
      rule exI [of _ "w\<lparr>connectors := connectors w @ [\<lparr>connector_db = None\<rparr>]\<rparr>"])
    (simp add: NewDatabase_def go_simps connector_valid_def)

lemma NewDefaultConnector_keeps [inv_intros]:
  "(\<And>w cs. g (w\<lparr>connectors := cs\<rparr>) = g w) \<Longrightarrow> keeps g NewDefaultConnector"
  by (simp add: keeps_def go_simps)

interpretation default_creator: database_creator E "NewDatabase X K G E" for X K G E
proof unfold_locales
  show "keeps events (NewDatabase X K G E s)" "keeps logs (NewDatabase X K G E s)" for s
    by (auto simp: NewDatabase_def intro!: inv_intros dc.new_keeps)
  show "preserves (\<lambda>w. P (kube w)) (NewDatabase X K G E s)"
    if "\<And>nn k. P k \<Longrightarrow> P (snd (Client_Get_Secret E nn k))" for P s
    unfolding NewDatabase_def
    by (intro preserves_bind dc.new_kube) (simp_all add: preserves_def go_simps that)
next
  fix s :: DatabaseSpec
  assume "safe_spec E s"
  then have r: "returns (connector_valid d) (newDatabase (DefaultConnector_Connection X) K G E d s)" for d
    using safe_spec_config [of E s] by (intro dc.new_returns)
  show "returns (\<lambda>_. True) (NewDatabase X K G E s)"
    unfolding returns_def
  proof (intro allI impI)
    fix w
    from NewDatabase_apply [of X K G E s w] r show "fst (NewDatabase X K G E s w) \<noteq> Panicked"
      by (auto simp: returns_def)
  qed
next
  fix s w db w'
  assume "NewDatabase X K G E s w = (Returned (Inr db), w')"
  with NewDatabase_apply [of X K G E s w] show "\<exists>open_db. database db open_db \<and> (safe_spec E s \<longrightarrow> open_db w')"
    by (auto intro: dc.new_contract)
qed

end
