(* ===== verification/User_Controller.thy ===== *)
theory User_Controller
  imports Databases
begin

text \<open>
  \<^verbatim>\<open>src/controllers/user_controller.go\<close>: the reconciler of \<^verbatim>\<open>User\<close> resources. The
  \<^verbatim>\<open>*v1alpha1.User\<close> that the methods share is threaded: a method that changes the object
  behind the pointer returns it. Log records carry their message; an error that is
  logged is appended to it.
\<close>

definition userFinalizer :: string where
  "userFinalizer = ''user.databaseusersoperator.com/finalizer''"

definition successMsg :: string where
  "successMsg = ''Successfully created user in all specified databases''"

definition ErrDatabaseConnect :: error where
  "ErrDatabaseConnect = ErrorString ''can't connect to database''"

record ('k, 'd) UserReconciler =
  r_Client :: "'k Client"
  r_DatabaseCreator :: "'k Client \<Rightarrow> DatabaseSpec \<Rightarrow> (('k, 'd) World, error + ('k, 'd) World Database) go"

section \<open>Reading the cluster\<close>

definition UserReconciler_user ::
  "('k, 'd) UserReconciler \<Rightarrow> NamespacedName \<Rightarrow> (('k, 'd) World, User option \<times> error option) go" where
  "UserReconciler_user r nn =
     go_bind (on_kube (Client_Get_User (r_Client r) nn)) (\<lambda>res.
       case res of
         Inr user \<Rightarrow> go_return (Some user, None)
       | Inl err \<Rightarrow>
           if apierrors_IsNotFound (r_Client r) err
           then go_bind (log_Info ''User resource not found. Ignoring since object must be deleted.'')
                  (\<lambda>_. go_return (None, None))
           else go_bind (log_Info (''unable to fetch User resource'' @ error_Error err))
                  (\<lambda>_. go_return (None, Some err)))"

definition UserReconciler_database ::
  "('k, 'd) UserReconciler \<Rightarrow> NamespacedName \<Rightarrow> (('k, 'd) World, error + DatabaseCR) go" where
  "UserReconciler_database r nn = on_kube (Client_Get_Database (r_Client r) nn)"

primrec privileges_loop ::
  "('k, 'd) UserReconciler \<Rightarrow> PrivilegeSpec list \<Rightarrow> Name list \<Rightarrow>
     (('k, 'd) World, error + PrivilegeSpec list) go" where
  "privileges_loop r privileges [] = go_return (Inr privileges)"
| "privileges_loop r privileges (nn # nns) =
     go_bind (on_kube (Client_Get_Privileges (r_Client r) (Name_ToNamespacedName nn))) (\<lambda>res.
       case res of
         Inl err \<Rightarrow> go_return (Inl err)
       | Inr p \<Rightarrow> privileges_loop r (privileges @ privileges_Privileges p) nns)"

definition UserReconciler_privileges ::
  "('k, 'd) UserReconciler \<Rightarrow> Name list \<Rightarrow> (('k, 'd) World, error + PrivilegeSpec list) go" where
  "UserReconciler_privileges r nns = privileges_loop r [] nns"

definition UserReconciler_userPassword ::
  "('k, 'd) UserReconciler \<Rightarrow> SecretRef \<Rightarrow> (('k, 'd) World, error + string) go" where
  "UserReconciler_userPassword r secretCfg =
     (if secret_Key secretCfg = [] \<or> nn_Name (secret_Secret secretCfg) = [] \<or>
         nn_Namespace (secret_Secret secretCfg) = []
      then go_return (Inr [])
      else go_bind (utils_DecodeSecretData (r_Client r) (secret_Secret secretCfg)) (\<lambda>res.
             case res of
               Inl err \<Rightarrow> go_return (Inl err)
             | Inr data \<Rightarrow>
                 (case map_of data (secret_Key secretCfg) of
                    None \<Rightarrow> go_return (Inl (apierrors_NewInvalid (r_Client r) ''v1.Secret''
                              (nn_Name (secret_Secret secretCfg)) (secret_Key secretCfg)))
                  | Some password \<Rightarrow> go_return (Inr password))))"

section \<open>One user in one database\<close>

definition newSecret :: "NamespacedName \<Rightarrow> StrMap \<Rightarrow> K8sSecret" where
  "newSecret nn stringData = \<lparr>
     k8ssecret_Meta = \<lparr>meta_Name = nn_Name nn, meta_Namespace = nn_Namespace nn,
       meta_ResourceVersion = [], meta_Finalizers = [], meta_DeletionTimestamp = None,
       meta_OwnerReferences = []\<rparr>,
     k8ssecret_Data = [], k8ssecret_StringData = stringData\<rparr>"

definition UserReconciler_createUserInDatabase ::
  "('k, 'd) UserReconciler \<Rightarrow> ('k, 'd) World Database \<Rightarrow> User \<Rightarrow> DatabaseRef \<Rightarrow>
     (('k, 'd) World, error option) go" where
  "UserReconciler_createUserInDatabase r db user dbRef =
     go_bind (UserReconciler_userPassword r (ref_PasswordSecret dbRef)) (\<lambda>res.
     case res of Inl err \<Rightarrow> go_return (Some err) | Inr userPassword \<Rightarrow>
     go_bind (Database_CreateUser db (meta_Name (user_Meta user)) userPassword) (\<lambda>(secretData, err).
     if err \<noteq> None \<or> length secretData < 1 then go_return err
     else
       let secretNN = \<lparr>nn_Namespace = nn_Namespace (ref_CreatedSecret dbRef),
                       nn_Name = nn_Name (ref_CreatedSecret dbRef)\<rparr>
       in go_bind (utils_Secret (r_Client r) secretNN) (\<lambda>res.
          case res of Inr _ \<Rightarrow> go_return None | Inl _ \<Rightarrow>
          let secret = newSecret secretNN secretData in
          case ctrl_SetControllerReference (r_Client r) user secret of
            Inl err \<Rightarrow> go_return (Some err)
          | Inr secret \<Rightarrow> on_kube (Client_Create_Secret (r_Client r) secret))))"

definition UserReconciler_databaseUserApply ::
  "('k, 'd) UserReconciler \<Rightarrow> ('k, 'd) World Database \<Rightarrow> User \<Rightarrow> DatabaseRef \<Rightarrow> PrivilegeSpec list \<Rightarrow>
     (('k, 'd) World, error option) go" where
  "UserReconciler_databaseUserApply r db user dbRef privileges =
     go_check (UserReconciler_createUserInDatabase r db user dbRef)
       (Database_ApplyPrivileges db (meta_Name (user_Meta user)) privileges)"

definition UserReconciler_databaseUserDelete ::
  "('k, 'd) UserReconciler \<Rightarrow> ('k, 'd) World Database \<Rightarrow> User \<Rightarrow> DatabaseRef \<Rightarrow> PrivilegeSpec list \<Rightarrow>
     (('k, 'd) World, error option) go" where
  "UserReconciler_databaseUserDelete r db user dbRef privileges =
     go_defer (on_kube (Client_Delete_Secret (r_Client r)
         (newSecret (NamespacedName_ToNamespacedName (ref_CreatedSecret dbRef)) [])))
       (go_check (Database_RevokePrivileges db (meta_Name (user_Meta user)) privileges)
         (Database_DeleteUser db (meta_Name (user_Meta user))))"

text \<open>The rest of the closure once the driver is there, from \<^verbatim>\<open>defer db.Close(ctx)\<close> on.\<close>

definition UserReconciler_withDatabase ::
  "('k, 'd) UserReconciler \<Rightarrow> User \<Rightarrow> bool \<Rightarrow> DatabaseRef \<Rightarrow> PrivilegeSpec list \<Rightarrow>
     ('k, 'd) World Database \<Rightarrow> (('k, 'd) World, error option) go" where
  "UserReconciler_withDatabase r user deleteRequest dbRef privileges db =
     go_defer (Database_Close db)
       (if deleteRequest then UserReconciler_databaseUserDelete r db user dbRef privileges
        else UserReconciler_databaseUserApply r db user dbRef privileges)"

definition UserReconciler_databaseReconciler ::
  "('k, 'd) UserReconciler \<Rightarrow> User \<Rightarrow> bool \<Rightarrow> DatabaseRef \<Rightarrow> (('k, 'd) World, error option) go" where
  "UserReconciler_databaseReconciler r user deleteRequest dbRef =
     go_try (\<lambda>err. err) (UserReconciler_database r \<lparr>nn_Namespace = [], nn_Name = ref_Name dbRef\<rparr>) (\<lambda>dbConfig.
     go_try (\<lambda>err. err) (UserReconciler_privileges r (ref_Privileges dbRef)) (\<lambda>privileges.
     go_try (\<lambda>err. JoinError [ErrDatabaseConnect, err])
       (r_DatabaseCreator r (r_Client r) (database_Spec dbConfig))
       (UserReconciler_withDatabase r user deleteRequest dbRef privileges)))"

section \<open>Reconcile\<close>

definition UserReconciler_setStatus ::
  "('k, 'd) UserReconciler \<Rightarrow> User \<Rightarrow> UserStatus \<Rightarrow> (('k, 'd) World, error option \<times> User) go" where
  "UserReconciler_setStatus r user status =
     (let user = user\<lparr>user_Status := status\<rparr>
      in on_kube (Client_Status_Update_User (r_Client r) user))"

definition UserReconciler_addEvent ::
  "User \<Rightarrow> bool \<Rightarrow> string \<Rightarrow> string \<Rightarrow> (('k, 'd) World, unit) go" where
  "UserReconciler_addEvent user warn reason message =
     (let eventType = (if warn then EventTypeWarning else EventTypeNormal)
      in go_modify (\<lambda>w. w\<lparr>events := events w @ [\<lparr>event_Object = meta_Name (user_Meta user),
           event_Type = eventType, event_Reason = reason, event_Message = message\<rparr>]\<rparr>))"

text \<open>
  The result of \<^verbatim>\<open>reconcile\<close> is \<^verbatim>\<open>deleting\<close>, the error, and the user as the calls have
  left it. First the end of each of its branches: removing the user from all databases
  and then the finalizer, and creating the user in all databases.
\<close>

definition UserReconciler_removeAll ::
  "('k, 'd) UserReconciler \<Rightarrow> User \<Rightarrow> (('k, 'd) World, bool \<times> error option \<times> User) go" where
  "UserReconciler_removeAll r user =
     go_bind (go_for (UserReconciler_databaseReconciler r user True) (Databases (user_Spec user))) (\<lambda>err.
     case err of Some e \<Rightarrow> go_return (True, Some e, user) | None \<Rightarrow>
     go_bind (log_Info ''Successfully deleted user from all specified databases'') (\<lambda>_.
     let user = controllerutil_RemoveFinalizer (r_Client r) user userFinalizer in
     go_bind (on_kube (Client_Update_User (r_Client r) user)) (\<lambda>(err, user).
     go_return (True, err, user))))"

definition UserReconciler_applyAll ::
  "('k, 'd) UserReconciler \<Rightarrow> User \<Rightarrow> (('k, 'd) World, bool \<times> error option \<times> User) go" where
  "UserReconciler_applyAll r user =
     go_bind (go_for (UserReconciler_databaseReconciler r user False) (Databases (user_Spec user))) (\<lambda>err.
     case err of Some e \<Rightarrow> go_return (False, Some e, user) | None \<Rightarrow>
     go_bind (log_Info successMsg) (\<lambda>_. go_return (False, None, user)))"

definition UserReconciler_reconcile ::
  "('k, 'd) UserReconciler \<Rightarrow> User \<Rightarrow> (('k, 'd) World, bool \<times> error option \<times> User) go" where
  "UserReconciler_reconcile r user =
     (if meta_DeletionTimestamp (user_Meta user) \<noteq> None then
        go_bind (log_Info ''Received deletion event'') (\<lambda>_.
        if \<not> controllerutil_ContainsFinalizer (r_Client r) user userFinalizer
        then go_return (True, None, user)
        else UserReconciler_removeAll r user)
      else if \<not> controllerutil_ContainsFinalizer (r_Client r) user userFinalizer then
        go_bind (log_Info ''Setting finalizer for resource'') (\<lambda>_.
        let user = controllerutil_AddFinalizer (r_Client r) user userFinalizer in
        go_bind (on_kube (Client_Update_User (r_Client r) user)) (\<lambda>(err, user).
        case err of
          Some e \<Rightarrow> go_return (False, Some e, user)
        | None \<Rightarrow> UserReconciler_applyAll r user))
      else UserReconciler_applyAll r user)"

text \<open>What \<^verbatim>\<open>Reconcile\<close> does with the result of \<^verbatim>\<open>reconcile\<close>, from \<^verbatim>\<open>if err != nil\<close> on.\<close>

definition UserReconciler_report ::
  "('k, 'd) UserReconciler \<Rightarrow> bool \<times> error option \<times> User \<Rightarrow> (('k, 'd) World, error option) go" where
  "UserReconciler_report r = (\<lambda>(deleting, err, user).
     case err of
       Some e \<Rightarrow>
         if deleting
         then go_bind (UserReconciler_addEvent user True ''ErrorCreatingUser'' (error_Error e)) (\<lambda>_.
              go_return (Some e))
         else go_bind (UserReconciler_addEvent user True ''ErrorCreatingUser'' (error_Error e)) (\<lambda>_.
              go_bind (UserReconciler_setStatus r user
                \<lparr>Summary = \<lparr>Ready = False, Message = error_Error e\<rparr>\<rparr>) (\<lambda>(err, _).
              go_return err))
     | None \<Rightarrow>
         if \<not> Ready (Summary (user_Status user)) \<and> \<not> deleting
         then go_bind (UserReconciler_addEvent user False ''SuccessfullyCreatedUser'' successMsg) (\<lambda>_.
              go_bind (UserReconciler_setStatus r user
                \<lparr>Summary = \<lparr>Ready = True, Message = successMsg\<rparr>\<rparr>) (\<lambda>(err, _).
              go_return err))
         else go_return None)"

definition UserReconciler_Reconcile ::
  "('k, 'd) UserReconciler \<Rightarrow> NamespacedName \<Rightarrow> (('k, 'd) World, error option) go" where
  "UserReconciler_Reconcile r req =
     go_bind (UserReconciler_user r req) (\<lambda>(user, err).
     if err \<noteq> None \<or> user = None then go_return err
     else go_bind (UserReconciler_reconcile r (the user)) (UserReconciler_report r))"

section \<open>What a run leaves alone\<close>

text \<open>
  \<open>g\<close> reads something of the cluster that neither reads nor secrets change, such as the
  stored \<^verbatim>\<open>User\<close>.
\<close>

definition beside_secrets :: "'k Client \<Rightarrow> ('k \<Rightarrow> 'v) \<Rightarrow> bool" where
  "beside_secrets E g \<longleftrightarrow>
     (\<forall>nn k. g (snd (Client_Get_User E nn k)) = g k) \<and>
     (\<forall>nn k. g (snd (Client_Get_Database E nn k)) = g k) \<and>
     (\<forall>nn k. g (snd (Client_Get_Privileges E nn k)) = g k) \<and>
     (\<forall>nn k. g (snd (Client_Get_Secret E nn k)) = g k) \<and>
     (\<forall>s k. g (snd (Client_Create_Secret E s k)) = g k) \<and>
     (\<forall>s k. g (snd (Client_Delete_Secret E s k)) = g k)"

text \<open>And the parts of the world that lie outside the cluster and the operator's reports.\<close>

definition beyond_cluster :: "('k, 'd) World \<Rightarrow> 'd \<times> FileSystem \<times> DefaultConnector list \<times> FakeConnection \<times> nat" where
  "beyond_cluster w = (dbms w, filesystem w, connectors w, fake w, draws w)"

definition holds_safe_databases :: "'k Client \<Rightarrow> bool" where
  "holds_safe_databases E \<longleftrightarrow>
     (\<forall>nn k dbc. fst (Client_Get_Database E nn k) = Inr dbc \<longrightarrow> safe_spec E (database_Spec dbc))"

text \<open>
  What the operator relies on in the API server to protect a user with a finalizer, for
  an observation \<open>stored\<close> that says that the stored \<^verbatim>\<open>User\<close> of that name carries it:
  reads, secrets and status updates leave it alone, an update that carries the finalizer
  does not lose it and stores it when it succeeds, and a user that is read with it is
  stored with it. Nobody else takes the finalizer away.
\<close>

definition user_key :: "User \<Rightarrow> NamespacedName" where
  "user_key u = \<lparr>nn_Namespace = meta_Namespace (user_Meta u), nn_Name = meta_Name (user_Meta u)\<rparr>"

definition finalizer_tracked :: "'k Client \<Rightarrow> NamespacedName \<Rightarrow> ('k \<Rightarrow> bool) \<Rightarrow> bool" where
  "finalizer_tracked E nn stored \<longleftrightarrow>
     beside_secrets E stored \<and>
     (\<forall>u k. stored (snd (Client_Status_Update_User E u k)) = stored k) \<and>
     (\<forall>u k. user_key u = nn \<and> controllerutil_ContainsFinalizer E u userFinalizer \<and>
        (stored k \<or> fst (fst (Client_Update_User E u k)) = None) \<longrightarrow> stored (snd (Client_Update_User E u k))) \<and>
     (\<forall>k u. fst (Client_Get_User E nn k) = Inr u \<longrightarrow>
        user_key u = nn \<and> (controllerutil_ContainsFinalizer E u userFinalizer \<longrightarrow> stored k)) \<and>
     (\<forall>u. controllerutil_ContainsFinalizer E (controllerutil_AddFinalizer E u userFinalizer) userFinalizer \<and>
        user_key (controllerutil_AddFinalizer E u userFinalizer) = user_key u)"

lemma finalizer_tracked_add:
  "finalizer_tracked E nn stored \<Longrightarrow> user_key u = nn \<Longrightarrow>
     Client_Update_User E (controllerutil_AddFinalizer E u userFinalizer) k = ((err, u'), k') \<Longrightarrow>
     err = None \<or> stored k \<Longrightarrow> stored k'"
  unfolding finalizer_tracked_def by (metis fst_conv snd_conv)

text \<open>
  The same for an observation of the stored status: only a status update that says so
  makes the stored user ready.
\<close>

definition ready_tracked :: "'k Client \<Rightarrow> ('k \<Rightarrow> bool) \<Rightarrow> bool" where
  "ready_tracked E ready \<longleftrightarrow>
     beside_secrets E ready \<and>
     (\<forall>u k. ready (snd (Client_Update_User E u k)) \<longrightarrow> ready k) \<and>
     (\<forall>u k. ready (snd (Client_Status_Update_User E u k)) \<longrightarrow> ready k \<or> Ready (Summary (user_Status u)))"

text \<open>
  The steps of a run in the database of one reference, from the state \<open>w\<close> to the state \<open>w'\<close>.
  First what both directions share: the \<^verbatim>\<open>Database\<close> resource and all the privileges are read,
  and the driver for the resource is made.
\<close>

primrec read_privileges :: "'k Client \<Rightarrow> Name list \<Rightarrow> 'k \<Rightarrow> PrivilegeSpec list option \<times> 'k" where
  "read_privileges E [] k = (Some [], k)"
| "read_privileges E (nn # nns) k =
     (case Client_Get_Privileges E (Name_ToNamespacedName nn) k of
        (Inl err, k) \<Rightarrow> (None, k)
      | (Inr p, k) \<Rightarrow> (case read_privileges E nns k of
          (prs, k) \<Rightarrow> (map_option (\<lambda>prs. privileges_Privileges p @ prs) prs, k)))"

definition driver_made :: "('k, 'd) UserReconciler \<Rightarrow> DatabaseRef \<Rightarrow> ('k, 'd) World \<Rightarrow> ('k, 'd) World Database \<Rightarrow>
    PrivilegeSpec list \<Rightarrow> ('k, 'd) World \<Rightarrow> bool" where
  "driver_made r ref w db prs w' \<longleftrightarrow> (\<exists>dbc k k'.
     Client_Get_Database (r_Client r) \<lparr>nn_Namespace = [], nn_Name = ref_Name ref\<rparr> (kube w) = (Inr dbc, k) \<and>
     read_privileges (r_Client r) (ref_Privileges ref) k = (Some prs, k') \<and>
     r_DatabaseCreator r (r_Client r) (database_Spec dbc) (w\<lparr>kube := k'\<rparr>) = (Returned (Inr db), w'))"

text \<open>
  Then the user is created with its password, the secret of the returned data is settled (left
  as it is when it exists, else stored), and all the privileges are applied; or all the
  privileges are revoked, the user is dropped, and the secret is deleted. The driver is closed
  at the end.
\<close>

definition secret_settled :: "'k Client \<Rightarrow> User \<Rightarrow> DatabaseRef \<Rightarrow> StrMap \<Rightarrow> 'k \<Rightarrow> 'k \<Rightarrow> bool" where
  "secret_settled E u ref data k k' \<longleftrightarrow>
     (if data = [] then k' = k
      else case Client_Get_Secret E (ref_CreatedSecret ref) k of
        (Inr _, k1) \<Rightarrow> k' = k1
      | (Inl _, k1) \<Rightarrow> (\<exists>s. ctrl_SetControllerReference E u (newSecret (ref_CreatedSecret ref) data) = Inr s \<and>
          Client_Create_Secret E s k1 = (None, k')))"

definition applied_in :: "('k, 'd) UserReconciler \<Rightarrow> User \<Rightarrow> DatabaseRef \<Rightarrow> ('k, 'd) World \<Rightarrow> ('k, 'd) World \<Rightarrow> bool" where
  "applied_in r u ref w w' \<longleftrightarrow> (\<exists>db prs w1 pw w2 data w3 k w4 closed.
     driver_made r ref w db prs w1 \<and>
     UserReconciler_userPassword r (ref_PasswordSecret ref) w1 = (Returned (Inr pw), w2) \<and>
     Database_CreateUser db (meta_Name (user_Meta u)) pw w2 = (Returned (data, None), w3) \<and>
     secret_settled (r_Client r) u ref data (kube w3) k \<and>
     Database_ApplyPrivileges db (meta_Name (user_Meta u)) prs (w3\<lparr>kube := k\<rparr>) = (Returned None, w4) \<and>
     Database_Close db w4 = (Returned closed, w'))"

definition removed_from :: "('k, 'd) UserReconciler \<Rightarrow> User \<Rightarrow> DatabaseRef \<Rightarrow> ('k, 'd) World \<Rightarrow> ('k, 'd) World \<Rightarrow> bool" where
  "removed_from r u ref w w' \<longleftrightarrow> (\<exists>db prs w1 w2 w3 closed.
     driver_made r ref w db prs w1 \<and>
     Database_RevokePrivileges db (meta_Name (user_Meta u)) prs w1 = (Returned None, w2) \<and>
     Database_DeleteUser db (meta_Name (user_Meta u)) w2 = (Returned None, w3) \<and>
     Database_Close db (w3\<lparr>kube := snd (Client_Delete_Secret (r_Client r) (newSecret (ref_CreatedSecret ref) []) (kube w3))\<rparr>) =
       (Returned closed, w'))"

text \<open>
  The user as the databases see it, and the state in which they start on it: the one read when
  it carries the finalizer, else what the update with the finalizer gave back.
\<close>

definition applied_from :: "('k, 'd) UserReconciler \<Rightarrow> User \<Rightarrow> ('k, 'd) World \<Rightarrow> User \<Rightarrow> ('k, 'd) World \<Rightarrow> bool" where
  "applied_from r u w u' w0 \<longleftrightarrow>
     (if controllerutil_ContainsFinalizer (r_Client r) u userFinalizer then u' = u \<and> w0 = w
      else \<exists>k. Client_Update_User (r_Client r) (controllerutil_AddFinalizer (r_Client r) u userFinalizer) (kube w) = ((None, u'), k) \<and>
        w0 = w\<lparr>logs := logs w @ [''Setting finalizer for resource''], kube := k\<rparr>)"

text \<open>
  The run for a user that is being deleted and still has the finalizer goes through all
  its databases without error, as \<^verbatim>\<open>reconcile\<close> starts it, and as \<^verbatim>\<open>Reconcile\<close> does for the
  user it reads.
\<close>

definition removal_succeeds :: "('k, 'd) UserReconciler \<Rightarrow> User \<Rightarrow> ('k, 'd) World \<Rightarrow> bool" where
  "removal_succeeds r u w \<longleftrightarrow>
     meta_DeletionTimestamp (user_Meta u) \<noteq> None \<and>
     controllerutil_ContainsFinalizer (r_Client r) u userFinalizer \<and>
     fst (go_for (UserReconciler_databaseReconciler r u True) (Databases (user_Spec u))
       (w\<lparr>logs := logs w @ [''Received deletion event'']\<rparr>)) = Returned None"

definition removed_everywhere :: "('k, 'd) UserReconciler \<Rightarrow> NamespacedName \<Rightarrow> ('k, 'd) World \<Rightarrow> bool" where
  "removed_everywhere r nn w \<longleftrightarrow>
     (case Client_Get_User (r_Client r) nn (kube w) of
        (Inl err, k) \<Rightarrow> False
      | (Inr u, k) \<Rightarrow> removal_succeeds r u (w\<lparr>kube := k\<rparr>))"

lemma privileges_loop_reads:
  assumes "privileges_loop r ps nns w = (Returned (Inr prs), w')"
  shows "\<exists>qs k. read_privileges (r_Client r) nns (kube w) = (Some qs, k) \<and> prs = ps @ qs \<and> w' = w\<lparr>kube := k\<rparr>"
  using assms
proof (induction nns arbitrary: ps w)
  case Nil
  then show ?case by (simp add: go_return_def)
next
  case (Cons nn nns)
  obtain got k where got: "Client_Get_Privileges (r_Client r) (Name_ToNamespacedName nn) (kube w) = (got, k)" by fastforce
  then obtain p where p: "got = Inr p" "privileges_loop r (ps @ privileges_Privileges p) nns (w\<lparr>kube := k\<rparr>) = (Returned (Inr prs), w')"
    using Cons.prems by (auto simp: go_bind_def go_return_def on_kube_apply split: sum.splits)
  from Cons.IH [OF p(2)] got p(1) show ?case by auto
qed

lemma databaseReconciler_None:
  assumes "UserReconciler_databaseReconciler r u del ref w = (Returned None, w')"
  obtains db prs w1 where "driver_made r ref w db prs w1" and "UserReconciler_withDatabase r u del ref prs db w1 = (Returned None, w')"
proof -
  obtain dbc wa prs wb db w1 where
    a: "UserReconciler_database r \<lparr>nn_Namespace = [], nn_Name = ref_Name ref\<rparr> w = (Returned (Inr dbc), wa)"
    and b: "UserReconciler_privileges r (ref_Privileges ref) wa = (Returned (Inr prs), wb)"
    and c: "r_DatabaseCreator r (r_Client r) (database_Spec dbc) wb = (Returned (Inr db), w1)"
    and d: "UserReconciler_withDatabase r u del ref prs db w1 = (Returned None, w')"
    using assms unfolding UserReconciler_databaseReconciler_def by (elim go_try_None)
  have "wa = w\<lparr>kube := kube wa\<rparr>"
    "Client_Get_Database (r_Client r) \<lparr>nn_Namespace = [], nn_Name = ref_Name ref\<rparr> (kube w) = (Inr dbc, kube wa)"
    using a by (auto simp: UserReconciler_database_def on_kube_apply prod_eq_iff)
  moreover obtain k where "read_privileges (r_Client r) (ref_Privileges ref) (kube wa) = (Some prs, k)" "wb = wa\<lparr>kube := k\<rparr>"
    using privileges_loop_reads [of r "[]" "ref_Privileges ref" wa prs wb] b by (auto simp: UserReconciler_privileges_def)
  moreover have "wa\<lparr>kube := k\<rparr> = w\<lparr>kube := k\<rparr>" using calculation(1) by (metis World.surjective World.update_convs(1))
  ultimately have "driver_made r ref w db prs w1" using c unfolding driver_made_def by metis
  from that [OF this d] show thesis .
qed

lemma createUserInDatabase_None:
  assumes "UserReconciler_createUserInDatabase r db u ref w = (Returned None, w')"
  obtains pw w1 data w2 k where "UserReconciler_userPassword r (ref_PasswordSecret ref) w = (Returned (Inr pw), w1)"
    and "Database_CreateUser db (meta_Name (user_Meta u)) pw w1 = (Returned (data, None), w2)"
    and "secret_settled (r_Client r) u ref data (kube w2) k" and "w' = w2\<lparr>kube := k\<rparr>"
proof -
  obtain pw w1 where pw: "UserReconciler_userPassword r (ref_PasswordSecret ref) w = (Returned (Inr pw), w1)"
    using assms by (auto simp: UserReconciler_createUserInDatabase_def go_bind_def go_return_def split: prod.splits outcome.splits sum.splits)
  obtain data w2 where created: "Database_CreateUser db (meta_Name (user_Meta u)) pw w1 = (Returned (data, None), w2)"
    using assms pw
    by (auto simp: UserReconciler_createUserInDatabase_def go_bind_def go_return_def Let_def split: prod.splits outcome.splits if_splits)
  have "w' = w2\<lparr>kube := kube w'\<rparr>"
    using assms pw created
    by (auto simp: UserReconciler_createUserInDatabase_def go_bind_def go_return_def Let_def utils_Secret_apply on_kube_apply
        split: sum.splits if_splits)
  moreover have name: "\<lparr>nn_Namespace = nn_Namespace (ref_CreatedSecret ref), nn_Name = nn_Name (ref_CreatedSecret ref)\<rparr> =
      ref_CreatedSecret ref" by simp
  have "secret_settled (r_Client r) u ref data (kube w2) (kube w')"
    using assms pw created
    by (auto simp: UserReconciler_createUserInDatabase_def secret_settled_def go_bind_def go_return_def Let_def name
        utils_Secret_apply on_kube_apply prod_eq_iff split: sum.splits if_splits prod.splits)
  ultimately show thesis using that [OF pw created] by blast
qed

lemma reconciled_applied:
  assumes "UserReconciler_databaseReconciler r u False ref w = (Returned None, w')"
  shows "applied_in r u ref w w'"
proof -
  obtain db prs w1 where made: "driver_made r ref w db prs w1"
    and rest: "UserReconciler_withDatabase r u False ref prs db w1 = (Returned None, w')"
    using databaseReconciler_None [OF assms] .
  obtain v closed where body: "UserReconciler_databaseUserApply r db u ref prs w1 = (Returned None, v)"
    and closed: "Database_Close db v = (Returned closed, w')"
    using rest by (auto simp: UserReconciler_withDatabase_def elim: go_defer_ReturnedE)
  obtain x where created: "UserReconciler_createUserInDatabase r db u ref w1 = (Returned None, x)"
    and applied: "Database_ApplyPrivileges db (meta_Name (user_Meta u)) prs x = (Returned None, v)"
    using body unfolding UserReconciler_databaseUserApply_def by (rule go_check_NoneE)
  from createUserInDatabase_None [OF created] made applied closed show ?thesis unfolding applied_in_def by metis
qed

lemma reconciled_removed:
  assumes "UserReconciler_databaseReconciler r u True ref w = (Returned None, w')"
  shows "removed_from r u ref w w'"
proof -
  obtain db prs w1 where made: "driver_made r ref w db prs w1"
    and rest: "UserReconciler_withDatabase r u True ref prs db w1 = (Returned None, w')"
    using databaseReconciler_None [OF assms] .
  obtain v closed where body: "UserReconciler_databaseUserDelete r db u ref prs w1 = (Returned None, v)"
    and closed: "Database_Close db v = (Returned closed, w')"
    using rest by (auto simp: UserReconciler_withDatabase_def elim: go_defer_ReturnedE)
  obtain x y where inner: "go_check (Database_RevokePrivileges db (meta_Name (user_Meta u)) prs)
      (Database_DeleteUser db (meta_Name (user_Meta u))) w1 = (Returned None, x)"
    and secret: "on_kube (Client_Delete_Secret (r_Client r) (newSecret (NamespacedName_ToNamespacedName (ref_CreatedSecret ref)) [])) x =
      (Returned y, v)"
    using body unfolding UserReconciler_databaseUserDelete_def by (rule go_defer_ReturnedE)
  have "v = x\<lparr>kube := snd (Client_Delete_Secret (r_Client r) (newSecret (ref_CreatedSecret ref) []) (kube x))\<rparr>"
    using secret by (auto simp: on_kube_apply NamespacedName_ToNamespacedName_def)
  moreover obtain w2 where "Database_RevokePrivileges db (meta_Name (user_Meta u)) prs w1 = (Returned None, w2)"
    "Database_DeleteUser db (meta_Name (user_Meta u)) w2 = (Returned None, x)"
    using inner by (rule go_check_NoneE)
  ultimately show ?thesis using made closed unfolding removed_from_def by metis
qed

text \<open>A run that removes the user everywhere: the chain of states, and what comes after it.\<close>

lemma removed_everywhere_run:
  assumes "removed_everywhere r nn w" and "UserReconciler_Reconcile r nn w = (out, w')"
  shows "\<exists>u k w1. Client_Get_User (r_Client r) nn (kube w) = (Inr u, k) \<and> meta_DeletionTimestamp (user_Meta u) \<noteq> None \<and>
    along (removed_from r u) (Databases (user_Spec u)) (w\<lparr>kube := k, logs := logs w @ [''Received deletion event'']\<rparr>) w1 \<and>
    beyond_cluster w' = beyond_cluster w1 \<and>
    kube w' = snd (Client_Update_User (r_Client r) (controllerutil_RemoveFinalizer (r_Client r) u userFinalizer) (kube w1))"
proof -
  obtain u k where get: "Client_Get_User (r_Client r) nn (kube w) = (Inr u, k)" and removal: "removal_succeeds r u (w\<lparr>kube := k\<rparr>)"
    using assms(1) by (auto simp: removed_everywhere_def split: prod.splits sum.splits)
  let ?w0 = "w\<lparr>kube := k, logs := logs w @ [''Received deletion event'']\<rparr>" and ?f = "controllerutil_RemoveFinalizer (r_Client r) u userFinalizer"
  obtain w1 where loop: "go_for (UserReconciler_databaseReconciler r u True) (Databases (user_Spec u)) ?w0 = (Returned None, w1)"
    using removal by (auto simp: removal_succeeds_def prod_eq_iff)
  have del: "meta_DeletionTimestamp (user_Meta u) \<noteq> None" and fin: "controllerutil_ContainsFinalizer (r_Client r) u userFinalizer"
    using removal by (simp_all add: removal_succeeds_def)
  obtain err v k' where upd: "Client_Update_User (r_Client r) ?f (kube w1) = ((err, v), k')" by (metis surj_pair)
  let ?w2 = "w1\<lparr>logs := logs w1 @ [''Successfully deleted user from all specified databases''], kube := k'\<rparr>"
  have "UserReconciler_Reconcile r nn w = UserReconciler_report r (True, err, v) ?w2"
    using get del fin loop upd
    by (simp add: UserReconciler_Reconcile_def UserReconciler_user_def UserReconciler_reconcile_def UserReconciler_removeAll_def
        go_bind_def go_return_def on_kube_apply log_Info_apply Let_def)
  then have "beyond_cluster w' = beyond_cluster w1 \<and> kube w' = k'"
    using assms(2)
    by (cases err) (auto simp: UserReconciler_report_def UserReconciler_addEvent_def go_bind_def go_return_def go_modify_def
        Let_def beyond_cluster_def)
  moreover have "along (removed_from r u) (Databases (user_Spec u)) ?w0 w1"
    by (rule go_for_along [OF loop]) (rule reconciled_removed)
  ultimately show ?thesis using get del upd by auto
qed

lemma preserves_privileges:
  "(\<And>w nn. I w \<Longrightarrow> I (w\<lparr>kube := snd (Client_Get_Privileges (r_Client r) nn (kube w))\<rparr>)) \<Longrightarrow>
     preserves I (privileges_loop r ps nns)"
  by (induction nns arbitrary: ps) (auto intro!: inv_intros preserves_on_kube split: sum.split)

lemma returns_privileges: "returns I (privileges_loop r ps nns)"
proof -
  have "returns (\<lambda>_. True) (privileges_loop r ps nns)"
    by (induction nns arbitrary: ps)
      (auto intro!: inv_intros split: sum.split simp: preserves_def)
  then show ?thesis by (rule returns_mono) simp
qed

lemma preserves_userPassword:
  "(\<And>w nn. I w \<Longrightarrow> I (w\<lparr>kube := snd (Client_Get_Secret (r_Client r) nn (kube w))\<rparr>)) \<Longrightarrow>
     preserves I (UserReconciler_userPassword r sn)"
  by (auto simp: UserReconciler_userPassword_def utils_DecodeSecretData_def utils_Secret_def
      intro!: inv_intros preserves_on_kube split: sum.split option.split)

lemma returns_userPassword: "returns I (UserReconciler_userPassword r sn)"
  by (auto simp: UserReconciler_userPassword_def returns_def go_bind_def go_return_def
      utils_DecodeSecretData_def utils_Secret_apply split: sum.split option.split)

text \<open>The three bodies over a driver, for an invariant its operations keep.\<close>

lemma preserves_database_bodies:
  fixes db :: "('k, 'd) World Database"
  assumes db: "\<And>pw. preserves I (Database_CreateUser db (meta_Name (user_Meta u)) pw)"
      "preserves I (Database_DeleteUser db (meta_Name (user_Meta u)))"
      "preserves I (Database_ApplyPrivileges db (meta_Name (user_Meta u)) prs)"
      "preserves I (Database_RevokePrivileges db (meta_Name (user_Meta u)) prs)"
    and secret: "\<And>w nn. I w \<Longrightarrow> I (w\<lparr>kube := snd (Client_Get_Secret (r_Client r) nn (kube w))\<rparr>)"
      "\<And>w s. I w \<Longrightarrow> I (w\<lparr>kube := snd (Client_Create_Secret (r_Client r) s (kube w))\<rparr>)"
      "\<And>w s. I w \<Longrightarrow> I (w\<lparr>kube := snd (Client_Delete_Secret (r_Client r) s (kube w))\<rparr>)"
  shows "preserves I (UserReconciler_databaseUserApply r db u ref prs)"
    and "preserves I (UserReconciler_databaseUserDelete r db u ref prs)"
  by (auto simp: UserReconciler_databaseUserApply_def UserReconciler_databaseUserDelete_def
      UserReconciler_createUserInDatabase_def utils_Secret_def Let_def
      intro!: inv_intros preserves_on_kube preserves_userPassword db secret
      split: sum.split prod.split)

lemma report_preserves:
  assumes "\<And>w u. I w \<Longrightarrow> (Ready (Summary (user_Status u)) \<Longrightarrow> \<not> fst res \<and> fst (snd res) = None) \<Longrightarrow>
      I (w\<lparr>kube := snd (Client_Status_Update_User (r_Client r) u (kube w))\<rparr>)"
    and "\<And>w ev. I w \<Longrightarrow> I (w\<lparr>events := ev\<rparr>)"
  shows "preserves I (UserReconciler_report r res)"
proof -
  have ev: "preserves I (UserReconciler_addEvent u b reason msg)" for u b reason msg
    by (simp add: UserReconciler_addEvent_def Let_def preserves_def go_simps assms(2))
  show ?thesis
    unfolding UserReconciler_report_def UserReconciler_setStatus_def Let_def
    by (cases res; cases "fst (snd res)")
      (auto intro!: inv_intros ev preserves_on_kube assms(1) split: prod.split)
qed

text \<open>A run of \<^verbatim>\<open>Reconcile\<close> either ends with the lookup of the user or reconciles it.\<close>

lemma Reconcile_cases:
  assumes "UserReconciler_Reconcile r nn w = (out, w')"
  obtains (not_read) err k ls where "fst (Client_Get_User (r_Client r) nn (kube w)) = Inl err"
      and "k = snd (Client_Get_User (r_Client r) nn (kube w))" and "w' = w\<lparr>kube := k, logs := ls\<rparr>"
    | (panicked) u k where "Client_Get_User (r_Client r) nn (kube w) = (Inr u, k)"
      and "UserReconciler_reconcile r u (w\<lparr>kube := k\<rparr>) = (Panicked, w')" and "out = Panicked"
    | (reconciled) u k res w1 where "Client_Get_User (r_Client r) nn (kube w) = (Inr u, k)"
      and "UserReconciler_reconcile r u (w\<lparr>kube := k\<rparr>) = (Returned res, w1)"
      and "UserReconciler_report r res w1 = (out, w')"
proof (cases "Client_Get_User (r_Client r) nn (kube w)")
  case (Pair got k)
  show thesis
  proof (cases got)
    case (Inl err)
    with Pair assms show thesis
      by (auto simp: UserReconciler_Reconcile_def UserReconciler_user_def go_bind_def go_return_def
          on_kube_apply log_Info_apply intro!: not_read split: if_splits)
  next
    case (Inr u)
    with Pair assms show thesis
      by (auto simp: UserReconciler_Reconcile_def UserReconciler_user_def go_bind_def go_return_def
          on_kube_apply intro: panicked reconciled split: prod.splits outcome.splits)
  qed
qed

text \<open>
  The reconciler as the manager builds it in \<^verbatim>\<open>main.go\<close>, and over the test double.
\<close>

definition manager_reconciler ::
  "'d Sqlx \<Rightarrow> Crypto \<Rightarrow> (URL \<Rightarrow> error + string) \<Rightarrow> 'k Client \<Rightarrow> ('k, 'd) UserReconciler" where
  "manager_reconciler X K GenMysql E = \<lparr>
     r_Client = E, r_DatabaseCreator = NewDatabase X K GenMysql\<rparr>"

definition test_reconciler ::
  "Crypto \<Rightarrow> (URL \<Rightarrow> error + string) \<Rightarrow> 'k Client \<Rightarrow> ('k, 'd) UserReconciler" where
  "test_reconciler K GenMysql E = \<lparr>
     r_Client = E, r_DatabaseCreator = FakeDatabase_DatabaseCreatorFunc shared_FakeDatabase K GenMysql\<rparr>"

locale user_controller =
  database_creator "r_Client r" "r_DatabaseCreator r (r_Client r)" for r :: "('k, 'd) UserReconciler"
begin

lemma dbrec_preserves:
  fixes I :: "('k, 'd) World \<Rightarrow> bool"
  assumes secret: "\<And>w nn. I w \<Longrightarrow> I (w\<lparr>kube := snd (Client_Get_Secret (r_Client r) nn (kube w))\<rparr>)"
      "\<And>w s. I w \<Longrightarrow> I (w\<lparr>kube := snd (Client_Create_Secret (r_Client r) s (kube w))\<rparr>)"
      "\<And>w s. I w \<Longrightarrow> I (w\<lparr>kube := snd (Client_Delete_Secret (r_Client r) s (kube w))\<rparr>)"
    and get: "\<And>w nn. I w \<Longrightarrow> I (w\<lparr>kube := snd (Client_Get_Database (r_Client r) nn (kube w))\<rparr>)"
      "\<And>w nn. I w \<Longrightarrow> I (w\<lparr>kube := snd (Client_Get_Privileges (r_Client r) nn (kube w))\<rparr>)"
    and creator: "\<And>s. preserves I (r_DatabaseCreator r (r_Client r) s)"
    and driver: "\<And>db open_db u pw prs. database db open_db \<Longrightarrow>
      preserves I (Database_Close db) \<and> preserves I (Database_CreateUser db u pw) \<and>
      preserves I (Database_DeleteUser db u) \<and> preserves I (Database_ApplyPrivileges db u prs) \<and>
      preserves I (Database_RevokePrivileges db u prs)"
  shows "preserves I (UserReconciler_databaseReconciler r u del ref)"
proof -
  have "preserves I (UserReconciler_withDatabase r u del ref prs db)"
    if "r_DatabaseCreator r (r_Client r) s w = (Returned (Inr db), w')" for s w db w' prs
  proof -
    from that creator_contract obtain open_db where "database db open_db" by blast
    note dr = driver [OF this]
    have "preserves I (UserReconciler_databaseUserDelete r db u ref prs)"
      "preserves I (UserReconciler_databaseUserApply r db u ref prs)"
      by (rule preserves_database_bodies; simp add: dr secret)+
    with dr show ?thesis
      by (simp add: UserReconciler_withDatabase_def preserves_defer)
  qed
  then have "preserves I (go_try h (r_DatabaseCreator r (r_Client r) s)
      (UserReconciler_withDatabase r u del ref prs))" for h s prs
    by (intro preserves_try_result creator)
  moreover have "preserves I (privileges_loop r ps nns)" for ps nns
    by (rule preserves_privileges) (rule get)
  ultimately show ?thesis
    unfolding UserReconciler_databaseReconciler_def UserReconciler_database_def UserReconciler_privileges_def
    by (blast intro: preserves_try preserves_on_kube get)
qed

lemma driver_keeps:
  assumes "database db open_db"
  shows "keeps kube (Database_Close db) \<and> keeps kube (Database_CreateUser db u pw) \<and>
      keeps kube (Database_DeleteUser db u) \<and> keeps kube (Database_ApplyPrivileges db u prs) \<and>
      keeps kube (Database_RevokePrivileges db u prs)"
    and "keeps events (Database_Close db) \<and> keeps events (Database_CreateUser db u pw) \<and>
      keeps events (Database_DeleteUser db u) \<and> keeps events (Database_ApplyPrivileges db u prs) \<and>
      keeps events (Database_RevokePrivileges db u prs)"
  using assms by (simp_all add: database.keeps_kube database.keeps_events)

lemma dbrec_events: "keeps events (UserReconciler_databaseReconciler r u del ref)"
  unfolding keeps_preserves
proof
  fix v
  show "preserves (\<lambda>w. events w = v) (UserReconciler_databaseReconciler r u del ref)"
    by (rule dbrec_preserves)
      (use creator_events driver_keeps(2) in \<open>simp_all add: keeps_preserves, blast+\<close>)
qed

lemma dbrec_kube:
  assumes "beside_secrets (r_Client r) g"
  shows "keeps (\<lambda>w. g (kube w)) (UserReconciler_databaseReconciler r u del ref)"
  unfolding keeps_preserves
proof
  fix v
  have lift: "preserves (\<lambda>w. g (kube w) = v) m" if "keeps kube m" for m :: "(('k, 'd) World, 'z) go"
    using that by (simp add: keeps_def preserves_def)
  show "preserves (\<lambda>w. g (kube w) = v) (UserReconciler_databaseReconciler r u del ref)"
  proof (rule dbrec_preserves)
    show "preserves (\<lambda>w. g (kube w) = v) (r_DatabaseCreator r (r_Client r) s)" for s
      using creator_kube [of "\<lambda>k. g k = v"] assms by (simp add: beside_secrets_def)
  qed (use assms in \<open>auto simp: beside_secrets_def intro!: lift intro: database.keeps_kube\<close>)
qed

text \<open>No panic, as long as the cluster only holds safe databases.\<close>

lemma apply_delete_returns:
  assumes db: "database db open_db"
  shows "returns open_db (UserReconciler_databaseUserApply r db u ref prs)"
    and "returns open_db (UserReconciler_databaseUserDelete r db u ref prs)"
    and "preserves open_db (UserReconciler_databaseUserApply r db u ref prs)"
    and "preserves open_db (UserReconciler_databaseUserDelete r db u ref prs)"
proof -
  note r = database.returning [OF db] and p = database.stays_open [OF db] and l = database.open_local(1) [OF db]
  show "preserves open_db (UserReconciler_databaseUserApply r db u ref prs)"
    "preserves open_db (UserReconciler_databaseUserDelete r db u ref prs)"
    by (rule preserves_database_bodies; simp add: p l)+
  show "returns open_db (UserReconciler_databaseUserApply r db u ref prs)"
    unfolding UserReconciler_databaseUserApply_def UserReconciler_createUserInDatabase_def utils_Secret_def Let_def
    by (auto intro!: inv_intros preserves_on_kube preserves_userPassword returns_userPassword r p
        simp: l split: sum.split prod.split)
  show "returns open_db (UserReconciler_databaseUserDelete r db u ref prs)"
    unfolding UserReconciler_databaseUserDelete_def by (intro inv_intros r p)
qed

lemma dbrec_returns:
  assumes "holds_safe_databases (r_Client r)"
  shows "returns (\<lambda>_. True) (UserReconciler_databaseReconciler r u del ref)"
proof -
  have "fst (UserReconciler_withDatabase r u del ref prs db w') \<noteq> Panicked"
    if "r_DatabaseCreator r (r_Client r) s w = (Returned (Inr db), w')" and "safe_spec (r_Client r) s" for s w db w' prs
  proof -
    from that creator_contract obtain open_db where db: "database db open_db" and "open_db w'" by blast
    moreover have "returns open_db (UserReconciler_withDatabase r u del ref prs db)"
      using apply_delete_returns [OF db] database.returning(1) [OF db]
      by (auto simp: UserReconciler_withDatabase_def intro!: returns_defer)
    ultimately show ?thesis by (simp add: returns_def)
  qed
  then have inner: "returns (\<lambda>_. True) (go_try h (r_DatabaseCreator r (r_Client r) s)
      (UserReconciler_withDatabase r u del ref prs))" if "safe_spec (r_Client r) s" for h s prs
    using that by (intro returns_try_result creator_returns)
  have outer: "returns (\<lambda>_. True) (go_try h' (privileges_loop r ps nns) (\<lambda>prs.
      go_try h (r_DatabaseCreator r (r_Client r) s) (UserReconciler_withDatabase r u del ref prs)))"
    if "safe_spec (r_Client r) s" for h h' s ps nns
    by (rule returns_try [OF returns_privileges]) (use that inner in \<open>simp_all add: preserves_def\<close>)
  show ?thesis
    unfolding UserReconciler_databaseReconciler_def UserReconciler_database_def UserReconciler_privileges_def
  proof (rule returns_try_result [OF returns_primitive(1)])
    fix w w' :: "('k, 'd) World" and dbc
    assume "on_kube (Client_Get_Database (r_Client r) \<lparr>nn_Namespace = [], nn_Name = ref_Name ref\<rparr>) w =
      (Returned (Inr dbc), w')"
    then have "safe_spec (r_Client r) (database_Spec dbc)"
      using assms by (auto simp: on_kube_apply holds_safe_databases_def)
    then show "fst (go_try (\<lambda>err. err) (privileges_loop r [] (ref_Privileges ref)) (\<lambda>prs.
        go_try (\<lambda>err. JoinError [ErrDatabaseConnect, err]) (r_DatabaseCreator r (r_Client r) (database_Spec dbc))
          (UserReconciler_withDatabase r u del ref prs)) w') \<noteq> Panicked"
      using outer by (simp add: returns_def)
  qed
qed

lemma loop_returns:
  "holds_safe_databases (r_Client r) \<Longrightarrow>
    returns (\<lambda>_. True) (go_for (UserReconciler_databaseReconciler r u del) refs)"
  by (intro returns_for dbrec_returns) simp_all

lemma Reconcile_returns:
  assumes "holds_safe_databases (r_Client r)"
  shows "returns (\<lambda>_. True) (UserReconciler_Reconcile r nn)"
  unfolding UserReconciler_Reconcile_def UserReconciler_user_def UserReconciler_reconcile_def
    UserReconciler_removeAll_def UserReconciler_applyAll_def UserReconciler_report_def UserReconciler_setStatus_def UserReconciler_addEvent_def Let_def
  by (auto intro!: inv_intros loop_returns assms split: sum.split prod.split option.split)

lemma loop_kube:
  "beside_secrets (r_Client r) g \<Longrightarrow>
    keeps (\<lambda>w. g (kube w)) (go_for (UserReconciler_databaseReconciler r u del) refs)"
  by (intro inv_intros dbrec_kube)

lemma loop_events: "keeps events (go_for (UserReconciler_databaseReconciler r u del) refs)"
  by (intro inv_intros dbrec_events)

text \<open>
  The protection by the finalizer. While \<^verbatim>\<open>reconcile\<close> runs on a user that is not being
  deleted, either nothing outside the cluster happens or the finalizer is stored from
  then on.
\<close>

lemma applyAll_kube:
  "beside_secrets (r_Client r) g \<Longrightarrow> keeps (\<lambda>w. g (kube w)) (UserReconciler_applyAll r u)"
  unfolding UserReconciler_applyAll_def
  by (auto intro!: inv_intros dbrec_kube split: option.split)

lemma reconcile_no_orphan:
  assumes tracked: "finalizer_tracked (r_Client r) nn stored"
    and u: "meta_DeletionTimestamp (user_Meta u) = None" "user_key u = nn"
    and held: "controllerutil_ContainsFinalizer (r_Client r) u userFinalizer \<Longrightarrow> stored (kube w)"
    and run: "UserReconciler_reconcile r u w = (out, w')"
  shows "stored (kube w') \<or> (\<exists>k ls. w' = w\<lparr>logs := ls, kube := k\<rparr>)"
proof -
  have loop: "keeps (\<lambda>w. stored (kube w)) (UserReconciler_applyAll r v)" for v
    using tracked by (simp add: finalizer_tracked_def applyAll_kube)
  show ?thesis
  proof (cases "controllerutil_ContainsFinalizer (r_Client r) u userFinalizer")
    case True
    with run u(1) held keepsD [OF loop] show ?thesis by (fastforce simp: UserReconciler_reconcile_def)
  next
    case False
    let ?w = "\<lambda>k. w\<lparr>logs := logs w @ [''Setting finalizer for resource''], kube := k\<rparr>"
    obtain err u' k where
      up: "Client_Update_User (r_Client r) (controllerutil_AddFinalizer (r_Client r) u userFinalizer) (kube w) = ((err, u'), k)"
      by (metis surj_pair)
    with run False u(1) have run': "(case err of Some e \<Rightarrow> go_return (False, Some e, u')
        | None \<Rightarrow> UserReconciler_applyAll r u') (?w k) = (out, w')"
      by (simp add: UserReconciler_reconcile_def go_bind_def log_Info_apply on_kube_apply Let_def)
    show ?thesis
    proof (cases err)
      case None
      with finalizer_tracked_add [OF tracked u(2) up] have "stored (kube (?w k))" by simp
      with run' None keepsD [OF loop] show ?thesis by fastforce
    next
      case (Some e)
      with run' show ?thesis by (auto simp: go_return_def)
    qed
  qed
qed

text \<open>And the finalizer is only lost at the end of a removal from all databases.\<close>

lemma reconcile_finalizer_lost:
  assumes tracked: "finalizer_tracked (r_Client r) nn stored"
    and u: "user_key u = nn"
    and run: "UserReconciler_reconcile r u w = (out, w')"
    and lost: "stored (kube w)" "\<not> stored (kube w')"
  shows "removal_succeeds r u w"
proof -
  have bs: "beside_secrets (r_Client r) stored" using tracked by (simp add: finalizer_tracked_def)
  note apply_keeps = keepsD [OF applyAll_kube [OF bs]]
  have del: "meta_DeletionTimestamp (user_Meta u) \<noteq> None"
  proof
    assume none: "meta_DeletionTimestamp (user_Meta u) = None"
    obtain err u' k where
      up: "Client_Update_User (r_Client r) (controllerutil_AddFinalizer (r_Client r) u userFinalizer) (kube w) = ((err, u'), k)"
      by (metis surj_pair)
    have "stored k" using finalizer_tracked_add [OF tracked u up] lost(1) by simp
    with none run up apply_keeps lost show False
      by (fastforce simp: UserReconciler_reconcile_def go_bind_def go_return_def log_Info_apply on_kube_apply Let_def
          split: if_splits option.splits)
  qed
  let ?loop = "go_for (UserReconciler_databaseReconciler r u True) (Databases (user_Spec u))"
  let ?w = "w\<lparr>logs := logs w @ [''Received deletion event'']\<rparr>"
  obtain r1 w1 where l: "?loop ?w = (r1, w1)" by fastforce
  have "stored (kube w1)" using keepsD [OF loop_kube [OF bs] l] lost(1) by simp
  moreover have "w' = w1" if "r1 \<noteq> Returned None" "controllerutil_ContainsFinalizer (r_Client r) u userFinalizer"
    using that run del l
    by (cases r1) (auto simp: UserReconciler_reconcile_def UserReconciler_removeAll_def go_simps)
  moreover have "kube w' = kube w" if "\<not> controllerutil_ContainsFinalizer (r_Client r) u userFinalizer"
    using that run del by (auto simp: UserReconciler_reconcile_def go_simps)
  ultimately have "r1 = Returned None" "controllerutil_ContainsFinalizer (r_Client r) u userFinalizer"
    using lost by metis+
  with l del show ?thesis by (simp add: removal_succeeds_def)
qed

lemma Reconcile_no_orphan:
  assumes tracked: "finalizer_tracked (r_Client r) nn stored"
    and get: "Client_Get_User (r_Client r) nn (kube w) = (Inr u, k)"
    and u: "meta_DeletionTimestamp (user_Meta u) = None"
    and run: "UserReconciler_Reconcile r nn w = (out, w')"
  shows "stored (kube w') \<or> beyond_cluster w' = beyond_cluster w"
proof -
  have key: "user_key u = nn" and held: "controllerutil_ContainsFinalizer (r_Client r) u userFinalizer \<Longrightarrow> stored k"
    using tracked get by (auto simp: finalizer_tracked_def beside_secrets_def) (metis fst_conv snd_conv)+
  have rep: "stored (kube y) = stored (kube x) \<and> beyond_cluster y = beyond_cluster x"
    if "UserReconciler_report r res x = (out, y)" for res x y
    using preservesD [OF report_preserves, of "\<lambda>w. stored (kube w) = stored (kube x) \<and> beyond_cluster w = beyond_cluster x",
        OF _ _ _ that] tracked by (auto simp: finalizer_tracked_def beyond_cluster_def)
  from run show ?thesis
  proof (cases rule: Reconcile_cases)
    case not_read
    with get show ?thesis by simp
  next
    case (panicked u' k')
    with get reconcile_no_orphan [OF tracked u key, of "w\<lparr>kube := k\<rparr>"] held show ?thesis
      by (auto simp: beyond_cluster_def)
  next
    case (reconciled u' k' res w1)
    with get reconcile_no_orphan [OF tracked u key, of "w\<lparr>kube := k\<rparr>"] held
    have "stored (kube w1) \<or> beyond_cluster w1 = beyond_cluster w"
      by (auto simp: beyond_cluster_def)
    with rep [OF reconciled(3)] show ?thesis by simp
  qed
qed

lemma Reconcile_finalizer_lost:
  assumes tracked: "finalizer_tracked (r_Client r) nn stored"
    and run: "UserReconciler_Reconcile r nn w = (out, w')"
    and lost: "stored (kube w)" "\<not> stored (kube w')"
  shows "removed_everywhere r nn w"
proof -
  have get: "stored (snd (Client_Get_User (r_Client r) nn (kube w)))"
    using tracked lost(1) by (simp add: finalizer_tracked_def beside_secrets_def)
  have key: "user_key u = nn" if "Client_Get_User (r_Client r) nn (kube w) = (Inr u, k)" for u k
    using tracked that by (auto simp: finalizer_tracked_def) (metis fst_conv)
  have rep: "preserves (\<lambda>w. stored (kube w)) (UserReconciler_report r res)" for res
    by (rule report_preserves) (use tracked in \<open>auto simp: finalizer_tracked_def\<close>)
  from run show ?thesis
  proof (cases rule: Reconcile_cases)
    case not_read
    with get lost show ?thesis by simp
  next
    case (panicked u k)
    with get lost reconcile_finalizer_lost [OF tracked key panicked(2)] show ?thesis
      by (simp add: removed_everywhere_def)
  next
    case (reconciled u k res w1)
    with lost(2) rep have "\<not> stored (kube w1)" by (blast dest: preservesD)
    with get reconciled reconcile_finalizer_lost [OF tracked key reconciled(2)] show ?thesis
      by (simp add: removed_everywhere_def)
  qed
qed

lemma applyAll_success:
  assumes "UserReconciler_applyAll r u w = (Returned (False, None, u'), w')"
  shows "u' = u" and "\<exists>w1. along (applied_in r u) (Databases (user_Spec u)) w w1 \<and> kube w' = kube w1 \<and>
    beyond_cluster w' = beyond_cluster w1"
proof -
  obtain w1 where loop: "go_for (UserReconciler_databaseReconciler r u False) (Databases (user_Spec u)) w = (Returned None, w1)"
    and w': "u' = u" "w' = w1\<lparr>logs := logs w1 @ [successMsg]\<rparr>"
    using assms
    by (auto simp: UserReconciler_applyAll_def go_bind_def go_return_def log_Info_apply split: prod.splits outcome.splits option.splits)
  have "along (applied_in r u) (Databases (user_Spec u)) w w1"
    by (rule go_for_along [OF loop]) (rule reconciled_applied)
  with w' show "u' = u" and "\<exists>w1. along (applied_in r u) (Databases (user_Spec u)) w w1 \<and> kube w' = kube w1 \<and> beyond_cluster w' = beyond_cluster w1"
    by (auto simp: beyond_cluster_def)
qed

lemma reconcile_success:
  assumes "UserReconciler_reconcile r u w = (Returned (False, None, u'), w')"
  shows "meta_DeletionTimestamp (user_Meta u) = None"
    and "\<exists>w0 w1. applied_from r u w u' w0 \<and> along (applied_in r u') (Databases (user_Spec u')) w0 w1 \<and>
      kube w' = kube w1 \<and> beyond_cluster w' = beyond_cluster w1"
proof -
  have "meta_DeletionTimestamp (user_Meta u) = None \<and>
    (\<exists>v x. UserReconciler_applyAll r v x = (Returned (False, None, u'), w') \<and> applied_from r u w v x)"
    using assms
    by (auto simp: UserReconciler_reconcile_def UserReconciler_removeAll_def applied_from_def go_bind_def go_return_def
        log_Info_apply on_kube_apply Let_def prod_eq_iff
        split: if_splits prod.splits outcome.splits option.splits)
  with applyAll_success show "meta_DeletionTimestamp (user_Meta u) = None"
    and "\<exists>w0 w1. applied_from r u w u' w0 \<and> along (applied_in r u') (Databases (user_Spec u')) w0 w1 \<and>
      kube w' = kube w1 \<and> beyond_cluster w' = beyond_cluster w1"
    by (blast, metis)
qed

lemma reconcile_not_ready:
  assumes "ready_tracked (r_Client r) ready"
  shows "preserves (\<lambda>w. \<not> ready (kube w)) (UserReconciler_reconcile r u)"
proof -
  have bs: "beside_secrets (r_Client r) ready" using assms by (simp add: ready_tracked_def)
  have "preserves (\<lambda>w. \<not> ready (kube w)) m" if "keeps (\<lambda>w. ready (kube w)) m" for m :: "(('k, 'd) World, 'z) go"
    using that by (simp add: keeps_def preserves_def)
  note lift = this [OF applyAll_kube [OF bs]] this [OF loop_kube [OF bs]] this [OF keeps_log_Info]
  have up: "preserves (\<lambda>w. \<not> ready (kube w)) (on_kube (Client_Update_User (r_Client r) v))" for v
    using assms by (intro preserves_on_kube) (auto simp: ready_tracked_def)
  show ?thesis
    unfolding UserReconciler_reconcile_def UserReconciler_removeAll_def Let_def
    by (auto intro!: inv_intros lift up split: option.split)
qed

lemma Reconcile_ready:
  assumes tracked: "ready_tracked (r_Client r) ready"
    and run: "UserReconciler_Reconcile r nn w = (out, w')"
    and became: "\<not> ready (kube w)" "ready (kube w')"
  shows "\<exists>u k u' w0 w1. Client_Get_User (r_Client r) nn (kube w) = (Inr u, k) \<and>
    meta_DeletionTimestamp (user_Meta u) = None \<and> applied_from r u (w\<lparr>kube := k\<rparr>) u' w0 \<and>
    along (applied_in r u') (Databases (user_Spec u')) w0 w1 \<and> beyond_cluster w' = beyond_cluster w1 \<and>
    kube w' = snd (Client_Status_Update_User (r_Client r)
      (u'\<lparr>user_Status := \<lparr>Summary = \<lparr>Ready = True, Message = successMsg\<rparr>\<rparr>\<rparr>) (kube w1))"
proof -
  have get: "\<not> ready (snd (Client_Get_User (r_Client r) nn (kube w)))"
    using tracked became(1) by (simp add: ready_tracked_def beside_secrets_def)
  note rec = preservesD [OF reconcile_not_ready [OF tracked]]
  from run show ?thesis
  proof (cases rule: Reconcile_cases)
    case not_read
    with get became show ?thesis by simp
  next
    case (panicked u k)
    with get became rec [OF _ panicked(2)] show ?thesis by simp
  next
    case (reconciled u k res w1)
    obtain del err u' where res: "res = (del, err, u')" by (cases res)
    have "\<not> ready (kube w1)" using get reconciled(1) rec [OF _ reconciled(2)] by simp
    moreover have "preserves (\<lambda>w. \<not> ready (kube w)) (UserReconciler_report r res)" if "del \<or> err \<noteq> None"
      by (rule report_preserves) (use that res tracked in \<open>auto simp: ready_tracked_def\<close>)
    ultimately have "\<not> del" "err = None"
      using preservesD [of "\<lambda>w. \<not> ready (kube w)" "UserReconciler_report r res" w1 out w'] reconciled(3) became(2)
      by blast+
    with res have res: "res = (False, None, u')" by simp
    obtain w0 x where x: "applied_from r u (w\<lparr>kube := k\<rparr>) u' w0" "along (applied_in r u') (Databases (user_Spec u')) w0 x"
        "kube w1 = kube x" "beyond_cluster w1 = beyond_cluster x"
      and alive: "meta_DeletionTimestamp (user_Meta u) = None"
      using reconcile_success [of u "w\<lparr>kube := k\<rparr>" u' w1] reconciled(2) res by blast
    have "beyond_cluster w' = beyond_cluster w1 \<and> kube w' = snd (Client_Status_Update_User (r_Client r)
        (u'\<lparr>user_Status := \<lparr>Summary = \<lparr>Ready = True, Message = successMsg\<rparr>\<rparr>\<rparr>) (kube w1))"
      using reconciled(3) \<open>\<not> ready (kube w1)\<close> became(2) unfolding res
      by (auto simp: UserReconciler_report_def UserReconciler_addEvent_def UserReconciler_setStatus_def beyond_cluster_def
          go_bind_def go_return_def go_modify_def on_kube_apply Let_def split: if_splits prod.splits)
    with x reconciled(1) alive show ?thesis by metis
  qed
qed

end

section \<open>What a run reports\<close>

text \<open>The event and the status that a result of \<^verbatim>\<open>reconcile\<close> calls for.\<close>

definition report_event :: "bool \<times> error option \<times> User \<Rightarrow> Event list" where
  "report_event res = (case res of
     (deleting, Some e, u) \<Rightarrow> [\<lparr>event_Object = meta_Name (user_Meta u), event_Type = EventTypeWarning,
        event_Reason = ''ErrorCreatingUser'', event_Message = error_Error e\<rparr>]
   | (deleting, None, u) \<Rightarrow>
       if deleting \<or> Ready (Summary (user_Status u)) then []
       else [\<lparr>event_Object = meta_Name (user_Meta u), event_Type = EventTypeNormal,
          event_Reason = ''SuccessfullyCreatedUser'', event_Message = successMsg\<rparr>])"

definition report_status :: "bool \<times> error option \<times> User \<Rightarrow> StatusSummary option" where
  "report_status res = (case res of
     (deleting, Some e, u) \<Rightarrow> if deleting then None else Some \<lparr>Ready = False, Message = error_Error e\<rparr>
   | (deleting, None, u) \<Rightarrow>
       if deleting \<or> Ready (Summary (user_Status u)) then None
       else Some \<lparr>Ready = True, Message = successMsg\<rparr>)"

lemma report_apply:
  "UserReconciler_report r (del, err, u) w =
     (case report_status (del, err, u) of
        None \<Rightarrow> (Returned err, w\<lparr>events := events w @ report_event (del, err, u)\<rparr>)
      | Some st \<Rightarrow>
          let upd = Client_Status_Update_User (r_Client r) (u\<lparr>user_Status := \<lparr>Summary = st\<rparr>\<rparr>) (kube w)
          in (Returned (fst (fst upd)), w\<lparr>events := events w @ report_event (del, err, u), kube := snd upd\<rparr>))"
  by (cases err)
    (auto simp: UserReconciler_report_def UserReconciler_addEvent_def UserReconciler_setStatus_def
      report_event_def report_status_def go_bind_def go_return_def go_modify_def on_kube_apply Let_def
      split: prod.split)

context user_controller
begin

lemma reconcile_events: "keeps events (UserReconciler_reconcile r u)"
  unfolding UserReconciler_reconcile_def UserReconciler_removeAll_def UserReconciler_applyAll_def Let_def
  by (auto intro!: inv_intros loop_events split: option.split)

lemma Reconcile_reports:
  assumes get: "Client_Get_User (r_Client r) nn (kube w) = (Inr u, k)"
    and run: "UserReconciler_Reconcile r nn w = (Returned out, w')"
  shows "\<exists>del err u' w1. UserReconciler_reconcile r u (w\<lparr>kube := k\<rparr>) = (Returned (del, err, u'), w1) \<and>
    events w' = events w @ report_event (del, err, u') \<and>
    (case report_status (del, err, u') of
       None \<Rightarrow> out = err \<and> kube w' = kube w1
     | Some st \<Rightarrow> \<exists>v. Client_Status_Update_User (r_Client r) (u'\<lparr>user_Status := \<lparr>Summary = st\<rparr>\<rparr>) (kube w1) =
         ((out, v), kube w'))"
  using run
proof (cases rule: Reconcile_cases)
  case not_read
  with get show ?thesis by simp
next
  case (panicked u k)
  then show ?thesis by simp
next
  case (reconciled u2 k2 res w1)
  obtain del err u' where res: "res = (del, err, u')" by (cases res)
  have ev: "events w1 = events w" using keepsD [OF reconcile_events reconciled(2)] by simp
  have "events w' = events w @ report_event (del, err, u') \<and>
    (case report_status (del, err, u') of
       None \<Rightarrow> out = err \<and> kube w' = kube w1
     | Some st \<Rightarrow> \<exists>v. Client_Status_Update_User (r_Client r) (u'\<lparr>user_Status := \<lparr>Summary = st\<rparr>\<rparr>) (kube w1) =
         ((out, v), kube w'))"
    using reconciled(3) ev unfolding res report_apply
    by (auto simp: Let_def prod_eq_iff split: option.splits)
  with get reconciled(1,2) res show ?thesis by auto
qed

end

interpretation manager: user_controller "manager_reconciler X K G E" for X K G E
  by (intro user_controller.intro) (simp add: manager_reconciler_def default_creator.database_creator_axioms)

interpretation testing: user_controller "test_reconciler K G E" for K G E
  by (intro user_controller.intro) (simp add: test_reconciler_def fake_creator.database_creator_axioms)

end
