(* ===== verification/Mem_Cluster.thy ===== *)
theory Mem_Cluster
  imports User_Controller
begin

text \<open>
  An API server in memory and a database server that accepts everything, as in the
  operator's own tests. They instantiate the parameters of the model, show that the
  hypotheses about them can hold, and give the witnesses a world to run in.
\<close>

section \<open>The API server\<close>

record Cluster =
  cl_users :: "NamespacedName \<Rightarrow> User option"
  cl_databases :: "NamespacedName \<Rightarrow> DatabaseCR option"
  cl_privileges :: "NamespacedName \<Rightarrow> Privileges option"
  cl_secrets :: "NamespacedName \<Rightarrow> K8sSecret option"

definition mem_NotFound :: error where
  "mem_NotFound = ErrorString ''not found''"

definition mem_get :: "(Cluster \<Rightarrow> NamespacedName \<Rightarrow> 'a option) \<Rightarrow> NamespacedName \<Rightarrow> Cluster \<Rightarrow> (error + 'a) \<times> Cluster" where
  "mem_get sel nn k = (case sel k nn of Some x \<Rightarrow> (Inr x, k) | None \<Rightarrow> (Inl mem_NotFound, k))"

text \<open>An object carries the name it is stored under.\<close>

definition mem_user :: "Cluster \<Rightarrow> NamespacedName \<Rightarrow> User option" where
  "mem_user k nn = map_option (\<lambda>u. u\<lparr>user_Meta := (user_Meta u)\<lparr>
     meta_Name := nn_Name nn, meta_Namespace := nn_Namespace nn\<rparr>\<rparr>) (cl_users k nn)"

text \<open>
  An update writes everything but the status, a status update nothing else. A user that
  is being deleted goes away with its last finalizer.
\<close>

definition mem_Update :: "User \<Rightarrow> Cluster \<Rightarrow> (error option \<times> User) \<times> Cluster" where
  "mem_Update u k =
     (case cl_users k (user_key u) of
        None \<Rightarrow> ((Some mem_NotFound, u), k)
      | Some old \<Rightarrow>
          let new = u\<lparr>user_Status := user_Status old\<rparr> in
          ((None, new), k\<lparr>cl_users := (cl_users k)(user_key u :=
             if meta_DeletionTimestamp (user_Meta u) \<noteq> None \<and> meta_Finalizers (user_Meta u) = []
             then None else Some new)\<rparr>))"

definition mem_Status_Update :: "User \<Rightarrow> Cluster \<Rightarrow> (error option \<times> User) \<times> Cluster" where
  "mem_Status_Update u k =
     (case cl_users k (user_key u) of
        None \<Rightarrow> ((Some mem_NotFound, u), k)
      | Some old \<Rightarrow>
          let new = old\<lparr>user_Status := user_Status u\<rparr> in
          ((None, new), k\<lparr>cl_users := (cl_users k)(user_key u := Some new)\<rparr>))"

definition secret_key :: "K8sSecret \<Rightarrow> NamespacedName" where
  "secret_key s = \<lparr>nn_Namespace = meta_Namespace (k8ssecret_Meta s), nn_Name = meta_Name (k8ssecret_Meta s)\<rparr>"

definition mem_Create_Secret :: "K8sSecret \<Rightarrow> Cluster \<Rightarrow> error option \<times> Cluster" where
  "mem_Create_Secret s k =
     (case cl_secrets k (secret_key s) of
        Some _ \<Rightarrow> (Some (ErrorString ''already exists''), k)
      | None \<Rightarrow> (None, k\<lparr>cl_secrets := (cl_secrets k)(secret_key s :=
          Some (s\<lparr>k8ssecret_Data := k8ssecret_StringData s, k8ssecret_StringData := []\<rparr>))\<rparr>))"

definition mem_Delete_Secret :: "K8sSecret \<Rightarrow> Cluster \<Rightarrow> error option \<times> Cluster" where
  "mem_Delete_Secret s k =
     (case cl_secrets k (secret_key s) of
        None \<Rightarrow> (Some mem_NotFound, k)
      | Some _ \<Rightarrow> (None, k\<lparr>cl_secrets := (cl_secrets k)(secret_key s := None)\<rparr>))"

definition mem_finalizers :: "(string list \<Rightarrow> string list) \<Rightarrow> User \<Rightarrow> User" where
  "mem_finalizers f u = u\<lparr>user_Meta := (user_Meta u)\<lparr>meta_Finalizers := f (meta_Finalizers (user_Meta u))\<rparr>\<rparr>"

definition mem_Client :: "Cluster Client" where
  "mem_Client = \<lparr>
     Client_Get_User = mem_get mem_user,
     Client_Get_Database = mem_get cl_databases,
     Client_Get_Privileges = mem_get cl_privileges,
     Client_Get_Secret = mem_get cl_secrets,
     Client_Update_User = mem_Update,
     Client_Status_Update_User = mem_Status_Update,
     Client_Create_Secret = mem_Create_Secret,
     Client_Delete_Secret = mem_Delete_Secret,
     apierrors_IsNotFound = (\<lambda>e. error_Error e = ''not found''),
     apierrors_NewInvalid = (\<lambda>kind name field. ErrorString (kind @ '' '' @ name @ '' is invalid: '' @ field)),
     controllerutil_ContainsFinalizer = (\<lambda>u f. f \<in> set (meta_Finalizers (user_Meta u))),
     controllerutil_AddFinalizer = (\<lambda>u f. mem_finalizers (\<lambda>fs. if f \<in> set fs then fs else fs @ [f]) u),
     controllerutil_RemoveFinalizer = (\<lambda>u f. mem_finalizers (filter (\<lambda>x. x \<noteq> f)) u),
     ctrl_SetControllerReference = (\<lambda>u s. Inr (s\<lparr>k8ssecret_Meta := (k8ssecret_Meta s)\<lparr>
       meta_OwnerReferences := [meta_Name (user_Meta u)]\<rparr>\<rparr>))\<rparr>"

lemma mem_Client_sel [simp]:
  "Client_Get_User mem_Client = mem_get mem_user"
  "Client_Get_Database mem_Client = mem_get cl_databases"
  "Client_Get_Privileges mem_Client = mem_get cl_privileges"
  "Client_Get_Secret mem_Client = mem_get cl_secrets"
  "Client_Update_User mem_Client = mem_Update"
  "Client_Status_Update_User mem_Client = mem_Status_Update"
  "Client_Create_Secret mem_Client = mem_Create_Secret"
  "Client_Delete_Secret mem_Client = mem_Delete_Secret"
  "controllerutil_ContainsFinalizer mem_Client u f \<longleftrightarrow> f \<in> set (meta_Finalizers (user_Meta u))"
  "controllerutil_AddFinalizer mem_Client u f = mem_finalizers (\<lambda>fs. if f \<in> set fs then fs else fs @ [f]) u"
  "controllerutil_RemoveFinalizer mem_Client u f = mem_finalizers (filter (\<lambda>x. x \<noteq> f)) u"
  "apierrors_IsNotFound mem_Client e \<longleftrightarrow> error_Error e = ''not found''"
  "ctrl_SetControllerReference mem_Client u s = Inr (s\<lparr>k8ssecret_Meta := (k8ssecret_Meta s)\<lparr>
       meta_OwnerReferences := [meta_Name (user_Meta u)]\<rparr>\<rparr>)"
  by (simp_all add: mem_Client_def)

lemma snd_mem_get [simp]: "snd (mem_get sel nn k) = k"
  by (simp add: mem_get_def split: option.split)

lemma fst_mem_get: "fst (mem_get sel nn k) = (case sel k nn of Some x \<Rightarrow> Inr x | None \<Rightarrow> Inl mem_NotFound)"
  by (simp add: mem_get_def split: option.split)

text \<open>The observations of the stored user.\<close>

definition mem_stored :: "NamespacedName \<Rightarrow> Cluster \<Rightarrow> bool" where
  "mem_stored nn k = (case cl_users k nn of Some u \<Rightarrow> userFinalizer \<in> set (meta_Finalizers (user_Meta u)) | None \<Rightarrow> False)"

definition mem_ready :: "NamespacedName \<Rightarrow> Cluster \<Rightarrow> bool" where
  "mem_ready nn k = (case cl_users k nn of Some u \<Rightarrow> Ready (Summary (user_Status u)) | None \<Rightarrow> False)"

lemma mem_beside_secrets: "beside_secrets mem_Client (\<lambda>k. h (cl_users k))"
  by (simp add: beside_secrets_def mem_Create_Secret_def mem_Delete_Secret_def split: option.split)

lemma mem_Status_stored: "mem_stored nn (snd (mem_Status_Update u k)) = mem_stored nn k"
  by (simp add: mem_stored_def mem_Status_Update_def Let_def split: option.split)

lemma mem_Update_stored:
  "user_key u = nn \<Longrightarrow> userFinalizer \<in> set (meta_Finalizers (user_Meta u)) \<Longrightarrow>
     mem_stored nn k \<or> fst (fst (mem_Update u k)) = None \<Longrightarrow> mem_stored nn (snd (mem_Update u k))"
  by (auto simp: mem_stored_def mem_Update_def Let_def split: option.splits)

lemma mem_Get_stored:
  "fst (mem_get mem_user nn k) = Inr u \<Longrightarrow>
     user_key u = nn \<and> (userFinalizer \<in> set (meta_Finalizers (user_Meta u)) \<longrightarrow> mem_stored nn k)"
  by (auto simp: fst_mem_get mem_user_def mem_stored_def user_key_def split: option.splits)

lemma mem_finalizer_tracked: "finalizer_tracked mem_Client nn (mem_stored nn)"
proof -
  have "beside_secrets mem_Client (mem_stored nn)"
    unfolding mem_stored_def by (rule mem_beside_secrets)
  then show ?thesis
    unfolding finalizer_tracked_def mem_Client_sel
    using mem_Status_stored mem_Update_stored mem_Get_stored
    by (intro conjI allI impI) (auto simp: mem_finalizers_def user_key_def)
qed

lemma mem_ready_tracked: "ready_tracked mem_Client (mem_ready nn)"
proof -
  have "beside_secrets mem_Client (mem_ready nn)"
    unfolding mem_ready_def by (rule mem_beside_secrets)
  then show ?thesis
    by (auto simp: ready_tracked_def mem_ready_def mem_Status_Update_def mem_Update_def Let_def
        split: option.splits if_splits)
qed

section \<open>A database server\<close>

text \<open>The server accepts every connection and keeps the statements it was sent.\<close>

type_synonym Server = "(string \<times> Arg list) list"

definition mem_Sqlx :: "Server Sqlx" where
  "mem_Sqlx = \<lparr>
     sqlx_ConnectContext = (\<lambda>driver cs fs d. (Inr 0, d)),
     sqlx_SetMaxIdleConns = (\<lambda>h n fs d. ((), d)),
     sqlx_SetMaxOpenConns = (\<lambda>h n fs d. ((), d)),
     sqlx_Close = (\<lambda>h fs d. (None, d)),
     sqlx_ExecContext = (\<lambda>h q as fs d. (None, d @ [(q, as)]))\<rparr>"

definition no_Crypto :: Crypto where
  "no_Crypto = \<lparr>
     x509_ParsePKCS1PrivateKey = Inr,
     x509_MarshalPKCS1PrivateKey = (\<lambda>k. k),
     x509_ParseCertificate = Inr,
     x509_CreateCertificate = (\<lambda>n t p pub priv. Inr (tmpl_CommonName t)),
     rsa_GenerateKey = (\<lambda>n b. Inr ''key''),
     rsa_PublicKey = (\<lambda>k. k),
     rand_Int63 = int,
     time_Now = int,
     time_AddDate = (\<lambda>t y m d. t + 31536000 * y)\<rparr>"

definition mem_GenMysql :: "URL \<Rightarrow> error + string" where
  "mem_GenMysql u = Inr (url_Host u @ ''/'' @ url_Path u)"

definition empty_world :: "Cluster \<Rightarrow> (Cluster, Server) World" where
  "empty_world k = \<lparr>
     kube = k, dbms = [], filesystem = \<lparr>fs_nodes = Map.empty, fs_deny = (\<lambda>_ _. None)\<rparr>,
     env_HOME = ''/root'', logs = [], events = [], connectors = [],
     fake = \<lparr>fake_queries = None, fake_count = 0, fake_connections = None\<rparr>, draws = 0\<rparr>"

section \<open>A user in one MySQL database\<close>

definition cluster_name :: "string \<Rightarrow> NamespacedName" where
  "cluster_name n = \<lparr>nn_Namespace = [], nn_Name = n\<rparr>"

definition demo_meta :: "string \<Rightarrow> string list \<Rightarrow> int option \<Rightarrow> ObjectMeta" where
  "demo_meta n fins del = \<lparr>meta_Name = n, meta_Namespace = [], meta_ResourceVersion = ''1'',
     meta_Finalizers = fins, meta_DeletionTimestamp = del, meta_OwnerReferences = []\<rparr>"

definition demo_ref :: DatabaseRef where
  "demo_ref = \<lparr>ref_Name = ''shop'',
     ref_PasswordSecret = \<lparr>secret_Secret = \<lparr>nn_Namespace = ''default'', nn_Name = ''john''\<rparr>, secret_Key = ''pass''\<rparr>,
     ref_CreatedSecret = \<lparr>nn_Namespace = ''default'', nn_Name = ''john-certs''\<rparr>,
     ref_Privileges = [\<lparr>name_Name = ''reader''\<rparr>]\<rparr>"

definition demo_user :: "string list \<Rightarrow> int option \<Rightarrow> User" where
  "demo_user fins del = \<lparr>user_Meta = demo_meta ''john'' fins del,
     user_Spec = \<lparr>Databases = [demo_ref]\<rparr>,
     user_Status = \<lparr>Summary = \<lparr>Ready = False, Message = []\<rparr>\<rparr>\<rparr>"

definition demo_database :: DatabaseCR where
  "demo_database = \<lparr>database_Meta = demo_meta ''shop'' [] None,
     database_Spec = \<lparr>spec_Type = MySQL_type, spec_PostgreSQL = None,
       spec_MySQL = Some \<lparr>myspec_Host = ''db'', myspec_Port = 3306, myspec_DatabaseName = ''shop'',
         myspec_User = ''root'',
         myspec_PasswordSecret = \<lparr>secret_Secret = cluster_name [], secret_Key = []\<rparr>,
         myspec_UsersHostname = []\<rparr>\<rparr>\<rparr>"

definition demo_cluster :: "User \<Rightarrow> Cluster" where
  "demo_cluster u = \<lparr>
     cl_users = [cluster_name ''john'' \<mapsto> u],
     cl_databases = [cluster_name ''shop'' \<mapsto> demo_database],
     cl_privileges = [cluster_name ''reader'' \<mapsto> \<lparr>privileges_Meta = demo_meta ''reader'' [] None,
       privileges_Privileges = [\<lparr>Privilege = ''SELECT'', On = ''orders'', Database = ''shop''\<rparr>]\<rparr>],
     cl_secrets = [\<lparr>nn_Namespace = ''default'', nn_Name = ''john''\<rparr> \<mapsto> \<lparr>k8ssecret_Meta = demo_meta ''john'' [] None,
       k8ssecret_Data = [(''pass'', ''secret'')], k8ssecret_StringData = []\<rparr>]\<rparr>"

definition demo_reconciler :: "(Cluster, Server) UserReconciler" where
  "demo_reconciler = manager_reconciler mem_Sqlx no_Crypto mem_GenMysql mem_Client"

definition demo_run :: "User \<Rightarrow> error option outcome \<times> (Cluster, Server) World" where
  "demo_run u = UserReconciler_Reconcile demo_reconciler (cluster_name ''john'') (empty_world (demo_cluster u))"

end
