(* ===== verification/Controller_Properties.thy ===== *)
theory Controller_Properties
  imports Mem_Cluster Test_Certificates
begin

text \<open>
  The properties of the reconciler that \<^verbatim>\<open>main.go\<close> runs. Each rests on the lemmas of the
  locale \<open>user_controller\<close> through its interpretation \<open>manager\<close>; the witnesses run the
  reconciler in the world of \<open>Mem_Cluster\<close>.
\<close>

lemma manager_reconciler_sel [simp]:
  "r_Client (manager_reconciler X K G E) = E"
  "r_DatabaseCreator (manager_reconciler X K G E) = NewDatabase X K G"
  by (simp_all add: manager_reconciler_def)

text \<open>The two demonstration runs, evaluated.\<close>

lemma demo_create_evaluated:
  "case demo_run (demo_user [] None) of (res, w) \<Rightarrow>
     res = Returned None \<and> dbms w \<noteq> [] \<and> length (events w) = 1 \<and> mem_ready (cluster_name ''john'') (kube w)"
  by code_simp

lemmas demo_create_run = demo_create_evaluated [unfolded case_prod_unfold]

lemma demo_delete_run: "\<not> mem_stored (cluster_name ''john'') (kube (snd (demo_run (demo_user [userFinalizer] (Some 5)))))"
  by code_simp

lemma demo_start:
  "mem_stored (cluster_name ''john'') (kube (empty_world (demo_cluster (demo_user [userFinalizer] (Some 5)))))"
  "\<not> mem_ready (cluster_name ''john'') (kube (empty_world (demo_cluster (demo_user [] None))))"
  by (simp_all add: empty_world_def demo_cluster_def demo_user_def demo_meta_def mem_stored_def mem_ready_def)

section \<open>The finalizer\<close>

text \<open>
  \<^bold>\<open>C5\<close> No orphans: a run of \<^verbatim>\<open>Reconcile\<close> for a user that is not being deleted either
  leaves every database server, file and connection alone, or ends, whether it returns or
  panics, with the finalizer stored in the cluster. So whatever the run created can still
  be cleaned up.
\<close>

theorem finalizer_protects:
  assumes "finalizer_tracked E nn stored"
    and "Client_Get_User E nn (kube w) = (Inr u, k)"
    and "meta_DeletionTimestamp (user_Meta u) = None"
    and "UserReconciler_Reconcile (manager_reconciler X K G E) nn w = (out, w')"
  shows "stored (kube w') \<or> beyond_cluster w' = beyond_cluster w"
  using manager.Reconcile_no_orphan [of X K G E] assms by simp

lemma demo_run_get:
  "mem_get mem_user (cluster_name ''john'') (kube (empty_world (demo_cluster (demo_user fins del)))) =
     (Inr (demo_user fins del), demo_cluster (demo_user fins del))"
  by (simp add: mem_get_def mem_user_def empty_world_def demo_cluster_def demo_user_def demo_meta_def cluster_name_def)

text \<open>Witness: the first run for a new user, which does reach the database.\<close>

theorem finalizer_protects_witness:
  "mem_stored (cluster_name ''john'') (kube (snd (demo_run (demo_user [] None)))) \<and>
   dbms (snd (demo_run (demo_user [] None))) \<noteq> []"
proof -
  let ?w = "empty_world (demo_cluster (demo_user [] None))"
  have touched: "dbms (snd (demo_run (demo_user [] None))) \<noteq> []" using demo_create_run by blast
  then have "beyond_cluster (snd (demo_run (demo_user [] None))) \<noteq> beyond_cluster ?w"
    by (auto simp: beyond_cluster_def empty_world_def)
  with finalizer_protects [OF mem_finalizer_tracked, of "cluster_name ''john''" ?w "demo_user [] None"
      "demo_cluster (demo_user [] None)" mem_Sqlx no_Crypto mem_GenMysql
      "fst (demo_run (demo_user [] None))" "snd (demo_run (demo_user [] None))"]
    demo_run_get touched
  show ?thesis by (simp add: demo_run_def demo_reconciler_def demo_user_def demo_meta_def)
qed

text \<open>
  \<^bold>\<open>C6\<close> No leftovers: if a run of \<^verbatim>\<open>Reconcile\<close> starts with the finalizer stored and ends
  without it, then the user it read is being deleted, and this very run went through the
  databases of its specification in order, each starting where the one before it ended: it
  read the \<^verbatim>\<open>Database\<close> resource and the privileges that the reference names, made the driver,
  revoked these privileges, dropped the user, both without error, deleted the secret and
  closed the driver. The update without the finalizer is the last thing the run did to the
  cluster, and nothing outside it changed after the last database.
\<close>

theorem finalizer_lost_only_after_removal:
  assumes "finalizer_tracked E nn stored"
    and "UserReconciler_Reconcile (manager_reconciler X K G E) nn w = (out, w')"
    and "stored (kube w)" and "\<not> stored (kube w')"
  shows "\<exists>u k w1. Client_Get_User E nn (kube w) = (Inr u, k) \<and> meta_DeletionTimestamp (user_Meta u) \<noteq> None \<and>
    along (removed_from (manager_reconciler X K G E) u) (Databases (user_Spec u))
      (w\<lparr>kube := k, logs := logs w @ [''Received deletion event'']\<rparr>) w1 \<and>
    beyond_cluster w' = beyond_cluster w1 \<and>
    kube w' = snd (Client_Update_User E (controllerutil_RemoveFinalizer E u userFinalizer) (kube w1))"
  using removed_everywhere_run [OF manager.Reconcile_finalizer_lost [of X K G E nn stored w out w'], of out w'] assms
  by simp

text \<open>
  Witness: the last run for a user that is being deleted, from the state in which it
  reads the user to the one its databases leave behind.
\<close>

theorem finalizer_lost_only_after_removal_witness:
  "\<exists>w1. removed_from demo_reconciler (demo_user [userFinalizer] (Some 5)) demo_ref
     ((empty_world (demo_cluster (demo_user [userFinalizer] (Some 5))))\<lparr>logs := [''Received deletion event'']\<rparr>) w1 \<and>
     dbms w1 = dbms (snd (demo_run (demo_user [userFinalizer] (Some 5))))"
proof -
  let ?u = "demo_user [userFinalizer] (Some 5)"
  let ?w = "empty_world (demo_cluster ?u)"
  have refs: "Databases (user_Spec ?u) = [demo_ref]" by (simp add: demo_user_def)
  have start: "?w\<lparr>kube := demo_cluster ?u, logs := logs ?w @ [''Received deletion event'']\<rparr> =
      ?w\<lparr>logs := [''Received deletion event'']\<rparr>"
    by (simp add: empty_world_def)
  from demo_start(1) demo_delete_run finalizer_lost_only_after_removal [OF mem_finalizer_tracked, of mem_Sqlx no_Crypto mem_GenMysql
      "cluster_name ''john''" ?w "fst (demo_run ?u)" "snd (demo_run ?u)"] demo_run_get
  have "\<exists>w1. along (removed_from demo_reconciler ?u) (Databases (user_Spec ?u)) (?w\<lparr>logs := [''Received deletion event'']\<rparr>) w1 \<and>
      beyond_cluster (snd (demo_run ?u)) = beyond_cluster w1"
    unfolding start [symmetric] by (auto simp: demo_run_def demo_reconciler_def)
  then show ?thesis unfolding refs by (auto simp: beyond_cluster_def)
qed

section \<open>The status\<close>

text \<open>
  \<^bold>\<open>C7\<close> Ready means ready everywhere: if a run of \<^verbatim>\<open>Reconcile\<close> turns the stored user from
  not ready to ready, then the user is not being deleted, and this very run went through
  the databases of the object that was read (or that the update with the finalizer gave
  back) in order, each starting where the one before it ended: it read the \<^verbatim>\<open>Database\<close>
  resource and the privileges that the reference names, made the driver, read the password
  of the reference, created the user with it, settled the secret, applied these privileges,
  all without error, and closed the driver. The status update is the last thing the run
  did to the cluster, and nothing outside it changed after the last database.
\<close>

theorem ready_only_after_all_applied:
  assumes "ready_tracked E ready"
    and "UserReconciler_Reconcile (manager_reconciler X K G E) nn w = (out, w')"
    and "\<not> ready (kube w)" and "ready (kube w')"
  shows "\<exists>u k u' w0 w1. Client_Get_User E nn (kube w) = (Inr u, k) \<and> meta_DeletionTimestamp (user_Meta u) = None \<and>
    applied_from (manager_reconciler X K G E) u (w\<lparr>kube := k\<rparr>) u' w0 \<and>
    along (applied_in (manager_reconciler X K G E) u') (Databases (user_Spec u')) w0 w1 \<and>
    beyond_cluster w' = beyond_cluster w1 \<and>
    kube w' = snd (Client_Status_Update_User E
      (u'\<lparr>user_Status := \<lparr>Summary = \<lparr>Ready = True, Message = successMsg\<rparr>\<rparr>\<rparr>) (kube w1))"
  using manager.Reconcile_ready [of X K G E] assms by simp

text \<open>
  Witness: the first run for a new user. The update with the finalizer stores it, and the
  database starts from there.
\<close>

theorem ready_only_after_all_applied_witness:
  "\<exists>u' w0 w1. applied_from demo_reconciler (demo_user [] None) (empty_world (demo_cluster (demo_user [] None))) u' w0 \<and>
     along (applied_in demo_reconciler u') (Databases (user_Spec u')) w0 w1 \<and> dbms w1 \<noteq> []"
proof -
  let ?u = "demo_user [] None"
  let ?w = "empty_world (demo_cluster ?u)"
  have start: "?w\<lparr>kube := demo_cluster ?u\<rparr> = ?w" by (simp add: empty_world_def)
  have touched: "dbms (snd (demo_run ?u)) \<noteq> []" using demo_create_run by blast
  have run: "UserReconciler_Reconcile (manager_reconciler mem_Sqlx no_Crypto mem_GenMysql mem_Client) (cluster_name ''john'') ?w =
      (fst (demo_run ?u), snd (demo_run ?u))"
    by (simp add: demo_run_def demo_reconciler_def)
  have ready: "mem_ready (cluster_name ''john'') (kube (snd (demo_run ?u)))" using demo_create_run by blast
  have get: "Client_Get_User mem_Client (cluster_name ''john'') (kube ?w) = (Inr ?u, demo_cluster ?u)" by (simp add: demo_run_get)
  have "\<exists>u' w0 w1. applied_from demo_reconciler ?u (?w\<lparr>kube := demo_cluster ?u\<rparr>) u' w0 \<and>
      along (applied_in demo_reconciler u') (Databases (user_Spec u')) w0 w1 \<and>
      beyond_cluster (snd (demo_run ?u)) = beyond_cluster w1"
    using ready_only_after_all_applied [OF mem_ready_tracked run demo_start(2) ready] unfolding get demo_reconciler_def by blast
  with touched show ?thesis unfolding start beyond_cluster_def by (metis prod.inject)
qed

text \<open>
  \<^bold>\<open>C14\<close> What a run of \<^verbatim>\<open>Reconcile\<close> on an existing user reports. It appends at most one
  event: a warning with the error's text when \<^verbatim>\<open>reconcile\<close> failed, a normal event when it
  succeeded on a user that is neither deleted nor ready yet. A failure while deleting is
  returned and no status is written. A failure while creating is not returned: it is
  written to the status, and the result is the error of that status update. A success
  on a user that was not ready writes the ready status, everything else writes nothing
  and returns nil.
\<close>

theorem Reconcile_reports_once:
  assumes "Client_Get_User E nn (kube w) = (Inr u, k)"
    and "UserReconciler_Reconcile (manager_reconciler X K G E) nn w = (Returned out, w')"
  shows "\<exists>del err u' w1.
    UserReconciler_reconcile (manager_reconciler X K G E) u (w\<lparr>kube := k\<rparr>) = (Returned (del, err, u'), w1) \<and>
    events w' = events w @ report_event (del, err, u') \<and>
    (case report_status (del, err, u') of
       None \<Rightarrow> out = err \<and> kube w' = kube w1
     | Some st \<Rightarrow> \<exists>v. Client_Status_Update_User E (u'\<lparr>user_Status := \<lparr>Summary = st\<rparr>\<rparr>) (kube w1) = ((out, v), kube w'))"
  using manager.Reconcile_reports [of X K G E, unfolded manager_reconciler_sel, OF assms] .

text \<open>Witness: the first run for a new user records one event.\<close>

theorem Reconcile_reports_once_witness:
  "\<exists>del err u' w1. UserReconciler_reconcile demo_reconciler (demo_user [] None)
      (empty_world (demo_cluster (demo_user [] None))) = (Returned (del, err, u'), w1) \<and>
    length (report_event (del, err, u')) = 1"
proof -
  let ?w = "empty_world (demo_cluster (demo_user [] None))"
  have ret: "fst (demo_run (demo_user [] None)) = Returned None"
    and ev: "length (events (snd (demo_run (demo_user [] None)))) = 1" using demo_create_run by blast+
  have w: "?w\<lparr>kube := demo_cluster (demo_user [] None)\<rparr> = ?w" by (simp add: empty_world_def)
  have run: "UserReconciler_Reconcile (manager_reconciler mem_Sqlx no_Crypto mem_GenMysql mem_Client)
      (cluster_name ''john'') ?w = (Returned None, snd (demo_run (demo_user [] None)))"
    using ret by (simp add: demo_run_def demo_reconciler_def prod_eq_iff)
  have get: "Client_Get_User mem_Client (cluster_name ''john'') (kube ?w) =
      (Inr (demo_user [] None), demo_cluster (demo_user [] None))"
    using demo_run_get by simp
  from Reconcile_reports_once [OF get run] obtain del err u' w1 where
    "UserReconciler_reconcile demo_reconciler (demo_user [] None) ?w = (Returned (del, err, u'), w1)"
    "events (snd (demo_run (demo_user [] None))) = events ?w @ report_event (del, err, u')"
    unfolding w demo_reconciler_def by blast
  with ev show ?thesis by (auto simp: empty_world_def)
qed

section \<open>No panic\<close>

text \<open>
  \<^bold>\<open>C10\<close> The operator does not crash: if the \<^verbatim>\<open>Database\<close> resources of the cluster pass the
  validation of the API server, and the secrets that they name for TLS hold PEM texts for
  the key and the certificate of the authority whenever they hold a client certificate or
  key, then \<^verbatim>\<open>Reconcile\<close> returns in every state of the world, whatever else the API server,
  the file system and the database servers answer.
\<close>

theorem Reconcile_never_panics:
  assumes "holds_safe_databases E"
  shows "\<exists>err w'. UserReconciler_Reconcile (manager_reconciler X K G E) nn w = (Returned err, w')"
proof -
  have "returns (\<lambda>_. True) (UserReconciler_Reconcile (manager_reconciler X K G E) nn)"
    using manager.Reconcile_returns [of X K G E] assms by simp
  then show ?thesis by (rule returnsE) auto
qed

text \<open>
  Witness: a client whose cluster holds one database, which asks for TLS, and one secret
  with the certificates of the tests.
\<close>

definition tls_database :: DatabaseCR where
  "tls_database = \<lparr>database_Meta = demo_meta ''shop'' [] None,
     database_Spec = \<lparr>spec_Type = PostgreSQL_type,
       spec_PostgreSQL = Some \<lparr>pgspec_Host = ''pg'', pgspec_Port = 5432, pgspec_User = ''postgres'',
         pgspec_SSLMode = SSLModeVERIFYFULL, pgspec_DatabaseName = ''crm'',
         pgspec_SSLCredentialsSecret = cluster_name ''tls'',
         pgspec_SSLCAKey = \<lparr>secret_Secret = cluster_name ''tls'', secret_Key = ''ca.key''\<rparr>,
         pgspec_PasswordSecret = \<lparr>secret_Secret = cluster_name [], secret_Key = []\<rparr>\<rparr>,
       spec_MySQL = None\<rparr>\<rparr>"

definition tls_secret :: K8sSecret where
  "tls_secret = \<lparr>k8ssecret_Meta = demo_meta ''tls'' [] None,
     k8ssecret_Data = [(''ca.crt'', test_SSLCACert), (''ca.key'', test_SSLCAKey),
       (''tls.crt'', test_SSLJohnCert), (''tls.key'', test_SSLJohnKey)],
     k8ssecret_StringData = []\<rparr>"

definition tls_client :: "Cluster Client" where
  "tls_client = mem_Client\<lparr>Client_Get_Database := (\<lambda>nn k. (Inr tls_database, k)),
     Client_Get_Secret := (\<lambda>nn k. (Inr tls_secret, k))\<rparr>"

lemma tls_decodes:
  "pem_Decode (map_index (copy_data (k8ssecret_Data tls_secret)) ''ca.key'') \<noteq> None"
  "pem_Decode (map_index (copy_data (k8ssecret_Data tls_secret)) ''ca.crt'') \<noteq> None"
  using test_SSLCAKey_decodes test_SSLCACert_decodes
  by (auto simp: tls_secret_def map_index_def copy_data_def)

theorem Reconcile_never_panics_witness:
  "\<exists>err w'. UserReconciler_Reconcile (manager_reconciler mem_Sqlx no_Crypto mem_GenMysql tls_client)
     (cluster_name ''john'') (empty_world (demo_cluster (demo_user [] None))) = (Returned err, w')"
proof -
  have secret: "fst (Client_Get_Secret tls_client nn k) = Inr tls_secret" for nn k by (simp add: tls_client_def)
  have "decodable_tls tls_client c" if "secret_Key (pgspec_SSLCAKey c) = ''ca.key''" for c
    using tls_decodes that by (simp add: decodable_tls_def secret)
  then have "safe_spec tls_client (database_Spec tls_database)"
    by (simp add: safe_spec_def DatabaseSpec_XValidation_def tls_database_def)
  then have "holds_safe_databases tls_client" by (simp add: holds_safe_databases_def tls_client_def)
  then show ?thesis by (rule Reconcile_never_panics)
qed

end
