(* ===== verification/Operator_Runs.thy ===== *)
theory Operator_Runs
  imports Controller_Properties
begin

text \<open>
  Many runs of the operator, as a state machine: \<^verbatim>\<open>Reconcile\<close> for one user, for other
  users, and edits by everybody else, in any order. It refines a small abstract machine,
  the life cycle of a user with a finalizer, and what holds of every life cycle holds of
  the operator.
\<close>

section \<open>The life cycle\<close>

text \<open>
  A user is protected while the finalizer is stored. A step does nothing outside the
  cluster, or it works on databases, files and connections, or it has removed the user
  from all databases. Work happens only under protection, and only a removal may end
  the protection.
\<close>

datatype phase = Unprotected | Protected

datatype deed = Idle | Work | Release

inductive lifecycle :: "phase \<Rightarrow> deed \<Rightarrow> phase \<Rightarrow> bool" where
  rest: "lifecycle p Idle p"
| protect: "lifecycle p Idle Protected"
| work: "lifecycle p Work Protected"
| release: "lifecycle Protected Release p"

inductive_cases work_step: "lifecycle p Work p'"
inductive_cases leaves_protection: "lifecycle Protected d Unprotected"
inductive_simps lifecycle_Release [simp]: "lifecycle p Release p'"

inductive lifecycle_run :: "phase \<Rightarrow> deed list \<Rightarrow> phase \<Rightarrow> bool" where
  Nil: "lifecycle_run p [] p"
| Cons: "lifecycle p d p' \<Longrightarrow> lifecycle_run p' ds p'' \<Longrightarrow> lifecycle_run p (d # ds) p''"

inductive_simps lifecycle_run_simps [simp]:
  "lifecycle_run p [] p'"
  "lifecycle_run p (d # ds) p'"

lemma protection_ends:
  "lifecycle_run Protected ds Unprotected \<Longrightarrow> Release \<in> set ds"
proof (induction Protected ds Unprotected rule: lifecycle_run.induct)
  case (Cons d p' ds)
  then show ?case by (cases p') (auto elim: leaves_protection)
qed

lemma run_append:
  "lifecycle_run p (ds @ es) p' \<longleftrightarrow> (\<exists>q. lifecycle_run p ds q \<and> lifecycle_run q es p')"
  by (induction ds arbitrary: p) auto

text \<open>After work there is a removal before the protection is gone.\<close>

lemma work_is_undone:
  assumes "lifecycle_run p (ds @ Work # es) Unprotected"
  shows "Release \<in> set es"
  using assms by (auto simp: run_append elim!: work_step intro: protection_ends)

section \<open>The operator\<close>

definition phase_of :: "('k \<Rightarrow> bool) \<Rightarrow> ('k, 'd) World \<Rightarrow> phase" where
  "phase_of stored w = (if stored (kube w) then Protected else Unprotected)"

text \<open>What the run from \<open>w\<close> to \<open>w'\<close> did for the user \<open>nn\<close>.\<close>

definition deed_of :: "('k, 'd) UserReconciler \<Rightarrow> NamespacedName \<Rightarrow> ('k, 'd) World \<Rightarrow> ('k, 'd) World \<Rightarrow> deed" where
  "deed_of r nn w w' =
     (if removed_everywhere r nn w then Release
      else if beyond_cluster w' = beyond_cluster w then Idle else Work)"

text \<open>
  A step of the system, seen from the user \<open>nn\<close>: a run for this user (which may also end
  in a panic), a run for another one, or any other change of the world by anybody who does
  not take the finalizer off the stored user.
\<close>

inductive operator_step ::
  "('k, 'd) UserReconciler \<Rightarrow> NamespacedName \<Rightarrow> ('k \<Rightarrow> bool) \<Rightarrow> ('k, 'd) World \<Rightarrow> deed \<Rightarrow> ('k, 'd) World \<Rightarrow> bool"
  for r nn stored where
  own: "UserReconciler_Reconcile r nn w = (out, w') \<Longrightarrow> operator_step r nn stored w (deed_of r nn w w') w'"
| other: "UserReconciler_Reconcile r nn' w = (out, w') \<Longrightarrow> nn' \<noteq> nn \<Longrightarrow> operator_step r nn stored w Idle w'"
| edit: "(stored (kube w) \<Longrightarrow> stored (kube w')) \<Longrightarrow> operator_step r nn stored w Idle w'"

inductive operator_run ::
  "('k, 'd) UserReconciler \<Rightarrow> NamespacedName \<Rightarrow> ('k \<Rightarrow> bool) \<Rightarrow> ('k, 'd) World \<Rightarrow> deed list \<Rightarrow> ('k, 'd) World \<Rightarrow> bool"
  for r nn stored where
  Nil: "operator_run r nn stored w [] w"
| Cons: "operator_step r nn stored w d w' \<Longrightarrow> operator_run r nn stored w' ds w'' \<Longrightarrow>
    operator_run r nn stored w (d # ds) w''"

text \<open>
  Beside \<open>finalizer_tracked\<close>, what the steps for other users rely on: an update touches
  the user it is for, and a user is read under its name and keeps it.
\<close>

definition others_tracked :: "'k Client \<Rightarrow> NamespacedName \<Rightarrow> ('k \<Rightarrow> bool) \<Rightarrow> bool" where
  "others_tracked E nn stored \<longleftrightarrow>
     (\<forall>u k. user_key u \<noteq> nn \<longrightarrow> stored (snd (Client_Update_User E u k)) = stored k) \<and>
     (\<forall>nn' k u. fst (Client_Get_User E nn' k) = Inr u \<longrightarrow> user_key u = nn') \<and>
     (\<forall>u. user_key (controllerutil_AddFinalizer E u userFinalizer) = user_key u) \<and>
     (\<forall>u. user_key (controllerutil_RemoveFinalizer E u userFinalizer) = user_key u)"

context user_controller
begin

lemma report_stored:
  assumes "finalizer_tracked (r_Client r) nn stored"
  shows "keeps (\<lambda>w. stored (kube w)) (UserReconciler_report r res)"
  unfolding keeps_preserves
  using assms by (auto simp: finalizer_tracked_def intro!: report_preserves)

lemma report_beyond: "keeps beyond_cluster (UserReconciler_report r res)"
  unfolding keeps_preserves by (auto simp: beyond_cluster_def intro!: report_preserves)

text \<open>A run that works outside the cluster ends with the finalizer stored or removed the user everywhere.\<close>

lemma work_protected:
  assumes tracked: "finalizer_tracked (r_Client r) nn stored"
    and run: "UserReconciler_Reconcile r nn w = (out, w')"
    and work: "beyond_cluster w' \<noteq> beyond_cluster w" "\<not> removed_everywhere r nn w"
  shows "stored (kube w')"
proof (cases "Client_Get_User (r_Client r) nn (kube w)")
  case (Pair got k)
  show ?thesis
  proof (cases got)
    case (Inl err)
    from run show ?thesis
      by (cases rule: Reconcile_cases) (use Pair Inl work(1) in \<open>auto simp: beyond_cluster_def\<close>)
  next
    case (Inr u)
    with Pair have get: "Client_Get_User (r_Client r) nn (kube w) = (Inr u, k)" by simp
    show ?thesis
    proof (cases "meta_DeletionTimestamp (user_Meta u) = None")
      case True
      from Reconcile_no_orphan [OF tracked get True run] work(1) show ?thesis by simp
    next
      case deleted: False
      show ?thesis
      proof (cases "controllerutil_ContainsFinalizer (r_Client r) u userFinalizer")
        case True
        then have "stored (kube w)"
          using tracked get by (auto simp: finalizer_tracked_def beside_secrets_def)
        with Reconcile_finalizer_lost [OF tracked run] work(2) show ?thesis by blast
      next
        case False
        from run have "beyond_cluster w' = beyond_cluster w"
          by (cases rule: Reconcile_cases)
            (use False get deleted in \<open>auto simp: UserReconciler_reconcile_def go_simps beyond_cluster_def
              dest!: keepsD [OF report_beyond]\<close>)
        with work(1) show ?thesis by simp
      qed
    qed
  qed
qed

text \<open>A run for another user leaves this one alone.\<close>

lemma reconcile_other:
  assumes "finalizer_tracked (r_Client r) nn stored" and "others_tracked (r_Client r) nn stored"
    and "user_key u \<noteq> nn"
  shows "keeps (\<lambda>w. stored (kube w)) (UserReconciler_reconcile r u)"
proof -
  have bs: "beside_secrets (r_Client r) stored" using assms(1) by (simp add: finalizer_tracked_def)
  have up: "keeps (\<lambda>w. stored (kube w)) (on_kube (Client_Update_User (r_Client r) v))" if "user_key v \<noteq> nn" for v
    using assms(2) that by (simp add: keeps_def on_kube_apply others_tracked_def)
  show ?thesis
    unfolding UserReconciler_reconcile_def UserReconciler_removeAll_def Let_def
    using assms(2,3)
    by (auto intro!: inv_intros applyAll_kube loop_kube [OF bs] bs up simp: others_tracked_def
        split: option.split)
qed

lemma Reconcile_other:
  assumes tracked: "finalizer_tracked (r_Client r) nn stored" "others_tracked (r_Client r) nn stored"
    and other: "nn' \<noteq> nn" and run: "UserReconciler_Reconcile r nn' w = (out, w')"
  shows "stored (kube w') = stored (kube w)"
proof -
  have get: "stored (snd (Client_Get_User (r_Client r) nn' (kube w))) = stored (kube w)"
    using tracked(1) by (simp add: finalizer_tracked_def beside_secrets_def)
  have key: "user_key u \<noteq> nn" if "Client_Get_User (r_Client r) nn' (kube w) = (Inr u, k)" for u k
    using tracked(2) that other by (auto simp: others_tracked_def) (metis fst_conv)
  note rec = keepsD [OF reconcile_other [OF tracked key]] and rep = keepsD [OF report_stored [OF tracked(1)]]
  from run show ?thesis
    by (cases rule: Reconcile_cases) (use get in \<open>auto dest: rec rep\<close>)
qed

text \<open>The simulation, and its lift to runs.\<close>

lemma step_refines:
  assumes "finalizer_tracked (r_Client r) nn stored" and "others_tracked (r_Client r) nn stored"
    and "operator_step r nn stored w d w'"
  shows "lifecycle (phase_of stored w) d (phase_of stored w')"
  using assms(3)
proof cases
  case (own out)
  show ?thesis
  proof (cases "removed_everywhere r nn w")
    case True
    then have "stored (kube w)"
      using assms(1)
      by (auto simp: removed_everywhere_def removal_succeeds_def finalizer_tracked_def beside_secrets_def
          split: prod.splits sum.splits)
    with True own(1) show ?thesis by (simp add: deed_of_def phase_of_def)
  next
    case False
    show ?thesis
    proof (cases "beyond_cluster w' = beyond_cluster w")
      case True
      with False own Reconcile_finalizer_lost [OF assms(1) own(2)] show ?thesis
        by (auto simp: deed_of_def phase_of_def intro: lifecycle.intros)
    next
      case work: False
      with False own work_protected [OF assms(1) own(2)] show ?thesis
        by (simp add: deed_of_def phase_of_def lifecycle.work)
    qed
  qed
next
  case (other nn' out)
  with Reconcile_other [OF assms(1,2) other(3,2)] show ?thesis
    by (simp add: phase_of_def lifecycle.rest)
next
  case edit
  then show ?thesis by (auto simp: phase_of_def intro: lifecycle.intros)
qed

lemma run_refines:
  assumes "finalizer_tracked (r_Client r) nn stored" and "others_tracked (r_Client r) nn stored"
  shows "operator_run r nn stored w ds w' \<Longrightarrow> lifecycle_run (phase_of stored w) ds (phase_of stored w')"
  by (induction rule: operator_run.induct)
    (auto intro: lifecycle_run.intros step_refines [OF assms])

end

section \<open>Properties\<close>

text \<open>
  \<^bold>\<open>C1\<close> (refinement). The operator implements the life cycle: every sequence of runs of
  \<^verbatim>\<open>Reconcile\<close>, for the user \<open>nn\<close> or for others, returning or panicking, and of edits by
  anybody else that leave the finalizer on maps to a run of the abstract machine with the same deeds. In particular a
  run that reaches a database, a file or a connection ends with the finalizer stored or
  has removed the user from all of its databases.
\<close>

theorem operator_refines_lifecycle:
  assumes "finalizer_tracked E nn stored" and "others_tracked E nn stored"
    and "operator_run (manager_reconciler X K G E) nn stored w ds w'"
  shows "lifecycle_run (phase_of stored w) ds (phase_of stored w')"
  using manager.run_refines [of X K G E] assms by (simp add: manager_reconciler_def)

lemma mem_others_tracked: "others_tracked mem_Client nn (mem_stored nn)"
proof -
  have "mem_stored nn (snd (mem_Update u k)) = mem_stored nn k" if "user_key u \<noteq> nn" for u k
    using that by (auto simp: mem_stored_def mem_Update_def Let_def split: option.splits)
  with mem_Get_stored show ?thesis
    by (auto simp: others_tracked_def mem_finalizers_def user_key_def)
qed

text \<open>
  For the witnesses, a whole life: the first run for a new user, the request to delete the
  user, and the run that removes it.
\<close>

definition demo_life :: "(Cluster, Server) World list" where
  "demo_life = [empty_world (demo_cluster (demo_user [] None)), snd (demo_run (demo_user [] None)),
     empty_world (demo_cluster (demo_user [userFinalizer] (Some 5))), snd (demo_run (demo_user [userFinalizer] (Some 5)))]"

lemma demo_life_run:
  "operator_run demo_reconciler (cluster_name ''john'') (mem_stored (cluster_name ''john''))
     (hd demo_life) [Work, Idle, Release] (last demo_life)"
proof -
  let ?nn = "cluster_name ''john''" and ?s = "mem_stored (cluster_name ''john'')"
  let ?w0 = "empty_world (demo_cluster (demo_user [] None))" and ?w1 = "snd (demo_run (demo_user [] None))"
  let ?w2 = "empty_world (demo_cluster (demo_user [userFinalizer] (Some 5)))"
    and ?w3 = "snd (demo_run (demo_user [userFinalizer] (Some 5)))"
  have "beyond_cluster ?w1 \<noteq> beyond_cluster ?w0"
    using demo_create_run by (auto simp: beyond_cluster_def empty_world_def)
  moreover have "\<not> removed_everywhere demo_reconciler ?nn ?w0"
    using demo_run_get [of "[]" None]
    by (auto simp: removed_everywhere_def removal_succeeds_def demo_reconciler_def demo_user_def demo_meta_def
        split: prod.splits sum.splits)
  ultimately have "deed_of demo_reconciler ?nn ?w0 ?w1 = Work" by (simp add: deed_of_def)
  with operator_step.own [of demo_reconciler ?nn ?w0 "fst (demo_run (demo_user [] None))" ?w1 ?s]
  have first: "operator_step demo_reconciler ?nn ?s ?w0 Work ?w1"
    by (simp add: demo_run_def)
  have second: "operator_step demo_reconciler ?nn ?s ?w1 Idle ?w2"
    by (rule operator_step.edit) (rule demo_start(1))
  have "removed_everywhere demo_reconciler ?nn ?w2"
    unfolding demo_reconciler_def
    by (rule manager.Reconcile_finalizer_lost [where w' = ?w3 and out = "fst (demo_run (demo_user [userFinalizer] (Some 5)))"])
      (use mem_finalizer_tracked demo_start(1) demo_delete_run in \<open>simp_all add: demo_run_def demo_reconciler_def\<close>)
  then have "deed_of demo_reconciler ?nn ?w2 ?w3 = Release" by (simp add: deed_of_def)
  with operator_step.own [of demo_reconciler ?nn ?w2 "fst (demo_run (demo_user [userFinalizer] (Some 5)))" ?w3 ?s]
  have "operator_step demo_reconciler ?nn ?s ?w2 Release ?w3"
    by (simp add: demo_run_def)
  with first second show ?thesis
    by (auto simp: demo_life_def intro: operator_run.intros)
qed

theorem operator_refines_lifecycle_witness:
  "lifecycle_run (phase_of (mem_stored (cluster_name ''john'')) (hd demo_life)) [Work, Idle, Release]
     (phase_of (mem_stored (cluster_name ''john'')) (last demo_life))"
  by (rule operator_refines_lifecycle [OF mem_finalizer_tracked mem_others_tracked
        demo_life_run [unfolded demo_reconciler_def]])

text \<open>
  \<^bold>\<open>C2\<close> (invariant). No orphaned accounts, over any number of runs: if at some point a run
  for the user worked outside the cluster, and later the finalizer of the user is not (or
  no longer) stored, then in between a run removed the user from all databases of its
  specification without error.
\<close>

theorem no_orphaned_accounts:
  assumes "finalizer_tracked E nn stored" and "others_tracked E nn stored"
    and "operator_run (manager_reconciler X K G E) nn stored w (ds @ Work # es) w'"
    and "\<not> stored (kube w')"
  shows "Release \<in> set es"
  using manager.run_refines [of X K G E, OF _ _ assms(3)] assms(1,2,4)
  by (auto simp: manager_reconciler_def phase_of_def intro: work_is_undone)

theorem no_orphaned_accounts_witness:
  "operator_run demo_reconciler (cluster_name ''john'') (mem_stored (cluster_name ''john''))
     (hd demo_life) ([] @ Work # [Idle, Release]) (last demo_life) \<and> Release \<in> set [Idle, Release]"
proof -
  have run: "operator_run (manager_reconciler mem_Sqlx no_Crypto mem_GenMysql mem_Client) (cluster_name ''john'')
      (mem_stored (cluster_name ''john'')) (hd demo_life) ([] @ Work # [Idle, Release]) (last demo_life)"
    using demo_life_run by (simp add: demo_reconciler_def)
  have "Release \<in> set [Idle, Release]"
    by (rule no_orphaned_accounts [OF mem_finalizer_tracked mem_others_tracked run])
      (use demo_delete_run in \<open>simp add: demo_life_def\<close>)
  with run show ?thesis by (simp add: demo_reconciler_def)
qed

end
