(* ===== verification/Log_Properties.thy ===== *)
theory Log_Properties
  imports Controller_Properties
begin

text \<open>
  What the operator logs: every line of a run is one of its fixed messages, the text of an
  error of the API server, or a statement made from names and privileges. No secret, and
  so no password, can appear in it.
\<close>

section \<open>The lines of a run\<close>

text \<open>The logged statements for one account, from its name, the privileges and the MySQL hosts.\<close>

definition verbs :: "(string \<times> string) set" where
  "verbs = {(''GRANT'', ''TO''), (''REVOKE'', ''FROM'')}"

definition account_statements :: "string \<Rightarrow> PrivilegeSpec set \<Rightarrow> string set \<Rightarrow> (string \<times> Arg list) set" where
  "account_statements u P H =
     {(fst (createUserQuery u []), []), (deleteUserQuery u, [])} \<union>
     {(pg_prepareStatementForPrivilege st arg u db on (Privilege pr), []) | st arg db on pr.
        (st, arg) \<in> verbs \<and> pr \<in> P \<and> db \<in> {[], Database pr} \<and> on \<in> {[], On pr}} \<union>
     {(''DROP USER ?@?'', [ArgString u, ArgString host]) | host. host \<in> H} \<union>
     {my_prepareStatementForPrivilege st arg u (Database pr) (On pr) (Privilege pr) | st arg pr.
        (st, arg) \<in> verbs \<and> pr \<in> P}"

definition account_log :: "string \<Rightarrow> PrivilegeSpec set \<Rightarrow> string set \<Rightarrow> string set" where
  "account_log u P H = (\<lambda>(q, as). statement_log q as) ` account_statements u P H"

lemma account_logI: "(q, as) \<in> account_statements u P H \<Longrightarrow> statement_log q as \<in> account_log u P H"
  by (auto simp: account_log_def)

lemma account_statementsI:
  "(fst (createUserQuery u []), []) \<in> account_statements u P H"
  "(deleteUserQuery u, []) \<in> account_statements u P H"
  "(st, arg) \<in> verbs \<Longrightarrow> pr \<in> P \<Longrightarrow> db \<in> {[], Database pr} \<Longrightarrow> on \<in> {[], On pr} \<Longrightarrow>
     (pg_prepareStatementForPrivilege st arg u db on (Privilege pr), []) \<in> account_statements u P H"
  "host \<in> H \<Longrightarrow> (''DROP USER ?@?'', [ArgString u, ArgString host]) \<in> account_statements u P H"
  "(st, arg) \<in> verbs \<Longrightarrow> pr \<in> P \<Longrightarrow>
     my_prepareStatementForPrivilege st arg u (Database pr) (On pr) (Privilege pr) \<in> account_statements u P H"
  unfolding account_statements_def by blast+

lemma createUserQuery_logged:
  "snd (createUserQuery u pw) = DisableLogger \<or> fst (createUserQuery u pw) = fst (createUserQuery u [])"
  by (cases "pw = []") (simp_all add: createUserQuery_def Let_def)

text \<open>The \<^verbatim>\<open>Privileges\<close>, the MySQL hosts and the users that the API server can answer with.\<close>

definition known_privileges :: "'k Client \<Rightarrow> PrivilegeSpec set" where
  "known_privileges E = {pr. \<exists>nn k p. fst (Client_Get_Privileges E nn k) = Inr p \<and> pr \<in> set (privileges_Privileges p)}"

definition users_host :: "MySQLConfig \<Rightarrow> string" where
  "users_host c = (if myspec_UsersHostname c = [] then ''*'' else myspec_UsersHostname c)"

lemma users_host_of_config [simp]:
  "MysqlConfig_UsersHostname (my_config (NewMysql conn (mysql_NewConfig h p us pw db (myspec_UsersHostname c)))) = users_host c"
  by (simp add: NewMysql_def mysql_NewConfig_def MysqlConfig_UsersHostname_def users_host_def)

definition known_hosts :: "'k Client \<Rightarrow> string set" where
  "known_hosts E = {host. \<exists>nn k dbc c. fst (Client_Get_Database E nn k) = Inr dbc \<and>
     spec_MySQL (database_Spec dbc) = Some c \<and>
     host = users_host c}"

lemma host_known:
  "fst (Client_Get_Database E nn k) = Inr dbc \<Longrightarrow> spec_MySQL (database_Spec dbc) = Some c \<Longrightarrow>
     users_host c \<in> known_hosts E"
  unfolding known_hosts_def by blast

definition known_users :: "'k Client \<Rightarrow> NamespacedName \<Rightarrow> User set" where
  "known_users E nn = {u. (\<exists>k. fst (Client_Get_User E nn k) = Inr u) \<or> (\<exists>v k. snd (fst (Client_Update_User E v k)) = u)}"

definition run_messages :: "'k Client \<Rightarrow> NamespacedName \<Rightarrow> string set" where
  "run_messages E nn =
     {successMsg, ''Successfully deleted user from all specified databases'', ''Received deletion event'',
      ''Setting finalizer for resource'', ''User resource not found. Ignoring since object must be deleted.''} \<union>
     {''unable to fetch User resource'' @ error_Error e | e. \<exists>k. fst (Client_Get_User E nn k) = Inl e}"

definition run_log :: "'k Client \<Rightarrow> NamespacedName \<Rightarrow> string set" where
  "run_log E nn = run_messages E nn \<union>
     (\<Union>u \<in> known_users E nn. account_log (meta_Name (user_Meta u)) (known_privileges E) (known_hosts E))"

definition logs_in :: "string set \<Rightarrow> ('k, 'd) World \<Rightarrow> bool" where
  "logs_in A w \<longleftrightarrow> set (logs w) \<subseteq> A"

lemma logs_in_local [simp]:
  "logs_in A (w\<lparr>filesystem := fs\<rparr>) = logs_in A w" "logs_in A (w\<lparr>draws := n\<rparr>) = logs_in A w"
  "logs_in A (w\<lparr>kube := k\<rparr>) = logs_in A w" "logs_in A (w\<lparr>events := ev\<rparr>) = logs_in A w"
  by (simp_all add: logs_in_def)

lemma logs_in_log_Info: "msg \<in> A \<Longrightarrow> preserves (logs_in A) (log_Info msg)"
  by (auto simp: preserves_def logs_in_def log_Info_apply)

section \<open>Drivers\<close>

context connection
begin

lemma exec_logs_in:
  assumes "l = DisableLogger \<or> statement_log q as \<in> A"
  shows "preserves (logs_in A) (Connection_Exec C c l q as)"
  unfolding preserves_def
proof (intro allI impI)
  fix w :: "('k, 'd) World"
  assume "logs_in A w"
  with assms show "logs_in A (snd (Connection_Exec C c l q as w))"
    using exec_log [of c l q as w] quiet(4) [of c q as] by (auto simp: logs_in_def keeps_def)
qed

lemma conn_logs_in:
  "preserves (logs_in A) (Connection_Copy C c)" "preserves (logs_in A) (Connection_Close C c)"
  "preserves (logs_in A) (Connection_Connect C c drv cs)"
  using quiet by (simp_all add: preserves_def keeps_def logs_in_def)

lemma pg_logs_in:
  assumes A: "account_log u P H \<subseteq> A" and prs: "set prs \<subseteq> P"
  shows "preserves (logs_in A) (Postgresql_CreateUser C K p u pw)"
    and "preserves (logs_in A) (Postgresql_DeleteUser C p u)"
    and "preserves (logs_in A) (Postgresql_ApplyPrivileges C p u prs)"
    and "preserves (logs_in A) (Postgresql_RevokePrivileges C p u prs)"
    and "preserves (logs_in A) (Postgresql_Close C p)"
proof -
  have gen: "preserves (logs_in A) (genPostgresCertFromCA K (pg_config p) u)"
    by (rule preserves_gen) simp
  have stmt: "statement_log q as \<in> A" if "(q, as) \<in> account_statements u P H" for q as
    using account_logI [OF that] A by blast
  have create: "snd (createUserQuery u pw) = DisableLogger \<or> statement_log (fst (createUserQuery u pw)) [] \<in> A"
    using createUserQuery_logged [of u pw] stmt [OF account_statementsI(1)] by auto
  show "preserves (logs_in A) (Postgresql_CreateUser C K p u pw)"
    unfolding Postgresql_CreateUser_def
    using create by (auto intro!: inv_intros gen exec_logs_in split: prod.split sum.split)
  show "preserves (logs_in A) (Postgresql_DeleteUser C p u)"
    unfolding Postgresql_DeleteUser_def
    by (intro inv_intros exec_logs_in disjI2 stmt account_statementsI)
  have close: "preserves (logs_in A) (Postgresql_Close C q)" for q
    unfolding Postgresql_Close_def by (intro inv_intros conn_logs_in preserves_Config_Close) simp
  then show "preserves (logs_in A) (Postgresql_Close C p)" .
  have connect: "preserves (logs_in A) (Postgresql_Connect C q)" for q
    by (rule preserves_Postgresql_Connect) (simp_all add: conn_logs_in)
  have priv: "statement_log (pg_prepareStatementForPrivilege st arg u db on (Privilege pr)) [] \<in> A"
    if "(st, arg) \<in> verbs" "pr \<in> P" "db \<in> {[], Database pr}" "on \<in> {[], On pr}" for st arg db on pr
    by (intro stmt account_statementsI that)
  have process: "preserves (logs_in A) (Postgresql_processPrivilege C p u st arg pr)"
    if "(st, arg) \<in> verbs" "pr \<in> P" for st arg pr
    unfolding Postgresql_processPrivilege_def Postgresql_inDatabasePrivilege_def
      Postgresql_databasePrivilege_def Postgresql_privilege_def Let_def
    using priv [OF that]
    by (auto intro!: inv_intros connect close conn_logs_in exec_logs_in split: prod.split option.split)
  show "preserves (logs_in A) (Postgresql_ApplyPrivileges C p u prs)"
    unfolding Postgresql_ApplyPrivileges_def Postgresql_privilegesProcessor_def
    using prs by (intro inv_intros process) (auto simp: verbs_def)
  show "preserves (logs_in A) (Postgresql_RevokePrivileges C p u prs)"
    unfolding Postgresql_RevokePrivileges_def Postgresql_privilegesProcessor_def
    using prs by (intro inv_intros process) (auto simp: verbs_def)
qed

lemma my_logs_in:
  assumes A: "account_log u P H \<subseteq> A" and prs: "set prs \<subseteq> P"
    and host: "MysqlConfig_UsersHostname (my_config m) \<in> H"
  shows "preserves (logs_in A) (Mysql_CreateUser C m u pw)"
    and "preserves (logs_in A) (Mysql_DeleteUser C m u)"
    and "preserves (logs_in A) (Mysql_ApplyPrivileges C m u prs)"
    and "preserves (logs_in A) (Mysql_RevokePrivileges C m u prs)"
    and "preserves (logs_in A) (Mysql_Close C m)"
proof -
  show "preserves (logs_in A) (Mysql_CreateUser C m u pw)"
    unfolding Mysql_CreateUser_def by (intro inv_intros exec_logs_in) simp
  show "preserves (logs_in A) (Mysql_Close C m)"
    unfolding Mysql_Close_def by (rule conn_logs_in)
  have stmt: "statement_log q as \<in> A" if "(q, as) \<in> account_statements u P H" for q as
    using account_logI [OF that] A by blast
  show "preserves (logs_in A) (Mysql_DeleteUser C m u)"
    unfolding Mysql_DeleteUser_def by (intro exec_logs_in disjI2 stmt account_statementsI host)
  have priv: "statement_log q args \<in> A"
    if "(st, arg) \<in> verbs" "pr \<in> P" "my_prepareStatementForPrivilege st arg u (Database pr) (On pr) (Privilege pr) = (q, args)"
    for st arg pr q args
    using stmt [of q args] account_statementsI(5) [OF that(1,2), of u H] that(3) by simp
  show "preserves (logs_in A) (Mysql_ApplyPrivileges C m u prs)"
    and "preserves (logs_in A) (Mysql_RevokePrivileges C m u prs)"
    unfolding Mysql_ApplyPrivileges_def Mysql_RevokePrivileges_def Mysql_privilegesProcessor_def
    using prs by (auto intro!: inv_intros exec_logs_in priv simp: verbs_def split: prod.split)
qed

lemma new_shape:
  assumes "newDatabase C K G E conn s w = (Returned (Inr db), w')"
  shows "(\<exists>p. db = Postgresql_Database C K p \<and> spec_Type s = PostgreSQL_type) \<or>
    (\<exists>m c. db = Mysql_Database C m \<and> spec_Type s = MySQL_type \<and> spec_MySQL s = Some c \<and>
      MysqlConfig_UsersHostname (my_config m) = users_host c)"
  using assms users_host_of_config
  by (auto simp: newDatabase_def newPostgresql_def newMysql_def go_bind_def go_return_def go_panic_def Let_def
      split: if_splits option.splits prod.splits outcome.splits sum.splits)

end

section \<open>A run\<close>

lemma privileges_known:
  "privileges_loop r ps nns w = (Returned (Inr prs), w') \<Longrightarrow> set ps \<subseteq> known_privileges (r_Client r) \<Longrightarrow>
     set prs \<subseteq> known_privileges (r_Client r)"
proof (induction nns arbitrary: ps w)
  case Nil
  then show ?case by (simp add: go_return_def)
next
  case (Cons nn nns)
  obtain res k where get: "Client_Get_Privileges (r_Client r) (Name_ToNamespacedName nn) (kube w) = (res, k)"
    by fastforce
  with Cons.prems(1) obtain p where p: "res = Inr p"
    and rest: "privileges_loop r (ps @ privileges_Privileges p) nns (w\<lparr>kube := k\<rparr>) = (Returned (Inr prs), w')"
    by (cases res) (auto simp: go_bind_def go_return_def on_kube_apply)
  have "\<exists>nn k p. fst (Client_Get_Privileges (r_Client r) nn k) = Inr p \<and> pr \<in> set (privileges_Privileges p)"
    if "pr \<in> set (privileges_Privileges p)" for pr
    using get p that by (metis fst_conv)
  then have "set (ps @ privileges_Privileges p) \<subseteq> known_privileges (r_Client r)"
    using Cons.prems(2) by (auto simp: known_privileges_def)
  with Cons.IH [OF rest] show ?case .
qed

text \<open>The driver for a \<^verbatim>\<open>Database\<close> resource logs nothing else.\<close>

lemma driver_logs_in:
  assumes run: "NewDatabase X K G E (database_Spec dbc) w = (Returned (Inr db), w')"
    and dbc: "fst (Client_Get_Database E nn k) = Inr dbc"
    and A: "account_log u (known_privileges E) (known_hosts E) \<subseteq> A" and prs: "set prs \<subseteq> known_privileges E"
  shows "preserves (logs_in A) (Database_CreateUser db u pw)" "preserves (logs_in A) (Database_DeleteUser db u)"
    "preserves (logs_in A) (Database_ApplyPrivileges db u prs)" "preserves (logs_in A) (Database_RevokePrivileges db u prs)"
    "preserves (logs_in A) (Database_Close db)"
proof -
  from run obtain c w1 where "newDatabase (DefaultConnector_Connection X) K G E c (database_Spec dbc) w1 = (Returned (Inr db), w')"
    using NewDatabase_apply [of X K G E "database_Spec dbc" w] by metis
  note shape = dc.new_shape [OF this]
  then consider
      (pg) p where "db = Postgresql_Database (DefaultConnector_Connection X) K p"
    | (my) m where "db = Mysql_Database (DefaultConnector_Connection X) m"
        "MysqlConfig_UsersHostname (my_config m) \<in> known_hosts E"
    using host_known [OF dbc] by fastforce
  then have "preserves (logs_in A) (Database_CreateUser db u pw) \<and> preserves (logs_in A) (Database_DeleteUser db u) \<and>
    preserves (logs_in A) (Database_ApplyPrivileges db u prs) \<and> preserves (logs_in A) (Database_RevokePrivileges db u prs) \<and>
    preserves (logs_in A) (Database_Close db)"
  proof cases
    case pg
    show ?thesis unfolding pg by (simp add: dc.pg_logs_in [OF A prs])
  next
    case my
    show ?thesis unfolding my(1) by (simp add: dc.my_logs_in [OF A prs my(2)])
  qed
  then show
    "preserves (logs_in A) (Database_CreateUser db u pw)" "preserves (logs_in A) (Database_DeleteUser db u)"
    "preserves (logs_in A) (Database_ApplyPrivileges db u prs)" "preserves (logs_in A) (Database_RevokePrivileges db u prs)"
    "preserves (logs_in A) (Database_Close db)"
    by blast+
qed

lemma databaseReconciler_logs_in:
  assumes A: "account_log (meta_Name (user_Meta u)) (known_privileges E) (known_hosts E) \<subseteq> A"
  shows "preserves (logs_in A) (UserReconciler_databaseReconciler (manager_reconciler X K G E) u del ref)"
proof -
  let ?r = "manager_reconciler X K G E"
  have wd: "preserves (logs_in A) (UserReconciler_withDatabase ?r u del ref prs db)"
    if "NewDatabase X K G E (database_Spec dbc) w = (Returned (Inr db), w')" "fst (Client_Get_Database E nn k) = Inr dbc"
      "set prs \<subseteq> known_privileges E" for dbc w db w' nn k prs
  proof -
    note ops = driver_logs_in [OF that(1,2) A that(3)]
    have "preserves (logs_in A) (UserReconciler_databaseUserApply ?r db u ref prs)"
      "preserves (logs_in A) (UserReconciler_databaseUserDelete ?r db u ref prs)"
      by (rule preserves_database_bodies; simp add: ops)+
    then show ?thesis by (simp add: UserReconciler_withDatabase_def preserves_defer ops)
  qed
  have new: "preserves (logs_in A) (NewDatabase X K G E s)" for s
    using manager.creator_logs [of X K G E s] by (simp add: keeps_def preserves_def logs_in_def)
  have made: "preserves (logs_in A) (go_try h (NewDatabase X K G E (database_Spec dbc)) (UserReconciler_withDatabase ?r u del ref prs))"
    if "fst (Client_Get_Database E nn k) = Inr dbc" "set prs \<subseteq> known_privileges E" for h dbc nn k prs
    by (rule preserves_try_result [OF new]) (rule wd [OF _ that])
  have loop: "preserves (logs_in A) (privileges_loop ?r [] nns)" for nns
    by (rule preserves_privileges) simp
  have chain: "preserves (logs_in A) (go_try h' (privileges_loop ?r [] nns)
      (\<lambda>prs. go_try h (NewDatabase X K G E (database_Spec dbc)) (UserReconciler_withDatabase ?r u del ref prs)))"
    if "fst (Client_Get_Database E nn k) = Inr dbc" for h h' nns dbc nn k
    by (rule preserves_try_result [OF loop], rule made [OF that])
      (use privileges_known [of ?r "[]"] in fastforce)
  show ?thesis
    unfolding UserReconciler_databaseReconciler_def UserReconciler_database_def UserReconciler_privileges_def manager_reconciler_sel
    by (intro preserves_try_result preserves_on_kube chain) (auto simp: on_kube_apply)
qed

lemma reconcile_logs_in:
  assumes A: "run_log E nn \<subseteq> A" and u: "u \<in> known_users E nn"
  shows "preserves (logs_in A) (UserReconciler_reconcile (manager_reconciler X K G E) u)"
proof -
  let ?r = "manager_reconciler X K G E"
  have loop: "preserves (logs_in A) (go_for (UserReconciler_databaseReconciler ?r v del) refs)"
    if "v \<in> known_users E nn" for v del refs
    using A that by (intro preserves_for databaseReconciler_logs_in) (auto simp: run_log_def)
  have msg: "preserves (logs_in A) (log_Info m)" if "m \<in> run_messages E nn" for m
    using A that by (auto simp: run_log_def intro: logs_in_log_Info)
  have applied: "preserves (logs_in A) (UserReconciler_applyAll ?r v)" if "v \<in> known_users E nn" for v
    unfolding UserReconciler_applyAll_def
    using that by (auto intro!: inv_intros loop msg simp: run_messages_def split: option.split)
  have remove: "preserves (logs_in A) (UserReconciler_removeAll ?r u)"
    unfolding UserReconciler_removeAll_def Let_def
    using u by (auto intro!: inv_intros loop msg preserves_on_kube simp: run_messages_def split: option.split)
  have update: "preserves (logs_in A) (go_bind (on_kube (Client_Update_User E v)) (\<lambda>(err, user).
      case err of Some e \<Rightarrow> go_return (False, Some e, user) | None \<Rightarrow> UserReconciler_applyAll ?r user))" for v
  proof (rule preserves_bind_result)
    fix w x t
    assume "on_kube (Client_Update_User E v) w = (Returned x, t)"
    then have "snd x \<in> known_users E nn" by (auto simp: on_kube_apply known_users_def)
    then show "preserves (logs_in A) ((\<lambda>(err, user). case err of Some e \<Rightarrow> go_return (False, Some e, user)
        | None \<Rightarrow> UserReconciler_applyAll ?r user) x)"
      by (auto intro!: inv_intros applied split: option.split prod.split)
  qed (simp add: preserves_on_kube)
  show ?thesis
    unfolding UserReconciler_reconcile_def Let_def manager_reconciler_sel
    using u by (auto intro!: inv_intros msg remove applied update simp: run_messages_def)
qed

text \<open>
  \<^bold>\<open>C13\<close> (safety). Passwords stay out of the log, over a whole run: whatever happens, a line
  that \<^verbatim>\<open>Reconcile\<close> adds to the log is one of its messages, or a statement made from the
  name of the user, the \<^verbatim>\<open>Privileges\<close> resources and the host name of the MySQL accounts.
  None of these is read from a secret, and no logged statement carries a password.
\<close>

theorem Reconcile_logs_no_secret:
  "set (logs (snd (UserReconciler_Reconcile (manager_reconciler X K G E) nn w))) \<subseteq> set (logs w) \<union> run_log E nn"
proof -
  let ?r = "manager_reconciler X K G E" and ?A = "set (logs w) \<union> run_log E nn"
  have msg: "preserves (logs_in ?A) (log_Info m)" if "m \<in> run_messages E nn" for m
    using that by (auto simp: run_log_def intro: logs_in_log_Info)
  have report: "preserves (logs_in ?A) (UserReconciler_report ?r res)" for res
    by (rule report_preserves) simp_all
  have user: "preserves (logs_in ?A) (UserReconciler_user ?r nn)"
    unfolding UserReconciler_user_def manager_reconciler_sel
  proof (rule preserves_bind_result)
    fix w x t
    assume "on_kube (Client_Get_User E nn) w = (Returned x, t)"
    then have "x = Inl e \<Longrightarrow> ''unable to fetch User resource'' @ error_Error e \<in> run_messages E nn" for e
      by (auto simp: on_kube_apply run_messages_def)
    then show "preserves (logs_in ?A) (case x of Inr user \<Rightarrow> go_return (Some user, None)
       | Inl err \<Rightarrow>
           if apierrors_IsNotFound E err
           then go_bind (log_Info ''User resource not found. Ignoring since object must be deleted.'')
                  (\<lambda>_. go_return (None, None))
           else go_bind (log_Info (''unable to fetch User resource'' @ error_Error err))
                  (\<lambda>_. go_return (None, Some err)))"
      by (auto intro!: inv_intros msg simp: run_messages_def split: sum.split)
  qed (simp add: preserves_on_kube)
  have known: "u \<in> known_users E nn" if "UserReconciler_user ?r nn w1 = (Returned (Some u, err), t)" for w1 u err t
    using that
    by (auto simp: UserReconciler_user_def go_bind_def go_return_def on_kube_apply log_Info_apply known_users_def
        split: sum.splits if_splits)
  have "preserves (logs_in ?A) (UserReconciler_Reconcile ?r nn)"
    unfolding UserReconciler_Reconcile_def
  proof (rule preserves_bind_result [OF user])
    fix s x t
    assume run: "UserReconciler_user ?r nn s = (Returned x, t)"
    obtain uo err where x: "x = (uo, err)" by (cases x)
    show "preserves (logs_in ?A) ((\<lambda>(user, err). if err \<noteq> None \<or> user = None then go_return err
        else go_bind (UserReconciler_reconcile ?r (the user)) (UserReconciler_report ?r)) x)"
      using known [of s] run
      by (cases uo) (auto simp: x intro!: inv_intros report reconcile_logs_in [where nn = nn])
  qed
  then show ?thesis by (auto simp: preserves_def logs_in_def)
qed

end
