(* ===== verification/Driver_Properties.thy ===== *)
theory Driver_Properties
  imports Mem_Cluster Test_Certificates
begin

text \<open>
  The properties of the two drivers, of the choice of a driver, and of the certificate
  files, with their witnesses. Where a property is about statements, the connection is
  any record of operations; where it is about the state around them it is the
  \<^verbatim>\<open>DefaultConnector\<close> (interpretation \<open>dc\<close>) or the test double (\<open>fc\<close>).
\<close>

section \<open>Secrecy\<close>

text \<open>
  No password in the log: for every driver that \<^verbatim>\<open>NewDatabase\<close> returns, creating a
  user with a password writes nothing to the log, whatever the server answers.
\<close>

lemma CreateUser_keeps_password_out_of_log:
  assumes "NewDatabase X K G E s w0 = (Returned (Inr db), w1)" and "pw \<noteq> []"
  shows "logs (snd (Database_CreateUser db u pw w)) = logs w"
proof -
  from default_creator.creator_contract [OF assms(1)] obtain open_db where "database db open_db" by blast
  from database.quiet_CreateUser [OF this assms(2)] show ?thesis by (simp add: keeps_def)
qed

text \<open>A PostgreSQL specification without TLS for the witnesses.\<close>

definition demo_pg :: PostgreSQLConfig where
  "demo_pg = \<lparr>pgspec_Host = ''pg'', pgspec_Port = 5432, pgspec_User = ''postgres'',
     pgspec_SSLMode = SSLModeDISABLE, pgspec_DatabaseName = ''app'',
     pgspec_SSLCredentialsSecret = cluster_name [],
     pgspec_SSLCAKey = \<lparr>secret_Secret = cluster_name [], secret_Key = []\<rparr>,
     pgspec_PasswordSecret = \<lparr>secret_Secret = cluster_name [], secret_Key = []\<rparr>\<rparr>"

definition demo_pg_spec :: DatabaseSpec where
  "demo_pg_spec = \<lparr>spec_Type = PostgreSQL_type, spec_PostgreSQL = Some demo_pg, spec_MySQL = None\<rparr>"

definition demo_world :: "(Cluster, Server) World" where
  "demo_world = empty_world (demo_cluster (demo_user [] None))"

lemma demo_pg_connects:
  "\<exists>db w. NewDatabase mem_Sqlx no_Crypto mem_GenMysql mem_Client demo_pg_spec demo_world = (Returned (Inr db), w)"
  by (simp add: NewDatabase_def go_simps newDatabase_def newPostgresql_def demo_pg_spec_def demo_pg_def
      sslMaterial_def uses_ssl_def ssl_mode_defs passwordFromSecret_def Let_def Postgresql_Connect_def
      NewPostgresql_def NewConfig_def map_index_def go_bind_def go_return_def Config_ConnString_steps
      cert_step_def with_cert_paths_def markCreateCerts_def connector_defs mem_Sqlx_def)

text \<open>Witness: the driver of a PostgreSQL database without TLS.\<close>

lemma CreateUser_keeps_password_out_of_log_witness:
  "\<exists>db :: (Cluster, Server) World Database. logs (snd (Database_CreateUser db ''john'' ''secret'' demo_world)) = logs demo_world"
proof -
  from demo_pg_connects obtain db w where
    "NewDatabase mem_Sqlx no_Crypto mem_GenMysql mem_Client demo_pg_spec demo_world = (Returned (Inr db), w)" by blast
  from CreateUser_keeps_password_out_of_log [OF this, of "''secret''"] show ?thesis by blast
qed

section \<open>Accounts that exist already, accounts that are gone\<close>

text \<open>
  Creating a PostgreSQL account is idempotent: when the server answers that the
  role exists (SQLSTATE 42710, however deep the error is wrapped), \<^verbatim>\<open>CreateUser\<close> returns
  no error and no certificates, and nothing happens after the one statement.
\<close>

lemma pg_CreateUser_idempotent:
  assumes "Connection_Exec C (pg_db p) (snd (createUserQuery u pw)) (fst (createUserQuery u pw)) [] w =
      (Returned (Some e), w')"
    and "errors_As_PgError e = Some ''42710''"
  shows "Postgresql_CreateUser C K p u pw w = (Returned ([], None), w')"
  using assms
  by (simp add: Postgresql_CreateUser_def case_prod_unfold go_bind_def go_return_def isAlreadyExists_iff
      ignoreAlreadyExists_def)

text \<open>A connection whose server answers every statement with one error.\<close>

definition failing_Sqlx :: "error \<Rightarrow> Server Sqlx" where
  "failing_Sqlx e = mem_Sqlx\<lparr>sqlx_ExecContext := (\<lambda>h q as fs d. (Some e, d @ [(q, as)]))\<rparr>"

definition demo_connected :: "(Cluster, Server) World" where
  "demo_connected = demo_world\<lparr>connectors := [\<lparr>connector_db = Some 0\<rparr>]\<rparr>"

definition demo_driver :: "nat Postgresql" where
  "demo_driver = NewPostgresql 0 (NewConfig ''pg'' 5432 ''postgres'' [] ''app'' SSLModeDISABLE [] [] [] [])"

lemma demo_Exec:
  "\<exists>w'. Connection_Exec (DefaultConnector_Connection (failing_Sqlx e)) (pg_db demo_driver) l q [] demo_connected =
     (Returned (Some e), w')"
  by (simp add: connector_defs demo_driver_def NewPostgresql_def demo_connected_def failing_Sqlx_def)

text \<open>Witness: the duplicate role error, wrapped once.\<close>

lemma pg_CreateUser_idempotent_witness:
  "\<exists>w'. Postgresql_CreateUser (DefaultConnector_Connection (failing_Sqlx (WrapError ''exec'' (PgError ''42710'' ''exists''))))
     no_Crypto demo_driver ''john'' ''secret'' demo_connected = (Returned ([], None), w')"
proof -
  let ?e = "WrapError ''exec'' (PgError ''42710'' ''exists'')"
  obtain w' where "Connection_Exec (DefaultConnector_Connection (failing_Sqlx ?e)) (pg_db demo_driver)
      (snd (createUserQuery ''john'' ''secret'')) (fst (createUserQuery ''john'' ''secret'')) [] demo_connected =
      (Returned (Some ?e), w')"
    using demo_Exec by blast
  from pg_CreateUser_idempotent [OF this, of no_Crypto] show ?thesis by simp
qed

text \<open>
  \<^bold>\<open>C26\<close> A PostgreSQL account operation forgives its own condition and nothing else,
  whatever the connection is and the server answers. \<^verbatim>\<open>CreateUser\<close>: the answer that the role
  exists (SQLSTATE 42710, however deep it is wrapped) is no error, gives no certificates and
  ends the call; any other answer, a lost connection included, comes back unchanged, with
  the certificates when they are issued, except that a failure to issue them takes its place.
  \<^verbatim>\<open>DeleteUser\<close>: the answer that the role is undefined (SQLSTATE 42704) is no error, any other
  comes back unchanged.
\<close>

theorem pg_account_errors:
  assumes created: "Connection_Exec C (pg_db p) (snd (createUserQuery u pw)) (fst (createUserQuery u pw)) [] w = (Returned err, w1)"
    and dropped: "Connection_Exec C (pg_db p) EnableLogger (deleteUserQuery u) [] x = (Returned err', x1)"
  shows "Postgresql_CreateUser C K p u pw w =
      (if \<exists>e. err = Some e \<and> errors_As_PgError e = Some ''42710'' then (Returned ([], None), w1)
       else if Config_CreateCerts (pg_config p) then
         case genPostgresCertFromCA K (pg_config p) u w1 of
           (Panicked, w2) \<Rightarrow> (Panicked, w2)
         | (Returned (Inl e), w2) \<Rightarrow> (Returned ([], Some e), w2)
         | (Returned (Inr certs), w2) \<Rightarrow> (Returned (certs, err), w2)
       else (Returned ([], err), w1)) \<and>
    Postgresql_DeleteUser C p u x =
      (Returned (if \<exists>e. err' = Some e \<and> errors_As_PgError e = Some ''42704'' then None else err'), x1)"
proof
  show "Postgresql_CreateUser C K p u pw w =
      (if \<exists>e. err = Some e \<and> errors_As_PgError e = Some ''42710'' then (Returned ([], None), w1)
       else if Config_CreateCerts (pg_config p) then
         case genPostgresCertFromCA K (pg_config p) u w1 of
           (Panicked, w2) \<Rightarrow> (Panicked, w2)
         | (Returned (Inl e), w2) \<Rightarrow> (Returned ([], Some e), w2)
         | (Returned (Inr certs), w2) \<Rightarrow> (Returned (certs, err), w2)
       else (Returned ([], err), w1))"
    unfolding isAlreadyExists_iff [symmetric]
    by (simp add: Postgresql_CreateUser_def case_prod_unfold go_bind_def [of "Connection_Exec _ _ _ _ _"] created
        ignoreAlreadyExists_def go_return_def [of "([], _)"])
      (auto simp: go_bind_def go_return_def split: prod.split outcome.split sum.split)
  show "Postgresql_DeleteUser C p u x =
      (Returned (if \<exists>e. err' = Some e \<and> errors_As_PgError e = Some ''42704'' then None else err'), x1)"
    unfolding isNotExists_iff [symmetric]
    by (simp add: Postgresql_DeleteUser_def go_bind_def go_return_def ignoreNotExists_def dropped)
qed

text \<open>
  Witness: a lost connection is reported by both; the role that exists already and the one
  that is gone are reported by neither, each only to its own operation.
\<close>

theorem pg_account_errors_witness:
  "(\<exists>w1 x1. Postgresql_CreateUser (DefaultConnector_Connection (failing_Sqlx (ErrorString ''broken pipe''))) no_Crypto
        demo_driver ''john'' ''secret'' demo_connected = (Returned ([], Some (ErrorString ''broken pipe'')), w1) \<and>
      Postgresql_DeleteUser (DefaultConnector_Connection (failing_Sqlx (ErrorString ''broken pipe''))) demo_driver ''john''
        demo_connected = (Returned (Some (ErrorString ''broken pipe'')), x1)) \<and>
   (\<exists>w1 x1. Postgresql_CreateUser (DefaultConnector_Connection (failing_Sqlx (PgError ''42710'' ''exists''))) no_Crypto
        demo_driver ''john'' ''secret'' demo_connected = (Returned ([], None), w1) \<and>
      Postgresql_DeleteUser (DefaultConnector_Connection (failing_Sqlx (PgError ''42710'' ''exists''))) demo_driver ''john''
        demo_connected = (Returned (Some (PgError ''42710'' ''exists'')), x1)) \<and>
   (\<exists>w1 x1. Postgresql_CreateUser (DefaultConnector_Connection (failing_Sqlx (PgError ''42704'' ''undefined''))) no_Crypto
        demo_driver ''john'' ''secret'' demo_connected = (Returned ([], Some (PgError ''42704'' ''undefined'')), w1) \<and>
      Postgresql_DeleteUser (DefaultConnector_Connection (failing_Sqlx (PgError ''42704'' ''undefined''))) demo_driver ''john''
        demo_connected = (Returned None, x1))"
proof -
  have plain: "\<not> Config_CreateCerts (pg_config demo_driver)"
    by (simp add: demo_driver_def NewPostgresql_def NewConfig_def Config_CreateCerts_def)
  have both: "\<exists>w1 x1. Postgresql_CreateUser (DefaultConnector_Connection (failing_Sqlx e)) no_Crypto demo_driver ''john'' ''secret''
        demo_connected = (Returned ([], if errors_As_PgError e = Some ''42710'' then None else Some e), w1) \<and>
      Postgresql_DeleteUser (DefaultConnector_Connection (failing_Sqlx e)) demo_driver ''john'' demo_connected =
        (Returned (if errors_As_PgError e = Some ''42704'' then None else Some e), x1)" for e
  proof -
    let ?C = "DefaultConnector_Connection (failing_Sqlx e)" and ?q = "createUserQuery ''john'' ''secret''"
    obtain w1 where c: "Connection_Exec ?C (pg_db demo_driver) (snd ?q) (fst ?q) [] demo_connected = (Returned (Some e), w1)"
      using demo_Exec by blast
    obtain x1 where d: "Connection_Exec ?C (pg_db demo_driver) EnableLogger (deleteUserQuery ''john'') [] demo_connected =
        (Returned (Some e), x1)"
      using demo_Exec by blast
    from pg_account_errors [OF c d, of no_Crypto] plain show ?thesis by auto
  qed
  show ?thesis
    using both [of "ErrorString ''broken pipe''"] both [of "PgError ''42710'' ''exists''"] both [of "PgError ''42704'' ''undefined''"]
    by simp
qed

section \<open>Certificate files\<close>

lemma with_cert_paths_files:
  "cert_files (with_cert_paths home c) =
     {filepath_Join [home, cert_path c ''ca''], filepath_Join [home, cert_path c ''crt''], filepath_Join [home, cert_path c ''key'']}"
  by (simp add: cert_files_def with_cert_paths_def)

lemma with_cert_paths_files_cong:
  "Host c = Host c' \<Longrightarrow> DatabaseName c = DatabaseName c' \<Longrightarrow> config_User c = config_User c' \<Longrightarrow>
     cert_files (with_cert_paths home c) = cert_files (with_cert_paths home c')"
  by (simp add: with_cert_paths_files cert_path_def)

lemma connect_files:
  assumes "Postgresql_Connect (DefaultConnector_Connection X) p w = (Returned (p', err), w')"
  shows "cert_files (pg_config p') = cert_files (with_cert_paths (env_HOME w) (pg_config p))"
    and "env_HOME w' = env_HOME w" and "fs_deny (filesystem w') = fs_deny (filesystem w)"
    and "f \<notin> cert_files (pg_config p') \<Longrightarrow> regular (filesystem w') f = regular (filesystem w) f"
proof -
  obtain r w1 where cs: "Config_ConnString (pg_config p) w = (r, w1)" by fastforce
  then obtain c' res fs where c': "r = Returned (c', res)" "w1 = w\<lparr>filesystem := fs\<rparr>"
    "fs_deny fs = fs_deny (filesystem w)" "cert_files c' = cert_files (with_cert_paths (env_HOME w) (pg_config p))"
    "\<And>f. f \<notin> cert_files c' \<Longrightarrow> regular fs f = regular (filesystem w) f"
    by (rule Config_ConnString_frame) blast
  have "p' = p\<lparr>pg_config := c'\<rparr> \<and> filesystem w' = filesystem w1 \<and> env_HOME w' = env_HOME w1"
  proof (cases res)
    case (Inl e)
    with assms cs c'(1) show ?thesis by (simp add: Postgresql_Connect_def Let_def go_simps)
  next
    case (Inr s)
    obtain r2 w2 where con: "DefaultConnector_Connect X (pg_db p) ''pgx'' s w1 = (r2, w2)" by fastforce
    note frame = dc.frame [where X = X and c = "pg_db p", unfolded DefaultConnector_Connection_sel]
    have "filesystem w2 = filesystem w1" "env_HOME w2 = env_HOME w1"
      using keepsD [OF frame(3) con] by (simp_all add: beyond_conn_def)
    with Inr assms cs c'(1) con show ?thesis
      by (cases r2) (simp_all add: Postgresql_Connect_def Let_def go_simps go_bind_def go_return_def)
  qed
  with c' show "cert_files (pg_config p') = cert_files (with_cert_paths (env_HOME w) (pg_config p))"
    "env_HOME w' = env_HOME w" "fs_deny (filesystem w') = fs_deny (filesystem w)"
    "f \<notin> cert_files (pg_config p') \<Longrightarrow> regular (filesystem w') f = regular (filesystem w) f"
    by simp_all
qed

lemma connect_keeps_identity:
  assumes "Postgresql_Connect C p w = (Returned (p', None), w')"
  shows "Host (pg_config p') = Host (pg_config p)" and "DatabaseName (pg_config p') = DatabaseName (pg_config p)"
    and "config_User (pg_config p') = config_User (pg_config p)"
    and "Port (pg_config p') = Port (pg_config p)" and "SSLMode (pg_config p') = SSLMode (pg_config p)"
    and "pg_db p' = pg_db p"
proof -
  show "pg_db p' = pg_db p"
    using assms by (auto simp: Postgresql_Connect_def Let_def go_bind_def go_return_def
        split: prod.splits outcome.splits sum.splits)
  from assms obtain str w1 where "Config_ConnString (pg_config p) w = (Returned (pg_config p', Inr str), w1)"
    by (auto simp: Postgresql_Connect_def Let_def go_bind_def go_return_def split: prod.splits outcome.splits sum.splits)
  from Config_ConnString_ok(1) [OF this]
  show "Host (pg_config p') = Host (pg_config p)" and "DatabaseName (pg_config p') = DatabaseName (pg_config p)"
    and "config_User (pg_config p') = config_User (pg_config p)"
    and "Port (pg_config p') = Port (pg_config p)" and "SSLMode (pg_config p') = SSLMode (pg_config p)"
    by (simp_all add: markCreateCerts_def with_cert_paths_def)
qed

lemma connect_session_files:
  fixes body :: "(('k, 'd) World, 'a) go"
  assumes con: "Postgresql_Connect (DefaultConnector_Connection X) p w = (Returned (p', err), w1)"
    and body: "keeps filesystem body" "body w1 = (r, w2)"
    and close: "Postgresql_Close (DefaultConnector_Connection X) p' w2 = (r', w3)"
    and remove: "\<And>f. fs_deny (filesystem w) OsRemove f = None"
  shows "regular (filesystem w3) = regular (filesystem w) |` (- cert_files (with_cert_paths (env_HOME w) (pg_config p)))"
proof -
  have fs2: "filesystem w2 = filesystem w1" by (rule keepsD [OF body])
  obtain r4 w4 where cl: "Config_Close (pg_config p') w2 = (r4, w4)" by fastforce
  have "filesystem w3 = filesystem w4"
  proof (cases r4)
    case (Returned x)
    with cl close have "DefaultConnector_Close X (pg_db p') w4 = (r', w3)"
      by (simp add: Postgresql_Close_def go_bind_def)
    with keepsD [OF dc.frame_filesystem(2) [where X = X and c = "pg_db p'"]] show ?thesis by simp
  next
    case Panicked
    with cl close show ?thesis by (simp add: Postgresql_Close_def go_bind_def)
  qed
  moreover have "regular (filesystem w4) = regular (filesystem w1) |` (- cert_files (pg_config p'))"
    using Config_Close_regular [of "pg_config p'" w2] cl fs2 connect_files(3) [OF con] remove by simp
  ultimately have w3: "regular (filesystem w3) = regular (filesystem w1) |` (- cert_files (pg_config p'))" by simp
  show ?thesis
    unfolding w3 connect_files(1) [OF con, symmetric]
    by (rule ext) (simp add: restrict_map_def connect_files(4) [OF con])
qed

lemma inDatabasePrivilege_files_lemma:
  assumes "Connection_Copy (DefaultConnector_Connection X) (pg_db p) w = (Returned d, w1)"
    and "Postgresql_Connect (DefaultConnector_Connection X)
       (NewPostgresql d ((Config_Copy (pg_config p))\<lparr>DatabaseName := dbname\<rparr>)) w1 = (Returned (newP, None), w2)"
    and "Postgresql_inDatabasePrivilege (DefaultConnector_Connection X) p u dbname on priv st arg w = (out, w')"
    and "\<And>f. fs_deny (filesystem w) OsRemove f = None"
  shows "regular (filesystem w') = regular (filesystem w) |`
    (- cert_files (with_cert_paths (env_HOME w) ((pg_config p)\<lparr>DatabaseName := dbname\<rparr>)))"
proof -
  let ?C = "DefaultConnector_Connection X"
  let ?q = "pg_prepareStatementForPrivilege st arg u dbname on priv"
  let ?exec = "Connection_Exec ?C (pg_db newP) EnableLogger ?q []"
  have w1: "filesystem w1 = filesystem w" "env_HOME w1 = env_HOME w"
    using keepsD [OF dc.frame(1) assms(1)] by (simp_all add: beyond_conn_def)
  obtain r3 w3 where ex: "?exec w2 = (r3, w3)" by fastforce
  obtain r4 w4 where cl: "Postgresql_Close ?C newP w3 = (r4, w4)" by fastforce
  have "w' = w4"
    using assms(3) ex cl
    by (auto simp: Postgresql_inDatabasePrivilege_def Let_def go_simps assms(1,2) go_defer_def
        simp del: DefaultConnector_Connection_sel split: outcome.splits)
  moreover have "regular (filesystem w4) = regular (filesystem w1) |` (- cert_files (with_cert_paths (env_HOME w1)
      ((Config_Copy (pg_config p))\<lparr>DatabaseName := dbname\<rparr>)))"
    using connect_session_files [OF assms(2) dc.frame_filesystem(4) ex cl] assms(4) w1(1)
    by (simp add: NewPostgresql_def)
  ultimately show ?thesis using w1 by (simp add: Config_Copy_def)
qed

text \<open>
  \<^bold>\<open>C23\<close> Granting or revoking inside a database cleans up after itself: when the
  connection of its own that \<^verbatim>\<open>inDatabasePrivilege\<close> opens is established, then after it
  (whatever the statement did, panics included) no certificate file of that host, database
  and user is left, and every other regular file is as before.
\<close>

theorem inDatabasePrivilege_files:
  assumes "Connection_Copy (DefaultConnector_Connection X) (pg_db p) w = (Returned d, w1)"
    and "Postgresql_Connect (DefaultConnector_Connection X)
       (NewPostgresql d ((Config_Copy (pg_config p))\<lparr>DatabaseName := dbname\<rparr>)) w1 = (Returned (newP, None), w2)"
    and "Postgresql_inDatabasePrivilege (DefaultConnector_Connection X) p u dbname on priv st arg w = (out, w')"
    and "\<And>f. fs_deny (filesystem w) OsRemove f = None"
  shows "regular (filesystem w') = regular (filesystem w) |`
    (- cert_files (with_cert_paths (env_HOME w) ((pg_config p)\<lparr>DatabaseName := dbname\<rparr>)))"
  using assms by (rule inDatabasePrivilege_files_lemma)

text \<open>
  A connected driver with a TLS bundle, for the witnesses: the files can be written in an
  empty file system, so it connects.
\<close>

definition tls_config :: Config where
  "tls_config = NewConfig ''pg'' 5432 ''postgres'' [] ''app'' SSLModeVERIFYFULL ''CA'' ''CRT'' ''KEY'' ''CAKEY''"

definition tls_driver :: "nat Postgresql" where
  "tls_driver = NewPostgresql 0 tls_config"

lemma tls_paths:
  "filepath_Join [''/root'', cert_path tls_config ''ca''] = ''/root/postgres-certs/pg/app_postgres.ca''"
  "filepath_Join [''/root'', cert_path tls_config ''crt''] = ''/root/postgres-certs/pg/app_postgres.crt''"
  "filepath_Join [''/root'', cert_path tls_config ''key''] = ''/root/postgres-certs/pg/app_postgres.key''"
  "filepath_Dir ''/root/postgres-certs/pg/app_postgres.ca'' = ''/root/postgres-certs/pg''"
  "filepath_Dir ''/root/postgres-certs/pg/app_postgres.crt'' = ''/root/postgres-certs/pg''"
  "filepath_Dir ''/root/postgres-certs/pg/app_postgres.key'' = ''/root/postgres-certs/pg''"
  "dirs_of ''/root/postgres-certs/pg'' = [''/root'', ''/root/postgres-certs'', ''/root/postgres-certs/pg'']"
  by code_simp+

lemma tls_writable:
  "fs_nodes fs = Map.empty \<Longrightarrow> (\<And>c f. fs_deny fs c f = None) \<Longrightarrow>
     writable_certs fs (cert_files (with_cert_paths ''/root'' tls_config))"
  by (simp add: writable_certs_def with_cert_paths_files tls_paths)

lemma demo_world_sel [simp]:
  "env_HOME demo_world = ''/root''" "env_HOME demo_connected = ''/root''"
  "fs_nodes (filesystem demo_connected) = Map.empty" "fs_deny (filesystem demo_connected) c f = None"
  by (simp_all add: demo_world_def demo_connected_def empty_world_def)

lemma connects_if_writable:
  assumes "writable_certs (filesystem w) (cert_files (with_cert_paths (env_HOME w) (pg_config p)))"
  obtains p' w' fs' str where
    "Postgresql_Connect (DefaultConnector_Connection mem_Sqlx) p w = (Returned (p', None), w')"
    "pg_db p' = pg_db p" "filesystem w' = fs'" "env_HOME w' = env_HOME w"
    "writable_certs fs' (cert_files (with_cert_paths (env_HOME w) (pg_config p)))"
    "Config_ConnString (pg_config p) w = (Returned (pg_config p', Inr str), w\<lparr>filesystem := fs'\<rparr>)"
proof -
  from ConnString_writable [OF assms] obtain c' str fs' where cs:
    "Config_ConnString (pg_config p) w = (Returned (c', Inr str), w\<lparr>filesystem := fs'\<rparr>)"
    and wr: "writable_certs fs' (cert_files (with_cert_paths (env_HOME w) (pg_config p)))" by blast
  have "\<exists>w'. Postgresql_Connect (DefaultConnector_Connection mem_Sqlx) p w = (Returned (p\<lparr>pg_config := c'\<rparr>, None), w') \<and>
      filesystem w' = fs' \<and> env_HOME w' = env_HOME w"
    using cs by (simp add: Postgresql_Connect_def Let_def go_bind_def go_return_def connector_defs mem_Sqlx_def)
  then obtain w' where "Postgresql_Connect (DefaultConnector_Connection mem_Sqlx) p w = (Returned (p\<lparr>pg_config := c'\<rparr>, None), w')"
      "filesystem w' = fs'" "env_HOME w' = env_HOME w" by blast
  from that [OF this(1) _ this(2,3) wr, of str] cs show thesis by simp
qed

text \<open>Witness: a grant with a TLS bundle, on the driver's own host and database.\<close>

theorem inDatabasePrivilege_files_witness:
  "\<exists>out w'. Postgresql_inDatabasePrivilege (DefaultConnector_Connection mem_Sqlx) tls_driver ''john'' ''app'' ''orders''
      ''SELECT'' ''GRANT'' ''TO'' demo_connected = (out, w') \<and>
    regular (filesystem w') = regular (filesystem demo_connected) |` (- cert_files (with_cert_paths ''/root'' tls_config))"
proof -
  let ?C = "DefaultConnector_Connection mem_Sqlx"
  let ?new = "NewPostgresql 1 tls_config"
  let ?w1 = "demo_connected\<lparr>connectors := connectors demo_connected @ [\<lparr>connector_db = None\<rparr>]\<rparr>"
  have p: "(Config_Copy (pg_config tls_driver))\<lparr>DatabaseName := ''app''\<rparr> = tls_config"
    "(pg_config tls_driver)\<lparr>DatabaseName := ''app''\<rparr> = tls_config"
    by (simp_all add: tls_driver_def NewPostgresql_def Config_Copy_def tls_config_def NewConfig_def)
  have copy: "Connection_Copy ?C (pg_db tls_driver) demo_connected = (Returned 1, ?w1)"
    by (simp add: connector_defs demo_connected_def)
  obtain out w' where run: "Postgresql_inDatabasePrivilege ?C tls_driver ''john'' ''app'' ''orders''
      ''SELECT'' ''GRANT'' ''TO'' demo_connected = (out, w')" by fastforce
  have "writable_certs (filesystem ?w1) (cert_files (with_cert_paths (env_HOME ?w1) (pg_config ?new)))"
    by (simp add: NewPostgresql_def tls_writable)
  then obtain newP w2 where "Postgresql_Connect ?C ?new ?w1 = (Returned (newP, None), w2)"
    by (rule connects_if_writable) blast
  with inDatabasePrivilege_files [OF copy _ run, unfolded p] run show ?thesis by auto
qed

text \<open>
  \<^bold>\<open>C33\<close> But the files of a connection are named by host, database and user only, and so
  they can be shared: after a connected driver granted or revoked inside the very database
  it is connected to, its own certificate files are gone, although the driver is still
  open and reads them again for its next connection.
\<close>

theorem inDatabasePrivilege_removes_own_files:
  assumes "Postgresql_Connect (DefaultConnector_Connection X) p0 w0 = (Returned (p, None), w)"
    and "Connection_Copy (DefaultConnector_Connection X) (pg_db p) w = (Returned d, w1)"
    and "Postgresql_Connect (DefaultConnector_Connection X)
       (NewPostgresql d ((Config_Copy (pg_config p))\<lparr>DatabaseName := DatabaseName (pg_config p)\<rparr>)) w1 =
         (Returned (newP, None), w2)"
    and "Postgresql_inDatabasePrivilege (DefaultConnector_Connection X) p u (DatabaseName (pg_config p)) on priv st arg w =
         (out, w')"
    and "\<And>f. fs_deny (filesystem w) OsRemove f = None"
    and "f \<in> cert_files (pg_config p)"
  shows "regular (filesystem w') f = None"
proof -
  have "Host (pg_config p) = Host (pg_config p0)" "DatabaseName (pg_config p) = DatabaseName (pg_config p0)"
    "config_User (pg_config p) = config_User (pg_config p0)"
    using connect_keeps_identity [OF assms(1)] by simp_all
  then have "cert_files (pg_config p) = cert_files (with_cert_paths (env_HOME w) ((pg_config p)\<lparr>DatabaseName := DatabaseName (pg_config p)\<rparr>))"
    unfolding connect_files(1) [OF assms(1)] connect_files(2) [OF assms(1)]
    by (intro with_cert_paths_files_cong) simp_all
  with assms(6) inDatabasePrivilege_files_lemma [OF assms(2-5)] show ?thesis by (simp add: restrict_map_def)
qed

text \<open>Witness: the key file of a connected driver, there before the grant and gone after it.\<close>

theorem inDatabasePrivilege_removes_own_files_witness:
  "\<exists>p w out w' key. Postgresql_Connect (DefaultConnector_Connection mem_Sqlx) tls_driver demo_connected = (Returned (p, None), w) \<and>
    (\<exists>m. regular (filesystem w) key = Some (m, ''KEY'')) \<and>
    Postgresql_inDatabasePrivilege (DefaultConnector_Connection mem_Sqlx) p ''john'' (DatabaseName (pg_config p)) ''orders''
      ''SELECT'' ''GRANT'' ''TO'' w = (out, w') \<and>
    regular (filesystem w') key = None"
proof -
  let ?C = "DefaultConnector_Connection mem_Sqlx"
  let ?files = "cert_files (with_cert_paths ''/root'' tls_config)"
  have cfg: "pg_config tls_driver = tls_config" by (simp add: tls_driver_def NewPostgresql_def)
  have "writable_certs (filesystem demo_connected) (cert_files (with_cert_paths (env_HOME demo_connected) (pg_config tls_driver)))"
    by (simp add: cfg tls_writable)
  then obtain p w str fs where con: "Postgresql_Connect ?C tls_driver demo_connected = (Returned (p, None), w)"
    and w: "filesystem w = fs" "env_HOME w = ''/root''" and wr: "writable_certs fs ?files"
    and str: "Config_ConnString tls_config demo_connected = (Returned (pg_config p, Inr str), demo_connected\<lparr>filesystem := fs\<rparr>)"
    by (rule connects_if_writable) (simp add: cfg)
  let ?key = "sslUserKeyFile (pg_config p)"
  have before: "\<exists>m. regular (filesystem w) ?key = Some (m, ''KEY'')"
    using Config_ConnString_ok(5) [OF str] w(1) by (simp add: tls_config_def NewConfig_def)
  let ?w1 = "w\<lparr>connectors := connectors w @ [\<lparr>connector_db = None\<rparr>]\<rparr>"
  let ?new = "NewPostgresql (length (connectors w)) ((Config_Copy (pg_config p))\<lparr>DatabaseName := DatabaseName (pg_config p)\<rparr>)"
  have copy: "Connection_Copy ?C (pg_db p) w = (Returned (length (connectors w)), ?w1)"
    by (simp add: connector_defs)
  have "cert_files (with_cert_paths ''/root'' (pg_config ?new)) = ?files"
    using connect_keeps_identity [OF con, unfolded cfg]
    by (intro with_cert_paths_files_cong) (simp_all add: NewPostgresql_def Config_Copy_def)
  with wr w have "writable_certs (filesystem ?w1) (cert_files (with_cert_paths (env_HOME ?w1) (pg_config ?new)))" by simp
  then obtain newP w2 where con2: "Postgresql_Connect ?C ?new ?w1 = (Returned (newP, None), w2)"
    by (rule connects_if_writable) blast
  obtain out w' where run: "Postgresql_inDatabasePrivilege ?C p ''john'' (DatabaseName (pg_config p)) ''orders''
      ''SELECT'' ''GRANT'' ''TO'' w = (out, w')" by fastforce
  have "fs_deny (filesystem w) OsRemove f = None" for f
    using connect_files(3) [OF con] by simp
  from inDatabasePrivilege_removes_own_files [OF con copy con2 run this, of ?key] con before run
  show ?thesis by (auto simp: cert_files_def)
qed

text \<open>
  \<^bold>\<open>C34\<close> And they can be left behind: when the connection string was made, with the key
  written to its file, but the server then refuses the connection, \<^verbatim>\<open>Connect\<close> returns the
  error and the private key stays on disk. (\<^verbatim>\<open>newPostgresql\<close> and \<^verbatim>\<open>inDatabasePrivilege\<close>
  both return right then, before any \<^verbatim>\<open>Close\<close> is deferred.)
\<close>

theorem failed_Connect_leaves_key:
  assumes "Postgresql_Connect (DefaultConnector_Connection X) p w = (Returned (p', Some e), w')"
    and "Config_ConnString (pg_config p) w = (Returned (c, Inr str), w1)"
    and "SSLUserKey (pg_config p) \<noteq> []"
  shows "\<exists>m. regular (filesystem w') (sslUserKeyFile (pg_config p')) = Some (m, SSLUserKey (pg_config p))"
proof -
  obtain r w2 where con: "DefaultConnector_Connect X (pg_db p) ''pgx'' str w1 = (r, w2)" by fastforce
  have "filesystem w2 = filesystem w1"
    using keepsD [OF dc.frame_filesystem(3) [where X = X, unfolded DefaultConnector_Connection_sel] con] .
  with assms(1,2) con have "filesystem w' = filesystem w1" "pg_config p' = c"
    by (cases r; simp add: Postgresql_Connect_def Let_def go_simps go_bind_def go_return_def; auto)+
  with Config_ConnString_ok(5) [OF assms(2) assms(3)] show ?thesis by simp
qed

text \<open>Witness: a server that is down.\<close>

definition down_Sqlx :: "Server Sqlx" where
  "down_Sqlx = mem_Sqlx\<lparr>sqlx_ConnectContext := (\<lambda>driver cs fs d. (Inl (ErrorString ''connection refused'', Some 0), d))\<rparr>"

theorem failed_Connect_leaves_key_witness:
  "\<exists>p' e w' m. Postgresql_Connect (DefaultConnector_Connection down_Sqlx) tls_driver demo_connected = (Returned (p', Some e), w') \<and>
     regular (filesystem w') (sslUserKeyFile (pg_config p')) = Some (m, ''KEY'')"
proof -
  have cfg: "pg_config tls_driver = tls_config" by (simp add: tls_driver_def NewPostgresql_def)
  obtain c str fs where cs: "Config_ConnString (pg_config tls_driver) demo_connected =
      (Returned (c, Inr str), demo_connected\<lparr>filesystem := fs\<rparr>)"
    using ConnString_writable [of demo_connected tls_config] tls_writable [of "filesystem demo_connected"] by (auto simp: cfg)
  then obtain w' where con: "Postgresql_Connect (DefaultConnector_Connection down_Sqlx) tls_driver demo_connected =
      (Returned (tls_driver\<lparr>pg_config := c\<rparr>, Some (ErrorString ''connection refused'')), w')"
    by (auto simp: Postgresql_Connect_def Let_def go_bind_def go_return_def connector_defs down_Sqlx_def)
  from failed_Connect_leaves_key [OF con cs] con show ?thesis
    by (auto simp: cfg tls_config_def NewConfig_def)
qed

section \<open>Connection strings\<close>

text \<open>
  \<^verbatim>\<open>ConnString\<close> succeeds whenever the certificate files can be written, and then every
  certificate that is configured is in the file the string names for it.
\<close>

lemma ConnString_succeeds:
  assumes "writable_certs (filesystem w) (cert_files (with_cert_paths (env_HOME w) c))"
  shows "\<exists>c' str w'. Config_ConnString c w = (Returned (c', Inr str), w') \<and>
    (SSLCACert c \<noteq> [] \<longrightarrow> (\<exists>m. regular (filesystem w') (sslCACertFile c') = Some (m, SSLCACert c)) \<and>
       (''sslrootcert'', sslCACertFile c') \<in> set (conn_settings c')) \<and>
    (SSLUserCert c \<noteq> [] \<longrightarrow> (\<exists>m. regular (filesystem w') (sslUserCertFile c') = Some (m, SSLUserCert c)) \<and>
       (''sslcert'', sslUserCertFile c') \<in> set (conn_settings c')) \<and>
    (SSLUserKey c \<noteq> [] \<longrightarrow> (\<exists>m. regular (filesystem w') (sslUserKeyFile c') = Some (m, SSLUserKey c)) \<and>
       (''sslkey'', sslUserKeyFile c') \<in> set (conn_settings c'))"
proof -
  from ConnString_writable [OF assms] obtain c' str w' where cs: "Config_ConnString c w = (Returned (c', Inr str), w')" by blast
  have "SSLCACert c' = SSLCACert c" "SSLUserCert c' = SSLUserCert c" "SSLUserKey c' = SSLUserKey c"
    using Config_ConnString_ok(1) [OF cs] by (simp_all add: markCreateCerts_def with_cert_paths_def)
  with cs Config_ConnString_ok(3-5) [OF cs] show ?thesis by (auto simp: conn_settings_def)
qed

text \<open>The TLS bundle in an empty file system.\<close>

lemma ConnString_succeeds_witness:
  "\<exists>c' str w' m. Config_ConnString tls_config demo_connected = (Returned (c', Inr str), w') \<and>
     regular (filesystem w') (sslUserKeyFile c') = Some (m, ''KEY'')"
proof -
  have "writable_certs (filesystem demo_connected) (cert_files (with_cert_paths (env_HOME demo_connected) tls_config))"
    by (simp add: tls_writable)
  from ConnString_succeeds [OF this] show ?thesis by (fastforce simp: tls_config_def NewConfig_def)
qed

text \<open>Witness for the removal of the certificate files by \<^verbatim>\<open>Close\<close>: the same bundle.\<close>

lemma tls_ConnString:
  obtains c' str fs where "Config_ConnString tls_config demo_connected = (Returned (c', Inr str), demo_connected\<lparr>filesystem := fs\<rparr>)"
  using ConnString_writable [of demo_connected tls_config] tls_writable [of "filesystem demo_connected"] by auto

theorem ConnString_Close_files_witness:
  "\<exists>c' w1 r w2. Config_Close c' w1 = (r, w2) \<and> (\<exists>str. Config_ConnString tls_config demo_connected = (Returned (c', Inr str), w1)) \<and>
     regular (filesystem w2) (sslUserKeyFile c') = None"
proof -
  obtain c' str fs where cs: "Config_ConnString tls_config demo_connected = (Returned (c', Inr str), demo_connected\<lparr>filesystem := fs\<rparr>)"
    by (rule tls_ConnString)
  obtain r w2 where cl: "Config_Close c' (demo_connected\<lparr>filesystem := fs\<rparr>) = (r, w2)" by fastforce
  from ConnString_Close_files [OF cs cl] have "regular (filesystem w2) (sslUserKeyFile c') = None"
    by (simp add: cert_files_def)
  with cs cl show ?thesis by blast
qed

text \<open>Witness for reading a connection string back: a configuration with a password.\<close>

definition plain_config :: Config where
  "plain_config = NewConfig ''pg'' 5432 ''postgres'' ''s3cret='' ''app'' SSLModeDISABLE [] [] [] []"

theorem ConnString_parses_witness:
  "\<exists>c' str w'. Config_ConnString plain_config demo_connected = (Returned (c', Inr str), w') \<and>
     parse_conn_string str = conn_settings c' \<and> (''password'', ''s3cret='') \<in> set (conn_settings c')"
proof -
  let ?c = "with_cert_paths ''/root'' plain_config"
  have certs: "SSLCACert plain_config = []" "SSLUserCert plain_config = []" "SSLUserKey plain_config = []"
    by (simp_all add: plain_config_def NewConfig_def)
  have mark: "markCreateCerts [] c = c" for c by (simp add: markCreateCerts_def)
  obtain str w' where cs: "Config_ConnString plain_config demo_connected = (Returned (?c, Inr str), w')"
    by (simp add: Config_ConnString_steps cert_step_def certs mark)
  have settings: "conn_settings ?c = [(''host'', ''pg''), (''user'', ''postgres''), (''port'', fmt_d 5432), (''dbname'', ''app''),
      (''password'', ''s3cret=''), (''sslmode'', ''disable'')]"
    by (simp add: conn_settings_def with_cert_paths_def plain_config_def NewConfig_def SSLModeDISABLE_def)
  have "CHR '' '' \<notin> set (fmt_d 5432)" using fmt_d_chars [of 5432] by (auto simp: decimal_digits_def)
  then have "\<forall>v \<in> snd ` set (conn_settings ?c). CHR '' '' \<notin> set v" by (simp add: settings)
  from ConnString_parses [OF cs this] cs show ?thesis by (auto simp: settings)
qed

section \<open>Privileges\<close>

text \<open>
  What one privilege is, stated on the server's side: \<open>e\<close> is the answer to it and \<open>w'\<close> the
  state it leaves. A privilege without a name is refused before anything is sent. One on a
  database, or on nothing at all, is one statement over the connection of the driver. One on
  an object inside a database is one statement over a connection to that database, opened
  for it with the configuration of the driver, and closed after it.
\<close>

definition privilege_answered ::
  "('c, ('k, 'd) World) Connection \<Rightarrow> 'c Postgresql \<Rightarrow> string \<Rightarrow> string \<Rightarrow> string \<Rightarrow> PrivilegeSpec \<Rightarrow> ('k, 'd) World \<Rightarrow>
     error option \<Rightarrow> ('k, 'd) World \<Rightarrow> bool" where
  "privilege_answered C p u verb prep pr w e w' \<longleftrightarrow>
     (if Privilege pr = [] then e = Some errPrivilegeType \<and> w' = w
      else if Database pr = [] \<or> On pr = [] then
        Connection_Exec C (pg_db p) EnableLogger
          (pg_prepareStatementForPrivilege verb prep u (Database pr) [] (Privilege pr)) [] w = (Returned e, w')
      else \<exists>conn w1 newP err w2. Connection_Copy C (pg_db p) w = (Returned conn, w1) \<and>
        Postgresql_Connect C (NewPostgresql conn ((pg_config p)\<lparr>DatabaseName := Database pr\<rparr>)) w1 = (Returned (newP, err), w2) \<and>
        (case err of Some e' \<Rightarrow> e = Some e' \<and> w' = w2
         | None \<Rightarrow> \<exists>w3 closed. Connection_Exec C (pg_db newP) EnableLogger
             (pg_prepareStatementForPrivilege verb prep u (Database pr) (On pr) (Privilege pr)) [] w2 = (Returned e, w3) \<and>
             Postgresql_Close C newP w3 = (Returned closed, w')))"

lemma processPrivilege_answered:
  "Postgresql_processPrivilege C p u verb prep pr w = (Returned e, w') \<longleftrightarrow> privilege_answered C p u verb prep pr w e w'"
proof -
  let ?conf = "(pg_config p)\<lparr>DatabaseName := Database pr\<rparr>"
    and ?q = "pg_prepareStatementForPrivilege verb prep u (Database pr) (On pr) (Privilege pr)"
  have "Postgresql_inDatabasePrivilege C p u (Database pr) (On pr) (Privilege pr) verb prep w = (Returned e, w') \<longleftrightarrow>
      (\<exists>conn w1 newP err w2. Connection_Copy C (pg_db p) w = (Returned conn, w1) \<and>
        Postgresql_Connect C (NewPostgresql conn ?conf) w1 = (Returned (newP, err), w2) \<and>
        (case err of Some e' \<Rightarrow> e = Some e' \<and> w' = w2
         | None \<Rightarrow> \<exists>w3 closed. Connection_Exec C (pg_db newP) EnableLogger ?q [] w2 = (Returned e, w3) \<and>
             Postgresql_Close C newP w3 = (Returned closed, w')))"
    by (auto simp: Postgresql_inDatabasePrivilege_def Config_Copy_def Let_def go_bind_def go_return_def go_defer_def
        split: prod.splits outcome.splits option.splits)
  then show ?thesis
    by (auto simp: Postgresql_processPrivilege_def privilege_answered_def Postgresql_databasePrivilege_def
        Postgresql_privilege_def go_return_def)
qed

lemma privileges_answered:
  "Postgresql_privilegesProcessor C p u privs verb prep w = (Returned None, w') \<longleftrightarrow>
     along (\<lambda>pr s. privilege_answered C p u verb prep pr s None) privs w w'"
  "Postgresql_privilegesProcessor C p u privs verb prep w = (Returned (Some e), w') \<longleftrightarrow>
     (\<exists>before pr rest w1. privs = before @ pr # rest \<and>
        along (\<lambda>pr s. privilege_answered C p u verb prep pr s None) before w w1 \<and>
        privilege_answered C p u verb prep pr w1 (Some e) w')"
  unfolding Postgresql_privilegesProcessor_def by (rule go_for_iff [OF processPrivilege_answered])+

text \<open>
  \<^bold>\<open>C28\<close> Privileges are applied in their order and up to the first failure, and that is all
  that happens: \<^verbatim>\<open>ApplyPrivileges\<close> returns nil in a state exactly if that state is reached by
  granting every privilege in turn, each answered without error; and it returns an error
  exactly if the privileges before some one were granted in turn and that one was answered
  with this very error, in the state which it left. Nothing of the rest is attempted.
\<close>

theorem pg_ApplyPrivileges_stops_at_first_error:
  "(Postgresql_ApplyPrivileges C p u privs w = (Returned None, w') \<longleftrightarrow>
     along (\<lambda>pr s. privilege_answered C p u ''GRANT'' ''TO'' pr s None) privs w w') \<and>
   (Postgresql_ApplyPrivileges C p u privs w = (Returned (Some e), w') \<longleftrightarrow>
     (\<exists>before pr rest w1. privs = before @ pr # rest \<and>
        along (\<lambda>pr s. privilege_answered C p u ''GRANT'' ''TO'' pr s None) before w w1 \<and>
        privilege_answered C p u ''GRANT'' ''TO'' pr w1 (Some e) w'))"
  unfolding Postgresql_ApplyPrivileges_def privileges_answered by blast

definition select_on :: "string \<Rightarrow> PrivilegeSpec" where
  "select_on d = \<lparr>Privilege = ''SELECT'', On = [], Database = d\<rparr>"

text \<open>Witness: a privilege without a name after one that works.\<close>

theorem pg_ApplyPrivileges_stops_at_first_error_witness:
  "\<exists>before pr rest w1 w'. [select_on ''shop'', \<lparr>Privilege = [], On = [], Database = []\<rparr>, select_on ''crm''] = before @ pr # rest \<and>
    along (\<lambda>pr s. privilege_answered (DefaultConnector_Connection mem_Sqlx) demo_driver ''john'' ''GRANT'' ''TO'' pr s None)
      before demo_connected w1 \<and>
    privilege_answered (DefaultConnector_Connection mem_Sqlx) demo_driver ''john'' ''GRANT'' ''TO'' pr w1 (Some errPrivilegeType) w'"
proof -
  have "\<exists>w'. Postgresql_ApplyPrivileges (DefaultConnector_Connection mem_Sqlx) demo_driver ''john''
      [select_on ''shop'', \<lparr>Privilege = [], On = [], Database = []\<rparr>, select_on ''crm''] demo_connected =
      (Returned (Some errPrivilegeType), w')"
    by (simp add: Postgresql_ApplyPrivileges_def Postgresql_privilegesProcessor_def Postgresql_processPrivilege_def
        Postgresql_databasePrivilege_def select_on_def go_check_def connector_defs demo_driver_def NewPostgresql_def
        demo_connected_def mem_Sqlx_def EnableLogger_def DisableLogger_def)
  then obtain w' where "Postgresql_ApplyPrivileges (DefaultConnector_Connection mem_Sqlx) demo_driver ''john''
      [select_on ''shop'', \<lparr>Privilege = [], On = [], Database = []\<rparr>, select_on ''crm''] demo_connected =
      (Returned (Some errPrivilegeType), w')" by blast
  with pg_ApplyPrivileges_stops_at_first_error [of "DefaultConnector_Connection mem_Sqlx" demo_driver "''john''"
      "[select_on ''shop'', \<lparr>Privilege = [], On = [], Database = []\<rparr>, select_on ''crm'']" demo_connected w' errPrivilegeType]
  show ?thesis by blast
qed

text \<open>
  \<^bold>\<open>C35\<close> Revoking gives up at the first privilege that is already gone, and says that all
  is well: \<^verbatim>\<open>RevokePrivileges\<close> returns nil exactly if every privilege was revoked in turn, or
  if the ones before some privilege were and that one was answered with SQLSTATE 42704, in
  the state which it left, so that nothing of the rest was attempted. Any other error, of
  the first privilege that has one, comes back unchanged.
\<close>

theorem pg_RevokePrivileges_skips_rest:
  "(Postgresql_RevokePrivileges C p u privs w = (Returned None, w') \<longleftrightarrow>
     along (\<lambda>pr s. privilege_answered C p u ''REVOKE'' ''FROM'' pr s None) privs w w' \<or>
     (\<exists>before pr rest w1 e'. privs = before @ pr # rest \<and>
        along (\<lambda>pr s. privilege_answered C p u ''REVOKE'' ''FROM'' pr s None) before w w1 \<and>
        privilege_answered C p u ''REVOKE'' ''FROM'' pr w1 (Some e') w' \<and> errors_As_PgError e' = Some ''42704'')) \<and>
   (Postgresql_RevokePrivileges C p u privs w = (Returned (Some e), w') \<longleftrightarrow>
     (\<exists>before pr rest w1. privs = before @ pr # rest \<and>
        along (\<lambda>pr s. privilege_answered C p u ''REVOKE'' ''FROM'' pr s None) before w w1 \<and>
        privilege_answered C p u ''REVOKE'' ''FROM'' pr w1 (Some e) w' \<and> errors_As_PgError e \<noteq> Some ''42704''))"
proof -
  let ?loop = "Postgresql_privilegesProcessor C p u privs ''REVOKE'' ''FROM''"
  have "Postgresql_RevokePrivileges C p u privs w = (Returned None, w') \<longleftrightarrow> ?loop w = (Returned None, w') \<or>
      (\<exists>e'. ?loop w = (Returned (Some e'), w') \<and> errors_As_PgError e' = Some ''42704'')"
    and "Postgresql_RevokePrivileges C p u privs w = (Returned (Some e), w') \<longleftrightarrow>
      ?loop w = (Returned (Some e), w') \<and> errors_As_PgError e \<noteq> Some ''42704''"
    by (auto simp: Postgresql_RevokePrivileges_def go_bind_def go_return_def ignoreNotExists_def isNotExists_iff
        split: prod.splits outcome.splits if_splits)
  then show ?thesis unfolding privileges_answered by blast
qed

text \<open>
  Witness: a server that knows the first object and not the second. Nothing is sent for the
  third, and revoking succeeds.
\<close>

definition forgetful_Sqlx :: "Server Sqlx" where
  "forgetful_Sqlx = mem_Sqlx\<lparr>sqlx_ExecContext := (\<lambda>h q as fs d.
     (if d = [] then None else Some (PgError ''42704'' ''undefined''), d @ [(q, as)]))\<rparr>"

theorem pg_RevokePrivileges_skips_rest_witness:
  "\<exists>w'. Postgresql_RevokePrivileges (DefaultConnector_Connection forgetful_Sqlx) demo_driver ''john''
     [select_on ''shop'', select_on ''crm'', select_on ''erp''] demo_connected = (Returned None, w') \<and> length (dbms w') = 2"
proof -
  let ?C = "DefaultConnector_Connection forgetful_Sqlx"
  have "\<exists>w1 w'. privilege_answered ?C demo_driver ''john'' ''REVOKE'' ''FROM'' (select_on ''shop'') demo_connected None w1 \<and>
      privilege_answered ?C demo_driver ''john'' ''REVOKE'' ''FROM'' (select_on ''crm'') w1 (Some (PgError ''42704'' ''undefined'')) w' \<and>
      length (dbms w') = 2"
    by (simp add: privilege_answered_def select_on_def connector_defs demo_driver_def NewPostgresql_def
        demo_connected_def demo_world_def empty_world_def mem_Sqlx_def forgetful_Sqlx_def EnableLogger_def DisableLogger_def)
  then obtain w1 w' where first: "privilege_answered ?C demo_driver ''john'' ''REVOKE'' ''FROM'' (select_on ''shop'') demo_connected None w1"
    and second: "privilege_answered ?C demo_driver ''john'' ''REVOKE'' ''FROM'' (select_on ''crm'') w1
      (Some (PgError ''42704'' ''undefined'')) w'" "length (dbms w') = 2"
    by blast
  have "along (\<lambda>pr s. privilege_answered ?C demo_driver ''john'' ''REVOKE'' ''FROM'' pr s None) [select_on ''shop''] demo_connected w1"
    using first by simp
  moreover have "[select_on ''shop'', select_on ''crm'', select_on ''erp''] = [select_on ''shop''] @ select_on ''crm'' # [select_on ''erp'']"
    by simp
  moreover have "errors_As_PgError (PgError ''42704'' ''undefined'') = Some ''42704''" by simp
  ultimately have "Postgresql_RevokePrivileges ?C demo_driver ''john'' [select_on ''shop'', select_on ''crm'', select_on ''erp'']
      demo_connected = (Returned None, w')"
    using pg_RevokePrivileges_skips_rest [of ?C demo_driver "''john''" "[select_on ''shop'', select_on ''crm'', select_on ''erp'']"
        demo_connected w'] second(1)
    by blast
  with second(2) show ?thesis by blast
qed

text \<open>
  What \<^verbatim>\<open>escapeLiteralWithoutQuotes\<close> takes out of a privilege: the result has no
  semicolon and no NUL, and an even number of double quotes, but every hash sign of the
  input is still there.
\<close>

lemma escapeLiteralWithoutQuotes_chars:
  "CHR '';'' \<notin> set (escapeLiteralWithoutQuotes s) \<and> nul \<notin> set (escapeLiteralWithoutQuotes s) \<and>
   even (count_list (escapeLiteralWithoutQuotes s) dquote) \<and>
   count_list (escapeLiteralWithoutQuotes s) (CHR ''#'') = count_list s (CHR ''#'')"
proof -
  define t where "t = filter (\<lambda>c. c \<noteq> nul \<and> c \<noteq> CHR '';'') s"
  have form: "escapeLiteralWithoutQuotes s = strings_ReplaceAll t dquote [dquote, dquote]"
    by (simp add: escapeLiteralWithoutQuotes_form t_def)
  have "CHR '';'' \<notin> set t" "nul \<notin> set t" by (simp_all add: t_def)
  then have "CHR '';'' \<notin> set (strings_ReplaceAll t dquote [dquote, dquote])"
    "nul \<notin> set (strings_ReplaceAll t dquote [dquote, dquote])"
    using set_strings_ReplaceAll [of t dquote "[dquote, dquote]"] by (auto simp: dquote_def nul_def)
  moreover have "even (count_list (strings_ReplaceAll t dquote [dquote, dquote]) dquote)"
    by (induction t) simp_all
  moreover have "count_list (strings_ReplaceAll t dquote [dquote, dquote]) (CHR ''#'') = count_list t (CHR ''#'')"
    by (induction t) (simp_all add: dquote_def)
  moreover have "count_list t (CHR ''#'') = count_list s (CHR ''#'')"
    unfolding t_def by (induction s) (simp_all add: nul_def)
  ultimately show ?thesis by (simp add: form)
qed

section \<open>Client certificates\<close>

text \<open>The certificate and the key of the authority, if they can be read.\<close>

definition authority_key :: "Crypto \<Rightarrow> Config \<Rightarrow> string option" where
  "authority_key K c = Option.bind (pem_Decode (SSLCAKey c))
     (\<lambda>b. case x509_ParsePKCS1PrivateKey K (block_Bytes b) of Inl _ \<Rightarrow> None | Inr k \<Rightarrow> Some k)"

definition authority_cert :: "Crypto \<Rightarrow> Config \<Rightarrow> string option" where
  "authority_cert K c = Option.bind (pem_Decode (SSLCACert c))
     (\<lambda>b. case x509_ParseCertificate K (block_Bytes b) of Inl _ \<Rightarrow> None | Inr x \<Rightarrow> Some x)"

lemma genPostgresCertFromCA_ok:
  assumes "genPostgresCertFromCA K c u w = (Returned (Inr data), w')"
  obtains caKey ca n1 n2 n3 n4 n5 priv cert where
    "authority_key K c = Some caKey" "authority_cert K c = Some ca"
    "rsa_GenerateKey K n4 4096 = Inr priv"
    "x509_CreateCertificate K n5 \<lparr>tmpl_SerialNumber = rand_Int63 K n1, tmpl_CommonName = u, tmpl_NotBefore = time_Now K n2,
       tmpl_NotAfter = time_AddDate K (time_Now K n3) 1 0 0\<rparr> ca (rsa_PublicKey K priv) caKey = Inr cert"
    "data = [(''tls.crt'', pem_EncodeToMemory ''CERTIFICATE'' cert),
        (''tls.key'', pem_EncodeToMemory ''RSA PRIVATE KEY'' (x509_MarshalPKCS1PrivateKey K priv)),
        (''ca.crt'', SSLCACert c)]"
proof -
  note gen = genPostgresCertFromCA_def go_bind_def go_return_def go_panic_def draw_apply Let_def
  from assms obtain b where b: "pem_Decode (SSLCAKey c) = Some b"
    by (cases "pem_Decode (SSLCAKey c)") (simp_all add: gen)
  from assms b obtain caKey where k: "x509_ParsePKCS1PrivateKey K (block_Bytes b) = Inr caKey"
    by (cases "x509_ParsePKCS1PrivateKey K (block_Bytes b)") (simp_all add: gen)
  from assms b k obtain b' where b': "pem_Decode (SSLCACert c) = Some b'"
    by (cases "pem_Decode (SSLCACert c)") (simp_all add: gen)
  from assms b k b' obtain ca where ca: "x509_ParseCertificate K (block_Bytes b') = Inr ca"
    by (cases "x509_ParseCertificate K (block_Bytes b')") (simp_all add: gen)
  let ?n = "draws w"
  from assms b k b' ca obtain priv where priv: "rsa_GenerateKey K (Suc (Suc (Suc ?n))) 4096 = Inr priv"
    by (cases "rsa_GenerateKey K (Suc (Suc (Suc ?n))) 4096") (simp_all add: gen)
  let ?tmpl = "\<lparr>tmpl_SerialNumber = rand_Int63 K ?n, tmpl_CommonName = u, tmpl_NotBefore = time_Now K (Suc ?n),
       tmpl_NotAfter = time_AddDate K (time_Now K (Suc (Suc ?n))) 1 0 0\<rparr>"
  from assms b k b' ca priv obtain cert where cert:
    "x509_CreateCertificate K (Suc (Suc (Suc (Suc ?n)))) ?tmpl ca (rsa_PublicKey K priv) caKey = Inr cert"
    by (cases "x509_CreateCertificate K (Suc (Suc (Suc (Suc ?n)))) ?tmpl ca (rsa_PublicKey K priv) caKey") (simp_all add: gen)
  show thesis
    by (rule that [OF _ _ priv cert])
      (use assms b k b' ca priv cert in \<open>simp_all add: gen authority_key_def authority_cert_def\<close>)
qed

text \<open>What \<^verbatim>\<open>CreateUser\<close> went through when it returns data.\<close>

lemma pg_CreateUser_issued:
  assumes "Postgresql_CreateUser C K p u pw w = (Returned (data, None), w')" and "data \<noteq> []"
  shows "Config_CreateCerts (pg_config p) \<and>
    (\<exists>w1. Connection_Exec C (pg_db p) (snd (createUserQuery u pw)) (fst (createUserQuery u pw)) [] w = (Returned None, w1)) \<and>
    (\<exists>caKey ca n1 n2 n3 n5 priv cert.
      authority_key K (pg_config p) = Some caKey \<and> authority_cert K (pg_config p) = Some ca \<and>
      x509_CreateCertificate K n5 \<lparr>tmpl_SerialNumber = rand_Int63 K n1, tmpl_CommonName = u, tmpl_NotBefore = time_Now K n2,
        tmpl_NotAfter = time_AddDate K (time_Now K n3) 1 0 0\<rparr> ca (rsa_PublicKey K priv) caKey = Inr cert \<and>
      data = [(''tls.crt'', pem_EncodeToMemory ''CERTIFICATE'' cert),
        (''tls.key'', pem_EncodeToMemory ''RSA PRIVATE KEY'' (x509_MarshalPKCS1PrivateKey K priv)),
        (''ca.crt'', SSLCACert (pg_config p))] \<and>
      map_option pem_Decode (map_of data ''tls.crt'') = Some (Some \<lparr>block_Type = ''CERTIFICATE'', block_Bytes = cert\<rparr>) \<and>
      map_option pem_Decode (map_of data ''tls.key'') =
        Some (Some \<lparr>block_Type = ''RSA PRIVATE KEY'', block_Bytes = x509_MarshalPKCS1PrivateKey K priv\<rparr>))"
proof -
  have decodes: "pem_Decode (pem_EncodeToMemory ''CERTIFICATE'' b) = Some \<lparr>block_Type = ''CERTIFICATE'', block_Bytes = b\<rparr>"
    "pem_Decode (pem_EncodeToMemory ''RSA PRIVATE KEY'' b) = Some \<lparr>block_Type = ''RSA PRIVATE KEY'', block_Bytes = b\<rparr>" for b
    by (intro pem_Decode_EncodeToMemory; simp add: newline_def)+
  obtain r w1 where ex: "Connection_Exec C (pg_db p) (snd (createUserQuery u pw)) (fst (createUserQuery u pw)) [] w = (r, w1)"
    by fastforce
  obtain g w2 where gen': "genPostgresCertFromCA K (pg_config p) u w1 = (g, w2)" by fastforce
  note run = assms(1) [unfolded Postgresql_CreateUser_def case_prod_unfold go_bind_def go_return_def]
  from run ex obtain err where r: "r = Returned err" by (cases r) simp_all
  have issued: "Config_CreateCerts (pg_config p) \<and> \<not> isAlreadyExists err"
    using run ex r assms(2) by (auto split: if_splits)
  with run ex r gen' have "g = Returned (Inr data)" "w' = w2" "err = None"
    by (cases g; simp add: ignoreAlreadyExists_def split: sum.splits)+
  with issued r gen' have none: "Config_CreateCerts (pg_config p)" "r = Returned None"
    and gen: "genPostgresCertFromCA K (pg_config p) u w1 = (Returned (Inr data), w')" by simp_all
  from gen show ?thesis
    by (rule genPostgresCertFromCA_ok) (use none ex in \<open>simp add: decodes, blast\<close>)
qed

text \<open>
  \<^bold>\<open>C27\<close> The bundle of a new user: if \<^verbatim>\<open>CreateUser\<close> returns data, then the driver issues
  certificates and the server created the role just now (it did not say that it exists),
  and the data are exactly a certificate, its key and the certificate of the authority,
  under the keys that a TLS secret has; the certificate was signed with the key of the
  authority, for the common name of the user, from now on for one year; and who decodes
  the texts of the bundle gets that certificate and that key back.
\<close>

theorem pg_CreateUser_bundle:
  assumes "Postgresql_CreateUser C K p u pw w = (Returned (data, None), w')" and "data \<noteq> []"
  shows "Config_CreateCerts (pg_config p) \<and>
    (\<exists>w1. Connection_Exec C (pg_db p) (snd (createUserQuery u pw)) (fst (createUserQuery u pw)) [] w = (Returned None, w1)) \<and>
    (\<exists>caKey ca n1 n2 n3 n5 priv cert.
      authority_key K (pg_config p) = Some caKey \<and> authority_cert K (pg_config p) = Some ca \<and>
      x509_CreateCertificate K n5 \<lparr>tmpl_SerialNumber = rand_Int63 K n1, tmpl_CommonName = u, tmpl_NotBefore = time_Now K n2,
        tmpl_NotAfter = time_AddDate K (time_Now K n3) 1 0 0\<rparr> ca (rsa_PublicKey K priv) caKey = Inr cert \<and>
      data = [(''tls.crt'', pem_EncodeToMemory ''CERTIFICATE'' cert),
        (''tls.key'', pem_EncodeToMemory ''RSA PRIVATE KEY'' (x509_MarshalPKCS1PrivateKey K priv)),
        (''ca.crt'', SSLCACert (pg_config p))] \<and>
      map_option pem_Decode (map_of data ''tls.crt'') = Some (Some \<lparr>block_Type = ''CERTIFICATE'', block_Bytes = cert\<rparr>) \<and>
      map_option pem_Decode (map_of data ''tls.key'') =
        Some (Some \<lparr>block_Type = ''RSA PRIVATE KEY'', block_Bytes = x509_MarshalPKCS1PrivateKey K priv\<rparr>))"
  by (rule pg_CreateUser_issued [OF assms])

text \<open>A driver that holds the authority of the test certificates.\<close>

definition issuing_driver :: "nat Postgresql" where
  "issuing_driver = NewPostgresql 0 (markCreateCerts test_SSLCAKey
     (NewConfig ''pg'' 5432 ''postgres'' [] ''app'' SSLModeVERIFYFULL test_SSLCACert test_SSLJohnCert test_SSLJohnKey test_SSLCAKey))"

lemma issuing_driver_config:
  "pg_db issuing_driver = 0" "Config_CreateCerts (pg_config issuing_driver)"
  "SSLCAKey (pg_config issuing_driver) = test_SSLCAKey" "SSLCACert (pg_config issuing_driver) = test_SSLCACert"
  by (simp_all add: issuing_driver_def NewPostgresql_def NewConfig_def markCreateCerts_def Config_CreateCerts_def
      test_SSLCAKey_def raw_literal_def newline_def)

lemma issuing_CreateUser:
  "\<exists>data w'. Postgresql_CreateUser (DefaultConnector_Connection mem_Sqlx) no_Crypto issuing_driver ''john'' ''secret''
     demo_connected = (Returned (data, None), w') \<and> data \<noteq> []"
  using test_SSLCAKey_decodes test_SSLCACert_decodes
  by (auto simp: Postgresql_CreateUser_def case_prod_unfold connector_defs issuing_driver_config
      genPostgresCertFromCA_def no_Crypto_def
      draw_apply Let_def demo_connected_def mem_Sqlx_def createUserQuery_def DisableLogger_def)

text \<open>Witness: a driver with a TLS bundle and a new user.\<close>

theorem pg_CreateUser_bundle_witness:
  "\<exists>data w'. Postgresql_CreateUser (DefaultConnector_Connection mem_Sqlx) no_Crypto issuing_driver ''john'' ''secret''
     demo_connected = (Returned (data, None), w') \<and> map fst data = [''tls.crt'', ''tls.key'', ''ca.crt'']"
proof -
  from issuing_CreateUser obtain data w' where
    run: "Postgresql_CreateUser (DefaultConnector_Connection mem_Sqlx) no_Crypto issuing_driver ''john'' ''secret''
      demo_connected = (Returned (data, None), w')" and "data \<noteq> []" by blast
  from pg_CreateUser_bundle [OF this] run show ?thesis by auto
qed

text \<open>
  \<^bold>\<open>C36\<close> When creating a user crashes the operator: once the server has answered the statement
  (with anything but \<^verbatim>\<open>duplicate_object\<close>, so also with another error), \<^verbatim>\<open>CreateUser\<close> panics exactly
  if the driver issues certificates and the key of the authority is no PEM text, or that
  key can be parsed and the certificate of the authority is no PEM text.
\<close>

theorem pg_CreateUser_panics_iff:
  assumes "Connection_Exec C (pg_db p) (snd (createUserQuery u pw)) (fst (createUserQuery u pw)) [] w = (Returned err, w1)"
  shows "fst (Postgresql_CreateUser C K p u pw w) = Panicked \<longleftrightarrow>
    Config_CreateCerts (pg_config p) \<and> \<not> isAlreadyExists err \<and>
    (pem_Decode (SSLCAKey (pg_config p)) = None \<or>
     authority_key K (pg_config p) \<noteq> None \<and> pem_Decode (SSLCACert (pg_config p)) = None)"
proof -
  have "fst (genPostgresCertFromCA K (pg_config p) u w1) = Panicked \<longleftrightarrow>
      pem_Decode (SSLCAKey (pg_config p)) = None \<or>
      authority_key K (pg_config p) \<noteq> None \<and> pem_Decode (SSLCACert (pg_config p)) = None"
    by (auto simp: genPostgresCertFromCA_def authority_key_def go_bind_def go_return_def go_panic_def draw_apply Let_def
        split: option.split sum.split)
  with assms show ?thesis
    by (auto simp: Postgresql_CreateUser_def case_prod_unfold go_bind_def go_return_def
        split: prod.splits outcome.splits sum.splits)
qed

text \<open>Witness: a key that is no PEM.\<close>

definition unreadable_driver :: "nat Postgresql" where
  "unreadable_driver = NewPostgresql 0 (markCreateCerts ''CAKEY'' tls_config)"

theorem pg_CreateUser_panics_iff_witness:
  "\<exists>w'. Postgresql_CreateUser (DefaultConnector_Connection mem_Sqlx) no_Crypto unreadable_driver ''john'' ''secret'' demo_connected =
     (Panicked, w')"
proof -
  let ?C = "DefaultConnector_Connection mem_Sqlx"
  have run: "\<exists>w1. Connection_Exec ?C (pg_db unreadable_driver) (snd (createUserQuery ''john'' ''secret''))
      (fst (createUserQuery ''john'' ''secret'')) [] demo_connected = (Returned None, w1)"
    by (simp add: connector_defs unreadable_driver_def NewPostgresql_def demo_connected_def mem_Sqlx_def createUserQuery_def
        DisableLogger_def)
  have "pem_Decode ''CAKEY'' = None"
    by (simp add: pem_Decode.simps [of "''CAKEY''"] pem_start_def pem_begin_def)
  then have "Config_CreateCerts (pg_config unreadable_driver)" "pem_Decode (SSLCAKey (pg_config unreadable_driver)) = None"
    by (simp_all add: unreadable_driver_def NewPostgresql_def markCreateCerts_def Config_CreateCerts_def tls_config_def NewConfig_def)
  with run pg_CreateUser_panics_iff [of ?C unreadable_driver "''john''" "''secret''" demo_connected None _ no_Crypto]
  have "fst (Postgresql_CreateUser ?C no_Crypto unreadable_driver ''john'' ''secret'' demo_connected) = Panicked"
    by (auto simp: isAlreadyExists_iff)
  then show ?thesis by (metis prod.collapse)
qed

section \<open>Choosing a driver\<close>

text \<open>
  \<^bold>\<open>C29\<close> \<^verbatim>\<open>NewDatabase\<close> panics exactly when the configuration that belongs to the type of
  the database is missing, which the validation of the API server rules out; and for any
  other type it returns the error that names the type.
\<close>

theorem NewDatabase_panics_iff:
  "(fst (NewDatabase X K G E s w) = Panicked \<longleftrightarrow>
      spec_Type s = PostgreSQL_type \<and> spec_PostgreSQL s = None \<or> spec_Type s = MySQL_type \<and> spec_MySQL s = None) \<and>
   (spec_Type s = PostgreSQL_type \<or> spec_Type s = MySQL_type \<or>
      fst (NewDatabase X K G E s w) =
        Returned (Inl (ErrorString (''can't find supported DB type '' @ [CHR 0x27] @ spec_Type s @ [CHR 0x27]))))"
proof -
  let ?bad = "spec_Type s = PostgreSQL_type \<and> spec_PostgreSQL s = None \<or> spec_Type s = MySQL_type \<and> spec_MySQL s = None"
  obtain d w1 where new: "NewDatabase X K G E s w = newDatabase (DefaultConnector_Connection X) K G E d s w1" "connector_valid d w1"
    using NewDatabase_apply [of X K G E s w] by blast
  have "fst (newDatabase (DefaultConnector_Connection X) K G E d s w1) \<noteq> Panicked" if "\<not> ?bad"
    using dc.new_returns [of s d X K G E] that new(2) by (auto simp: returns_def)
  moreover have "fst (newDatabase (DefaultConnector_Connection X) K G E d s w1) = Panicked" if ?bad
    using that by (auto simp: newDatabase_def newPostgresql_def newMysql_def go_panic_def)
  ultimately have "(fst (NewDatabase X K G E s w) = Panicked) = ?bad"
    unfolding new(1) by blast
  then show ?thesis
    by (simp add: new(1) newDatabase_def go_return_def)
qed

text \<open>
  \<^bold>\<open>C37\<close> A password key that is missing from its secret is an error for a user, and no error
  for the operator itself: for the same secret \<^verbatim>\<open>userPassword\<close> returns the \<^verbatim>\<open>Invalid\<close>
  error that names the key, while \<^verbatim>\<open>passwordFromSecret\<close> returns the empty password, with
  which the operator then connects.
\<close>

theorem missing_password_key:
  assumes "secret_Key sn \<noteq> []" and "nn_Name (secret_Secret sn) \<noteq> []" and "nn_Namespace (secret_Secret sn) \<noteq> []"
    and "fst (Client_Get_Secret (r_Client r) (secret_Secret sn) (kube w)) = Inr sec"
    and "secret_Key sn \<notin> fst ` set (k8ssecret_Data sec)" and "distinct (map fst (k8ssecret_Data sec))"
  shows "fst (UserReconciler_userPassword r sn w) =
      Returned (Inl (apierrors_NewInvalid (r_Client r) ''v1.Secret'' (nn_Name (secret_Secret sn)) (secret_Key sn))) \<and>
    fst (passwordFromSecret (r_Client r) sn w) = Returned (Inr [])"
proof -
  have "map_of (copy_data (k8ssecret_Data sec)) (secret_Key sn) = None"
    using assms(5,6) by (simp add: map_of_copy_data map_of_eq_None_iff)
  with assms(1-4) show ?thesis
    by (simp add: UserReconciler_userPassword_def passwordFromSecret_def utils_DecodeSecretData_def utils_Secret_apply
        go_bind_def go_return_def map_index_def)
qed

text \<open>Witness: the demonstration secret, asked for a key it does not have.\<close>

theorem missing_password_key_witness:
  "fst (passwordFromSecret mem_Client \<lparr>secret_Secret = \<lparr>nn_Namespace = ''default'', nn_Name = ''john''\<rparr>, secret_Key = ''word''\<rparr>
     demo_world) = Returned (Inr [])"
proof -
  let ?sn = "\<lparr>secret_Secret = \<lparr>nn_Namespace = ''default'', nn_Name = ''john''\<rparr>, secret_Key = ''word''\<rparr>"
  let ?sec = "\<lparr>k8ssecret_Meta = demo_meta ''john'' [] None, k8ssecret_Data = [(''pass'', ''secret'')], k8ssecret_StringData = []\<rparr>"
  have "fst (Client_Get_Secret (r_Client demo_reconciler) (secret_Secret ?sn) (kube demo_world)) = Inr ?sec"
    by (simp add: demo_reconciler_def manager_reconciler_def fst_mem_get demo_world_def empty_world_def demo_cluster_def)
  with missing_password_key [of ?sn demo_reconciler demo_world ?sec] show ?thesis
    by (simp add: demo_reconciler_def manager_reconciler_def)
qed

section \<open>The secret of a user\<close>

text \<open>
  \<^bold>\<open>C32\<close> The bundle of a user is created once or never: if the role exists already, which is
  so on every run after the first and also when the first run stopped between creating the
  role and storing its secret, then \<^verbatim>\<open>createUserInDatabase\<close> reports success in the state
  of the one statement, and the cluster is as it was when the password had been read: no
  secret is looked up or created.
\<close>

theorem existing_role_gets_no_secret:
  fixes r :: "('k, 'd) UserReconciler"
  assumes "UserReconciler_userPassword r (ref_PasswordSecret ref) w = (Returned (Inr pw), w1)"
    and "Connection_Exec (DefaultConnector_Connection X) (pg_db p)
      (snd (createUserQuery (meta_Name (user_Meta u)) pw)) (fst (createUserQuery (meta_Name (user_Meta u)) pw)) [] w1 =
        (Returned (Some e), w2)"
    and "errors_As_PgError e = Some ''42710''"
  shows "UserReconciler_createUserInDatabase r (Postgresql_Database (DefaultConnector_Connection X) K p) u ref w =
      (Returned None, w2) \<and> kube w2 = kube w1"
proof -
  have "Postgresql_CreateUser (DefaultConnector_Connection X) K p (meta_Name (user_Meta u)) pw w1 = (Returned ([], None), w2)"
    using assms(2,3)
    by (simp add: Postgresql_CreateUser_def case_prod_unfold go_bind_def go_return_def isAlreadyExists_iff ignoreAlreadyExists_def)
  with assms(1) have "UserReconciler_createUserInDatabase r (Postgresql_Database (DefaultConnector_Connection X) K p) u ref w =
      (Returned None, w2)"
    by (simp add: UserReconciler_createUserInDatabase_def go_simps go_bind_def go_return_def)
  moreover have "kube w2 = kube w1"
    using keepsD [OF dc.frame_kube(4) assms(2)] .
  ultimately show ?thesis by blast
qed

lemma demo_password:
  "UserReconciler_userPassword demo_reconciler (ref_PasswordSecret demo_ref) demo_connected =
     (Returned (Inr ''secret''), demo_connected)"
  by (simp add: UserReconciler_userPassword_def utils_DecodeSecretData_def utils_Secret_apply go_bind_def go_return_def
      demo_reconciler_def manager_reconciler_def demo_ref_def demo_connected_def demo_world_def empty_world_def
      fst_mem_get demo_cluster_def copy_data_def)

text \<open>Witness: a second run, over a driver that would issue certificates.\<close>

theorem existing_role_gets_no_secret_witness:
  "\<exists>w2. UserReconciler_createUserInDatabase demo_reconciler
     (Postgresql_Database (DefaultConnector_Connection (failing_Sqlx (PgError ''42710'' ''exists''))) no_Crypto issuing_driver)
     (demo_user [userFinalizer] None) demo_ref demo_connected = (Returned None, w2) \<and> kube w2 = kube demo_connected"
proof -
  let ?X = "failing_Sqlx (PgError ''42710'' ''exists'')"
  have same_db: "pg_db issuing_driver = pg_db demo_driver"
    by (simp add: issuing_driver_config demo_driver_def NewPostgresql_def)
  obtain w2 where "Connection_Exec (DefaultConnector_Connection ?X) (pg_db issuing_driver)
      (snd (createUserQuery (meta_Name (user_Meta (demo_user [userFinalizer] None))) ''secret''))
      (fst (createUserQuery (meta_Name (user_Meta (demo_user [userFinalizer] None))) ''secret'')) [] demo_connected =
      (Returned (Some (PgError ''42710'' ''exists'')), w2)"
    using demo_Exec [of "PgError ''42710'' ''exists''"] unfolding same_db by blast
  from existing_role_gets_no_secret [OF demo_password this, of no_Crypto] show ?thesis by auto
qed

text \<open>
  \<^bold>\<open>C30\<close> The secret goes whatever happens: for a driver that \<^verbatim>\<open>NewDatabase\<close> returned, the
  deletion of a user in a database has exactly one effect on the cluster, the deletion of
  the created secret, whether the database calls succeed, fail or panic.
\<close>

theorem databaseUserDelete_deletes_secret:
  assumes "NewDatabase X K G E s w0 = (Returned (Inr db), w1)"
  shows "kube (snd (UserReconciler_databaseUserDelete (manager_reconciler X K G E) db u ref privs w)) =
    snd (Client_Delete_Secret E (newSecret (ref_CreatedSecret ref) []) (kube w))"
proof -
  from default_creator.creator_contract [OF assms] obtain open_db where db: "database db open_db" by blast
  let ?body = "go_check (Database_RevokePrivileges db (meta_Name (user_Meta u)) privs)
      (Database_DeleteUser db (meta_Name (user_Meta u)))"
  obtain res w2 where body: "?body w = (res, w2)" by fastforce
  have "keeps kube ?body" using database.keeps_kube [OF db] by (intro keeps_check)
  with body have "kube w2 = kube w" by (blast dest: keepsD)
  with body show ?thesis
    by (simp add: UserReconciler_databaseUserDelete_def go_defer_def on_kube_apply manager_reconciler_def
        NamespacedName_ToNamespacedName_def)
qed

text \<open>Witness: the driver of the PostgreSQL demonstration.\<close>

theorem databaseUserDelete_deletes_secret_witness:
  "\<exists>db. kube (snd (UserReconciler_databaseUserDelete demo_reconciler db (demo_user [userFinalizer] (Some 5)) demo_ref [] demo_world)) =
    snd (mem_Delete_Secret (newSecret (ref_CreatedSecret demo_ref) []) (kube demo_world))"
proof -
  from demo_pg_connects obtain db w1 where
    "NewDatabase mem_Sqlx no_Crypto mem_GenMysql mem_Client demo_pg_spec demo_world = (Returned (Inr db), w1)" by blast
  note del = databaseUserDelete_deletes_secret [OF this, of "demo_user [userFinalizer] (Some 5)" demo_ref "[]" demo_world]
  show ?thesis by (rule exI [of _ db]) (use del in \<open>simp add: demo_reconciler_def\<close>)
qed

section \<open>MySQL\<close>

text \<open>
  Every placeholder of a MySQL privilege statement has its value: for granting and
  for revoking, the text has as many question marks as there are arguments, the arguments
  are the privilege, the database, the object if there is one as well, and the user; an
  object without a database is left out, and the user is given without the host name
  that its account was created with.
\<close>

lemma my_privilege_statement_arguments:
  assumes "(statement, arg) \<in> {(''GRANT'', ''TO''), (''REVOKE'', ''FROM'')}"
    and "my_prepareStatementForPrivilege statement arg u db on priv = (query, args)"
  shows "count_list query (CHR ''?'') = length args \<and>
    args = [ArgPrivilege priv] @ (if db = [] then [] else ArgString db # (if on = [] then [] else [ArgString on])) @ [ArgString u]"
proof -
  have count: "count_list (xs @ ys) c = count_list xs c + count_list ys c" for xs ys :: string and c
    by simp
  from assms show ?thesis
    by (auto simp: my_prepareStatementForPrivilege_def Let_def split: if_splits)
qed

text \<open>A table privilege.\<close>

lemma my_privilege_statement_arguments_witness:
  "\<exists>query args. my_prepareStatementForPrivilege ''GRANT'' ''TO'' ''john'' ''shop'' ''orders'' ''SELECT'' = (query, args) \<and>
     count_list query (CHR ''?'') = 4 \<and> args = [ArgPrivilege ''SELECT'', ArgString ''shop'', ArgString ''orders'', ArgString ''john'']"
proof -
  obtain query args where q: "my_prepareStatementForPrivilege ''GRANT'' ''TO'' ''john'' ''shop'' ''orders'' ''SELECT'' = (query, args)"
    by fastforce
  from my_privilege_statement_arguments [OF _ q] q show ?thesis by simp
qed

text \<open>
  The test double sees what was sent, in the order in which it was sent: over a
  \<^verbatim>\<open>FakeConnection\<close> that is connected, applying privileges to a MySQL user returns no
  error, and the statement of the \<open>i\<close>-th privilege is recorded with the \<open>i\<close>-th number
  after the last one used, provided that the statements differ.
\<close>

lemma fake_records_privileges_in_order:
  assumes "fake_queries (fake w) = Some queries"
    and "distinct (map stmt_text (privilege_statements ''GRANT'' ''TO'' u privs))"
    and "Mysql_ApplyPrivileges FakeConnection_Connection m u privs w = (out, w')"
    and "i < length privs"
  shows "out = Returned None \<and>
    (\<exists>queries'. fake_queries (fake w') = Some queries' \<and>
      queries' (stmt_text (privilege_statements ''GRANT'' ''TO'' u privs ! i)) = Some (fake_count (fake w) + 1 + int i))"
proof -
  let ?stmts = "privilege_statements ''GRANT'' ''TO'' u privs"
  have len: "length ?stmts = length privs" by (simp add: privilege_statements_def)
  have "number_from (fake_count (fake w)) (map stmt_text ?stmts) queries (map stmt_text ?stmts ! i) =
      Some (fake_count (fake w) + 1 + int i)"
    by (rule number_from_nth) (use assms(2,4) len in simp_all)
  with assms(3,4) len show ?thesis
    unfolding Mysql_ApplyPrivileges_def Mysql_privilegesProcessor_exec_all fake_exec_all [OF assms(1)] by auto
qed

definition demo_fake :: "(Cluster, Server) World" where
  "demo_fake = demo_world\<lparr>fake := \<lparr>fake_queries = Some Map.empty, fake_count = 7, fake_connections = Some Map.empty\<rparr>\<rparr>"

text \<open>Witness: two privileges, the second of which gets number nine.\<close>

lemma fake_records_privileges_in_order_witness:
  "\<exists>w' queries. Mysql_ApplyPrivileges FakeConnection_Connection (NewMysql () (mysql_NewConfig [] 3306 [] [] [] [])) ''john''
      [select_on ''shop'', select_on ''crm''] demo_fake = (Returned None, w') \<and>
    fake_queries (fake w') = Some queries \<and> queries ''GRANT ? ON ?.* TO ?SELECTcrmjohn'' = Some 9"
proof -
  let ?m = "NewMysql () (mysql_NewConfig [] 3306 [] [] [] [])"
  let ?privs = "[select_on ''shop'', select_on ''crm'']"
  have stmts: "map stmt_text (privilege_statements ''GRANT'' ''TO'' ''john'' ?privs) =
      [''GRANT ? ON ?.* TO ?SELECTshopjohn'', ''GRANT ? ON ?.* TO ?SELECTcrmjohn'']"
    by (simp add: privilege_statements_def my_prepareStatementForPrivilege_def select_on_def Let_def fmt_Sprint_def)
  obtain out w' where run: "Mysql_ApplyPrivileges FakeConnection_Connection ?m ''john'' ?privs demo_fake = (out, w')" by fastforce
  have "fake_queries (fake demo_fake) = Some Map.empty" "fake_count (fake demo_fake) = 7" by (simp_all add: demo_fake_def)
  with fake_records_privileges_in_order [OF this(1) _ run, of 1] stmts run show ?thesis
    by (simp add: privilege_statements_def)
qed

text \<open>
  \<^bold>\<open>C38\<close> Creating a MySQL account is not idempotent: whatever the server has against the
  \<^verbatim>\<open>CREATE USER\<close> statement, that the account exists included, is the error of
  \<^verbatim>\<open>createUserInDatabase\<close> and, through \<^verbatim>\<open>databaseUserApply\<close>, of the whole database;
  the privileges are not applied.
\<close>

theorem my_existing_account_is_an_error:
  assumes "UserReconciler_userPassword r (ref_PasswordSecret ref) w = (Returned (Inr pw), w1)"
    and "Connection_Exec C (my_db m) DisableLogger ''CREATE USER ?@? IDENTIFIED BY ?''
      [ArgString (meta_Name (user_Meta u)), ArgString (MysqlConfig_UsersHostname (my_config m)), ArgString pw] w1 =
        (Returned (Some e), w2)"
  shows "UserReconciler_databaseUserApply r (Mysql_Database C m) u ref privs w = (Returned (Some e), w2)"
  using assms
  by (simp add: UserReconciler_databaseUserApply_def UserReconciler_createUserInDatabase_def Mysql_CreateUser_def
      go_simps go_bind_def go_return_def go_check_def)

definition demo_mysql :: "nat Mysql" where
  "demo_mysql = NewMysql 0 (mysql_NewConfig ''db'' 3306 ''root'' [] ''shop'' [])"

text \<open>Witness: the second run for a user, on a server that reports the account as a duplicate.\<close>

theorem my_existing_account_is_an_error_witness:
  "\<exists>w2. UserReconciler_databaseUserApply demo_reconciler
     (Mysql_Database (DefaultConnector_Connection (failing_Sqlx (ErrorString ''Error 1396''))) demo_mysql)
     (demo_user [userFinalizer] None) demo_ref [select_on ''shop''] demo_connected =
       (Returned (Some (ErrorString ''Error 1396'')), w2)"
proof -
  let ?C = "DefaultConnector_Connection (failing_Sqlx (ErrorString ''Error 1396''))"
  have pw: "UserReconciler_userPassword demo_reconciler (ref_PasswordSecret demo_ref) demo_connected =
      (Returned (Inr ''secret''), demo_connected)"
    by (simp add: UserReconciler_userPassword_def utils_DecodeSecretData_def utils_Secret_apply go_bind_def go_return_def
        demo_reconciler_def manager_reconciler_def demo_ref_def demo_connected_def demo_world_def empty_world_def
        fst_mem_get demo_cluster_def copy_data_def)
  have "\<exists>w2. Connection_Exec ?C (my_db demo_mysql) DisableLogger q as demo_connected =
      (Returned (Some (ErrorString ''Error 1396'')), w2)" for q as
    by (simp add: connector_defs demo_mysql_def NewMysql_def demo_connected_def failing_Sqlx_def DisableLogger_def)
  then obtain w2 where "Connection_Exec ?C (my_db demo_mysql) DisableLogger ''CREATE USER ?@? IDENTIFIED BY ?''
      [ArgString (meta_Name (user_Meta (demo_user [userFinalizer] None))),
       ArgString (MysqlConfig_UsersHostname (my_config demo_mysql)), ArgString ''secret''] demo_connected =
      (Returned (Some (ErrorString ''Error 1396'')), w2)" by blast
  from my_existing_account_is_an_error [OF pw this] show ?thesis by blast
qed

end
