(* ===== verification/Boundary_Properties.thy ===== *)
theory Boundary_Properties
  imports Driver_Properties
begin

text \<open>
  Properties at the borders of the drivers: where certificate files may lie, what the
  constructor hands over, and a one-pass reference for the escaping of privileges.
\<close>

section \<open>Certificate files stay in their directory\<close>

lemma strings_Join_append:
  "xs \<noteq> [] \<Longrightarrow> ys \<noteq> [] \<Longrightarrow> strings_Join (xs @ ys) sep = strings_Join xs sep @ sep @ strings_Join ys sep"
  by (induction xs rule: list_nonempty_induct) (simp_all add: strings_Join_Cons)

text \<open>A home directory: a clean rooted path below the root.\<close>

definition clean_home :: "string \<Rightarrow> bool" where
  "clean_home home \<longleftrightarrow> (\<exists>es. es \<noteq> [] \<and> (\<forall>e \<in> set es. plain_elem e) \<and> home = CHR ''/'' # strings_Join es ''/'')"

lemma filepath_Join_below_home:
  assumes "clean_home home" and "ds \<noteq> []" and "\<forall>d \<in> set ds. plain_elem d"
  shows "filepath_Join [home, strings_Join ds ''/''] = home @ ''/'' @ strings_Join ds ''/''"
proof -
  obtain es where es: "es \<noteq> []" "\<forall>e \<in> set es. plain_elem e" "home = CHR ''/'' # strings_Join es ''/''"
    using assms(1) by (auto simp: clean_home_def)
  have path: "home @ ''/'' @ strings_Join ds ''/'' = CHR ''/'' # strings_Join (es @ ds) ''/''"
    using es(1,3) assms(2) by (simp add: strings_Join_append)
  have "filepath_Clean (CHR ''/'' # strings_Join (es @ ds) ''/'') = CHR ''/'' # strings_Join (es @ ds) ''/''"
    using es(2) assms(3) by (intro filepath_Clean_rooted) auto
  with path es(3) show ?thesis by (simp add: filepath_Join_def)
qed

text \<open>The file names: a host, and a database and a user without a slash.\<close>

definition plain_identity :: "Config \<Rightarrow> bool" where
  "plain_identity c \<longleftrightarrow> plain_elem (Host c) \<and> CHR ''/'' \<notin> set (DatabaseName c) \<and> CHR ''/'' \<notin> set (config_User c)"

definition cert_name :: "Config \<Rightarrow> string \<Rightarrow> string" where
  "cert_name c ext = DatabaseName c @ ''_'' @ config_User c @ ''.'' @ ext"

lemma cert_name_plain:
  assumes "plain_identity c" and "CHR ''/'' \<notin> set ext"
  shows "plain_elem (cert_name c ext)"
proof -
  have "CHR ''_'' \<in> set (cert_name c ext)" by (simp add: cert_name_def)
  moreover have "CHR ''_'' \<notin> set ''.''" "CHR ''_'' \<notin> set ''..''" by simp_all
  ultimately have "cert_name c ext \<noteq> ''.''" "cert_name c ext \<noteq> ''..''" by metis+
  with assms show ?thesis by (simp add: plain_elem_def plain_identity_def cert_name_def)
qed

lemma cert_path_below_home:
  assumes "clean_home home" and "plain_identity c" and "CHR ''/'' \<notin> set ext"
  shows "filepath_Join [home, cert_path c ext] =
    home @ ''/postgres-certs/'' @ Host c @ ''/'' @ cert_name c ext"
proof -
  have path: "cert_path c ext = strings_Join [''postgres-certs'', Host c, cert_name c ext] ''/''"
    by (simp add: cert_path_def cert_name_def)
  have "plain_elem ''postgres-certs''" by (simp add: plain_elem_def)
  with assms have "\<forall>d \<in> set [''postgres-certs'', Host c, cert_name c ext]. plain_elem d"
    by (simp add: cert_name_plain plain_identity_def)
  from filepath_Join_below_home [OF assms(1) _ this] show ?thesis by (simp add: path)
qed

text \<open>
  \<^bold>\<open>C21\<close> (bounds). Certificate files stay where they belong: with a clean home directory, a host
  name that is an ordinary path element and no slash in the names of the database and of the
  user, connecting a PostgreSQL driver, successful or not, creates or changes no regular file
  but the three in \<^verbatim>\<open>$HOME/postgres-certs/HOST\<close> that carry those names, and these are the
  files that \<^verbatim>\<open>Close\<close> will remove.
\<close>

theorem cert_files_confined:
  assumes "Postgresql_Connect (DefaultConnector_Connection X) p w = (Returned (p', err), w')"
    and "clean_home (env_HOME w)" and "plain_identity (pg_config p)"
    and "regular (filesystem w') f \<noteq> regular (filesystem w) f \<or> f \<in> cert_files (pg_config p')"
  shows "\<exists>ext \<in> {''ca'', ''crt'', ''key''}. f = env_HOME w @ ''/postgres-certs/'' @ Host (pg_config p) @ ''/'' @
    DatabaseName (pg_config p) @ ''_'' @ config_User (pg_config p) @ ''.'' @ ext"
proof -
  have "f \<in> cert_files (pg_config p')"
    using connect_files(4) [OF assms(1)] assms(4) by blast
  then have "f \<in> {filepath_Join [env_HOME w, cert_path (pg_config p) ''ca''],
      filepath_Join [env_HOME w, cert_path (pg_config p) ''crt''], filepath_Join [env_HOME w, cert_path (pg_config p) ''key'']}"
    unfolding connect_files(1) [OF assms(1)] with_cert_paths_files .
  then show ?thesis
    using cert_path_below_home [OF assms(2,3)] by (auto simp: cert_name_def)
qed

text \<open>
  The condition on the database name is needed, and the name comes from a \<^verbatim>\<open>Privileges\<close>
  resource: a name with \<^verbatim>\<open>../\<close> in it leads out of the directory.
\<close>

lemma cert_path_escapes:
  "filepath_Join [''/root'', cert_path (tls_config\<lparr>DatabaseName := ''/../../../etc/app''\<rparr>) ''key''] =
     ''/etc/app_postgres.key''"
  by code_simp

text \<open>Witness: a connected driver with TLS.\<close>

theorem cert_files_confined_witness:
  "\<exists>p' err w'. Postgresql_Connect (DefaultConnector_Connection mem_Sqlx) tls_driver demo_connected = (Returned (p', err), w') \<and>
     (\<exists>ext \<in> {''ca'', ''crt'', ''key''}. sslUserKeyFile (pg_config p') = ''/root/postgres-certs/pg/app_postgres.'' @ ext)"
proof -
  have wr: "writable_certs (filesystem demo_connected) (cert_files (with_cert_paths (env_HOME demo_connected) (pg_config tls_driver)))"
    using tls_writable [of "filesystem demo_connected"] by (simp add: tls_driver_def NewPostgresql_def)
  then obtain p' w' where con: "Postgresql_Connect (DefaultConnector_Connection mem_Sqlx) tls_driver demo_connected = (Returned (p', None), w')"
    using connects_if_writable [OF wr] by blast
  have home: "clean_home (env_HOME demo_connected)"
    unfolding clean_home_def demo_world_sel
    by (rule exI [of _ "[''root'']"]) (simp add: plain_elem_def)
  have id: "plain_identity (pg_config tls_driver)"
    by (simp add: plain_identity_def plain_elem_def tls_driver_def NewPostgresql_def tls_config_def NewConfig_def)
  from cert_files_confined [OF con home id, of "sslUserKeyFile (pg_config p')"] con show ?thesis
    by (auto simp: cert_files_def tls_driver_def NewPostgresql_def tls_config_def NewConfig_def)
qed

section \<open>The driver that NewDatabase hands over\<close>

text \<open>
  \<^bold>\<open>C20\<close> (type). A driver that \<^verbatim>\<open>NewDatabase\<close> returns is of the type that the specification
  names, carries the settings of the configuration of that type, and works over a connected
  \<^verbatim>\<open>DefaultConnector\<close> of its own that did not exist before the call.
\<close>

theorem NewDatabase_driver_matches_spec:
  assumes "NewDatabase X K G E s w = (Returned (Inr db), w')"
  shows "connector_live (length (connectors w)) w' \<and>
    (spec_Type s = PostgreSQL_type \<and> (\<exists>c p. spec_PostgreSQL s = Some c \<and>
        db = Postgresql_Database (DefaultConnector_Connection X) K p \<and> pg_db p = length (connectors w) \<and>
        Host (pg_config p) = pgspec_Host c \<and> Port (pg_config p) = pgspec_Port c \<and>
        config_User (pg_config p) = pgspec_User c \<and> DatabaseName (pg_config p) = pgspec_DatabaseName c \<and>
        SSLMode (pg_config p) = pgspec_SSLMode c) \<or>
     spec_Type s = MySQL_type \<and> (\<exists>c m. spec_MySQL s = Some c \<and>
        db = Mysql_Database (DefaultConnector_Connection X) m \<and> my_db m = length (connectors w) \<and>
        mysql_Host (my_config m) = myspec_Host c \<and> mysql_Port (my_config m) = myspec_Port c \<and>
        mysql_User (my_config m) = myspec_User c \<and> mysql_DatabaseName (my_config m) = myspec_DatabaseName c \<and>
        mysql_usersHostname (my_config m) = myspec_UsersHostname c))"
proof -
  let ?C = "DefaultConnector_Connection X"
  let ?d = "length (connectors w)"
  let ?w = "w\<lparr>connectors := connectors w @ [\<lparr>connector_db = None\<rparr>]\<rparr>"
  have new: "newDatabase ?C K G E ?d s ?w = (Returned (Inr db), w')"
    using assms by (simp add: NewDatabase_def NewDefaultConnector_apply go_bind_def)
  have valid: "connector_valid ?d ?w" by (simp add: connector_valid_def)
  show ?thesis
  proof (cases "spec_Type s = PostgreSQL_type")
    case True
    with new obtain c where c: "spec_PostgreSQL s = Some c" and pg: "newPostgresql ?C K E ?d (Some c) ?w = (Returned (Inr db), w')"
      by (cases "spec_PostgreSQL s") (auto simp: newDatabase_def newPostgresql_def go_panic_def)
    from newPostgresql_steps [OF pg] obtain d k w1 pw w2 p where
      ssl: "sslMaterial E c ?w = (Returned (Inr (d, k)), w1)" and
      pwd: "passwordFromSecret E (pgspec_PasswordSecret c) w1 = (Returned (Inr pw), w2)" and
      con: "Postgresql_Connect ?C (NewPostgresql ?d (NewConfig (pgspec_Host c) (pgspec_Port c) (pgspec_User c) pw
                  (pgspec_DatabaseName c) (pgspec_SSLMode c) (map_index d ''ca.crt'')
                  (map_index d ''tls.crt'') (map_index d ''tls.key'') k)) w2 = (Returned (p, None), w')" and
      db: "db = Postgresql_Database ?C K p" by metis
    have "connector_valid ?d w2" using dc.valid_secret_reads valid ssl pwd by (blast dest: preservesD)
    then have "connector_live (pg_db p) w'" using dc.pg_Connect_live(1) [OF con] by (simp add: NewPostgresql_def)
    with True c db connect_keeps_identity [OF con] show ?thesis
      by (auto simp: NewPostgresql_def NewConfig_def)
  next
    case False
    with new have my: "spec_Type s = MySQL_type" and new: "newMysql ?C G E ?d (spec_MySQL s) ?w = (Returned (Inr db), w')"
      by (auto simp: newDatabase_def go_return_def split: if_splits)
    then obtain c where c: "spec_MySQL s = Some c" by (cases "spec_MySQL s") (auto simp: newMysql_def go_panic_def)
    from newMysql_steps [OF new [unfolded c]] obtain pw w1 m where
      pwd: "passwordFromSecret E (myspec_PasswordSecret c) ?w = (Returned (Inr pw), w1)" and
      m: "m = NewMysql ?d (mysql_NewConfig (myspec_Host c) (myspec_Port c) (myspec_User c) pw
                  (myspec_DatabaseName c) (myspec_UsersHostname c))" and
      con: "Mysql_Connect ?C G m w1 = (Returned None, w')" and db: "db = Mysql_Database ?C m" by metis
    have "connector_valid ?d w1" using dc.valid_secret_reads(2) valid pwd by (blast dest: preservesD)
    then have "connector_live ?d w'" using dc.my_Connect_live [OF con] m by (simp add: NewMysql_sel)
    moreover have "my_db m = ?d" "mysql_Host (my_config m) = myspec_Host c" "mysql_Port (my_config m) = myspec_Port c"
        "mysql_User (my_config m) = myspec_User c" "mysql_DatabaseName (my_config m) = myspec_DatabaseName c"
        "mysql_usersHostname (my_config m) = myspec_UsersHostname c"
      by (simp_all add: m NewMysql_sel mysql_NewConfig_def)
    ultimately show ?thesis using my c db by auto
  qed
qed

text \<open>Witness: the driver of the PostgreSQL demonstration.\<close>

theorem NewDatabase_driver_matches_spec_witness:
  "\<exists>db w'. NewDatabase mem_Sqlx no_Crypto mem_GenMysql mem_Client demo_pg_spec demo_world = (Returned (Inr db), w') \<and>
     connector_live 0 w' \<and> (\<exists>p. db = Postgresql_Database (DefaultConnector_Connection mem_Sqlx) no_Crypto p \<and> pg_db p = 0)"
proof -
  from demo_pg_connects obtain db w' where
    new: "NewDatabase mem_Sqlx no_Crypto mem_GenMysql mem_Client demo_pg_spec demo_world = (Returned (Inr db), w')" by blast
  moreover have "spec_Type demo_pg_spec = PostgreSQL_type" "length (connectors demo_world) = 0"
    by (simp_all add: demo_pg_spec_def demo_world_def empty_world_def)
  ultimately show ?thesis using NewDatabase_driver_matches_spec [OF new] by auto
qed

section \<open>Escaping of privileges\<close>

text \<open>A reference for \<^verbatim>\<open>escapeLiteralWithoutQuotes\<close> that looks at each character once.\<close>

definition escape_privilege_char :: "char \<Rightarrow> string" where
  "escape_privilege_char c =
     (if c = nul \<or> c = CHR '';'' then [] else if c = dquote then [dquote, dquote] else [c])"

text \<open>
  \<^bold>\<open>C31\<close> (equivalence). Splitting at the dots, replacing three times in every part and joining
  again is one pass over the text: NUL and semicolons go, double quotes are doubled, and
  everything else stays, the dots and the hash signs included.
\<close>

theorem escapeLiteralWithoutQuotes_one_pass:
  "escapeLiteralWithoutQuotes str = concat (map escape_privilege_char str)"
  unfolding escapeLiteralWithoutQuotes_form
  by (induction str) (auto simp: escape_privilege_char_def nul_def dquote_def)

section \<open>The secret of a created user\<close>

text \<open>
  \<^bold>\<open>C18\<close> (safety). The secret with the bundle of a user is written once and never overwritten:
  with a client whose reads do not change the cluster, \<^verbatim>\<open>createUserInDatabase\<close> leaves the cluster
  as it is, or it creates one secret, under the name of \<^verbatim>\<open>createdSecret\<close>, owned by the user, with
  the data that \<^verbatim>\<open>CreateUser\<close> returned for this user, after a lookup that did not find one; and
  then the result is that of the creation.
\<close>

theorem created_secret_never_overwritten:
  assumes "NewDatabase X K G E s w0 = (Returned (Inr db), w1)"
    and "\<And>nn k. snd (Client_Get_Secret E nn k) = k"
    and "UserReconciler_createUserInDatabase (manager_reconciler X K G E) db u ref w = (res, w')"
  shows "kube w' = kube w \<or>
    (\<exists>data owned e pw w2 w3. data \<noteq> [] \<and> Database_CreateUser db (meta_Name (user_Meta u)) pw w2 = (Returned (data, None), w3) \<and>
      fst (Client_Get_Secret E (ref_CreatedSecret ref) (kube w)) = Inl e \<and>
      ctrl_SetControllerReference E u (newSecret (ref_CreatedSecret ref) data) = Inr owned \<and>
      kube w' = snd (Client_Create_Secret E owned (kube w)) \<and>
      res = Returned (fst (Client_Create_Secret E owned (kube w))))"
proof -
  let ?r = "manager_reconciler X K G E" and ?name = "meta_Name (user_Meta u)"
  from default_creator.creator_contract [OF assms(1)] obtain open_db where db: "database db open_db" by blast
  have name: "\<lparr>nn_Namespace = nn_Namespace (ref_CreatedSecret ref), nn_Name = nn_Name (ref_CreatedSecret ref)\<rparr> = ref_CreatedSecret ref"
    by simp
  obtain r1 w1 where pwd: "UserReconciler_userPassword ?r (ref_PasswordSecret ref) w = (r1, w1)" by fastforce
  have k1: "kube w1 = kube w"
    using pwd assms(2)
    by (auto simp: UserReconciler_userPassword_def utils_DecodeSecretData_def utils_Secret_apply go_bind_def go_return_def
        manager_reconciler_def Let_def split: sum.splits prod.splits if_splits option.splits)
  show ?thesis
  proof (cases "\<exists>pw. r1 = Returned (Inr pw)")
    case True
    then obtain pw where r1: "r1 = Returned (Inr pw)" by blast
    obtain r2 w2 where cr: "Database_CreateUser db ?name pw w1 = (r2, w2)" by fastforce
    have "keeps kube (Database_CreateUser db ?name pw)" by (rule database.keeps_kube [OF db])
    with cr k1 have k2: "kube w2 = kube w" by (auto dest: keepsD)
    show ?thesis
      using assms(3) r1 pwd cr k2 assms(2)
      by (cases r2) (auto simp: UserReconciler_createUserInDatabase_def go_bind_def go_return_def utils_Secret_apply name
          on_kube_apply manager_reconciler_def Let_def split: sum.splits prod.splits if_splits, blast)
  next
    case False
    then show ?thesis
      using assms(3) pwd k1
      by (cases r1) (auto simp: UserReconciler_createUserInDatabase_def go_bind_def go_return_def split: sum.splits)
  qed
qed

text \<open>Witness: the PostgreSQL demonstration, where no bundle is made and nothing is stored.\<close>

theorem created_secret_never_overwritten_witness:
  "\<exists>(db :: (Cluster, Server) World Database) res w'.
     UserReconciler_createUserInDatabase (manager_reconciler mem_Sqlx no_Crypto mem_GenMysql mem_Client) db
       (demo_user [userFinalizer] None) demo_ref demo_world = (res, w') \<and>
     (kube w' = kube demo_world \<or> (\<exists>data owned. ctrl_SetControllerReference mem_Client (demo_user [userFinalizer] None)
        (newSecret (ref_CreatedSecret demo_ref) data) = Inr owned \<and>
        kube w' = snd (mem_Create_Secret owned (kube demo_world))))"
proof -
  from demo_pg_connects obtain db w1 where
    new: "NewDatabase mem_Sqlx no_Crypto mem_GenMysql mem_Client demo_pg_spec demo_world = (Returned (Inr db), w1)" by blast
  obtain res w' where run: "UserReconciler_createUserInDatabase (manager_reconciler mem_Sqlx no_Crypto mem_GenMysql mem_Client) db
       (demo_user [userFinalizer] None) demo_ref demo_world = (res, w')" by fastforce
  have "snd (Client_Get_Secret mem_Client nn k) = k" for nn k by simp
  from created_secret_never_overwritten [OF new this run] run show ?thesis
    unfolding mem_Client_sel by blast
qed

end
