(* ===== verification/Connections_Balanced.thy ===== *)
theory Connections_Balanced
  imports Mem_Cluster
begin

text \<open>
  No connection leaks: with \<^verbatim>\<open>DefaultConnector\<close> every handle that \<^verbatim>\<open>sqlx\<close> gives out
  during a run of the reconciler is closed again by the end of the run, on every path
  through errors and panics.
\<close>

section \<open>The handles of the library\<close>

text \<open>
  What can be observed of the servers: the handles that are open, and those among them that
  came with an error, which nobody holds. Connecting opens a new handle or fails, and a
  connection that fails in the ping leaves its handle open; closing closes, and nothing else
  changes anything.
\<close>

record 'd Handles =
  opened :: "'d \<Rightarrow> DBHandle set"
  dropped :: "'d \<Rightarrow> DBHandle set"

definition sqlx_tracked :: "'d Sqlx \<Rightarrow> 'd Handles \<Rightarrow> bool" where
  "sqlx_tracked X H \<longleftrightarrow>
     (\<forall>d. dropped H d \<subseteq> opened H d) \<and>
     (\<forall>drv cs fs d. case sqlx_ConnectContext X drv cs fs d of
        (Inl (e, None), d') \<Rightarrow> opened H d' = opened H d \<and> dropped H d' = dropped H d
      | (Inl (e, Some h), d') \<Rightarrow> h \<notin> opened H d \<and> opened H d' = insert h (opened H d) \<and> dropped H d' = insert h (dropped H d)
      | (Inr h, d') \<Rightarrow> h \<notin> opened H d \<and> opened H d' = insert h (opened H d) \<and> dropped H d' = dropped H d) \<and>
     (\<forall>h fs d. opened H (snd (sqlx_Close X h fs d)) = opened H d - {h} \<and>
        dropped H (snd (sqlx_Close X h fs d)) = dropped H d - {h}) \<and>
     (\<forall>h n fs d. opened H (snd (sqlx_SetMaxIdleConns X h n fs d)) = opened H d \<and>
        dropped H (snd (sqlx_SetMaxIdleConns X h n fs d)) = dropped H d) \<and>
     (\<forall>h n fs d. opened H (snd (sqlx_SetMaxOpenConns X h n fs d)) = opened H d \<and>
        dropped H (snd (sqlx_SetMaxOpenConns X h n fs d)) = dropped H d) \<and>
     (\<forall>h q as fs d. opened H (snd (sqlx_ExecContext X h q as fs d)) = opened H d \<and>
        dropped H (snd (sqlx_ExecContext X h q as fs d)) = dropped H d)"

text \<open>The handles in use: those that a successful connection gave out and that are still open.\<close>

definition in_use :: "'d Handles \<Rightarrow> 'd \<Rightarrow> DBHandle set" where
  "in_use H d = opened H d - dropped H d"

text \<open>Between two states the use is the same, and what was dropped is still there.\<close>

definition same_use :: "'d Handles \<Rightarrow> 'd \<Rightarrow> 'd \<Rightarrow> bool" where
  "same_use H d d' \<longleftrightarrow> in_use H d' = in_use H d \<and> dropped H d \<subseteq> dropped H d'"

lemma same_use_refl [simp]: "same_use H d d"
  by (simp add: same_use_def)

lemma sqlx_connected:
  assumes "sqlx_tracked X H"
  shows "sqlx_ConnectContext X drv cs fs d = (Inl (e, db), d') \<Longrightarrow> same_use H d d'"
    and "sqlx_ConnectContext X drv cs fs d = (Inr h, d') \<Longrightarrow>
      h \<notin> in_use H d \<and> in_use H d' = insert h (in_use H d) \<and> dropped H d' = dropped H d"
proof -
  note tracked = assms [unfolded sqlx_tracked_def]
  have within: "dropped H d \<subseteq> opened H d" by (rule tracked [THEN conjunct1, THEN spec])
  have con: "case sqlx_ConnectContext X drv cs fs d of
        (Inl (e, None), d') \<Rightarrow> opened H d' = opened H d \<and> dropped H d' = dropped H d
      | (Inl (e, Some h), d') \<Rightarrow> h \<notin> opened H d \<and> opened H d' = insert h (opened H d) \<and> dropped H d' = insert h (dropped H d)
      | (Inr h, d') \<Rightarrow> h \<notin> opened H d \<and> opened H d' = insert h (opened H d) \<and> dropped H d' = dropped H d"
    by (rule tracked [THEN conjunct2, THEN conjunct1, THEN spec, THEN spec, THEN spec, THEN spec])
  from within con show "sqlx_ConnectContext X drv cs fs d = (Inl (e, db), d') \<Longrightarrow> same_use H d d'"
    by (cases db) (auto simp: same_use_def in_use_def)
  from within con show "sqlx_ConnectContext X drv cs fs d = (Inr h, d') \<Longrightarrow>
      h \<notin> in_use H d \<and> in_use H d' = insert h (in_use H d) \<and> dropped H d' = dropped H d"
    by (auto simp: in_use_def)
qed

lemma sqlx_trackedD:
  assumes "sqlx_tracked X H"
  shows "in_use H (snd (sqlx_SetMaxIdleConns X h n fs d)) = in_use H d"
      "dropped H (snd (sqlx_SetMaxIdleConns X h n fs d)) = dropped H d"
    and "in_use H (snd (sqlx_SetMaxOpenConns X h n fs d)) = in_use H d"
      "dropped H (snd (sqlx_SetMaxOpenConns X h n fs d)) = dropped H d"
    and "in_use H (snd (sqlx_ExecContext X h q as fs d)) = in_use H d"
      "dropped H (snd (sqlx_ExecContext X h q as fs d)) = dropped H d"
    and "in_use H (snd (sqlx_Close X h fs d)) = in_use H d - {h}"
      "h \<in> in_use H d \<Longrightarrow> dropped H (snd (sqlx_Close X h fs d)) = dropped H d"
  using assms unfolding sqlx_tracked_def in_use_def by auto

text \<open>
  The handles in use are \<open>S\<close> and those of \<open>D\<close> are still dropped; and then the connector \<open>c\<close>
  holds \<open>h\<close>.
\<close>

definition settled :: "'d Handles \<Rightarrow> DBHandle set \<Rightarrow> DBHandle set \<Rightarrow> ('k, 'd) World \<Rightarrow> bool" where
  "settled H D S w \<longleftrightarrow> in_use H (dbms w) = S \<and> D \<subseteq> dropped H (dbms w)"

definition session :: "'d Handles \<Rightarrow> DBHandle set \<Rightarrow> DBHandle set \<Rightarrow> nat \<Rightarrow> DBHandle \<Rightarrow> ('k, 'd) World \<Rightarrow> bool" where
  "session H D S c h w \<longleftrightarrow>
     settled H D S w \<and> c < length (connectors w) \<and> connector_db (connectors w ! c) = Some h"

lemma settled_local [simp]:
  "settled H D S (w\<lparr>filesystem := fs\<rparr>) = settled H D S w"
  "settled H D S (w\<lparr>draws := n\<rparr>) = settled H D S w"
  "settled H D S (w\<lparr>kube := k\<rparr>) = settled H D S w"
  "settled H D S (w\<lparr>logs := l\<rparr>) = settled H D S w"
  "settled H D S (w\<lparr>events := ev\<rparr>) = settled H D S w"
  "settled H D S (w\<lparr>connectors := cns\<rparr>) = settled H D S w"
  by (simp_all add: settled_def)

lemma settled_same_use: "settled H D S w \<Longrightarrow> same_use H (dbms w) (dbms w') \<Longrightarrow> settled H D S w'"
  by (auto simp: settled_def same_use_def)

lemma session_local [simp]:
  "session H D S c h (w\<lparr>filesystem := fs\<rparr>) = session H D S c h w"
  "session H D S c h (w\<lparr>draws := n\<rparr>) = session H D S c h w"
  "session H D S c h (w\<lparr>kube := k\<rparr>) = session H D S c h w"
  by (simp_all add: session_def)

lemma Connect_opened:
  assumes X: "sqlx_tracked X H" and run: "DefaultConnector_Connect X c drv cs w = (r, w')"
    and c: "c < length (connectors w)" and w: "settled H D S w"
  shows "(\<exists>e. r = Returned (Some e) \<and> settled H D S w' \<and> connectors w' = connectors w) \<or>
    (\<exists>h. r = Returned None \<and> h \<notin> S \<and> session H D (insert h S) c h w' \<and>
      (\<forall>c' < length (connectors w). c' \<noteq> c \<longrightarrow> connectors w' ! c' = connectors w ! c') \<and>
      length (connectors w') = length (connectors w))"
proof (cases "sqlx_ConnectContext X drv cs (filesystem w) (dbms w)")
  case (Pair res d)
  show ?thesis
  proof (cases res)
    case (Inl e)
    obtain e1 db where e: "e = (e1, db)" by (cases e)
    have "r = Returned (Some e1)" "dbms w' = d" "connectors w' = connectors w"
      using Inl Pair run by (auto simp: connector_defs e)
    moreover have "same_use H (dbms w) d" using sqlx_connected(1) [OF X] Pair Inl e by metis
    ultimately show ?thesis using settled_same_use [OF w, of w'] by simp
  next
    case (Inr h)
    have "r = Returned None" "dbms w' = snd (sqlx_SetMaxOpenConns X h 1 (filesystem w) (snd (sqlx_SetMaxIdleConns X h 0 (filesystem w) d)))"
      "connectors w' = (connectors w)[c := \<lparr>connector_db = Some h\<rparr>]"
      using Inr Pair run by (auto simp: connector_defs)
    moreover have "h \<notin> in_use H (dbms w) \<and> in_use H d = insert h (in_use H (dbms w)) \<and> dropped H d = dropped H (dbms w)"
      using sqlx_connected(2) [OF X] Pair Inr by metis
    ultimately show ?thesis using c w by (simp add: session_def settled_def sqlx_trackedD [OF X])
  qed
qed

lemma Exec_session:
  assumes "sqlx_tracked X H"
  shows "preserves (session H D S c h) (Connection_Exec (DefaultConnector_Connection X) c' l q as)"
  by (auto simp: preserves_def session_def settled_def connector_defs sqlx_trackedD [OF assms]
      split: option.splits)

lemma Close_session:
  assumes "sqlx_tracked X H" and "session H D S c h w" and "h \<in> S"
  shows "settled H D (S - {h}) (snd (DefaultConnector_Close X c w))"
    and "connectors (snd (DefaultConnector_Close X c w)) = connectors w"
  using assms(2,3) by (simp_all add: session_def settled_def connector_defs sqlx_trackedD [OF assms(1)])

lemma Pg_Close_session:
  assumes "sqlx_tracked X H" and "session H D S (pg_db p) h w" and "h \<in> S"
  shows "settled H D (S - {h}) (snd (Postgresql_Close (DefaultConnector_Connection X) p w))"
    and "connectors (snd (Postgresql_Close (DefaultConnector_Connection X) p w)) = connectors w"
proof -
  obtain fs where cl: "Config_Close (pg_config p) w = (Returned None, w\<lparr>filesystem := fs\<rparr>)"
    using Config_Close_apply by blast
  from Close_session [OF assms(1), of D S "pg_db p" h "w\<lparr>filesystem := fs\<rparr>"] assms(2,3) cl
  show "settled H D (S - {h}) (snd (Postgresql_Close (DefaultConnector_Connection X) p w))"
    and "connectors (snd (Postgresql_Close (DefaultConnector_Connection X) p w)) = connectors w"
    by (simp_all add: Postgresql_Close_def go_bind_def)
qed

lemma Pg_Connect_opened:
  assumes "sqlx_tracked X H" and "Postgresql_Connect (DefaultConnector_Connection X) p w = (r, w')"
    and "pg_db p < length (connectors w)" and w: "settled H D S w"
  shows "(\<exists>p' e. r = Returned (p', Some e) \<and> settled H D S w' \<and> connectors w' = connectors w) \<or>
    (\<exists>p' h. r = Returned (p', None) \<and> pg_db p' = pg_db p \<and> h \<notin> S \<and>
      session H D (insert h S) (pg_db p) h w' \<and>
      (\<forall>c' < length (connectors w). c' \<noteq> pg_db p \<longrightarrow> connectors w' ! c' = connectors w ! c') \<and>
      length (connectors w') = length (connectors w))"
proof -
  obtain r1 w1 where cs: "Config_ConnString (pg_config p) w = (r1, w1)" by fastforce
  then obtain c' res fs where cs': "r1 = Returned (c', res)" "w1 = w\<lparr>filesystem := fs\<rparr>"
    by (rule Config_ConnString_frame) blast
  show ?thesis
  proof (cases res)
    case (Inl e)
    with assms(2) cs cs' w show ?thesis by (auto simp: Postgresql_Connect_def Let_def go_simps)
  next
    case (Inr str)
    obtain r2 w2 where con: "DefaultConnector_Connect X (pg_db p) ''pgx'' str w1 = (r2, w2)" by fastforce
    with Inr assms(2) cs cs'(1) have "(r, w') = go_bind (\<lambda>_. (r2, w2)) (\<lambda>err. go_return (p\<lparr>pg_config := c'\<rparr>, err)) w1"
      by (simp add: Postgresql_Connect_def Let_def go_bind_def)
    with Connect_opened [OF assms(1) con, of D S] assms(3) cs'(2) w show ?thesis
      by (auto simp: go_bind_def go_return_def)
  qed
qed

section \<open>The operations of a connected driver\<close>

text \<open>The connection for a privilege inside a database is opened and closed again.\<close>

lemma inDatabasePrivilege_session:
  fixes X :: "'d Sqlx"
  assumes X: "sqlx_tracked X H"
  shows "preserves (session H D S c h)
    (Postgresql_inDatabasePrivilege (DefaultConnector_Connection X) p u dbname on priv st arg)"
  unfolding preserves_def
proof (intro allI impI)
  fix w :: "('k, 'd) World"
  assume s: "session H D S c h w"
  let ?C = "DefaultConnector_Connection X"
  let ?d = "length (connectors w)"
  let ?w1 = "w\<lparr>connectors := connectors w @ [\<lparr>connector_db = None\<rparr>]\<rparr>"
  let ?new = "NewPostgresql ?d ((Config_Copy (pg_config p))\<lparr>DatabaseName := dbname\<rparr>)"
  have s1: "settled H D S ?w1" using s by (simp add: session_def)
  obtain r2 w2 where con: "Postgresql_Connect ?C ?new ?w1 = (r2, w2)" by fastforce
  have copy: "Connection_Copy ?C (pg_db p) w = (Returned ?d, ?w1)" by (simp add: connector_defs)
  have d: "pg_db ?new = ?d" by (simp add: NewPostgresql_def)
  from Pg_Connect_opened [OF X con _ s1] d
  have "(\<exists>p' e. r2 = Returned (p', Some e) \<and> settled H D S w2 \<and> connectors w2 = connectors ?w1) \<or>
    (\<exists>p' h'. r2 = Returned (p', None) \<and> pg_db p' = ?d \<and> h' \<notin> S \<and> session H D (insert h' S) ?d h' w2 \<and>
      (\<forall>c' < length (connectors ?w1). c' \<noteq> ?d \<longrightarrow> connectors w2 ! c' = connectors ?w1 ! c') \<and>
      length (connectors w2) = length (connectors ?w1))" by simp
  then show "session H D S c h (snd (Postgresql_inDatabasePrivilege ?C p u dbname on priv st arg w))"
  proof (elim disjE exE conjE)
    fix p' e
    assume r2: "r2 = Returned (p', Some e)" and "settled H D S w2" "connectors w2 = connectors ?w1"
    with s have "session H D S c h w2" by (simp add: session_def nth_append)
    with r2 con copy show ?thesis
      by (simp add: Postgresql_inDatabasePrivilege_def Let_def go_bind_def go_return_def del: DefaultConnector_Connection_sel)
  next
    fix p' h'
    assume r2: "r2 = Returned (p', None)" and p': "pg_db p' = ?d" and h': "h' \<notin> S"
      and s2: "session H D (insert h' S) ?d h' w2"
      and other: "\<forall>c' < length (connectors ?w1). c' \<noteq> ?d \<longrightarrow> connectors w2 ! c' = connectors ?w1 ! c'"
      and len: "length (connectors w2) = length (connectors ?w1)"
    let ?exec = "Connection_Exec ?C (pg_db p') EnableLogger (pg_prepareStatementForPrivilege st arg u dbname on priv) []"
    obtain r3 w3 where ex: "?exec w2 = (r3, w3)" by fastforce
    have "session H D (insert h' S) c h w2"
      using s s2 other len by (auto simp: session_def nth_append)
    then have s3: "session H D (insert h' S) c h w3" "session H D (insert h' S) ?d h' w3"
      using preservesD [OF Exec_session [OF X] _ ex] s2 by auto
    obtain r4 w4 where cl: "Postgresql_Close ?C p' w3 = (r4, w4)" by fastforce
    have "settled H D (insert h' S - {h'}) w4" "connectors w4 = connectors w3"
      using Pg_Close_session [OF X, of D "insert h' S" p' h' w3] p' s3(2) cl by simp_all
    then have s4: "session H D S c h w4" using s3(1) h' by (simp add: session_def)
    have "snd (Postgresql_inDatabasePrivilege ?C p u dbname on priv st arg w) = w4"
      using r2 con copy ex cl
      by (simp add: Postgresql_inDatabasePrivilege_def Let_def go_bind_def go_defer_def
          del: DefaultConnector_Connection_sel split: outcome.split)
    with s4 show ?thesis by simp
  qed
qed

text \<open>An invariant that the calls on a session keep is kept by the operations of the drivers.\<close>

lemma Pg_ops_preserve:
  fixes X :: "'d Sqlx" and I :: "('k, 'd) World \<Rightarrow> bool"
  assumes ex: "\<And>c l q as. preserves I (Connection_Exec (DefaultConnector_Connection X) c l q as)"
    and inside: "\<And>p u d on priv st arg. preserves I
      (Postgresql_inDatabasePrivilege (DefaultConnector_Connection X) p u d on priv st arg)"
    and local: "\<And>w n. I (w\<lparr>draws := n\<rparr>) = I w"
  shows "preserves I (Postgresql_CreateUser (DefaultConnector_Connection X) K p u pw)"
    and "preserves I (Postgresql_DeleteUser (DefaultConnector_Connection X) p u)"
    and "preserves I (Postgresql_ApplyPrivileges (DefaultConnector_Connection X) p u prs)"
    and "preserves I (Postgresql_RevokePrivileges (DefaultConnector_Connection X) p u prs)"
proof -
  have gen: "preserves I (genPostgresCertFromCA K (pg_config p) u)"
    by (rule preserves_gen) (simp add: local)
  show "preserves I (Postgresql_CreateUser (DefaultConnector_Connection X) K p u pw)"
    unfolding Postgresql_CreateUser_def
    by (auto intro!: inv_intros ex gen simp del: DefaultConnector_Connection_sel split: prod.split sum.split)
  show "preserves I (Postgresql_DeleteUser (DefaultConnector_Connection X) p u)"
    unfolding Postgresql_DeleteUser_def by (intro inv_intros ex)
  have process: "preserves I (Postgresql_processPrivilege (DefaultConnector_Connection X) p u st arg pr)" for st arg pr
    unfolding Postgresql_processPrivilege_def Postgresql_databasePrivilege_def Postgresql_privilege_def
    by (auto intro!: inv_intros ex inside simp del: DefaultConnector_Connection_sel)
  show "preserves I (Postgresql_ApplyPrivileges (DefaultConnector_Connection X) p u prs)"
    and "preserves I (Postgresql_RevokePrivileges (DefaultConnector_Connection X) p u prs)"
    unfolding Postgresql_ApplyPrivileges_def Postgresql_RevokePrivileges_def Postgresql_privilegesProcessor_def
    by (intro inv_intros process)+
qed

lemma My_ops_preserve:
  fixes X :: "'d Sqlx" and I :: "('k, 'd) World \<Rightarrow> bool"
  assumes "\<And>c l q as. preserves I (Connection_Exec (DefaultConnector_Connection X) c l q as)"
  shows "preserves I (Mysql_CreateUser (DefaultConnector_Connection X) m u pw)"
    and "preserves I (Mysql_DeleteUser (DefaultConnector_Connection X) m u)"
    and "preserves I (Mysql_ApplyPrivileges (DefaultConnector_Connection X) m u prs)"
    and "preserves I (Mysql_RevokePrivileges (DefaultConnector_Connection X) m u prs)"
  by (auto simp del: DefaultConnector_Connection_sel simp: Mysql_CreateUser_def Mysql_DeleteUser_def Mysql_ApplyPrivileges_def
      Mysql_RevokePrivileges_def Mysql_privilegesProcessor_def intro!: inv_intros assms split: prod.split)

section \<open>One database of a user\<close>

text \<open>A driver over the connector \<open>c\<close>.\<close>

definition driver_on :: "'d Sqlx \<Rightarrow> nat \<Rightarrow> ('k, 'd) World Database \<Rightarrow> bool" where
  "driver_on X c db \<longleftrightarrow>
     (\<exists>K p. db = Postgresql_Database (DefaultConnector_Connection X) K p \<and> pg_db p = c) \<or>
     (\<exists>m. db = Mysql_Database (DefaultConnector_Connection X) m \<and> my_db m = c)"

lemma driver_ops_preserve:
  fixes X :: "'d Sqlx" and I :: "('k, 'd) World \<Rightarrow> bool"
  assumes "driver_on X c db"
    and "\<And>c l q as. preserves I (Connection_Exec (DefaultConnector_Connection X) c l q as)"
    and "\<And>p u d on priv st arg. preserves I
      (Postgresql_inDatabasePrivilege (DefaultConnector_Connection X) p u d on priv st arg)"
    and "\<And>w n. I (w\<lparr>draws := n\<rparr>) = I w"
  shows "preserves I (Database_CreateUser db u pw)" and "preserves I (Database_DeleteUser db u)"
    and "preserves I (Database_ApplyPrivileges db u prs)" and "preserves I (Database_RevokePrivileges db u prs)"
  using assms(1) Pg_ops_preserve [of I X, OF assms(2-4)] My_ops_preserve [of I X, OF assms(2)]
  by (auto simp: driver_on_def)

lemma driver_session:
  assumes "sqlx_tracked X H" and "driver_on X c db"
  shows "preserves (session H D S c h) (Database_CreateUser db u pw)"
    and "preserves (session H D S c h) (Database_DeleteUser db u)"
    and "preserves (session H D S c h) (Database_ApplyPrivileges db u prs)"
    and "preserves (session H D S c h) (Database_RevokePrivileges db u prs)"
    and "session H D S c h w \<Longrightarrow> h \<in> S \<Longrightarrow> settled H D (S - {h}) (snd (Database_Close db w))"
proof -
  show "session H D S c h w \<Longrightarrow> h \<in> S \<Longrightarrow> settled H D (S - {h}) (snd (Database_Close db w))"
    using assms(2) Pg_Close_session(1) [OF assms(1), of D S _ h w] Close_session(1) [OF assms(1), of D S c h w]
    unfolding driver_on_def by (elim disjE exE conjE) (simp_all add: Mysql_Close_def)
qed (rule driver_ops_preserve [OF assms(2) Exec_session [OF assms(1)] inDatabasePrivilege_session [OF assms(1)] session_local(2)])+

lemma withDatabase_opened:
  assumes "sqlx_tracked X H" and "driver_on X c db" and "session H D (insert h S) c h w" and "h \<notin> S"
  shows "settled H D S (snd (UserReconciler_withDatabase r u del ref prs db w))"
proof -
  let ?body = "if del then UserReconciler_databaseUserDelete r db u ref prs else UserReconciler_databaseUserApply r db u ref prs"
  note ops = driver_session [OF assms(1,2)]
  have "preserves (session H D (insert h S) c h) ?body"
    using preserves_database_bodies [of "session H D (insert h S) c h" db u prs r ref] ops by auto
  moreover obtain r1 w1 where body: "?body w = (r1, w1)" by fastforce
  ultimately have "session H D (insert h S) c h w1" using assms(3) by (blast dest: preservesD)
  then have "settled H D (insert h S - {h}) (snd (Database_Close db w1))" by (rule ops(5)) simp
  with body assms(4) show ?thesis
    by (auto simp: UserReconciler_withDatabase_def go_defer_def split: prod.splits outcome.splits)
qed

lemma secret_reads_keep:
  "keeps dbms (sslMaterial E cfg)" "keeps connectors (sslMaterial E cfg)"
  "keeps dbms (passwordFromSecret E sn)" "keeps connectors (passwordFromSecret E sn)"
  by (auto simp: sslMaterial_def passwordFromSecret_def intro!: inv_intros split: sum.split)

lemma newPostgresql_opened:
  assumes X: "sqlx_tracked X H" and c: "c < length (connectors w)" and w: "settled H D S w"
    and run: "newPostgresql (DefaultConnector_Connection X) K E c cfg w = (res, w')"
  shows "(settled H D S w' \<and> (\<forall>db. res \<noteq> Returned (Inr db))) \<or>
    (\<exists>db h. res = Returned (Inr db) \<and> driver_on X c db \<and> h \<notin> S \<and> session H D (insert h S) c h w')"
proof (cases cfg)
  case None
  with run w show ?thesis by (simp add: newPostgresql_def go_panic_def)
next
  case (Some p)
  obtain r1 w1 where ssl: "sslMaterial E p w = (r1, w1)" by fastforce
  obtain r2 w2 where pwd: "passwordFromSecret E (pgspec_PasswordSecret p) w1 = (r2, w2)" by fastforce
  have same: "dbms w1 = dbms w" "connectors w1 = connectors w" "dbms w2 = dbms w" "connectors w2 = connectors w"
    using keepsD [OF secret_reads_keep(1) ssl] keepsD [OF secret_reads_keep(2) ssl]
      keepsD [OF secret_reads_keep(3) pwd] keepsD [OF secret_reads_keep(4) pwd] by simp_all
  have w': "settled H D S w1" "settled H D S w2" using w same by (simp_all add: settled_def)
  note new = run [unfolded Some newPostgresql_def Let_def]
  show ?thesis
  proof (cases "\<exists>d k pw. r1 = Returned (Inr (d, k)) \<and> r2 = Returned (Inr pw)")
    case True
    then obtain d k pw where rs: "r1 = Returned (Inr (d, k))" "r2 = Returned (Inr pw)" by blast
    define cf where "cf = NewConfig (pgspec_Host p) (pgspec_Port p) (pgspec_User p) pw
                  (pgspec_DatabaseName p) (pgspec_SSLMode p) (map_index d ''ca.crt'')
                  (map_index d ''tls.crt'') (map_index d ''tls.key'') k"
    obtain r3 w3 where con: "Postgresql_Connect (DefaultConnector_Connection X) (NewPostgresql c cf) w2 = (r3, w3)" by fastforce
    have "pg_db (NewPostgresql c cf) = c" by (simp add: NewPostgresql_def)
    with Pg_Connect_opened [OF X con _ w'(2)] c same new ssl pwd rs con [unfolded cf_def] show ?thesis
      by (fastforce simp: go_bind_def go_return_def driver_on_def)
  next
    case False
    with new ssl pwd w' show ?thesis
      by (auto simp: go_bind_def go_return_def split: outcome.splits sum.splits prod.splits)
  qed
qed

lemma newMysql_opened:
  assumes X: "sqlx_tracked X H" and c: "c < length (connectors w)" and w: "settled H D S w"
    and run: "newMysql (DefaultConnector_Connection X) G E c cfg w = (res, w')"
  shows "(settled H D S w' \<and> (\<forall>db. res \<noteq> Returned (Inr db))) \<or>
    (\<exists>db h. res = Returned (Inr db) \<and> driver_on X c db \<and> h \<notin> S \<and> session H D (insert h S) c h w')"
proof (cases cfg)
  case None
  with run w show ?thesis by (simp add: newMysql_def go_panic_def)
next
  case (Some p)
  obtain r1 w1 where pwd: "passwordFromSecret E (myspec_PasswordSecret p) w = (r1, w1)" by fastforce
  have same: "dbms w1 = dbms w" "connectors w1 = connectors w"
    using keepsD [OF secret_reads_keep(3) pwd] keepsD [OF secret_reads_keep(4) pwd] by simp_all
  have w': "settled H D S w1" using w same by (simp add: settled_def)
  note new = run [unfolded Some newMysql_def Let_def Mysql_Connect_def]
  show ?thesis
  proof (cases "\<exists>pw. r1 = Returned (Inr pw)")
    case True
    then obtain pw where r1: "r1 = Returned (Inr pw)" by blast
    define m where "m = NewMysql c (mysql_NewConfig (myspec_Host p) (myspec_Port p) (myspec_User p) pw
                  (myspec_DatabaseName p) (myspec_UsersHostname p))"
    have m: "my_db m = c" by (simp add: m_def NewMysql_def)
    show ?thesis
    proof (cases "MysqlConfig_ConnString G (my_config m)")
      case (Inl e)
      with new pwd r1 w' show ?thesis by (auto simp: go_bind_def go_return_def m_def)
    next
      case (Inr str)
      obtain r2 w2 where con: "DefaultConnector_Connect X c ''mysql'' str w1 = (r2, w2)" by fastforce
      have "(res, w') = go_bind (\<lambda>_. (r2, w2)) (\<lambda>err. case err of Some e \<Rightarrow> go_return (Inl e)
          | None \<Rightarrow> go_return (Inr (Mysql_Database (DefaultConnector_Connection X) m))) w1"
        using new pwd r1 Inr con
        by (auto simp: go_bind_def m_def [symmetric] m split: outcome.splits option.splits)
      with Connect_opened [OF X con _ w'] c same m show ?thesis
        by (auto simp: go_bind_def go_return_def driver_on_def)
    qed
  next
    case False
    with new pwd w' show ?thesis
      by (auto simp: go_bind_def go_return_def split: outcome.splits sum.splits)
  qed
qed

lemma NewDatabase_opened:
  assumes X: "sqlx_tracked X H" and run: "NewDatabase X K G E s w = (res, w')" and w: "settled H D S w"
  shows "(settled H D S w' \<and> (\<forall>db. res \<noteq> Returned (Inr db))) \<or>
    (\<exists>db c h. res = Returned (Inr db) \<and> driver_on X c db \<and> h \<notin> S \<and> session H D (insert h S) c h w')"
proof -
  let ?d = "length (connectors w)"
  let ?w1 = "w\<lparr>connectors := connectors w @ [\<lparr>connector_db = None\<rparr>]\<rparr>"
  have new: "newDatabase (DefaultConnector_Connection X) K G E ?d s ?w1 = (res, w')"
    using run by (simp add: NewDatabase_def go_simps)
  have d: "?d < length (connectors ?w1)" and w1: "settled H D S ?w1" using w by simp_all
  consider (pg) "newPostgresql (DefaultConnector_Connection X) K E ?d (spec_PostgreSQL s) ?w1 = (res, w')"
    | (my) "newMysql (DefaultConnector_Connection X) G E ?d (spec_MySQL s) ?w1 = (res, w')"
    | (no) "w' = ?w1" "\<forall>db. res \<noteq> Returned (Inr db)"
    using new by (auto simp: newDatabase_def go_return_def split: if_splits)
  then show ?thesis
  proof cases
    case pg
    from newPostgresql_opened [OF X d w1 pg] show ?thesis by auto
  next
    case my
    from newMysql_opened [OF X d w1 my] show ?thesis by auto
  next
    case no
    with w1 show ?thesis by simp
  qed
qed

lemma databaseReconciler_opened:
  fixes X :: "'d Sqlx" and E :: "'k Client"
  assumes X: "sqlx_tracked X H"
  shows "preserves (settled H D S) (UserReconciler_databaseReconciler (manager_reconciler X K G E) u del ref)"
proof -
  let ?r = "manager_reconciler X K G E :: ('k, 'd) UserReconciler" and ?I = "settled H D S :: ('k, 'd) World \<Rightarrow> bool"
  have inner: "preserves ?I (go_try h (NewDatabase X K G E s) (UserReconciler_withDatabase ?r u del ref prs))" for h s prs
    unfolding preserves_def
  proof (intro allI impI)
    fix w :: "('k, 'd) World"
    assume w: "settled H D S w"
    obtain res w' where run: "NewDatabase X K G E s w = (res, w')" by fastforce
    from NewDatabase_opened [OF X run w] run
    show "settled H D S (snd (go_try h (NewDatabase X K G E s) (UserReconciler_withDatabase ?r u del ref prs) w))"
      by (auto simp: go_try_def go_bind_def go_return_def withDatabase_opened [OF X] split: outcome.splits sum.splits)
  qed
  have loop: "preserves ?I (privileges_loop ?r ps nns)" for ps nns
    by (rule preserves_privileges) simp
  have outer: "preserves ?I (go_try h' (privileges_loop ?r ps nns)
      (\<lambda>prs. go_try h (NewDatabase X K G E s) (UserReconciler_withDatabase ?r u del ref prs)))" for h h' s ps nns
    by (rule preserves_try [OF loop inner])
  show ?thesis
    unfolding UserReconciler_databaseReconciler_def UserReconciler_database_def UserReconciler_privileges_def
    by (rule preserves_try) (simp_all add: preserves_on_kube outer [unfolded manager_reconciler_def] manager_reconciler_def)
qed

text \<open>
  \<^bold>\<open>C8\<close> No connection leaks once it is established: every run of \<^verbatim>\<open>Reconcile\<close>, whether it
  returns, fails or panics, closes each handle that a successful connection gave it, those of
  the connections for privileges inside other databases included, and no other. What is open
  at the end is what was open before, and the handles that came with a failed ping and
  that the connector drops.
\<close>

theorem Reconcile_closes_connections:
  assumes "sqlx_tracked X H"
    and "UserReconciler_Reconcile (manager_reconciler X K G E) nn w = (out, w')"
  shows "in_use H (dbms w') = in_use H (dbms w) \<and>
    opened H (dbms w) \<subseteq> opened H (dbms w') \<and> opened H (dbms w') = opened H (dbms w) \<union> dropped H (dbms w')"
proof -
  have within: "dropped H d \<subseteq> opened H d" for d using assms(1) by (simp add: sqlx_tracked_def)
  have "preserves (settled H D S) (UserReconciler_Reconcile (manager_reconciler X K G E) nn)" for D S
    unfolding UserReconciler_Reconcile_def UserReconciler_user_def UserReconciler_reconcile_def
      UserReconciler_removeAll_def UserReconciler_applyAll_def UserReconciler_report_def
      UserReconciler_setStatus_def UserReconciler_addEvent_def Let_def log_Info_def
    by (auto intro!: inv_intros databaseReconciler_opened assms(1) preserves_on_kube preserves_modify
        split: sum.split prod.split option.split)
  from preserves_snd [OF this [of "dropped H (dbms w)" "in_use H (dbms w)"], of w] assms(2)
  have "settled H (dropped H (dbms w)) (in_use H (dbms w)) w'" by (simp add: settled_def)
  with within [of "dbms w"] within [of "dbms w'"] show ?thesis by (auto simp: settled_def in_use_def)
qed

text \<open>A handle that is not in use.\<close>

definition fresh_handle :: "nat \<Rightarrow> DBHandle list \<Rightarrow> DBHandle" where
  "fresh_handle n hs = Suc (sum_list hs + n)"

text \<open>
  Servers that count the handles and keep the open ones and, among them, those whose ping
  failed; whether a ping succeeds depends on the driver.
\<close>

definition counting_Sqlx :: "(string \<Rightarrow> bool) \<Rightarrow> (nat \<times> DBHandle list \<times> DBHandle list) Sqlx" where
  "counting_Sqlx up = \<lparr>
     sqlx_ConnectContext = (\<lambda>drv cs fs (n, hs, ds).
       let h = fresh_handle n (hs @ ds) in
       if up drv then (Inr h, Suc n, h # hs, ds) else (Inl (ErrorString ''ping failed'', Some h), Suc n, h # hs, h # ds)),
     sqlx_SetMaxIdleConns = (\<lambda>h n fs d. ((), d)),
     sqlx_SetMaxOpenConns = (\<lambda>h n fs d. ((), d)),
     sqlx_Close = (\<lambda>h fs (n, hs, ds). (None, n, filter (\<lambda>x. x \<noteq> h) hs, filter (\<lambda>x. x \<noteq> h) ds)),
     sqlx_ExecContext = (\<lambda>h q as fs d. (None, d))\<rparr>"

definition counting_handles :: "(nat \<times> DBHandle list \<times> DBHandle list) Handles" where
  "counting_handles = \<lparr>opened = (\<lambda>(n, hs, ds). set hs), dropped = (\<lambda>(n, hs, ds). set ds \<inter> set hs)\<rparr>"

lemma fresh_handle_not_in: "fresh_handle n hs \<notin> set hs"
proof
  assume "fresh_handle n hs \<in> set hs"
  then have "fresh_handle n hs \<le> sum_list hs" by (rule member_le_sum_list) simp
  then show False by (simp add: fresh_handle_def)
qed

lemma counting_tracked: "sqlx_tracked (counting_Sqlx up) counting_handles"
proof -
  have "fresh_handle n (hs @ ds) \<notin> set hs" "fresh_handle n (hs @ ds) \<notin> set ds" for n hs ds
    using fresh_handle_not_in [of n "hs @ ds"] by simp_all
  then show ?thesis
    unfolding sqlx_tracked_def
    by (intro conjI allI) (auto simp: counting_Sqlx_def counting_handles_def Let_def split: if_splits)
qed

definition counting_world :: "(Cluster, nat \<times> DBHandle list \<times> DBHandle list) World" where
  "counting_world = \<lparr>
     kube = demo_cluster (demo_user [] None), dbms = (1, [3], []),
     filesystem = \<lparr>fs_nodes = Map.empty, fs_deny = (\<lambda>_ _. None)\<rparr>,
     env_HOME = ''/root'', logs = [], events = [], connectors = [],
     fake = \<lparr>fake_queries = None, fake_count = 0, fake_connections = None\<rparr>, draws = 0\<rparr>"

definition counting_run :: "bool \<Rightarrow> error option outcome \<times> (Cluster, nat \<times> DBHandle list \<times> DBHandle list) World" where
  "counting_run up = UserReconciler_Reconcile (manager_reconciler (counting_Sqlx (\<lambda>_. up)) no_Crypto mem_GenMysql mem_Client)
     (cluster_name ''john'') counting_world"

lemma counting_run_up: "dbms (snd (counting_run True)) = (2, [3], [])"
  by code_simp

lemma counting_run_down: "dbms (snd (counting_run False)) = (2, [5, 3], [5])"
  by code_simp

text \<open>
  Witness: two runs for a new user, with the handle 3 of somebody else open. When the server
  is up, only that handle is open afterwards; when the ping fails, the handle 5 stays too.
\<close>

theorem Reconcile_closes_connections_witness:
  "in_use counting_handles (dbms (snd (counting_run True))) = {3} \<and> opened counting_handles (dbms (snd (counting_run True))) = {3} \<and>
   in_use counting_handles (dbms (snd (counting_run False))) = {3} \<and> opened counting_handles (dbms (snd (counting_run False))) = {3, 5}"
proof -
  have "in_use counting_handles (dbms counting_world) = {3}"
    by (simp add: in_use_def counting_handles_def counting_world_def)
  with Reconcile_closes_connections [OF counting_tracked, of "\<lambda>_. True" no_Crypto mem_GenMysql mem_Client "cluster_name ''john''"
      counting_world "fst (counting_run True)" "snd (counting_run True)"]
    Reconcile_closes_connections [OF counting_tracked, of "\<lambda>_. False" no_Crypto mem_GenMysql mem_Client "cluster_name ''john''"
      counting_world "fst (counting_run False)" "snd (counting_run False)"]
  show ?thesis by (auto simp: counting_run_def [symmetric] counting_run_up counting_run_down counting_handles_def)
qed

end
