(* ===== verification/Sessions_Bounded.thy ===== *)
theory Sessions_Bounded
  imports Connections_Balanced
begin

text \<open>
  How many database sessions a run of the reconciler holds at the same time: the one of the
  database it works on, and at most one more for a privilege inside another database,
  however many databases and privileges the user has.
\<close>

section \<open>The high-water mark\<close>

text \<open>
  \<open>peak\<close> observes the largest number of handles that were ever in use at the same time: only
  connecting can raise it.
\<close>

definition peak_tracked :: "'d Sqlx \<Rightarrow> 'd Handles \<Rightarrow> ('d \<Rightarrow> nat) \<Rightarrow> bool" where
  "peak_tracked X H peak \<longleftrightarrow>
     (\<forall>drv cs fs d d' res. sqlx_ConnectContext X drv cs fs d = (res, d') \<longrightarrow> peak d' = max (peak d) (card (in_use H d'))) \<and>
     (\<forall>h n fs d. peak (snd (sqlx_SetMaxIdleConns X h n fs d)) = peak d) \<and>
     (\<forall>h n fs d. peak (snd (sqlx_SetMaxOpenConns X h n fs d)) = peak d) \<and>
     (\<forall>h fs d. peak (snd (sqlx_Close X h fs d)) = peak d) \<and>
     (\<forall>h q as fs d. peak (snd (sqlx_ExecContext X h q as fs d)) = peak d)"

lemma peak_trackedD:
  assumes "peak_tracked X H peak"
  shows "sqlx_ConnectContext X drv cs fs d = (res, d') \<Longrightarrow> peak d' = max (peak d) (card (in_use H d'))"
    and "peak (snd (sqlx_SetMaxIdleConns X h n fs d)) = peak d"
    and "peak (snd (sqlx_SetMaxOpenConns X h n fs d)) = peak d"
    and "peak (snd (sqlx_Close X h fs d)) = peak d"
    and "peak (snd (sqlx_ExecContext X h q as fs d)) = peak d"
proof -
  note tracked = assms [unfolded peak_tracked_def]
  from tracked show "sqlx_ConnectContext X drv cs fs d = (res, d') \<Longrightarrow> peak d' = max (peak d) (card (in_use H d'))"
    by (elim conjE) (erule allE, erule allE, erule allE, erule allE, erule allE, erule allE, erule mp)
  from tracked show "peak (snd (sqlx_SetMaxIdleConns X h n fs d)) = peak d" by (simp only:)
  from tracked show "peak (snd (sqlx_SetMaxOpenConns X h n fs d)) = peak d" by (simp only:)
  from tracked show "peak (snd (sqlx_Close X h fs d)) = peak d" by (simp only:)
  from tracked show "peak (snd (sqlx_ExecContext X h q as fs d)) = peak d" by (simp only:)
qed

text \<open>The mark is within the bound.\<close>

definition within :: "('d \<Rightarrow> nat) \<Rightarrow> nat \<Rightarrow> ('k, 'd) World \<Rightarrow> bool" where
  "within peak B w \<longleftrightarrow> peak (dbms w) \<le> B"

lemma within_local [simp]:
  "within peak B (w\<lparr>filesystem := fs\<rparr>) = within peak B w"
  "within peak B (w\<lparr>draws := n\<rparr>) = within peak B w"
  "within peak B (w\<lparr>kube := k\<rparr>) = within peak B w"
  "within peak B (w\<lparr>connectors := cs\<rparr>) = within peak B w"
  by (simp_all add: within_def)

lemma card_insert_Suc: "card (insert h S) \<le> Suc (card S)"
  by (cases "finite S") (simp_all add: card_insert_if)

lemma Connect_within:
  assumes X: "sqlx_tracked X H" and P: "peak_tracked X H peak"
    and run: "DefaultConnector_Connect X c drv cs w = (r, w')"
    and free: "card (in_use H (dbms w)) < B" and within: "within peak B w"
  shows "within peak B w'"
proof -
  obtain res d where con: "sqlx_ConnectContext X drv cs (filesystem w) (dbms w) = (res, d)" by fastforce
  have "card (in_use H d) \<le> B"
  proof (cases res)
    case (Inl e)
    with sqlx_connected(1) [OF X, of drv cs "filesystem w" "dbms w" "fst e" "snd e" d] con free
    show ?thesis by (simp add: same_use_def)
  next
    case (Inr h)
    with sqlx_connected(2) [OF X] con have "in_use H d = insert h (in_use H (dbms w))" by metis
    with card_insert_Suc [of h "in_use H (dbms w)"] free show ?thesis by simp
  qed
  with peak_trackedD(1) [OF P con] within have d: "peak d \<le> B" by (simp add: within_def)
  show ?thesis
  proof (cases res)
    case (Inl e)
    with con run have "dbms w' = d" by (cases e) (auto simp: connector_defs)
    with d show ?thesis by (simp add: within_def)
  next
    case (Inr h)
    with con run have "dbms w' = snd (sqlx_SetMaxOpenConns X h 1 (filesystem w) (snd (sqlx_SetMaxIdleConns X h 0 (filesystem w) d)))"
      by (auto simp: connector_defs)
    with d show ?thesis by (simp add: within_def peak_trackedD(2,3) [OF P])
  qed
qed

lemma Exec_within:
  assumes "peak_tracked X H peak"
  shows "preserves (within peak B) (Connection_Exec (DefaultConnector_Connection X) c l q as)"
  by (auto simp: preserves_def within_def connector_defs peak_trackedD(5) [OF assms] split: option.splits)

lemma Close_within:
  assumes "peak_tracked X H peak"
  shows "preserves (within peak B) (DefaultConnector_Close X c)"
    and "preserves (within peak B) (Postgresql_Close (DefaultConnector_Connection X) p)"
proof -
  show close: "preserves (within peak B) (DefaultConnector_Close X c)" for c
    by (auto simp: preserves_def within_def connector_defs peak_trackedD(4) [OF assms] split: option.splits)
  have "preserves (within peak B) (Config_Close cf)" for cf
    by (simp add: preserves_def Config_Close_apply)
  with close show "preserves (within peak B) (Postgresql_Close (DefaultConnector_Connection X) p)"
    by (auto simp: Postgresql_Close_def intro!: inv_intros)
qed

text \<open>A PostgreSQL driver connects at most once in \<^verbatim>\<open>Connect\<close>.\<close>

lemma Pg_Connect_within:
  assumes X: "sqlx_tracked X H" and P: "peak_tracked X H peak"
    and run: "Postgresql_Connect (DefaultConnector_Connection X) p w = (r, w')"
    and free: "card (in_use H (dbms w)) < B" and within: "within peak B w"
  shows "within peak B w'"
proof -
  obtain r1 w1 where cs: "Config_ConnString (pg_config p) w = (r1, w1)" by fastforce
  then obtain c' res fs where cs': "r1 = Returned (c', res)" "w1 = w\<lparr>filesystem := fs\<rparr>"
    by (rule Config_ConnString_frame) blast
  show ?thesis
  proof (cases res)
    case (Inl e)
    with run cs cs' within show ?thesis by (auto simp: Postgresql_Connect_def Let_def go_simps)
  next
    case (Inr str)
    obtain r2 w2 where con: "DefaultConnector_Connect X (pg_db p) ''pgx'' str w1 = (r2, w2)" by fastforce
    have "w' = w2"
      using Inr run cs cs'(1) con by (cases r2) (auto simp: Postgresql_Connect_def Let_def go_bind_def go_return_def)
    with Connect_within [OF X P con, of B] free within cs'(2) show ?thesis by simp
  qed
qed

section \<open>One more session for a privilege\<close>

text \<open>The session of a driver, within the bound.\<close>

definition bounded_session ::
  "'d Handles \<Rightarrow> ('d \<Rightarrow> nat) \<Rightarrow> nat \<Rightarrow> DBHandle set \<Rightarrow> DBHandle set \<Rightarrow> nat \<Rightarrow> DBHandle \<Rightarrow> ('k, 'd) World \<Rightarrow> bool" where
  "bounded_session H peak B D S c h w \<longleftrightarrow> session H D S c h w \<and> within peak B w"

lemma preserves_both: "preserves I m \<Longrightarrow> preserves J m \<Longrightarrow> preserves (\<lambda>w. I w \<and> J w) m"
  by (simp add: preserves_def)

lemma bounded_session_local [simp]:
  "bounded_session H peak B D S c h (w\<lparr>draws := n\<rparr>) = bounded_session H peak B D S c h w"
  "bounded_session H peak B D S c h (w\<lparr>kube := k\<rparr>) = bounded_session H peak B D S c h w"
  by (simp_all add: bounded_session_def)

lemma Exec_bounded:
  assumes "sqlx_tracked X H" and "peak_tracked X H peak"
  shows "preserves (bounded_session H peak B D S c h) (Connection_Exec (DefaultConnector_Connection X) c' l q as)"
  unfolding bounded_session_def [abs_def]
  by (intro preserves_both Exec_session [OF assms(1)] Exec_within [OF assms(2)])

lemma inDatabasePrivilege_bounded:
  fixes X :: "'d Sqlx"
  assumes X: "sqlx_tracked X H" and P: "peak_tracked X H peak" and free: "card S < B"
  shows "preserves (bounded_session H peak B D S c h :: ('k, 'd) World \<Rightarrow> bool)
    (Postgresql_inDatabasePrivilege (DefaultConnector_Connection X) p u dbname on priv st arg)"
  unfolding preserves_def bounded_session_def
proof (intro allI impI conjI)
  fix w :: "('k, 'd) World"
  assume I: "session H D S c h w \<and> within peak B w"
  let ?C = "DefaultConnector_Connection X"
  let ?m = "Postgresql_inDatabasePrivilege ?C p u dbname on priv st arg"
  let ?w1 = "w\<lparr>connectors := connectors w @ [\<lparr>connector_db = None\<rparr>]\<rparr>"
  let ?new = "NewPostgresql (length (connectors w)) ((Config_Copy (pg_config p))\<lparr>DatabaseName := dbname\<rparr>)"
  let ?exec = "\<lambda>newP. Connection_Exec ?C (pg_db newP) EnableLogger (pg_prepareStatementForPrivilege st arg u dbname on priv) []"
  show "session H D S c h (snd (?m w))"
    by (rule preserves_snd [OF inDatabasePrivilege_session [OF X] I [THEN conjunct1]])
  obtain r2 w2 where con: "Postgresql_Connect ?C ?new ?w1 = (r2, w2)" by fastforce
  have copy: "Connection_Copy ?C (pg_db p) w = (Returned (length (connectors w)), ?w1)" by (simp add: connector_defs)
  have "within peak B w2"
    using Pg_Connect_within [OF X P con, of B] I free by (simp add: session_def settled_def)
  then have "within peak B (snd (go_defer (Postgresql_Close ?C newP) (?exec newP) w2))" for newP
    by (rule preserves_snd [rotated]) (intro inv_intros Close_within(2) [OF P] Exec_within [OF P])
  with \<open>within peak B w2\<close> con copy show "within peak B (snd (?m w))"
    by (cases r2) (auto simp: Postgresql_inDatabasePrivilege_def Let_def go_bind_def go_return_def
        simp del: DefaultConnector_Connection_sel split: option.split)
qed

section \<open>One session for a database\<close>

lemma withDatabase_within:
  assumes X: "sqlx_tracked X H" and P: "peak_tracked X H peak" and db: "driver_on X c db"
    and w: "session H D S c h w" "within peak B w" and free: "card S < B"
  shows "within peak B (snd (UserReconciler_withDatabase r u del ref prs db w))"
proof -
  let ?I = "bounded_session H peak B D S c h"
  let ?body = "if del then UserReconciler_databaseUserDelete r db u ref prs else UserReconciler_databaseUserApply r db u ref prs"
  note ops = driver_ops_preserve [where I = ?I and X = X, OF db Exec_bounded [OF X P] inDatabasePrivilege_bounded [OF X P free] bounded_session_local(1)]
  have "preserves ?I ?body"
    using preserves_database_bodies [of ?I db u prs r ref] ops by auto
  moreover obtain r1 w1 where body: "?body w = (r1, w1)" by fastforce
  ultimately have "within peak B w1" using w by (auto simp: bounded_session_def dest: preservesD)
  moreover have "preserves (within peak B) (Database_Close db)"
    using db Close_within [OF P] by (auto simp: driver_on_def Mysql_Close_def)
  ultimately show ?thesis
    using body
    by (auto simp: UserReconciler_withDatabase_def go_defer_def dest: preservesD split: prod.splits outcome.splits)
qed

text \<open>
  \<open>leads J I m\<close>: from a state with \<open>J\<close> the computation ends in one with \<open>I\<close>. Creating a
  driver connects last, so that it starts with room for a session and ends within the bound.
\<close>

definition leads :: "('s \<Rightarrow> bool) \<Rightarrow> ('s \<Rightarrow> bool) \<Rightarrow> ('s, 'a) go \<Rightarrow> bool" where
  "leads J I m \<longleftrightarrow> (\<forall>s. J s \<longrightarrow> I (snd (m s)))"

lemma leadsD: "leads J I m \<Longrightarrow> J s \<Longrightarrow> m s = (r, t) \<Longrightarrow> I t"
  by (fastforce simp: leads_def)

lemma leads_bind:
  "preserves J m \<Longrightarrow> (\<And>s. J s \<Longrightarrow> I s) \<Longrightarrow> (\<And>x. leads J I (f x)) \<Longrightarrow> leads J I (go_bind m f)"
  by (fastforce simp: leads_def preserves_def go_bind_def split: prod.splits outcome.splits)

lemma leads_last: "leads J I m \<Longrightarrow> (\<And>x. preserves I (f x)) \<Longrightarrow> leads J I (go_bind m f)"
  by (fastforce simp: leads_def preserves_def go_bind_def split: prod.splits outcome.splits)

lemma leads_stop: "(\<And>s. J s \<Longrightarrow> I s) \<Longrightarrow> leads J I (go_return x)" "(\<And>s. J s \<Longrightarrow> I s) \<Longrightarrow> leads J I go_panic"
  by (simp_all add: leads_def go_return_def go_panic_def)

definition has_room :: "'d Handles \<Rightarrow> ('d \<Rightarrow> nat) \<Rightarrow> nat \<Rightarrow> ('k, 'd) World \<Rightarrow> bool" where
  "has_room H peak B w \<longleftrightarrow> card (in_use H (dbms w)) < B \<and> within peak B w"

lemma has_room_within: "has_room H peak B w \<Longrightarrow> within peak B w"
  by (simp add: has_room_def)

lemma has_room_keeps: "keeps dbms m \<Longrightarrow> preserves (has_room H peak B) m"
  by (simp add: preserves_def keeps_def has_room_def within_def)

lemma has_room_reads:
  "preserves (has_room H peak B) (sslMaterial E cfg)" "preserves (has_room H peak B) (passwordFromSecret E sn)"
  by (rule has_room_keeps [OF secret_reads_keep(1)], rule has_room_keeps [OF secret_reads_keep(3)])

lemma connects_lead:
  assumes X: "sqlx_tracked X H" and P: "peak_tracked X H peak"
  shows "leads (has_room H peak B) (within peak B) (Postgresql_Connect (DefaultConnector_Connection X) p)"
    and "leads (has_room H peak B) (within peak B) (Mysql_Connect (DefaultConnector_Connection X) G m)"
proof -
  show "leads (has_room H peak B) (within peak B) (Postgresql_Connect (DefaultConnector_Connection X) p)"
    unfolding leads_def has_room_def by (blast intro: Pg_Connect_within [OF X P] prod.collapse [symmetric])
  have "leads (has_room H peak B) (within peak B) (DefaultConnector_Connect X c drv cs)" for c drv cs
    unfolding leads_def has_room_def by (blast intro: Connect_within [OF X P] prod.collapse [symmetric])
  then show "leads (has_room H peak B) (within peak B) (Mysql_Connect (DefaultConnector_Connection X) G m)"
    by (auto simp: Mysql_Connect_def intro!: leads_stop has_room_within split: sum.split)
qed

lemma NewDatabase_leads:
  assumes X: "sqlx_tracked X H" and P: "peak_tracked X H peak"
  shows "leads (has_room H peak B) (within peak B) (NewDatabase X K G E s)"
proof -
  note rules = leads_bind leads_last leads_stop has_room_reads has_room_within connects_lead [OF X P]
  let ?L = "leads (has_room H peak B) (within peak B)"
  have pg: "?L (newPostgresql (DefaultConnector_Connection X) K E c cfg)" for c cfg
    unfolding newPostgresql_def Let_def
    by (auto intro!: leads_stop has_room_within leads_bind has_room_reads leads_last [OF connects_lead(1) [OF X P]]
        preserves_return split: option.split sum.split prod.split)
  have my: "?L (newMysql (DefaultConnector_Connection X) G E c cfg)" for c cfg
    unfolding newMysql_def Let_def
    by (auto intro!: leads_stop has_room_within leads_bind has_room_reads leads_last [OF connects_lead(2) [OF X P]]
        preserves_return split: option.split sum.split prod.split)
  have fresh: "preserves (has_room H peak B) NewDefaultConnector"
    by (simp add: preserves_def NewDefaultConnector_apply has_room_def)
  show ?thesis
    unfolding NewDatabase_def newDatabase_def
    by (auto intro!: leads_bind [OF fresh] leads_stop pg my has_room_within)
qed

section \<open>A run\<close>

definition at_rest :: "'d Handles \<Rightarrow> ('d \<Rightarrow> nat) \<Rightarrow> nat \<Rightarrow> DBHandle set \<Rightarrow> DBHandle set \<Rightarrow> ('k, 'd) World \<Rightarrow> bool" where
  "at_rest H peak B D S w \<longleftrightarrow> settled H D S w \<and> within peak B w"

lemma at_rest_local [simp]:
  "at_rest H peak B D S (w\<lparr>kube := k\<rparr>) = at_rest H peak B D S w"
  "at_rest H peak B D S (w\<lparr>logs := l\<rparr>) = at_rest H peak B D S w"
  "at_rest H peak B D S (w\<lparr>events := ev\<rparr>) = at_rest H peak B D S w"
  by (simp_all add: at_rest_def within_def)

lemma databaseReconciler_at_rest:
  fixes E :: "'k Client" and X :: "'d Sqlx"
  assumes X: "sqlx_tracked X H" and P: "peak_tracked X H peak" and B: "card S + 2 \<le> B"
  shows "preserves (at_rest H peak B D S) (UserReconciler_databaseReconciler (manager_reconciler X K G E) u del ref)"
proof -
  let ?r = "manager_reconciler X K G E" and ?I = "at_rest H peak B D S"
  have inner: "preserves ?I (go_try h (NewDatabase X K G E s) (UserReconciler_withDatabase ?r u del ref prs))" for h s prs
    unfolding preserves_def
  proof (intro allI impI)
    fix w :: "('k, 'd) World"
    assume w: "?I w"
    obtain res w' where run: "NewDatabase X K G E s w = (res, w')" by fastforce
    have rest: "settled H D S w" using w by (simp add: at_rest_def)
    have room: "has_room H peak B w" using w B by (simp add: at_rest_def has_room_def settled_def)
    then have w': "within peak B w'" by (rule leadsD [OF NewDatabase_leads [OF X P] _ run])
    from NewDatabase_opened [OF X run rest]
    show "?I (snd (go_try h (NewDatabase X K G E s) (UserReconciler_withDatabase ?r u del ref prs) w))"
    proof (elim disjE exE conjE)
      assume "settled H D S w'" "\<forall>db. res \<noteq> Returned (Inr db)"
      with run w w' show ?thesis
        by (auto simp: at_rest_def go_try_def go_bind_def go_return_def split: outcome.splits sum.splits)
    next
      fix db c h'
      assume res: "res = Returned (Inr db)" and on: "driver_on X c db" and new: "h' \<notin> S"
        and s: "session H D (insert h' S) c h' w'"
      have "card (insert h' S) < B"
        using card_insert_Suc [of h' S] B by simp
      from withDatabase_within [OF X P on s w' this] withDatabase_opened [OF X on s new] run res w show ?thesis
        by (simp add: at_rest_def go_try_def go_bind_def)
    qed
  qed
  have loop: "preserves ?I (privileges_loop ?r ps nns)" for ps nns
    by (rule preserves_privileges) simp
  have outer: "preserves ?I (go_try h' (privileges_loop ?r ps nns)
      (\<lambda>prs. go_try h (NewDatabase X K G E s) (UserReconciler_withDatabase ?r u del ref prs)))" for h h' s ps nns
    by (rule preserves_try [OF loop inner])
  show ?thesis
    unfolding UserReconciler_databaseReconciler_def UserReconciler_database_def UserReconciler_privileges_def
    by (rule preserves_try) (simp_all add: preserves_on_kube outer [unfolded manager_reconciler_def] manager_reconciler_def)
qed

text \<open>
  \<^bold>\<open>C9\<close> (bounds). However many databases a user refers to, and however many privileges it has
  in each, a run of \<^verbatim>\<open>Reconcile\<close> never has more than two database handles in use beside those
  that were in use when it started: one for the database at hand, and one for a privilege inside
  another database. (A handle that came with a failed ping was never in use, and the run
  leaves it open.)
\<close>

theorem Reconcile_bounds_sessions:
  assumes "sqlx_tracked X H" and "peak_tracked X H peak"
  shows "peak (dbms (snd (UserReconciler_Reconcile (manager_reconciler X K G E) nn w)))
    \<le> max (peak (dbms w)) (card (in_use H (dbms w)) + 2)"
proof -
  let ?S = "in_use H (dbms w)" and ?B = "max (peak (dbms w)) (card (in_use H (dbms w)) + 2)"
  let ?I = "at_rest H peak ?B {} ?S"
  have "preserves ?I (UserReconciler_databaseReconciler (manager_reconciler X K G E) u del ref)" for u del ref
    by (rule databaseReconciler_at_rest [OF assms]) simp
  then have "preserves ?I (UserReconciler_Reconcile (manager_reconciler X K G E) nn)"
    unfolding UserReconciler_Reconcile_def UserReconciler_user_def UserReconciler_reconcile_def
      UserReconciler_removeAll_def UserReconciler_applyAll_def UserReconciler_report_def
      UserReconciler_setStatus_def UserReconciler_addEvent_def Let_def log_Info_def
    by (auto intro!: inv_intros preserves_on_kube preserves_modify split: sum.split prod.split option.split)
  then have "?I (snd (UserReconciler_Reconcile (manager_reconciler X K G E) nn w))"
    by (rule preserves_snd) (simp add: at_rest_def within_def settled_def)
  then show ?thesis by (simp add: at_rest_def within_def)
qed

text \<open>
  Witness: the counting servers with a high-water mark, and a handle of somebody else in use.
  MySQL is up, and so at some time two handles are in use.
\<close>

type_synonym Metered = "(nat \<times> DBHandle list \<times> DBHandle list) \<times> nat"

definition metering_Sqlx :: "(string \<Rightarrow> bool) \<Rightarrow> Metered Sqlx" where
  "metering_Sqlx up = \<lparr>
     sqlx_ConnectContext = (\<lambda>drv cs fs (d, mark).
       case sqlx_ConnectContext (counting_Sqlx up) drv cs fs d of
         (res, d') \<Rightarrow> (res, d', max mark (card (in_use counting_handles d')))),
     sqlx_SetMaxIdleConns = (\<lambda>h n fs d. ((), d)),
     sqlx_SetMaxOpenConns = (\<lambda>h n fs d. ((), d)),
     sqlx_Close = (\<lambda>h fs (d, mark). case sqlx_Close (counting_Sqlx up) h fs d of (err, d') \<Rightarrow> (err, d', mark)),
     sqlx_ExecContext = (\<lambda>h q as fs d. (None, d))\<rparr>"

definition metered_handles :: "Metered Handles" where
  "metered_handles = \<lparr>opened = (\<lambda>(d, mark). opened counting_handles d), dropped = (\<lambda>(d, mark). dropped counting_handles d)\<rparr>"

lemma metered_in_use: "in_use metered_handles (d, mark) = in_use counting_handles d"
  by (simp add: in_use_def metered_handles_def)

lemma metering_tracked:
  "sqlx_tracked (metering_Sqlx up) metered_handles"
  "peak_tracked (metering_Sqlx up) metered_handles (\<lambda>(d, mark). mark)"
proof -
  have "fresh_handle n (hs @ ds) \<notin> set hs" "fresh_handle n (hs @ ds) \<notin> set ds" for n hs ds
    using fresh_handle_not_in [of n "hs @ ds"] by simp_all
  then show "sqlx_tracked (metering_Sqlx up) metered_handles"
    unfolding sqlx_tracked_def
    by (intro conjI allI) (auto simp: metering_Sqlx_def metered_handles_def counting_Sqlx_def counting_handles_def Let_def
        split: if_splits)
  show "peak_tracked (metering_Sqlx up) metered_handles (\<lambda>(d, mark). mark)"
    by (auto simp: peak_tracked_def metering_Sqlx_def metered_in_use split: prod.splits)
qed

definition metered_world :: "(Cluster, Metered) World" where
  "metered_world = \<lparr>
     kube = demo_cluster (demo_user [] None), dbms = ((1, [3], []), 1),
     filesystem = \<lparr>fs_nodes = Map.empty, fs_deny = (\<lambda>_ _. None)\<rparr>,
     env_HOME = ''/root'', logs = [], events = [], connectors = [],
     fake = \<lparr>fake_queries = None, fake_count = 0, fake_connections = None\<rparr>, draws = 0\<rparr>"

theorem Reconcile_bounds_sessions_witness:
  "snd (dbms (snd (UserReconciler_Reconcile (manager_reconciler (metering_Sqlx (\<lambda>_. True)) no_Crypto mem_GenMysql mem_Client)
      (cluster_name ''john'') metered_world))) \<le> 3"
proof -
  have "dbms metered_world = ((1, [3], []), 1)" by (simp add: metered_world_def)
  moreover have "in_use counting_handles (1, [3], []) = {3}" by (simp add: in_use_def counting_handles_def)
  ultimately show ?thesis
    using Reconcile_bounds_sessions [OF metering_tracked, of "\<lambda>_. True" no_Crypto mem_GenMysql mem_Client "cluster_name ''john''" metered_world]
    by (simp add: case_prod_unfold metered_in_use)
qed

end
