(* ===== verification/Go_Heap.thy ===== *)
theory Go_Heap
  imports Prelude
begin

text \<open>
  Go's memory as far as the deep copy routines of the API types use it: numbered arrays
  of values, pointers to an element of an array (\<^verbatim>\<open>new(T)\<close> makes an array of one
  element), slices as views of an array, and the statements \<^verbatim>\<open>new\<close>, \<^verbatim>\<open>make\<close>, \<^verbatim>\<open>copy\<close>,
  \<^verbatim>\<open>*p\<close>, \<^verbatim>\<open>s[i]\<close> and \<^verbatim>\<open>range\<close> over them. The locale \<open>copier\<close> is the contract of a deep
  copy: it returns, it changes nothing that was there, its result stands for the same
  value and reaches only new memory.
\<close>

section \<open>Memory\<close>

datatype pointer = nil_pointer | Ptr nat nat

datatype slice = nil_slice | Slice (slice_array: nat) (slice_offset: nat) (slice_len: nat)

record 'c Heap =
  cells :: "nat \<Rightarrow> 'c option"
  next_cell :: nat

text \<open>How the arrays of one element type are told apart from those of the others.\<close>

record ('c, 'v) Kind =
  wrap :: "'v list \<Rightarrow> 'c"
  unwrap :: "'c \<Rightarrow> 'v list option"

definition kind_ok :: "('c, 'v) Kind \<Rightarrow> bool" where
  "kind_ok K \<longleftrightarrow> (\<forall>vs. unwrap K (wrap K vs) = Some vs)"

definition array_at :: "('c, 'v) Kind \<Rightarrow> 'c Heap \<Rightarrow> nat \<Rightarrow> 'v list option" where
  "array_at K h a = Option.bind (cells h a) (unwrap K)"

definition put_array :: "('c, 'v) Kind \<Rightarrow> nat \<Rightarrow> 'v list \<Rightarrow> 'c Heap \<Rightarrow> 'c Heap" where
  "put_array K a vs h = h\<lparr>cells := (cells h)(a := Some (wrap K vs))\<rparr>"

definition go_alloc :: "('c, 'v) Kind \<Rightarrow> 'v list \<Rightarrow> ('c Heap, nat) go" where
  "go_alloc K vs = (\<lambda>h. (Returned (next_cell h),
     (put_array K (next_cell h) vs h)\<lparr>next_cell := Suc (next_cell h)\<rparr>))"

text \<open>
  \<^verbatim>\<open>*p\<close> read and written. A nil pointer panics. (A pointer to no element of an array of
  its type does not exist in Go; the model panics on it.)
\<close>

definition go_load :: "('c, 'v) Kind \<Rightarrow> pointer \<Rightarrow> ('c Heap, 'v) go" where
  "go_load K p = (\<lambda>h. case p of
     nil_pointer \<Rightarrow> go_panic h
   | Ptr a i \<Rightarrow> (case array_at K h a of
         Some vs \<Rightarrow> if i < length vs then go_return (vs ! i) h else go_panic h
       | None \<Rightarrow> go_panic h))"

definition go_store :: "('c, 'v) Kind \<Rightarrow> pointer \<Rightarrow> 'v \<Rightarrow> ('c Heap, unit) go" where
  "go_store K p v = (\<lambda>h. case p of
     nil_pointer \<Rightarrow> go_panic h
   | Ptr a i \<Rightarrow> (case array_at K h a of
         Some vs \<Rightarrow> if i < length vs then go_modify (put_array K a (vs[i := v])) h else go_panic h
       | None \<Rightarrow> go_panic h))"

text \<open>\<^verbatim>\<open>new(T)\<close> and \<^verbatim>\<open>make([]T, n)\<close>, which fill the memory with the zero value of \<^verbatim>\<open>T\<close>.\<close>

definition go_new :: "('c, 'v) Kind \<Rightarrow> 'v \<Rightarrow> ('c Heap, pointer) go" where
  "go_new K zero = go_bind (go_alloc K [zero]) (\<lambda>a. go_return (Ptr a 0))"

definition go_make :: "('c, 'v) Kind \<Rightarrow> 'v \<Rightarrow> nat \<Rightarrow> ('c Heap, slice) go" where
  "go_make K zero n = go_bind (go_alloc K (replicate n zero)) (\<lambda>a. go_return (Slice a 0 n))"

fun go_len :: "slice \<Rightarrow> nat" where
  "go_len nil_slice = 0"
| "go_len (Slice a off n) = n"

text \<open>\<^verbatim>\<open>&s[i]\<close>; out of range panics.\<close>

fun slice_index :: "slice \<Rightarrow> nat \<Rightarrow> pointer" where
  "slice_index nil_slice i = nil_pointer"
| "slice_index (Slice a off n) i = (if i < n then Ptr a (off + i) else nil_pointer)"

text \<open>\<^verbatim>\<open>for i := range xs { f(i) }\<close>\<close>

primrec go_each :: "('i \<Rightarrow> ('s, unit) go) \<Rightarrow> 'i list \<Rightarrow> ('s, unit) go" where
  "go_each f [] = go_return ()"
| "go_each f (i # is) = go_bind (f i) (\<lambda>_. go_each f is)"

definition go_range :: "slice \<Rightarrow> (nat \<Rightarrow> ('s, unit) go) \<Rightarrow> ('s, unit) go" where
  "go_range s f = go_each f [0..<go_len s]"

text \<open>\<^verbatim>\<open>copy(dst, src)\<close>: the first elements, as many as both have, one after the other.\<close>

definition go_copy :: "('c, 'v) Kind \<Rightarrow> slice \<Rightarrow> slice \<Rightarrow> ('c Heap, unit) go" where
  "go_copy K dst src =
     go_each (\<lambda>i. go_bind (go_load K (slice_index src i)) (go_store K (slice_index dst i)))
       [0..<min (go_len dst) (go_len src)]"

lemma go_each_append: "go_each f (xs @ ys) = go_bind (go_each f xs) (\<lambda>_. go_each f ys)"
  by (induction xs) (simp_all add: go_bind_assoc)

lemma array_at_put [simp]:
  "kind_ok K \<Longrightarrow> array_at K (put_array K a vs h) a = Some vs"
  by (simp add: array_at_def put_array_def kind_ok_def)

lemma cells_put [simp]: "b \<noteq> a \<Longrightarrow> cells (put_array K a vs h) b = cells h b"
  by (simp add: put_array_def)

lemma next_put [simp]: "next_cell (put_array K a vs h) = next_cell h"
  by (simp add: put_array_def)

lemma array_at_cong: "cells h' a = cells h a \<Longrightarrow> array_at K h' a = array_at K h a"
  by (simp add: array_at_def)

lemma array_at_next [simp]: "array_at K (h\<lparr>next_cell := n\<rparr>) a = array_at K h a"
  by (simp add: array_at_def)

lemma go_load_Ptr [go_simps]:
  "array_at K h a = Some vs \<Longrightarrow> i < length vs \<Longrightarrow> go_load K (Ptr a i) h = (Returned (vs ! i), h)"
  by (simp add: go_load_def go_simps)

lemma go_store_Ptr [go_simps]:
  "array_at K h a = Some vs \<Longrightarrow> i < length vs \<Longrightarrow>
     go_store K (Ptr a i) v h = (Returned (), put_array K a (vs[i := v]) h)"
  by (simp add: go_store_def go_simps)

lemma go_alloc_apply [go_simps]:
  "go_alloc K vs h = (Returned (next_cell h), (put_array K (next_cell h) vs h)\<lparr>next_cell := Suc (next_cell h)\<rparr>)"
  by (simp add: go_alloc_def)

section \<open>Growth\<close>

text \<open>What was allocated stays as it is.\<close>

definition grows :: "'c Heap \<Rightarrow> 'c Heap \<Rightarrow> bool" where
  "grows h h' \<longleftrightarrow> next_cell h \<le> next_cell h' \<and> (\<forall>a < next_cell h. cells h' a = cells h a)"

lemma grows_refl [simp]: "grows h h"
  by (simp add: grows_def)

lemma grows_trans: "grows h1 h2 \<Longrightarrow> grows h2 h3 \<Longrightarrow> grows h1 h3"
  by (auto simp: grows_def)

lemma grows_put: "grows h h' \<Longrightarrow> next_cell h \<le> a \<Longrightarrow> grows h (put_array K a vs h')"
  by (auto simp: grows_def put_array_def)

lemma grows_alloc: "grows h ((put_array K (next_cell h) vs h)\<lparr>next_cell := Suc (next_cell h)\<rparr>)"
  by (auto simp: grows_def put_array_def)

section \<open>The value a slice or a pointer stands for\<close>

text \<open>Values are read off the memory; a nil slice stands for the empty list.\<close>

fun slice_elems :: "('c, 'v) Kind \<Rightarrow> 'c Heap \<Rightarrow> slice \<Rightarrow> 'v list option" where
  "slice_elems K h nil_slice = Some []"
| "slice_elems K h (Slice a off n) = (case array_at K h a of
     Some vs \<Rightarrow> if off + n \<le> length vs then Some (take n (drop off vs)) else None
   | None \<Rightarrow> None)"

fun pointer_target :: "('c, 'v) Kind \<Rightarrow> 'c Heap \<Rightarrow> pointer \<Rightarrow> 'v option" where
  "pointer_target K h nil_pointer = None"
| "pointer_target K h (Ptr a i) = (case array_at K h a of
     Some vs \<Rightarrow> if i < length vs then Some (vs ! i) else None
   | None \<Rightarrow> None)"

fun slice_cells :: "slice \<Rightarrow> nat set" where
  "slice_cells nil_slice = {}"
| "slice_cells (Slice a off n) = {a}"

fun pointer_cells :: "pointer \<Rightarrow> nat set" where
  "pointer_cells nil_pointer = {}"
| "pointer_cells (Ptr a i) = {a}"

lemma slice_elems_cong:
  "(\<And>a. a \<in> slice_cells s \<Longrightarrow> cells h' a = cells h a) \<Longrightarrow> slice_elems K h' s = slice_elems K h s"
  by (cases s) (simp_all add: array_at_def)

lemma pointer_target_cong:
  "(\<And>a. a \<in> pointer_cells p \<Longrightarrow> cells h' a = cells h a) \<Longrightarrow> pointer_target K h' p = pointer_target K h p"
  by (cases p) (simp_all add: array_at_def)

lemma slice_elems_len: "slice_elems K h s = Some vs \<Longrightarrow> length vs = go_len s"
  by (cases s) (auto split: option.splits if_splits)

lemma load_slice_index:
  assumes "slice_elems K h s = Some vs" and "i < length vs"
  shows "go_load K (slice_index s i) h = (Returned (vs ! i), h)"
  using assms by (cases s) (auto simp: go_simps nth_append split: option.splits if_splits)

lemma load_target:
  "pointer_target K h p = Some v \<Longrightarrow> go_load K p h = (Returned v, h)"
  by (cases p) (auto simp: go_simps split: option.splits if_splits)

section \<open>Deep copies\<close>

text \<open>
  A copy routine for values of a type. \<open>val\<close> reads off the memory what a value stands
  for (nothing for a dangling one) and \<open>reach\<close> collects the arrays it refers to.
\<close>

locale copier =
  fixes val :: "'c Heap \<Rightarrow> 'v \<Rightarrow> 'a option"
    and reach :: "'c Heap \<Rightarrow> 'v \<Rightarrow> nat set"
    and cp :: "'v \<Rightarrow> ('c Heap, 'v) go"
  assumes local: "(\<And>a. a \<in> reach h v \<Longrightarrow> cells h' a = cells h a) \<Longrightarrow> val h' v = val h v \<and> reach h' v = reach h v"
    and copies: "val h v = Some x \<Longrightarrow> reach h v \<subseteq> {..<next_cell h} \<Longrightarrow>
      \<exists>v' h'. cp v h = (Returned v', h') \<and> grows h h' \<and> val h' v' = Some x \<and>
        reach h' v' \<subseteq> {next_cell h..<next_cell h'}"
begin

lemma copiesE:
  assumes "val h v = Some x" and "reach h v \<subseteq> {..<next_cell h}"
  obtains v' h' where "cp v h = (Returned v', h')" and "grows h h'" and "val h' v' = Some x"
    and "reach h' v' \<subseteq> {next_cell h..<next_cell h'}"
  using copies [OF assms] by blast

lemma grown:
  assumes "reach h v \<subseteq> {..<next_cell h}" and "grows h h'"
  shows "val h' v = val h v" and "reach h' v = reach h v"
  using local [of h v h'] assms by (auto simp: grows_def)

text \<open>
  Whatever is written to the memory of the copy later on, the original keeps its value,
  and the other way round.
\<close>

lemma independent:
  assumes v: "val h v = Some x" "reach h v \<subseteq> {..<next_cell h}" and run: "cp v h = (Returned v', h')"
  shows "(\<forall>a. a \<notin> reach h' v' \<longrightarrow> cells h'' a = cells h' a) \<Longrightarrow> val h'' v = Some x"
    and "(\<forall>a. a \<notin> reach h v \<longrightarrow> cells h'' a = cells h' a) \<Longrightarrow> val h'' v' = Some x"
proof -
  from v run have g: "grows h h'" and x: "val h' v' = Some x" and r: "reach h' v' \<subseteq> {next_cell h..<next_cell h'}"
    using copies [OF v] by auto
  note same = grown [OF v(2) g]
  have apart: "reach h' v \<inter> reach h' v' = {}"
    using v(2) r same(2) by fastforce
  show "val h'' v = Some x" if "\<forall>a. a \<notin> reach h' v' \<longrightarrow> cells h'' a = cells h' a"
  proof -
    have "val h'' v = val h' v"
      by (rule conjunct1 [OF local]) (use that apart in blast)
    with same v(1) show ?thesis by simp
  qed
  show "val h'' v' = Some x" if "\<forall>a. a \<notin> reach h v \<longrightarrow> cells h'' a = cells h' a"
  proof -
    have "val h'' v' = val h' v'"
      by (rule conjunct1 [OF local]) (use that apart same(2) in blast)
    with x show ?thesis by simp
  qed
qed

end

text \<open>
  A struct is copied by assigning it and then copying, one after the other, the fields
  that hold memory: the contract for two fields, and for a struct around its fields.
\<close>

definition pair_val ::
  "('c Heap \<Rightarrow> 'v \<Rightarrow> 'a option) \<Rightarrow> ('c Heap \<Rightarrow> 'w \<Rightarrow> 'b option) \<Rightarrow> 'c Heap \<Rightarrow> 'v \<times> 'w \<Rightarrow> ('a \<times> 'b) option" where
  "pair_val val val' h p = Option.bind (val h (fst p)) (\<lambda>x. map_option (Pair x) (val' h (snd p)))"

definition pair_reach ::
  "('c Heap \<Rightarrow> 'v \<Rightarrow> nat set) \<Rightarrow> ('c Heap \<Rightarrow> 'w \<Rightarrow> nat set) \<Rightarrow> 'c Heap \<Rightarrow> 'v \<times> 'w \<Rightarrow> nat set" where
  "pair_reach reach reach' h p = reach h (fst p) \<union> reach' h (snd p)"

definition copy_pair ::
  "('v \<Rightarrow> ('c Heap, 'v) go) \<Rightarrow> ('w \<Rightarrow> ('c Heap, 'w) go) \<Rightarrow> 'v \<times> 'w \<Rightarrow> ('c Heap, 'v \<times> 'w) go" where
  "copy_pair cp cp' p = go_bind (cp (fst p)) (\<lambda>a. go_bind (cp' (snd p)) (\<lambda>b. go_return (a, b)))"

lemma copier_pair:
  assumes "copier val reach cp" and "copier val' reach' cp'"
  shows "copier (pair_val val val') (pair_reach reach reach') (copy_pair cp cp')"
proof (unfold_locales, goal_cases)
  case (1 h p h')
  then show ?case
    using copier.local [OF assms(1), of h "fst p" h'] copier.local [OF assms(2), of h "snd p" h']
    by (simp add: pair_val_def pair_reach_def)
next
  case (2 h p x)
  then obtain y z where x: "val h (fst p) = Some y" "val' h (snd p) = Some z" "x = (y, z)"
    by (auto simp: pair_val_def bind_eq_Some_conv)
  from 2 have r: "reach h (fst p) \<subseteq> {..<next_cell h}" "reach' h (snd p) \<subseteq> {..<next_cell h}"
    by (auto simp: pair_reach_def)
  obtain a h1 where a: "cp (fst p) h = (Returned a, h1)" "grows h h1" "val h1 a = Some y"
      "reach h1 a \<subseteq> {next_cell h..<next_cell h1}"
    using copier.copiesE [OF assms(1) x(1) r(1)] by blast
  have "val' h1 (snd p) = Some z" "reach' h1 (snd p) \<subseteq> {..<next_cell h1}"
    using copier.grown [OF assms(2) r(2) a(2)] x(2) r(2) a(2) by (auto simp: grows_def)
  then obtain b h2 where b: "cp' (snd p) h1 = (Returned b, h2)" "grows h1 h2" "val' h2 b = Some z"
      "reach' h2 b \<subseteq> {next_cell h1..<next_cell h2}"
    using copier.copiesE [OF assms(2)] by blast
  have "reach h1 a \<subseteq> {..<next_cell h1}" using a(4) by auto
  from copier.grown [OF assms(1) this b(2)] a b
  have "val h2 a = Some y" "reach h2 a \<subseteq> {next_cell h..<next_cell h2}" "reach' h2 b \<subseteq> {next_cell h..<next_cell h2}"
    by (auto simp: grows_def)
  moreover have "copy_pair cp cp' p h = (Returned (a, b), h2)"
    using a(1) b(1) by (simp add: copy_pair_def go_simps)
  ultimately show ?case
    using grows_trans [OF a(2) b(2)] b(3) x(3) by (auto simp: pair_val_def pair_reach_def)
qed

lemma copier_struct:
  assumes "copier val reach cp"
    and "\<And>v s. get (put v s) = v" and "\<And>v s. mk (put v s) = mk s"
  shows "copier (\<lambda>h s. map_option (mk s) (val h (get s))) (\<lambda>h s. reach h (get s))
    (\<lambda>s. go_bind (cp (get s)) (\<lambda>v. go_return (put v s)))"
proof (unfold_locales, goal_cases)
  case (1 h s h')
  then show ?case using copier.local [OF assms(1), of h "get s" h'] by simp
next
  case (2 h s x)
  then obtain y where y: "val h (get s) = Some y" "x = mk s y" by auto
  obtain v h' where "cp (get s) h = (Returned v, h')" "grows h h'" "val h' v = Some y"
      "reach h' v \<subseteq> {next_cell h..<next_cell h'}"
    using copier.copiesE [OF assms(1) y(1) 2(2)] by blast
  with y(2) assms(2,3) show ?case by (simp add: go_simps)
qed

text \<open>A value without pointers is copied by assignment.\<close>

definition flat_val :: "'c Heap \<Rightarrow> 'v \<Rightarrow> 'v option" where
  "flat_val h v = Some v"

definition flat_reach :: "'c Heap \<Rightarrow> 'v \<Rightarrow> nat set" where
  "flat_reach h v = {}"

lemma copier_flat: "copier flat_val flat_reach go_return"
  by unfold_locales (simp_all add: flat_val_def flat_reach_def go_return_def)

text \<open>
  The routine behind a pointer: \<^verbatim>\<open>if in == nil { return nil }; out := new(T); in.DeepCopyInto(out);
  return out\<close>, and what such a pointer stands for.
\<close>

definition deep_copy :: "('c, 'v) Kind \<Rightarrow> 'v \<Rightarrow> ('v \<Rightarrow> ('c Heap, 'v) go) \<Rightarrow> pointer \<Rightarrow> ('c Heap, pointer) go" where
  "deep_copy K zero cp inp =
     (if inp = nil_pointer then go_return nil_pointer
      else go_bind (go_new K zero) (\<lambda>outp.
           go_bind (go_load K inp) (\<lambda>v.
           go_bind (cp v) (\<lambda>v'.
           go_bind (go_store K outp v') (\<lambda>_.
           go_return outp)))))"

definition pointer_val :: "('c, 'v) Kind \<Rightarrow> ('c Heap \<Rightarrow> 'v \<Rightarrow> 'a option) \<Rightarrow> 'c Heap \<Rightarrow> pointer \<Rightarrow> 'a option option" where
  "pointer_val K val h p =
     (if p = nil_pointer then Some None
      else map_option Some (Option.bind (pointer_target K h p) (val h)))"

definition pointer_reach :: "('c, 'v) Kind \<Rightarrow> ('c Heap \<Rightarrow> 'v \<Rightarrow> nat set) \<Rightarrow> 'c Heap \<Rightarrow> pointer \<Rightarrow> nat set" where
  "pointer_reach K reach h p =
     pointer_cells p \<union> (case pointer_target K h p of None \<Rightarrow> {} | Some v \<Rightarrow> reach h v)"

text \<open>
  The routine for the elements of a slice: \<^verbatim>\<open>if in != nil { *out = make([]T, len(*in));
  for i := range *in { (*in)[i].DeepCopyInto(&(*out)[i]) } }\<close>, or with \<^verbatim>\<open>copy(*out, *in)\<close>
  where the elements have no pointers.
\<close>

definition copy_elements :: "('c, 'v) Kind \<Rightarrow> ('v \<Rightarrow> ('c Heap, 'v) go) \<Rightarrow> slice \<Rightarrow> slice \<Rightarrow> ('c Heap, unit) go" where
  "copy_elements K cp ins outs = go_range ins (\<lambda>i.
     go_bind (go_load K (slice_index ins i)) (\<lambda>v.
     go_bind (cp v) (go_store K (slice_index outs i))))"

definition deep_copy_slice ::
  "('c, 'v) Kind \<Rightarrow> 'v \<Rightarrow> ('v \<Rightarrow> ('c Heap, 'v) go) \<Rightarrow> slice \<Rightarrow> ('c Heap, slice) go" where
  "deep_copy_slice K zero cp ins =
     (if ins = nil_slice then go_return nil_slice
      else go_bind (go_make K zero (go_len ins)) (\<lambda>outs.
           go_bind (copy_elements K cp ins outs) (\<lambda>_.
           go_return outs)))"

definition copy_slice :: "('c, 'v) Kind \<Rightarrow> 'v \<Rightarrow> slice \<Rightarrow> ('c Heap, slice) go" where
  "copy_slice K zero ins =
     (if ins = nil_slice then go_return nil_slice
      else go_bind (go_make K zero (go_len ins)) (\<lambda>outs.
           go_bind (go_copy K outs ins) (\<lambda>_.
           go_return outs)))"

definition slice_val :: "('c, 'v) Kind \<Rightarrow> ('c Heap \<Rightarrow> 'v \<Rightarrow> 'a option) \<Rightarrow> 'c Heap \<Rightarrow> slice \<Rightarrow> 'a list option" where
  "slice_val K val h s = Option.bind (slice_elems K h s) (\<lambda>vs. those (map (val h) vs))"

definition slice_reach :: "('c, 'v) Kind \<Rightarrow> ('c Heap \<Rightarrow> 'v \<Rightarrow> nat set) \<Rightarrow> 'c Heap \<Rightarrow> slice \<Rightarrow> nat set" where
  "slice_reach K reach h s =
     slice_cells s \<union> (case slice_elems K h s of None \<Rightarrow> {} | Some vs \<Rightarrow> (\<Union>v \<in> set vs. reach h v))"

text \<open>Without pointers the loop that assigns the elements and \<^verbatim>\<open>copy\<close> are the same.\<close>

lemma copy_slice_flat: "copy_slice K zero = deep_copy_slice K zero go_return"
  by (rule ext) (simp add: copy_slice_def deep_copy_slice_def copy_elements_def go_copy_def go_range_def
      go_make_def go_bind_assoc)

lemma those_Some_iff: "those xs = Some ys \<longleftrightarrow> xs = map Some ys"
  by (induction xs arbitrary: ys) (auto split: option.splits simp: Cons_eq_map_conv)

text \<open>
  A pointer to such a value and a slice of them are copied by the two routines: the
  contract carries over from the elements.
\<close>

locale kind_copier = copier val reach cp
  for val :: "'c Heap \<Rightarrow> 'v \<Rightarrow> 'a option" and reach and cp +
  fixes K :: "('c, 'v) Kind" and zero :: 'v
  assumes kind: "kind_ok K"
begin

lemma pointer_copies:
  assumes "pointer_val K val h p = Some x" and "pointer_reach K reach h p \<subseteq> {..<next_cell h}"
  shows "\<exists>p' h'. deep_copy K zero cp p h = (Returned p', h') \<and> grows h h' \<and>
    pointer_val K val h' p' = Some x \<and> pointer_reach K reach h' p' \<subseteq> {next_cell h..<next_cell h'}"
proof (cases "p = nil_pointer")
  case True
  with assms show ?thesis
    by (auto simp: deep_copy_def pointer_val_def pointer_reach_def go_return_def)
next
  case False
  with assms obtain v y where v: "pointer_target K h p = Some v" "val h v = Some y" and x: "x = Some y"
    by (auto simp: pointer_val_def bind_eq_Some_conv)
  let ?a = "next_cell h" and ?h1 = "(put_array K (next_cell h) [zero] h)\<lparr>next_cell := Suc (next_cell h)\<rparr>"
  have g1: "grows h ?h1" by (rule grows_alloc)
  from assms(2) v have below: "pointer_cells p \<subseteq> {..<?a}" "reach h v \<subseteq> {..<?a}"
    by (auto simp: pointer_reach_def)
  have "pointer_target K ?h1 p = Some v"
    using v(1) below(1) g1 pointer_target_cong [of p ?h1 h K] by (fastforce simp: grows_def)
  note load = load_target [OF this]
  have "val ?h1 v = Some y" "reach ?h1 v \<subseteq> {..<next_cell ?h1}"
    using grown [OF below(2) g1] v(2) below(2) by auto
  then obtain v' h2 where c: "cp v ?h1 = (Returned v', h2)" "grows ?h1 h2" "val h2 v' = Some y"
      "reach h2 v' \<subseteq> {next_cell ?h1..<next_cell h2}"
    by (rule copiesE)
  have a2: "array_at K h2 ?a = Some [zero]"
    using c(2) kind array_at_cong [of h2 ?a ?h1 K] by (simp add: grows_def)
  let ?h3 = "put_array K ?a [v'] h2"
  have run: "deep_copy K zero cp p h = (Returned (Ptr ?a 0), ?h3)"
    using False by (simp add: deep_copy_def go_new_def go_simps load c(1) a2)
  have same: "val ?h3 v' = val h2 v' \<and> reach ?h3 v' = reach h2 v'"
    by (rule local) (use c(4) in auto)
  have "grows h ?h3"
    using grows_trans [OF g1 c(2)] by (rule grows_put) simp
  moreover have "pointer_val K val ?h3 (Ptr ?a 0) = Some x"
    using same c(3) kind by (simp add: pointer_val_def x)
  moreover have "pointer_reach K reach ?h3 (Ptr ?a 0) \<subseteq> {?a..<next_cell ?h3}"
    using same c(2,4) kind by (auto simp: pointer_reach_def grows_def)
  ultimately show ?thesis using run by blast
qed

text \<open>
  The loop over the elements, after some rounds: the new array holds copies of the
  elements passed so far.
\<close>

lemma elements_copied:
  assumes s: "slice_elems K h ins = Some vs" "slice_cells ins \<subseteq> {..<next_cell h}"
    and vs: "\<forall>i < length vs. val h (vs ! i) = Some (xs ! i) \<and> reach h (vs ! i) \<subseteq> {..<next_cell h}"
    and start: "grows h h1" "next_cell h \<le> a" "next_cell h1 = Suc a" "array_at K h1 a = Some ws" "length ws = length vs"
    and m: "m \<le> length vs"
  shows "\<exists>h' us. go_each (\<lambda>i. go_bind (go_load K (slice_index ins i)) (\<lambda>v.
        go_bind (cp v) (go_store K (slice_index (Slice a 0 (length vs)) i)))) [0..<m] h1 = (Returned (), h') \<and>
      grows h h' \<and> Suc a \<le> next_cell h' \<and> array_at K h' a = Some us \<and> length us = length vs \<and>
      (\<forall>j < m. val h' (us ! j) = Some (xs ! j) \<and> reach h' (us ! j) \<subseteq> {Suc a..<next_cell h'})"
  using m
proof (induction m)
  case 0
  with start show ?case by (auto simp: go_return_def)
next
  case (Suc m)
  then obtain h2 us where ih: "go_each (\<lambda>i. go_bind (go_load K (slice_index ins i)) (\<lambda>v.
        go_bind (cp v) (go_store K (slice_index (Slice a 0 (length vs)) i)))) [0..<m] h1 = (Returned (), h2)"
      "grows h h2" "Suc a \<le> next_cell h2" "array_at K h2 a = Some us" "length us = length vs"
      "\<forall>j < m. val h2 (us ! j) = Some (xs ! j) \<and> reach h2 (us ! j) \<subseteq> {Suc a..<next_cell h2}"
    by auto
  have m: "m < length vs" using Suc.prems by simp
  have "slice_elems K h2 ins = Some vs"
    using s ih(2) slice_elems_cong [of ins h2 h K] by (fastforce simp: grows_def)
  note load = load_slice_index [OF this m]
  from vs m have v: "val h (vs ! m) = Some (xs ! m)" "reach h (vs ! m) \<subseteq> {..<next_cell h}" by auto
  have "val h2 (vs ! m) = Some (xs ! m)" "reach h2 (vs ! m) \<subseteq> {..<next_cell h2}"
    using grown [OF v(2) ih(2)] v ih(2) by (auto simp: grows_def)
  then obtain v' h3 where c: "cp (vs ! m) h2 = (Returned v', h3)" "grows h2 h3" "val h3 v' = Some (xs ! m)"
      "reach h3 v' \<subseteq> {next_cell h2..<next_cell h3}"
    by (rule copiesE)
  have a3: "array_at K h3 a = Some us"
    using c(2) ih(3,4) array_at_cong [of h3 a h2 K] by (simp add: grows_def)
  let ?h4 = "put_array K a (us[m := v']) h3"
  have keep: "val ?h4 u = val h3 u \<and> reach ?h4 u = reach h3 u" if "a \<notin> reach h3 u" for u
    by (rule local) (metis cells_put that)
  have "val ?h4 (us[m := v'] ! j) = Some (xs ! j) \<and> reach ?h4 (us[m := v'] ! j) \<subseteq> {Suc a..<next_cell ?h4}"
    if "j < Suc m" for j
  proof (cases "j = m")
    case True
    with c keep [of v'] ih(3,5) m show ?thesis by fastforce
  next
    case False
    with that ih(6) have j: "val h2 (us ! j) = Some (xs ! j)" "reach h2 (us ! j) \<subseteq> {Suc a..<next_cell h2}" by auto
    have "a \<notin> reach h2 (us ! j)" "reach h2 (us ! j) \<subseteq> {..<next_cell h2}" using j(2) by auto
    note same = this(1) grown [OF this(2) c(2)]
    then have "val ?h4 (us ! j) = val h2 (us ! j) \<and> reach ?h4 (us ! j) = reach h2 (us ! j)"
      using keep [of "us ! j"] by simp
    with False j c(2) show ?thesis by (auto simp: grows_def)
  qed
  moreover have "grows h ?h4"
    using grows_trans [OF ih(2) c(2)] start(2) by (rule grows_put)
  moreover have "Suc a \<le> next_cell ?h4" using ih(3) c(2) by (simp add: grows_def)
  moreover have step: "go_each f [0..<Suc m] h1 = f m h2" if "go_each f [0..<m] h1 = (Returned (), h2)" for f
    using that
    by (auto simp: go_each_append go_bind_def go_return_def split: prod.splits outcome.splits)
  have "go_each (\<lambda>i. go_bind (go_load K (slice_index ins i)) (\<lambda>v.
      go_bind (cp v) (go_store K (slice_index (Slice a 0 (length vs)) i)))) [0..<Suc m] h1 = (Returned (), ?h4)"
    using step [OF ih(1)] m ih(5) load c(1) a3 by (simp add: go_simps)
  ultimately show ?case using kind ih(5) by (intro exI [of _ ?h4] exI [of _ "us[m := v']"]) simp
qed

lemma slice_copies:
  assumes "slice_val K val h s = Some xs" and "slice_reach K reach h s \<subseteq> {..<next_cell h}"
  shows "\<exists>s' h'. deep_copy_slice K zero cp s h = (Returned s', h') \<and> grows h h' \<and>
    slice_val K val h' s' = Some xs \<and> slice_reach K reach h' s' \<subseteq> {next_cell h..<next_cell h'}"
proof (cases "s = nil_slice")
  case True
  with assms show ?thesis
    by (auto simp: deep_copy_slice_def slice_val_def slice_reach_def go_return_def)
next
  case False
  from assms(1) obtain vs where vs: "slice_elems K h s = Some vs" and val: "map (val h) vs = map Some xs"
    by (auto simp: slice_val_def bind_eq_Some_conv those_Some_iff)
  have len: "length xs = length vs" using val by (metis length_map)
  have nth: "val h (vs ! i) = Some (xs ! i)" if "i < length vs" for i
    using arg_cong [OF val, of "\<lambda>l. l ! i"] that len by simp
  from assms(2) vs have below: "slice_cells s \<subseteq> {..<next_cell h}" "\<forall>v \<in> set vs. reach h v \<subseteq> {..<next_cell h}"
    by (auto simp: slice_reach_def)
  let ?a = "next_cell h"
    and ?h1 = "(put_array K (next_cell h) (replicate (length vs) zero) h)\<lparr>next_cell := Suc (next_cell h)\<rparr>"
  have "grows h ?h1" by (rule grows_alloc)
  moreover have "\<forall>i < length vs. val h (vs ! i) = Some (xs ! i) \<and> reach h (vs ! i) \<subseteq> {..<next_cell h}"
    using nth below(2) by simp
  ultimately obtain h' us where loop: "go_each (\<lambda>i. go_bind (go_load K (slice_index s i)) (\<lambda>v.
        go_bind (cp v) (go_store K (slice_index (Slice ?a 0 (length vs)) i)))) [0..<length vs] ?h1 = (Returned (), h')"
      "grows h h'" "Suc ?a \<le> next_cell h'" "array_at K h' ?a = Some us" "length us = length vs"
      "\<forall>j < length vs. val h' (us ! j) = Some (xs ! j) \<and> reach h' (us ! j) \<subseteq> {Suc ?a..<next_cell h'}"
    using elements_copied [OF vs below(1), of xs ?h1 ?a "replicate (length vs) zero" "length vs"] kind
    by auto
  have el: "slice_elems K h' (Slice ?a 0 (length vs)) = Some us" using loop(4,5) by simp
  have "map (val h') us = map Some xs"
    using loop(5,6) len by (auto intro!: nth_equalityI)
  then have "slice_val K val h' (Slice ?a 0 (length vs)) = Some xs"
    using el by (simp add: slice_val_def those_Some_iff)
  moreover have "slice_reach K reach h' (Slice ?a 0 (length vs)) \<subseteq> {?a..<next_cell h'}"
    using el loop(3,5,6) by (fastforce simp: slice_reach_def in_set_conv_nth)
  moreover have "deep_copy_slice K zero cp s h = (Returned (Slice ?a 0 (length vs)), h')"
    using False loop(1) slice_elems_len [OF vs]
    by (simp add: deep_copy_slice_def go_make_def copy_elements_def go_range_def go_simps)
  ultimately show ?thesis using loop(2) by blast
qed

lemma pointer_copier: "copier (pointer_val K val) (pointer_reach K reach) (deep_copy K zero cp)"
proof (unfold_locales, goal_cases)
  case (1 h p h')
  then show ?case
    using pointer_target_cong [of p h' h K] local [of h _ h']
    by (auto simp: pointer_val_def pointer_reach_def split: option.splits)
next
  case 2
  then show ?case by (rule pointer_copies)
qed

lemma slice_copier: "copier (slice_val K val) (slice_reach K reach) (deep_copy_slice K zero cp)"
proof (unfold_locales, goal_cases)
  case (1 h s h')
  have el: "slice_elems K h' s = slice_elems K h s"
    by (rule slice_elems_cong) (use 1 in \<open>simp add: slice_reach_def\<close>)
  have "val h' v = val h v \<and> reach h' v = reach h v" if "slice_elems K h s = Some vs" "v \<in> set vs" for vs v
    by (rule local) (use 1 that in \<open>auto simp: slice_reach_def\<close>)
  with el show ?case
    by (auto simp: slice_val_def slice_reach_def cong: map_cong split: option.splits bind_splits)
next
  case 2
  then show ?case by (rule slice_copies)
qed

end

sublocale kind_copier \<subseteq> pointer: copier "pointer_val K val" "pointer_reach K reach" "deep_copy K zero cp"
  by (rule pointer_copier)

sublocale kind_copier \<subseteq> slice: copier "slice_val K val" "slice_reach K reach" "deep_copy_slice K zero cp"
  by (rule slice_copier)

end
