(* ===== verification/Deep_Copy.thy ===== *)
theory Deep_Copy
  imports Api_Types Go_Heap
begin

text \<open>
  \<^verbatim>\<open>src/api/v1alpha1/zz_generated.deepcopy.go\<close> and the list types, over the memory of
  \<open>Go_Heap\<close>. The structs are here as Go lays them out: a slice field is a view of an array
  and a pointer field an address, and \<open>val_T\<close> reads off the memory the record of
  \<open>Api_Types\<close> that a struct stands for. In \<^verbatim>\<open>func (in *T) DeepCopyInto(out *T)\<close>, \<^verbatim>\<open>in\<close> and
  \<^verbatim>\<open>out\<close> never overlap: every caller passes new memory. A routine is a computation from
  the value of \<^verbatim>\<open>*in\<close> to the value it leaves in \<^verbatim>\<open>*out\<close>.

  \<^verbatim>\<open>metav1.ObjectMeta\<close> and \<^verbatim>\<open>metav1.ListMeta\<close> come from apimachinery, with their own
  \<^verbatim>\<open>DeepCopyInto\<close>: their types \<open>'m\<close> and \<open>'l\<close>, the memory they use (\<open>'x\<close>) and those
  routines are parameters, and what is relied on is that they are deep copies
  (\<open>copier\<close>).
\<close>

section \<open>The structs in memory\<close>

record TypeMeta =
  type_Kind :: string
  type_APIVersion :: string

record go_DatabaseRef =
  gref_Name :: string
  gref_PasswordSecret :: SecretRef
  gref_CreatedSecret :: NamespacedName
  gref_Privileges :: slice

record go_UserSpec =
  guser_Databases :: slice

record go_DatabaseSpec =
  gspec_Type :: DatabaseType
  gspec_PostgreSQL :: pointer
  gspec_MySQL :: pointer

record 'm go_User =
  guser_TypeMeta :: TypeMeta
  guser_ObjectMeta :: 'm
  guser_Spec :: go_UserSpec
  guser_Status :: UserStatus

record 'm go_Privileges =
  gprivs_TypeMeta :: TypeMeta
  gprivs_ObjectMeta :: 'm
  gprivs_Privileges :: slice

record 'm go_Database =
  gdb_TypeMeta :: TypeMeta
  gdb_ObjectMeta :: 'm
  gdb_Spec :: go_DatabaseSpec

record 'l go_UserList =
  gusers_TypeMeta :: TypeMeta
  gusers_ListMeta :: 'l
  gusers_Items :: slice

record 'l go_PrivilegesList =
  gprivss_TypeMeta :: TypeMeta
  gprivss_ListMeta :: 'l
  gprivss_Items :: slice

record 'l go_DatabaseList =
  gdbs_TypeMeta :: TypeMeta
  gdbs_ListMeta :: 'l
  gdbs_Items :: slice

text \<open>The arrays there are, one constructor per element type.\<close>

datatype ('m, 'l, 'x) cell =
    Name_cells "Name list"
  | NamespacedName_cells "NamespacedName list"
  | SecretRef_cells "SecretRef list"
  | StatusSummary_cells "StatusSummary list"
  | PrivilegeSpec_cells "PrivilegeSpec list"
  | MySQLConfig_cells "MySQLConfig list"
  | PostgreSQLConfig_cells "PostgreSQLConfig list"
  | UserStatus_cells "UserStatus list"
  | DatabaseRef_cells "go_DatabaseRef list"
  | UserSpec_cells "go_UserSpec list"
  | DatabaseSpec_cells "go_DatabaseSpec list"
  | User_cells "'m go_User list"
  | Privileges_cells "'m go_Privileges list"
  | Database_cells "'m go_Database list"
  | UserList_cells "'l go_UserList list"
  | PrivilegesList_cells "'l go_PrivilegesList list"
  | DatabaseList_cells "'l go_DatabaseList list"
  | library_cells 'x

type_synonym ('m, 'l, 'x) memory = "('m, 'l, 'x) cell Heap"

definition Name_kind :: "(('m, 'l, 'x) cell, Name) Kind" where
  "Name_kind = \<lparr>wrap = Name_cells, unwrap = (\<lambda>c. case c of Name_cells vs \<Rightarrow> Some vs | _ \<Rightarrow> None)\<rparr>"

definition NamespacedName_kind :: "(('m, 'l, 'x) cell, NamespacedName) Kind" where
  "NamespacedName_kind = \<lparr>wrap = NamespacedName_cells, unwrap = (\<lambda>c. case c of NamespacedName_cells vs \<Rightarrow> Some vs | _ \<Rightarrow> None)\<rparr>"

definition SecretRef_kind :: "(('m, 'l, 'x) cell, SecretRef) Kind" where
  "SecretRef_kind = \<lparr>wrap = SecretRef_cells, unwrap = (\<lambda>c. case c of SecretRef_cells vs \<Rightarrow> Some vs | _ \<Rightarrow> None)\<rparr>"

definition StatusSummary_kind :: "(('m, 'l, 'x) cell, StatusSummary) Kind" where
  "StatusSummary_kind = \<lparr>wrap = StatusSummary_cells, unwrap = (\<lambda>c. case c of StatusSummary_cells vs \<Rightarrow> Some vs | _ \<Rightarrow> None)\<rparr>"

definition PrivilegeSpec_kind :: "(('m, 'l, 'x) cell, PrivilegeSpec) Kind" where
  "PrivilegeSpec_kind = \<lparr>wrap = PrivilegeSpec_cells, unwrap = (\<lambda>c. case c of PrivilegeSpec_cells vs \<Rightarrow> Some vs | _ \<Rightarrow> None)\<rparr>"

definition MySQLConfig_kind :: "(('m, 'l, 'x) cell, MySQLConfig) Kind" where
  "MySQLConfig_kind = \<lparr>wrap = MySQLConfig_cells, unwrap = (\<lambda>c. case c of MySQLConfig_cells vs \<Rightarrow> Some vs | _ \<Rightarrow> None)\<rparr>"

definition PostgreSQLConfig_kind :: "(('m, 'l, 'x) cell, PostgreSQLConfig) Kind" where
  "PostgreSQLConfig_kind = \<lparr>wrap = PostgreSQLConfig_cells, unwrap = (\<lambda>c. case c of PostgreSQLConfig_cells vs \<Rightarrow> Some vs | _ \<Rightarrow> None)\<rparr>"

definition UserStatus_kind :: "(('m, 'l, 'x) cell, UserStatus) Kind" where
  "UserStatus_kind = \<lparr>wrap = UserStatus_cells, unwrap = (\<lambda>c. case c of UserStatus_cells vs \<Rightarrow> Some vs | _ \<Rightarrow> None)\<rparr>"

definition DatabaseRef_kind :: "(('m, 'l, 'x) cell, go_DatabaseRef) Kind" where
  "DatabaseRef_kind = \<lparr>wrap = DatabaseRef_cells, unwrap = (\<lambda>c. case c of DatabaseRef_cells vs \<Rightarrow> Some vs | _ \<Rightarrow> None)\<rparr>"

definition UserSpec_kind :: "(('m, 'l, 'x) cell, go_UserSpec) Kind" where
  "UserSpec_kind = \<lparr>wrap = UserSpec_cells, unwrap = (\<lambda>c. case c of UserSpec_cells vs \<Rightarrow> Some vs | _ \<Rightarrow> None)\<rparr>"

definition DatabaseSpec_kind :: "(('m, 'l, 'x) cell, go_DatabaseSpec) Kind" where
  "DatabaseSpec_kind = \<lparr>wrap = DatabaseSpec_cells, unwrap = (\<lambda>c. case c of DatabaseSpec_cells vs \<Rightarrow> Some vs | _ \<Rightarrow> None)\<rparr>"

definition User_kind :: "(('m, 'l, 'x) cell, 'm go_User) Kind" where
  "User_kind = \<lparr>wrap = User_cells, unwrap = (\<lambda>c. case c of User_cells vs \<Rightarrow> Some vs | _ \<Rightarrow> None)\<rparr>"

definition Privileges_kind :: "(('m, 'l, 'x) cell, 'm go_Privileges) Kind" where
  "Privileges_kind = \<lparr>wrap = Privileges_cells, unwrap = (\<lambda>c. case c of Privileges_cells vs \<Rightarrow> Some vs | _ \<Rightarrow> None)\<rparr>"

definition Database_kind :: "(('m, 'l, 'x) cell, 'm go_Database) Kind" where
  "Database_kind = \<lparr>wrap = Database_cells, unwrap = (\<lambda>c. case c of Database_cells vs \<Rightarrow> Some vs | _ \<Rightarrow> None)\<rparr>"

definition UserList_kind :: "(('m, 'l, 'x) cell, 'l go_UserList) Kind" where
  "UserList_kind = \<lparr>wrap = UserList_cells, unwrap = (\<lambda>c. case c of UserList_cells vs \<Rightarrow> Some vs | _ \<Rightarrow> None)\<rparr>"

definition PrivilegesList_kind :: "(('m, 'l, 'x) cell, 'l go_PrivilegesList) Kind" where
  "PrivilegesList_kind = \<lparr>wrap = PrivilegesList_cells, unwrap = (\<lambda>c. case c of PrivilegesList_cells vs \<Rightarrow> Some vs | _ \<Rightarrow> None)\<rparr>"

definition DatabaseList_kind :: "(('m, 'l, 'x) cell, 'l go_DatabaseList) Kind" where
  "DatabaseList_kind = \<lparr>wrap = DatabaseList_cells, unwrap = (\<lambda>c. case c of DatabaseList_cells vs \<Rightarrow> Some vs | _ \<Rightarrow> None)\<rparr>"

lemma kinds_ok [simp]:
  "kind_ok Name_kind"
  "kind_ok NamespacedName_kind"
  "kind_ok SecretRef_kind"
  "kind_ok StatusSummary_kind"
  "kind_ok PrivilegeSpec_kind"
  "kind_ok MySQLConfig_kind"
  "kind_ok PostgreSQLConfig_kind"
  "kind_ok UserStatus_kind"
  "kind_ok DatabaseRef_kind"
  "kind_ok UserSpec_kind"
  "kind_ok DatabaseSpec_kind"
  "kind_ok User_kind"
  "kind_ok Privileges_kind"
  "kind_ok Database_kind"
  "kind_ok UserList_kind"
  "kind_ok PrivilegesList_kind"
  "kind_ok DatabaseList_kind"
  by (simp_all add: kind_ok_def Name_kind_def NamespacedName_kind_def SecretRef_kind_def StatusSummary_kind_def PrivilegeSpec_kind_def MySQLConfig_kind_def PostgreSQLConfig_kind_def UserStatus_kind_def DatabaseRef_kind_def UserSpec_kind_def DatabaseSpec_kind_def User_kind_def Privileges_kind_def Database_kind_def UserList_kind_def PrivilegesList_kind_def DatabaseList_kind_def)

section \<open>Zero values\<close>

text \<open>What \<^verbatim>\<open>new\<close> and \<^verbatim>\<open>make\<close> fill the memory with.\<close>

record ('m, 'l, 'x) Apimachinery =
  ObjectMeta_DeepCopyInto :: "'m \<Rightarrow> (('m, 'l, 'x) memory, 'm) go"
  ListMeta_DeepCopyInto :: "'l \<Rightarrow> (('m, 'l, 'x) memory, 'l) go"
  zero_ObjectMeta :: 'm
  zero_ListMeta :: 'l

definition zero_Name :: Name where "zero_Name = \<lparr>name_Name = []\<rparr>"

definition zero_NamespacedName :: NamespacedName where
  "zero_NamespacedName = \<lparr>nn_Namespace = [], nn_Name = []\<rparr>"

definition zero_SecretRef :: SecretRef where
  "zero_SecretRef = \<lparr>secret_Secret = zero_NamespacedName, secret_Key = []\<rparr>"

definition zero_StatusSummary :: StatusSummary where
  "zero_StatusSummary = \<lparr>Ready = False, Message = []\<rparr>"

definition zero_PrivilegeSpec :: PrivilegeSpec where
  "zero_PrivilegeSpec = \<lparr>Privilege = [], On = [], Database = []\<rparr>"

definition zero_MySQLConfig :: MySQLConfig where
  "zero_MySQLConfig = \<lparr>myspec_Host = [], myspec_Port = 0, myspec_DatabaseName = [], myspec_User = [],
     myspec_PasswordSecret = zero_SecretRef, myspec_UsersHostname = []\<rparr>"

definition zero_PostgreSQLConfig :: PostgreSQLConfig where
  "zero_PostgreSQLConfig = \<lparr>pgspec_Host = [], pgspec_Port = 0, pgspec_User = [], pgspec_SSLMode = [],
     pgspec_DatabaseName = [], pgspec_SSLCredentialsSecret = zero_NamespacedName,
     pgspec_SSLCAKey = zero_SecretRef, pgspec_PasswordSecret = zero_SecretRef\<rparr>"

definition zero_UserStatus :: UserStatus where "zero_UserStatus = \<lparr>Summary = zero_StatusSummary\<rparr>"

definition zero_TypeMeta :: TypeMeta where "zero_TypeMeta = \<lparr>type_Kind = [], type_APIVersion = []\<rparr>"

definition zero_DatabaseRef :: go_DatabaseRef where
  "zero_DatabaseRef = \<lparr>gref_Name = [], gref_PasswordSecret = zero_SecretRef,
     gref_CreatedSecret = zero_NamespacedName, gref_Privileges = nil_slice\<rparr>"

definition zero_UserSpec :: go_UserSpec where "zero_UserSpec = \<lparr>guser_Databases = nil_slice\<rparr>"

definition zero_DatabaseSpec :: go_DatabaseSpec where
  "zero_DatabaseSpec = \<lparr>gspec_Type = [], gspec_PostgreSQL = nil_pointer, gspec_MySQL = nil_pointer\<rparr>"

definition zero_User :: "('m, 'l, 'x) Apimachinery \<Rightarrow> 'm go_User" where
  "zero_User A = \<lparr>guser_TypeMeta = zero_TypeMeta, guser_ObjectMeta = zero_ObjectMeta A,
     guser_Spec = zero_UserSpec, guser_Status = zero_UserStatus\<rparr>"

definition zero_Privileges :: "('m, 'l, 'x) Apimachinery \<Rightarrow> 'm go_Privileges" where
  "zero_Privileges A = \<lparr>gprivs_TypeMeta = zero_TypeMeta, gprivs_ObjectMeta = zero_ObjectMeta A,
     gprivs_Privileges = nil_slice\<rparr>"

definition zero_Database :: "('m, 'l, 'x) Apimachinery \<Rightarrow> 'm go_Database" where
  "zero_Database A = \<lparr>gdb_TypeMeta = zero_TypeMeta, gdb_ObjectMeta = zero_ObjectMeta A,
     gdb_Spec = zero_DatabaseSpec\<rparr>"

definition zero_UserList :: "('m, 'l, 'x) Apimachinery \<Rightarrow> 'l go_UserList" where
  "zero_UserList A = \<lparr>gusers_TypeMeta = zero_TypeMeta, gusers_ListMeta = zero_ListMeta A, gusers_Items = nil_slice\<rparr>"

definition zero_PrivilegesList :: "('m, 'l, 'x) Apimachinery \<Rightarrow> 'l go_PrivilegesList" where
  "zero_PrivilegesList A = \<lparr>gprivss_TypeMeta = zero_TypeMeta, gprivss_ListMeta = zero_ListMeta A,
     gprivss_Items = nil_slice\<rparr>"

definition zero_DatabaseList :: "('m, 'l, 'x) Apimachinery \<Rightarrow> 'l go_DatabaseList" where
  "zero_DatabaseList A = \<lparr>gdbs_TypeMeta = zero_TypeMeta, gdbs_ListMeta = zero_ListMeta A, gdbs_Items = nil_slice\<rparr>"

section \<open>DeepCopyInto\<close>

text \<open>\<^verbatim>\<open>*out = *in\<close> comes first, and some fields are assigned once more.\<close>

definition Name_DeepCopyInto :: "Name \<Rightarrow> (('m, 'l, 'x) memory, Name) go" where
  "Name_DeepCopyInto inp = go_return inp"

definition NamespacedName_DeepCopyInto :: "NamespacedName \<Rightarrow> (('m, 'l, 'x) memory, NamespacedName) go" where
  "NamespacedName_DeepCopyInto inp = go_return inp"

definition Secret_DeepCopyInto :: "SecretRef \<Rightarrow> (('m, 'l, 'x) memory, SecretRef) go" where
  "Secret_DeepCopyInto inp =
     (let out = inp; out = out\<lparr>secret_Secret := secret_Secret inp\<rparr> in go_return out)"

definition StatusSummary_DeepCopyInto :: "StatusSummary \<Rightarrow> (('m, 'l, 'x) memory, StatusSummary) go" where
  "StatusSummary_DeepCopyInto inp = go_return inp"

definition PrivilegeSpec_DeepCopyInto :: "PrivilegeSpec \<Rightarrow> (('m, 'l, 'x) memory, PrivilegeSpec) go" where
  "PrivilegeSpec_DeepCopyInto inp = go_return inp"

definition MySQLConfig_DeepCopyInto :: "MySQLConfig \<Rightarrow> (('m, 'l, 'x) memory, MySQLConfig) go" where
  "MySQLConfig_DeepCopyInto inp =
     (let out = inp; out = out\<lparr>myspec_PasswordSecret := myspec_PasswordSecret inp\<rparr> in go_return out)"

definition PostgreSQLConfig_DeepCopyInto :: "PostgreSQLConfig \<Rightarrow> (('m, 'l, 'x) memory, PostgreSQLConfig) go" where
  "PostgreSQLConfig_DeepCopyInto inp =
     (let out = inp;
          out = out\<lparr>pgspec_SSLCredentialsSecret := pgspec_SSLCredentialsSecret inp\<rparr>;
          out = out\<lparr>pgspec_SSLCAKey := pgspec_SSLCAKey inp\<rparr>;
          out = out\<lparr>pgspec_PasswordSecret := pgspec_PasswordSecret inp\<rparr>
      in go_return out)"

definition UserStatus_DeepCopyInto :: "UserStatus \<Rightarrow> (('m, 'l, 'x) memory, UserStatus) go" where
  "UserStatus_DeepCopyInto inp = (let out = inp; out = out\<lparr>Summary := Summary inp\<rparr> in go_return out)"

definition DatabaseRef_DeepCopyInto :: "go_DatabaseRef \<Rightarrow> (('m, 'l, 'x) memory, go_DatabaseRef) go" where
  "DatabaseRef_DeepCopyInto inp =
     (let out = inp;
          out = out\<lparr>gref_PasswordSecret := gref_PasswordSecret inp\<rparr>;
          out = out\<lparr>gref_CreatedSecret := gref_CreatedSecret inp\<rparr>
      in go_bind (copy_slice Name_kind zero_Name (gref_Privileges inp)) (\<lambda>privileges.
         go_return (out\<lparr>gref_Privileges := privileges\<rparr>)))"

text \<open>\<^verbatim>\<open>*out = new(PostgreSQLConfig); **out = **in\<close> is \<open>deep_copy\<close> with plain assignment.\<close>

definition DatabaseSpec_DeepCopyInto :: "go_DatabaseSpec \<Rightarrow> (('m, 'l, 'x) memory, go_DatabaseSpec) go" where
  "DatabaseSpec_DeepCopyInto inp =
     (let out = inp
      in go_bind (deep_copy PostgreSQLConfig_kind zero_PostgreSQLConfig go_return (gspec_PostgreSQL inp)) (\<lambda>p.
         let out = out\<lparr>gspec_PostgreSQL := p\<rparr>
         in go_bind (deep_copy MySQLConfig_kind zero_MySQLConfig go_return (gspec_MySQL inp)) (\<lambda>p.
            go_return (out\<lparr>gspec_MySQL := p\<rparr>))))"

definition UserSpec_DeepCopyInto :: "go_UserSpec \<Rightarrow> (('m, 'l, 'x) memory, go_UserSpec) go" where
  "UserSpec_DeepCopyInto inp =
     (let out = inp
      in go_bind (deep_copy_slice DatabaseRef_kind zero_DatabaseRef DatabaseRef_DeepCopyInto (guser_Databases inp))
           (\<lambda>databases. go_return (out\<lparr>guser_Databases := databases\<rparr>)))"

definition User_DeepCopyInto ::
  "('m, 'l, 'x) Apimachinery \<Rightarrow> 'm go_User \<Rightarrow> (('m, 'l, 'x) memory, 'm go_User) go" where
  "User_DeepCopyInto A inp =
     (let out = inp; out = out\<lparr>guser_TypeMeta := guser_TypeMeta inp\<rparr>
      in go_bind (ObjectMeta_DeepCopyInto A (guser_ObjectMeta inp)) (\<lambda>m.
         let out = out\<lparr>guser_ObjectMeta := m\<rparr>
         in go_bind (UserSpec_DeepCopyInto (guser_Spec inp)) (\<lambda>s.
            let out = out\<lparr>guser_Spec := s\<rparr>;
                out = out\<lparr>guser_Status := guser_Status inp\<rparr>
            in go_return out)))"

definition Privileges_DeepCopyInto ::
  "('m, 'l, 'x) Apimachinery \<Rightarrow> 'm go_Privileges \<Rightarrow> (('m, 'l, 'x) memory, 'm go_Privileges) go" where
  "Privileges_DeepCopyInto A inp =
     (let out = inp; out = out\<lparr>gprivs_TypeMeta := gprivs_TypeMeta inp\<rparr>
      in go_bind (ObjectMeta_DeepCopyInto A (gprivs_ObjectMeta inp)) (\<lambda>m.
         let out = out\<lparr>gprivs_ObjectMeta := m\<rparr>
         in go_bind (copy_slice PrivilegeSpec_kind zero_PrivilegeSpec (gprivs_Privileges inp)) (\<lambda>ps.
            go_return (out\<lparr>gprivs_Privileges := ps\<rparr>))))"

definition Database_DeepCopyInto ::
  "('m, 'l, 'x) Apimachinery \<Rightarrow> 'm go_Database \<Rightarrow> (('m, 'l, 'x) memory, 'm go_Database) go" where
  "Database_DeepCopyInto A inp =
     (let out = inp; out = out\<lparr>gdb_TypeMeta := gdb_TypeMeta inp\<rparr>
      in go_bind (ObjectMeta_DeepCopyInto A (gdb_ObjectMeta inp)) (\<lambda>m.
         let out = out\<lparr>gdb_ObjectMeta := m\<rparr>
         in go_bind (DatabaseSpec_DeepCopyInto (gdb_Spec inp)) (\<lambda>s.
            go_return (out\<lparr>gdb_Spec := s\<rparr>))))"

definition UserList_DeepCopyInto ::
  "('m, 'l, 'x) Apimachinery \<Rightarrow> 'l go_UserList \<Rightarrow> (('m, 'l, 'x) memory, 'l go_UserList) go" where
  "UserList_DeepCopyInto A inp =
     (let out = inp; out = out\<lparr>gusers_TypeMeta := gusers_TypeMeta inp\<rparr>
      in go_bind (ListMeta_DeepCopyInto A (gusers_ListMeta inp)) (\<lambda>m.
         let out = out\<lparr>gusers_ListMeta := m\<rparr>
         in go_bind (deep_copy_slice User_kind (zero_User A) (User_DeepCopyInto A) (gusers_Items inp)) (\<lambda>items.
            go_return (out\<lparr>gusers_Items := items\<rparr>))))"

definition PrivilegesList_DeepCopyInto ::
  "('m, 'l, 'x) Apimachinery \<Rightarrow> 'l go_PrivilegesList \<Rightarrow> (('m, 'l, 'x) memory, 'l go_PrivilegesList) go" where
  "PrivilegesList_DeepCopyInto A inp =
     (let out = inp; out = out\<lparr>gprivss_TypeMeta := gprivss_TypeMeta inp\<rparr>
      in go_bind (ListMeta_DeepCopyInto A (gprivss_ListMeta inp)) (\<lambda>m.
         let out = out\<lparr>gprivss_ListMeta := m\<rparr>
         in go_bind (deep_copy_slice Privileges_kind (zero_Privileges A) (Privileges_DeepCopyInto A) (gprivss_Items inp)) (\<lambda>items.
            go_return (out\<lparr>gprivss_Items := items\<rparr>))))"

definition DatabaseList_DeepCopyInto ::
  "('m, 'l, 'x) Apimachinery \<Rightarrow> 'l go_DatabaseList \<Rightarrow> (('m, 'l, 'x) memory, 'l go_DatabaseList) go" where
  "DatabaseList_DeepCopyInto A inp =
     (let out = inp; out = out\<lparr>gdbs_TypeMeta := gdbs_TypeMeta inp\<rparr>
      in go_bind (ListMeta_DeepCopyInto A (gdbs_ListMeta inp)) (\<lambda>m.
         let out = out\<lparr>gdbs_ListMeta := m\<rparr>
         in go_bind (deep_copy_slice Database_kind (zero_Database A) (Database_DeepCopyInto A) (gdbs_Items inp)) (\<lambda>items.
            go_return (out\<lparr>gdbs_Items := items\<rparr>))))"

section \<open>DeepCopy and DeepCopyObject\<close>

definition Name_DeepCopy :: "pointer \<Rightarrow> (('m, 'l, 'x) memory, pointer) go" where
  "Name_DeepCopy = deep_copy Name_kind zero_Name Name_DeepCopyInto"

definition NamespacedName_DeepCopy :: "pointer \<Rightarrow> (('m, 'l, 'x) memory, pointer) go" where
  "NamespacedName_DeepCopy = deep_copy NamespacedName_kind zero_NamespacedName NamespacedName_DeepCopyInto"

definition Secret_DeepCopy :: "pointer \<Rightarrow> (('m, 'l, 'x) memory, pointer) go" where
  "Secret_DeepCopy = deep_copy SecretRef_kind zero_SecretRef Secret_DeepCopyInto"

definition StatusSummary_DeepCopy :: "pointer \<Rightarrow> (('m, 'l, 'x) memory, pointer) go" where
  "StatusSummary_DeepCopy = deep_copy StatusSummary_kind zero_StatusSummary StatusSummary_DeepCopyInto"

definition PrivilegeSpec_DeepCopy :: "pointer \<Rightarrow> (('m, 'l, 'x) memory, pointer) go" where
  "PrivilegeSpec_DeepCopy = deep_copy PrivilegeSpec_kind zero_PrivilegeSpec PrivilegeSpec_DeepCopyInto"

definition MySQLConfig_DeepCopy :: "pointer \<Rightarrow> (('m, 'l, 'x) memory, pointer) go" where
  "MySQLConfig_DeepCopy = deep_copy MySQLConfig_kind zero_MySQLConfig MySQLConfig_DeepCopyInto"

definition PostgreSQLConfig_DeepCopy :: "pointer \<Rightarrow> (('m, 'l, 'x) memory, pointer) go" where
  "PostgreSQLConfig_DeepCopy = deep_copy PostgreSQLConfig_kind zero_PostgreSQLConfig PostgreSQLConfig_DeepCopyInto"

definition UserStatus_DeepCopy :: "pointer \<Rightarrow> (('m, 'l, 'x) memory, pointer) go" where
  "UserStatus_DeepCopy = deep_copy UserStatus_kind zero_UserStatus UserStatus_DeepCopyInto"

definition DatabaseRef_DeepCopy :: "pointer \<Rightarrow> (('m, 'l, 'x) memory, pointer) go" where
  "DatabaseRef_DeepCopy = deep_copy DatabaseRef_kind zero_DatabaseRef DatabaseRef_DeepCopyInto"

definition UserSpec_DeepCopy :: "pointer \<Rightarrow> (('m, 'l, 'x) memory, pointer) go" where
  "UserSpec_DeepCopy = deep_copy UserSpec_kind zero_UserSpec UserSpec_DeepCopyInto"

definition DatabaseSpec_DeepCopy :: "pointer \<Rightarrow> (('m, 'l, 'x) memory, pointer) go" where
  "DatabaseSpec_DeepCopy = deep_copy DatabaseSpec_kind zero_DatabaseSpec DatabaseSpec_DeepCopyInto"

definition User_DeepCopy :: "('m, 'l, 'x) Apimachinery \<Rightarrow> pointer \<Rightarrow> (('m, 'l, 'x) memory, pointer) go" where
  "User_DeepCopy A = deep_copy User_kind (zero_User A) (User_DeepCopyInto A)"

definition Privileges_DeepCopy :: "('m, 'l, 'x) Apimachinery \<Rightarrow> pointer \<Rightarrow> (('m, 'l, 'x) memory, pointer) go" where
  "Privileges_DeepCopy A = deep_copy Privileges_kind (zero_Privileges A) (Privileges_DeepCopyInto A)"

definition Database_DeepCopy :: "('m, 'l, 'x) Apimachinery \<Rightarrow> pointer \<Rightarrow> (('m, 'l, 'x) memory, pointer) go" where
  "Database_DeepCopy A = deep_copy Database_kind (zero_Database A) (Database_DeepCopyInto A)"

definition UserList_DeepCopy :: "('m, 'l, 'x) Apimachinery \<Rightarrow> pointer \<Rightarrow> (('m, 'l, 'x) memory, pointer) go" where
  "UserList_DeepCopy A = deep_copy UserList_kind (zero_UserList A) (UserList_DeepCopyInto A)"

definition PrivilegesList_DeepCopy :: "('m, 'l, 'x) Apimachinery \<Rightarrow> pointer \<Rightarrow> (('m, 'l, 'x) memory, pointer) go" where
  "PrivilegesList_DeepCopy A = deep_copy PrivilegesList_kind (zero_PrivilegesList A) (PrivilegesList_DeepCopyInto A)"

definition DatabaseList_DeepCopy :: "('m, 'l, 'x) Apimachinery \<Rightarrow> pointer \<Rightarrow> (('m, 'l, 'x) memory, pointer) go" where
  "DatabaseList_DeepCopy A = deep_copy DatabaseList_kind (zero_DatabaseList A) (DatabaseList_DeepCopyInto A)"

text \<open>
  A value of the interface \<^verbatim>\<open>runtime.Object\<close>: nil, or a pointer with its type. The check of
  \<^verbatim>\<open>DeepCopyObject\<close> keeps a nil pointer out of the interface, where it would not be nil.
\<close>

datatype runtime_Object = nil_object | Database_object pointer | DatabaseList_object pointer
  | Privileges_object pointer | PrivilegesList_object pointer | User_object pointer | UserList_object pointer

definition Database_DeepCopyObject :: "('m, 'l, 'x) Apimachinery \<Rightarrow> pointer \<Rightarrow> (('m, 'l, 'x) memory, runtime_Object) go" where
  "Database_DeepCopyObject A inp = go_bind (Database_DeepCopy A inp) (\<lambda>c.
     if c \<noteq> nil_pointer then go_return (Database_object c) else go_return nil_object)"

definition DatabaseList_DeepCopyObject :: "('m, 'l, 'x) Apimachinery \<Rightarrow> pointer \<Rightarrow> (('m, 'l, 'x) memory, runtime_Object) go" where
  "DatabaseList_DeepCopyObject A inp = go_bind (DatabaseList_DeepCopy A inp) (\<lambda>c.
     if c \<noteq> nil_pointer then go_return (DatabaseList_object c) else go_return nil_object)"

definition Privileges_DeepCopyObject :: "('m, 'l, 'x) Apimachinery \<Rightarrow> pointer \<Rightarrow> (('m, 'l, 'x) memory, runtime_Object) go" where
  "Privileges_DeepCopyObject A inp = go_bind (Privileges_DeepCopy A inp) (\<lambda>c.
     if c \<noteq> nil_pointer then go_return (Privileges_object c) else go_return nil_object)"

definition PrivilegesList_DeepCopyObject :: "('m, 'l, 'x) Apimachinery \<Rightarrow> pointer \<Rightarrow> (('m, 'l, 'x) memory, runtime_Object) go" where
  "PrivilegesList_DeepCopyObject A inp = go_bind (PrivilegesList_DeepCopy A inp) (\<lambda>c.
     if c \<noteq> nil_pointer then go_return (PrivilegesList_object c) else go_return nil_object)"

definition User_DeepCopyObject :: "('m, 'l, 'x) Apimachinery \<Rightarrow> pointer \<Rightarrow> (('m, 'l, 'x) memory, runtime_Object) go" where
  "User_DeepCopyObject A inp = go_bind (User_DeepCopy A inp) (\<lambda>c.
     if c \<noteq> nil_pointer then go_return (User_object c) else go_return nil_object)"

definition UserList_DeepCopyObject :: "('m, 'l, 'x) Apimachinery \<Rightarrow> pointer \<Rightarrow> (('m, 'l, 'x) memory, runtime_Object) go" where
  "UserList_DeepCopyObject A inp = go_bind (UserList_DeepCopy A inp) (\<lambda>c.
     if c \<noteq> nil_pointer then go_return (UserList_object c) else go_return nil_object)"

end
