(* ===== verification/Deep_Copy_Properties.thy ===== *)
theory Deep_Copy_Properties
  imports Deep_Copy
begin

text \<open>
  The generated routines are deep copies. \<open>val_T\<close> reads the record of \<open>Api_Types\<close> off
  the memory, \<open>reach_T\<close> the arrays a struct refers to, and every \<^verbatim>\<open>DeepCopyInto\<close> meets
  the contract \<open>copier\<close> for them.
\<close>

section \<open>What a struct in memory stands for\<close>

definition val_DatabaseRef :: "('m, 'l, 'x) memory \<Rightarrow> go_DatabaseRef \<Rightarrow> DatabaseRef option" where
  "val_DatabaseRef h r = map_option (\<lambda>ps. \<lparr>ref_Name = gref_Name r, ref_PasswordSecret = gref_PasswordSecret r,
       ref_CreatedSecret = gref_CreatedSecret r, ref_Privileges = ps\<rparr>)
     (slice_val Name_kind flat_val h (gref_Privileges r))"

definition reach_DatabaseRef :: "('m, 'l, 'x) memory \<Rightarrow> go_DatabaseRef \<Rightarrow> nat set" where
  "reach_DatabaseRef h r = slice_reach Name_kind flat_reach h (gref_Privileges r)"

definition val_UserSpec :: "('m, 'l, 'x) memory \<Rightarrow> go_UserSpec \<Rightarrow> UserSpec option" where
  "val_UserSpec h s = map_option (\<lambda>ds. \<lparr>Databases = ds\<rparr>)
     (slice_val DatabaseRef_kind val_DatabaseRef h (guser_Databases s))"

definition reach_UserSpec :: "('m, 'l, 'x) memory \<Rightarrow> go_UserSpec \<Rightarrow> nat set" where
  "reach_UserSpec h s = slice_reach DatabaseRef_kind reach_DatabaseRef h (guser_Databases s)"

definition val_DatabaseSpec :: "('m, 'l, 'x) memory \<Rightarrow> go_DatabaseSpec \<Rightarrow> DatabaseSpec option" where
  "val_DatabaseSpec h s = map_option (\<lambda>(p, m). \<lparr>spec_Type = gspec_Type s, spec_PostgreSQL = p, spec_MySQL = m\<rparr>)
     (pair_val (pointer_val PostgreSQLConfig_kind flat_val) (pointer_val MySQLConfig_kind flat_val) h
       (gspec_PostgreSQL s, gspec_MySQL s))"

definition reach_DatabaseSpec :: "('m, 'l, 'x) memory \<Rightarrow> go_DatabaseSpec \<Rightarrow> nat set" where
  "reach_DatabaseSpec h s =
     pair_reach (pointer_reach PostgreSQLConfig_kind flat_reach) (pointer_reach MySQLConfig_kind flat_reach) h
       (gspec_PostgreSQL s, gspec_MySQL s)"

text \<open>
  An object also has its \<^verbatim>\<open>TypeMeta\<close>; \<open>vm\<close> and \<open>rm\<close> read the value and the memory of an
  \<^verbatim>\<open>ObjectMeta\<close>, and \<open>vl\<close> and \<open>rl\<close> of a \<^verbatim>\<open>ListMeta\<close>.
\<close>

definition val_User ::
  "(('m, 'l, 'x) memory \<Rightarrow> 'm \<Rightarrow> ObjectMeta option) \<Rightarrow> ('m, 'l, 'x) memory \<Rightarrow> 'm go_User \<Rightarrow> (TypeMeta \<times> User) option" where
  "val_User vm h u = map_option (\<lambda>(m, s). (guser_TypeMeta u,
       \<lparr>user_Meta = m, user_Spec = s, user_Status = guser_Status u\<rparr>))
     (pair_val vm val_UserSpec h (guser_ObjectMeta u, guser_Spec u))"

definition reach_User ::
  "(('m, 'l, 'x) memory \<Rightarrow> 'm \<Rightarrow> nat set) \<Rightarrow> ('m, 'l, 'x) memory \<Rightarrow> 'm go_User \<Rightarrow> nat set" where
  "reach_User rm h u = pair_reach rm reach_UserSpec h (guser_ObjectMeta u, guser_Spec u)"

definition val_Privileges ::
  "(('m, 'l, 'x) memory \<Rightarrow> 'm \<Rightarrow> ObjectMeta option) \<Rightarrow> ('m, 'l, 'x) memory \<Rightarrow> 'm go_Privileges \<Rightarrow>
     (TypeMeta \<times> Privileges) option" where
  "val_Privileges vm h p = map_option (\<lambda>(m, ps). (gprivs_TypeMeta p,
       \<lparr>privileges_Meta = m, privileges_Privileges = ps\<rparr>))
     (pair_val vm (slice_val PrivilegeSpec_kind flat_val) h (gprivs_ObjectMeta p, gprivs_Privileges p))"

definition reach_Privileges ::
  "(('m, 'l, 'x) memory \<Rightarrow> 'm \<Rightarrow> nat set) \<Rightarrow> ('m, 'l, 'x) memory \<Rightarrow> 'm go_Privileges \<Rightarrow> nat set" where
  "reach_Privileges rm h p =
     pair_reach rm (slice_reach PrivilegeSpec_kind flat_reach) h (gprivs_ObjectMeta p, gprivs_Privileges p)"

definition val_Database ::
  "(('m, 'l, 'x) memory \<Rightarrow> 'm \<Rightarrow> ObjectMeta option) \<Rightarrow> ('m, 'l, 'x) memory \<Rightarrow> 'm go_Database \<Rightarrow>
     (TypeMeta \<times> DatabaseCR) option" where
  "val_Database vm h d = map_option (\<lambda>(m, s). (gdb_TypeMeta d, \<lparr>database_Meta = m, database_Spec = s\<rparr>))
     (pair_val vm val_DatabaseSpec h (gdb_ObjectMeta d, gdb_Spec d))"

definition reach_Database ::
  "(('m, 'l, 'x) memory \<Rightarrow> 'm \<Rightarrow> nat set) \<Rightarrow> ('m, 'l, 'x) memory \<Rightarrow> 'm go_Database \<Rightarrow> nat set" where
  "reach_Database rm h d = pair_reach rm reach_DatabaseSpec h (gdb_ObjectMeta d, gdb_Spec d)"

text \<open>A list: its \<^verbatim>\<open>TypeMeta\<close>, its \<^verbatim>\<open>ListMeta\<close> and its items.\<close>

definition val_UserList ::
  "(('m, 'l, 'x) memory \<Rightarrow> 'm \<Rightarrow> ObjectMeta option) \<Rightarrow> (('m, 'l, 'x) memory \<Rightarrow> 'l \<Rightarrow> 'al option) \<Rightarrow>
     ('m, 'l, 'x) memory \<Rightarrow> 'l go_UserList \<Rightarrow> (TypeMeta \<times> 'al \<times> (TypeMeta \<times> User) list) option" where
  "val_UserList vm vl h l = map_option (\<lambda>x. (gusers_TypeMeta l, x))
     (pair_val vl (slice_val User_kind (val_User vm)) h (gusers_ListMeta l, gusers_Items l))"

definition reach_UserList ::
  "(('m, 'l, 'x) memory \<Rightarrow> 'm \<Rightarrow> nat set) \<Rightarrow> (('m, 'l, 'x) memory \<Rightarrow> 'l \<Rightarrow> nat set) \<Rightarrow>
     ('m, 'l, 'x) memory \<Rightarrow> 'l go_UserList \<Rightarrow> nat set" where
  "reach_UserList rm rl h l =
     pair_reach rl (slice_reach User_kind (reach_User rm)) h (gusers_ListMeta l, gusers_Items l)"

definition val_PrivilegesList ::
  "(('m, 'l, 'x) memory \<Rightarrow> 'm \<Rightarrow> ObjectMeta option) \<Rightarrow> (('m, 'l, 'x) memory \<Rightarrow> 'l \<Rightarrow> 'al option) \<Rightarrow>
     ('m, 'l, 'x) memory \<Rightarrow> 'l go_PrivilegesList \<Rightarrow> (TypeMeta \<times> 'al \<times> (TypeMeta \<times> Privileges) list) option" where
  "val_PrivilegesList vm vl h l = map_option (\<lambda>x. (gprivss_TypeMeta l, x))
     (pair_val vl (slice_val Privileges_kind (val_Privileges vm)) h (gprivss_ListMeta l, gprivss_Items l))"

definition reach_PrivilegesList ::
  "(('m, 'l, 'x) memory \<Rightarrow> 'm \<Rightarrow> nat set) \<Rightarrow> (('m, 'l, 'x) memory \<Rightarrow> 'l \<Rightarrow> nat set) \<Rightarrow>
     ('m, 'l, 'x) memory \<Rightarrow> 'l go_PrivilegesList \<Rightarrow> nat set" where
  "reach_PrivilegesList rm rl h l =
     pair_reach rl (slice_reach Privileges_kind (reach_Privileges rm)) h (gprivss_ListMeta l, gprivss_Items l)"

definition val_DatabaseList ::
  "(('m, 'l, 'x) memory \<Rightarrow> 'm \<Rightarrow> ObjectMeta option) \<Rightarrow> (('m, 'l, 'x) memory \<Rightarrow> 'l \<Rightarrow> 'al option) \<Rightarrow>
     ('m, 'l, 'x) memory \<Rightarrow> 'l go_DatabaseList \<Rightarrow> (TypeMeta \<times> 'al \<times> (TypeMeta \<times> DatabaseCR) list) option" where
  "val_DatabaseList vm vl h l = map_option (\<lambda>x. (gdbs_TypeMeta l, x))
     (pair_val vl (slice_val Database_kind (val_Database vm)) h (gdbs_ListMeta l, gdbs_Items l))"

definition reach_DatabaseList ::
  "(('m, 'l, 'x) memory \<Rightarrow> 'm \<Rightarrow> nat set) \<Rightarrow> (('m, 'l, 'x) memory \<Rightarrow> 'l \<Rightarrow> nat set) \<Rightarrow>
     ('m, 'l, 'x) memory \<Rightarrow> 'l go_DatabaseList \<Rightarrow> nat set" where
  "reach_DatabaseList rm rl h l =
     pair_reach rl (slice_reach Database_kind (reach_Database rm)) h (gdbs_ListMeta l, gdbs_Items l)"

section \<open>Structs without memory of their own\<close>

text \<open>Their \<^verbatim>\<open>DeepCopyInto\<close> is an assignment.\<close>

lemma flat_DeepCopyInto:
  "Name_DeepCopyInto = go_return" "NamespacedName_DeepCopyInto = go_return" "Secret_DeepCopyInto = go_return"
  "StatusSummary_DeepCopyInto = go_return" "PrivilegeSpec_DeepCopyInto = go_return"
  "MySQLConfig_DeepCopyInto = go_return" "PostgreSQLConfig_DeepCopyInto = go_return"
  "UserStatus_DeepCopyInto = go_return"
  by (simp_all add: fun_eq_iff Name_DeepCopyInto_def NamespacedName_DeepCopyInto_def Secret_DeepCopyInto_def
      StatusSummary_DeepCopyInto_def PrivilegeSpec_DeepCopyInto_def MySQLConfig_DeepCopyInto_def
      PostgreSQLConfig_DeepCopyInto_def UserStatus_DeepCopyInto_def)

lemma flat_kind_copier: "kind_ok K \<Longrightarrow> kind_copier flat_val flat_reach go_return K"
  by (intro kind_copier.intro kind_copier_axioms.intro copier_flat)

interpretation names: kind_copier flat_val flat_reach go_return Name_kind zero_Name
  by (rule flat_kind_copier) simp

interpretation privilege_specs: kind_copier flat_val flat_reach go_return PrivilegeSpec_kind zero_PrivilegeSpec
  by (rule flat_kind_copier) simp

interpretation postgresql_configs: kind_copier flat_val flat_reach go_return PostgreSQLConfig_kind zero_PostgreSQLConfig
  by (rule flat_kind_copier) simp

interpretation mysql_configs: kind_copier flat_val flat_reach go_return MySQLConfig_kind zero_MySQLConfig
  by (rule flat_kind_copier) simp

section \<open>Specs\<close>

lemma copier_DatabaseRef: "copier val_DatabaseRef reach_DatabaseRef DatabaseRef_DeepCopyInto"
proof -
  have "copier (\<lambda>h r. map_option (\<lambda>ps. \<lparr>ref_Name = gref_Name r, ref_PasswordSecret = gref_PasswordSecret r,
       ref_CreatedSecret = gref_CreatedSecret r, ref_Privileges = ps\<rparr>)
       (slice_val Name_kind flat_val h (gref_Privileges r)))
     (\<lambda>h r. slice_reach Name_kind flat_reach h (gref_Privileges r))
     (\<lambda>r. go_bind (deep_copy_slice Name_kind zero_Name go_return (gref_Privileges r))
       (\<lambda>v. go_return (r\<lparr>gref_Privileges := v\<rparr>)))"
    by (rule copier_struct [OF names.slice.copier_axioms]) simp_all
  then show ?thesis
    unfolding val_DatabaseRef_def [abs_def] reach_DatabaseRef_def [abs_def] DatabaseRef_DeepCopyInto_def [abs_def]
    by (simp add: copy_slice_flat)
qed

interpretation database_refs: kind_copier val_DatabaseRef reach_DatabaseRef DatabaseRef_DeepCopyInto
    DatabaseRef_kind zero_DatabaseRef
  by (intro kind_copier.intro kind_copier_axioms.intro copier_DatabaseRef) simp

lemma copier_UserSpec: "copier val_UserSpec reach_UserSpec UserSpec_DeepCopyInto"
  unfolding val_UserSpec_def [abs_def] reach_UserSpec_def [abs_def] UserSpec_DeepCopyInto_def [abs_def] Let_def
  by (rule copier_struct [OF database_refs.slice.copier_axioms,
        where get = guser_Databases and put = "\<lambda>v s. s\<lparr>guser_Databases := v\<rparr>"]) simp_all

interpretation user_specs: copier val_UserSpec reach_UserSpec UserSpec_DeepCopyInto
  by (rule copier_UserSpec)

lemma copier_DatabaseSpec: "copier val_DatabaseSpec reach_DatabaseSpec DatabaseSpec_DeepCopyInto"
proof -
  have eq: "DatabaseSpec_DeepCopyInto = (\<lambda>s. go_bind
      (copy_pair (deep_copy PostgreSQLConfig_kind zero_PostgreSQLConfig go_return)
        (deep_copy MySQLConfig_kind zero_MySQLConfig go_return) (gspec_PostgreSQL s, gspec_MySQL s))
      (\<lambda>pm. go_return (s\<lparr>gspec_PostgreSQL := fst pm, gspec_MySQL := snd pm\<rparr>)))"
    by (rule ext) (simp add: DatabaseSpec_DeepCopyInto_def copy_pair_def go_bind_assoc Let_def)
  show ?thesis
    unfolding val_DatabaseSpec_def [abs_def] reach_DatabaseSpec_def [abs_def] eq
    by (rule copier_struct [OF copier_pair [OF postgresql_configs.pointer.copier_axioms
          mysql_configs.pointer.copier_axioms],
          where get = "\<lambda>s. (gspec_PostgreSQL s, gspec_MySQL s)"]) simp_all
qed

interpretation database_specs: copier val_DatabaseSpec reach_DatabaseSpec DatabaseSpec_DeepCopyInto
  by (rule copier_DatabaseSpec)

section \<open>Objects and lists\<close>

lemma copier_User:
  assumes "copier vm rm (ObjectMeta_DeepCopyInto A)"
  shows "copier (val_User vm) (reach_User rm) (User_DeepCopyInto A)"
proof -
  have eq: "User_DeepCopyInto A = (\<lambda>u. go_bind
      (copy_pair (ObjectMeta_DeepCopyInto A) UserSpec_DeepCopyInto (guser_ObjectMeta u, guser_Spec u))
      (\<lambda>ms. go_return (u\<lparr>guser_ObjectMeta := fst ms, guser_Spec := snd ms\<rparr>)))"
    by (rule ext) (simp add: User_DeepCopyInto_def copy_pair_def go_bind_assoc Let_def)
  show ?thesis
    unfolding val_User_def [abs_def] reach_User_def [abs_def] eq
    by (rule copier_struct [OF copier_pair [OF assms copier_UserSpec],
          where get = "\<lambda>u. (guser_ObjectMeta u, guser_Spec u)"]) simp_all
qed

lemma copier_Privileges:
  assumes "copier vm rm (ObjectMeta_DeepCopyInto A)"
  shows "copier (val_Privileges vm) (reach_Privileges rm) (Privileges_DeepCopyInto A)"
proof -
  have eq: "Privileges_DeepCopyInto A = (\<lambda>p. go_bind
      (copy_pair (ObjectMeta_DeepCopyInto A) (deep_copy_slice PrivilegeSpec_kind zero_PrivilegeSpec go_return)
        (gprivs_ObjectMeta p, gprivs_Privileges p))
      (\<lambda>ms. go_return (p\<lparr>gprivs_ObjectMeta := fst ms, gprivs_Privileges := snd ms\<rparr>)))"
    by (rule ext) (simp add: Privileges_DeepCopyInto_def copy_pair_def go_bind_assoc Let_def copy_slice_flat)
  show ?thesis
    unfolding val_Privileges_def [abs_def] reach_Privileges_def [abs_def] eq
    by (rule copier_struct [OF copier_pair [OF assms privilege_specs.slice.copier_axioms],
          where get = "\<lambda>p. (gprivs_ObjectMeta p, gprivs_Privileges p)"]) simp_all
qed

lemma copier_Database:
  assumes "copier vm rm (ObjectMeta_DeepCopyInto A)"
  shows "copier (val_Database vm) (reach_Database rm) (Database_DeepCopyInto A)"
proof -
  have eq: "Database_DeepCopyInto A = (\<lambda>d. go_bind
      (copy_pair (ObjectMeta_DeepCopyInto A) DatabaseSpec_DeepCopyInto (gdb_ObjectMeta d, gdb_Spec d))
      (\<lambda>ms. go_return (d\<lparr>gdb_ObjectMeta := fst ms, gdb_Spec := snd ms\<rparr>)))"
    by (rule ext) (simp add: Database_DeepCopyInto_def copy_pair_def go_bind_assoc Let_def)
  show ?thesis
    unfolding val_Database_def [abs_def] reach_Database_def [abs_def] eq
    by (rule copier_struct [OF copier_pair [OF assms copier_DatabaseSpec],
          where get = "\<lambda>d. (gdb_ObjectMeta d, gdb_Spec d)"]) simp_all
qed

text \<open>A list is copied when its items are: what the three list types share.\<close>

lemma copier_items:
  assumes "copier vl rl cl" and "copier val reach cp" and "kind_ok K"
    and "\<And>v s. get (put v s) = v" and "\<And>v s. mk (put v s) = mk s"
  shows "copier (\<lambda>h l. map_option (mk l) (pair_val vl (slice_val K val) h (get l)))
    (\<lambda>h l. pair_reach rl (slice_reach K reach) h (get l))
    (\<lambda>l. go_bind (copy_pair cl (deep_copy_slice K zero cp) (get l)) (\<lambda>v. go_return (put v l)))"
proof -
  from assms(2,3) have "kind_copier val reach cp K"
    by (intro kind_copier.intro kind_copier_axioms.intro)
  then have "copier (slice_val K val) (slice_reach K reach) (deep_copy_slice K zero cp)"
    by (rule kind_copier.slice_copier)
  then show ?thesis by (intro copier_struct copier_pair assms(1,4,5))
qed

lemma copier_UserList:
  assumes "copier vm rm (ObjectMeta_DeepCopyInto A)" and "copier vl rl (ListMeta_DeepCopyInto A)"
  shows "copier (val_UserList vm vl) (reach_UserList rm rl) (UserList_DeepCopyInto A)"
proof -
  have eq: "UserList_DeepCopyInto A = (\<lambda>l. go_bind
      (copy_pair (ListMeta_DeepCopyInto A) (deep_copy_slice User_kind (zero_User A) (User_DeepCopyInto A))
        (gusers_ListMeta l, gusers_Items l))
      (\<lambda>mi. go_return (l\<lparr>gusers_ListMeta := fst mi, gusers_Items := snd mi\<rparr>)))"
    by (rule ext) (simp add: UserList_DeepCopyInto_def copy_pair_def go_bind_assoc Let_def)
  show ?thesis
    unfolding val_UserList_def [abs_def] reach_UserList_def [abs_def] eq
    by (rule copier_items [OF assms(2) copier_User [OF assms(1)], where get = "\<lambda>l. (gusers_ListMeta l, gusers_Items l)"])
      simp_all
qed

lemma copier_PrivilegesList:
  assumes "copier vm rm (ObjectMeta_DeepCopyInto A)" and "copier vl rl (ListMeta_DeepCopyInto A)"
  shows "copier (val_PrivilegesList vm vl) (reach_PrivilegesList rm rl) (PrivilegesList_DeepCopyInto A)"
proof -
  have eq: "PrivilegesList_DeepCopyInto A = (\<lambda>l. go_bind
      (copy_pair (ListMeta_DeepCopyInto A) (deep_copy_slice Privileges_kind (zero_Privileges A) (Privileges_DeepCopyInto A))
        (gprivss_ListMeta l, gprivss_Items l))
      (\<lambda>mi. go_return (l\<lparr>gprivss_ListMeta := fst mi, gprivss_Items := snd mi\<rparr>)))"
    by (rule ext) (simp add: PrivilegesList_DeepCopyInto_def copy_pair_def go_bind_assoc Let_def)
  show ?thesis
    unfolding val_PrivilegesList_def [abs_def] reach_PrivilegesList_def [abs_def] eq
    by (rule copier_items [OF assms(2) copier_Privileges [OF assms(1)], where get = "\<lambda>l. (gprivss_ListMeta l, gprivss_Items l)"])
      simp_all
qed

lemma copier_DatabaseList:
  assumes "copier vm rm (ObjectMeta_DeepCopyInto A)" and "copier vl rl (ListMeta_DeepCopyInto A)"
  shows "copier (val_DatabaseList vm vl) (reach_DatabaseList rm rl) (DatabaseList_DeepCopyInto A)"
proof -
  have eq: "DatabaseList_DeepCopyInto A = (\<lambda>l. go_bind
      (copy_pair (ListMeta_DeepCopyInto A) (deep_copy_slice Database_kind (zero_Database A) (Database_DeepCopyInto A))
        (gdbs_ListMeta l, gdbs_Items l))
      (\<lambda>mi. go_return (l\<lparr>gdbs_ListMeta := fst mi, gdbs_Items := snd mi\<rparr>)))"
    by (rule ext) (simp add: DatabaseList_DeepCopyInto_def copy_pair_def go_bind_assoc Let_def)
  show ?thesis
    unfolding val_DatabaseList_def [abs_def] reach_DatabaseList_def [abs_def] eq
    by (rule copier_items [OF assms(2) copier_Database [OF assms(1)], where get = "\<lambda>l. (gdbs_ListMeta l, gdbs_Items l)"])
      simp_all
qed

text \<open>\<^verbatim>\<open>DeepCopy\<close> behind a pointer.\<close>

lemma pointer_copier_of:
  assumes "copier val reach cp" and "kind_ok K"
  shows "copier (pointer_val K val) (pointer_reach K reach) (deep_copy K zero cp)"
  by (intro kind_copier.pointer_copier kind_copier.intro kind_copier_axioms.intro assms)

section \<open>A list in memory\<close>

text \<open>
  For the witnesses: an \<^verbatim>\<open>ObjectMeta\<close> with a name and a slice of finalizers, its copy
  routine, and a memory that holds a list with one user, who has one database with one
  set of privileges, and a \<^verbatim>\<open>Database\<close> with a PostgreSQL configuration.
\<close>

definition finalizers_kind :: "(('m, 'l, string list) cell, string) Kind" where
  "finalizers_kind = \<lparr>wrap = library_cells, unwrap = (\<lambda>c. case c of library_cells vs \<Rightarrow> Some vs | _ \<Rightarrow> None)\<rparr>"

definition demo_meta_val :: "(string \<times> slice, 'l, string list) memory \<Rightarrow> string \<times> slice \<Rightarrow> ObjectMeta option" where
  "demo_meta_val h m = map_option (\<lambda>fs. \<lparr>meta_Name = fst m, meta_Namespace = [], meta_ResourceVersion = [],
       meta_Finalizers = fs, meta_DeletionTimestamp = None, meta_OwnerReferences = []\<rparr>)
     (slice_val finalizers_kind flat_val h (snd m))"

definition demo_meta_reach :: "(string \<times> slice, 'l, string list) memory \<Rightarrow> string \<times> slice \<Rightarrow> nat set" where
  "demo_meta_reach h m = slice_reach finalizers_kind flat_reach h (snd m)"

definition demo_Apimachinery :: "(string \<times> slice, unit, string list) Apimachinery" where
  "demo_Apimachinery = \<lparr>
     ObjectMeta_DeepCopyInto = (\<lambda>m. go_bind (deep_copy_slice finalizers_kind [] go_return (snd m)) (\<lambda>s.
       go_return (fst m, s))),
     ListMeta_DeepCopyInto = go_return, zero_ObjectMeta = ([], nil_slice), zero_ListMeta = ()\<rparr>"

lemma demo_meta_copier: "copier demo_meta_val demo_meta_reach (ObjectMeta_DeepCopyInto demo_Apimachinery)"
proof -
  have "copier (slice_val finalizers_kind flat_val) (slice_reach finalizers_kind flat_reach)
      (deep_copy_slice finalizers_kind [] go_return)"
    by (intro kind_copier.slice_copier flat_kind_copier) (simp add: kind_ok_def finalizers_kind_def)
  then show ?thesis
    unfolding demo_meta_val_def [abs_def] demo_meta_reach_def [abs_def]
    by (auto simp: demo_Apimachinery_def intro!: copier_struct [where put = "\<lambda>s m. (fst m, s)"])
qed

lemma demo_list_copier: "copier flat_val flat_reach (ListMeta_DeepCopyInto demo_Apimachinery)"
  by (simp add: demo_Apimachinery_def copier_flat)

definition demo_ref_in_memory :: go_DatabaseRef where
  "demo_ref_in_memory = zero_DatabaseRef\<lparr>gref_Name := ''main'', gref_Privileges := Slice 3 0 1\<rparr>"

definition demo_memory :: "(string \<times> slice, unit, string list) memory" where
  "demo_memory = \<lparr>cells = [
       0 \<mapsto> UserList_cells [\<lparr>gusers_TypeMeta = zero_TypeMeta, gusers_ListMeta = (), gusers_Items = Slice 1 0 1\<rparr>],
       1 \<mapsto> User_cells [\<lparr>guser_TypeMeta = zero_TypeMeta, guser_ObjectMeta = (''john'', Slice 4 0 1),
              guser_Spec = \<lparr>guser_Databases = Slice 2 0 1\<rparr>, guser_Status = zero_UserStatus\<rparr>],
       2 \<mapsto> DatabaseRef_cells [demo_ref_in_memory],
       3 \<mapsto> Name_cells [\<lparr>name_Name = ''readers''\<rparr>],
       4 \<mapsto> library_cells [''finalizer''],
       5 \<mapsto> Database_cells [\<lparr>gdb_TypeMeta = zero_TypeMeta, gdb_ObjectMeta = (''main'', nil_slice),
              gdb_Spec = \<lparr>gspec_Type = PostgreSQL_type, gspec_PostgreSQL = Ptr 6 0, gspec_MySQL = nil_pointer\<rparr>\<rparr>],
       6 \<mapsto> PostgreSQLConfig_cells [zero_PostgreSQLConfig]],
     next_cell = 7\<rparr>"

definition demo_object_meta :: "string \<Rightarrow> string list \<Rightarrow> ObjectMeta" where
  "demo_object_meta name fs = \<lparr>meta_Name = name, meta_Namespace = [], meta_ResourceVersion = [],
     meta_Finalizers = fs, meta_DeletionTimestamp = None, meta_OwnerReferences = []\<rparr>"

definition demo_list_value :: "TypeMeta \<times> unit \<times> (TypeMeta \<times> User) list" where
  "demo_list_value = (zero_TypeMeta, (), [(zero_TypeMeta,
     \<lparr>user_Meta = demo_object_meta ''john'' [''finalizer''],
      user_Spec = \<lparr>Databases = [\<lparr>ref_Name = ''main'', ref_PasswordSecret = zero_SecretRef,
        ref_CreatedSecret = zero_NamespacedName, ref_Privileges = [\<lparr>name_Name = ''readers''\<rparr>]\<rparr>]\<rparr>,
      user_Status = zero_UserStatus\<rparr>)])"

definition demo_database_value :: "TypeMeta \<times> DatabaseCR" where
  "demo_database_value = (zero_TypeMeta, \<lparr>database_Meta = demo_object_meta ''main'' [],
     database_Spec = \<lparr>spec_Type = PostgreSQL_type, spec_PostgreSQL = Some zero_PostgreSQLConfig, spec_MySQL = None\<rparr>\<rparr>)"

lemmas demo_memory_simps =
  demo_memory_def demo_ref_in_memory_def zero_DatabaseRef_def array_at_def pair_val_def pair_reach_def
  pointer_val_def pointer_reach_def slice_val_def slice_reach_def flat_val_def flat_reach_def
  demo_meta_val_def demo_meta_reach_def demo_object_meta_def finalizers_kind_def
  UserList_kind_def User_kind_def DatabaseRef_kind_def Name_kind_def Database_kind_def PostgreSQLConfig_kind_def
  val_UserList_def val_User_def val_UserSpec_def val_DatabaseRef_def val_Database_def val_DatabaseSpec_def
  reach_UserList_def reach_User_def reach_UserSpec_def reach_DatabaseRef_def reach_Database_def reach_DatabaseSpec_def

lemma demo_memory_next [simp]: "next_cell demo_memory = 7"
  by (simp add: demo_memory_def)

lemma demo_list_val:
  "pointer_val UserList_kind (val_UserList demo_meta_val flat_val) demo_memory (Ptr 0 0) = Some (Some demo_list_value)"
  by (simp add: demo_memory_simps demo_list_value_def)

lemma demo_list_reach:
  "pointer_reach UserList_kind (reach_UserList demo_meta_reach flat_reach) demo_memory (Ptr 0 0) = {0, 1, 2, 3, 4}"
  by (auto simp: demo_memory_simps)

lemma demo_database_val:
  "pointer_val Database_kind (val_Database demo_meta_val) demo_memory (Ptr 5 0) = Some (Some demo_database_value)"
  by (simp add: demo_memory_simps demo_database_value_def)

lemma demo_database_reach:
  "pointer_reach Database_kind (reach_Database demo_meta_reach) demo_memory (Ptr 5 0) = {5, 6}"
  by (auto simp: demo_memory_simps)

section \<open>Properties\<close>

text \<open>
  \<^bold>\<open>C39\<close> (refinement). \<^verbatim>\<open>UserList.DeepCopy\<close> returns for every list in memory, without a
  panic, and the new pointer stands for the same list: the same metadata, the same users
  in the same order, each with the same databases and privileges. Everything it refers to
  is new memory, and what was there before has not changed.
\<close>

theorem UserList_DeepCopy_refines:
  assumes "copier vm rm (ObjectMeta_DeepCopyInto A)" and "copier vl rl (ListMeta_DeepCopyInto A)"
    and "pointer_val UserList_kind (val_UserList vm vl) h p = Some x"
    and "pointer_reach UserList_kind (reach_UserList rm rl) h p \<subseteq> {..<next_cell h}"
  shows "\<exists>p' h'. UserList_DeepCopy A p h = (Returned p', h') \<and>
    pointer_val UserList_kind (val_UserList vm vl) h' p' = Some x \<and>
    pointer_reach UserList_kind (reach_UserList rm rl) h' p' \<subseteq> {next_cell h..<next_cell h'} \<and>
    (\<forall>a < next_cell h. cells h' a = cells h a)"
proof -
  note c = pointer_copier_of [OF copier_UserList [OF assms(1,2)], of UserList_kind]
  show ?thesis
    using copier.copies [OF c assms(3,4), of "zero_UserList A"]
    by (auto simp: UserList_DeepCopy_def grows_def)
qed

theorem UserList_DeepCopy_refines_witness:
  "\<exists>p' h'. UserList_DeepCopy demo_Apimachinery (Ptr 0 0) demo_memory = (Returned p', h') \<and>
    pointer_val UserList_kind (val_UserList demo_meta_val flat_val) h' p' = Some (Some demo_list_value) \<and>
    pointer_reach UserList_kind (reach_UserList demo_meta_reach flat_reach) h' p' \<subseteq>
      {next_cell demo_memory..<next_cell h'} \<and>
    (\<forall>a < next_cell demo_memory. cells h' a = cells demo_memory a)"
  by (rule UserList_DeepCopy_refines [OF demo_meta_copier demo_list_copier demo_list_val])
    (simp add: demo_list_reach)

text \<open>
  \<^bold>\<open>C40\<close> (safety). \<^verbatim>\<open>Database.DeepCopy\<close> returns, and the original and the copy share no
  memory: afterwards the original still stands for the same resource whatever is written
  to the memory of the copy, its PostgreSQL and MySQL configurations behind pointers
  included, and the copy whatever is written to the memory of the original.
\<close>

theorem Database_DeepCopy_independent:
  assumes "copier vm rm (ObjectMeta_DeepCopyInto A)"
    and "pointer_val Database_kind (val_Database vm) h p = Some x"
    and "pointer_reach Database_kind (reach_Database rm) h p \<subseteq> {..<next_cell h}"
  shows "\<exists>p' h'. Database_DeepCopy A p h = (Returned p', h') \<and>
    (\<forall>h1. (\<forall>a. a \<notin> pointer_reach Database_kind (reach_Database rm) h' p' \<longrightarrow> cells h1 a = cells h' a) \<longrightarrow>
      pointer_val Database_kind (val_Database vm) h1 p = Some x) \<and>
    (\<forall>h2. (\<forall>a. a \<notin> pointer_reach Database_kind (reach_Database rm) h p \<longrightarrow> cells h2 a = cells h' a) \<longrightarrow>
      pointer_val Database_kind (val_Database vm) h2 p' = Some x)"
proof -
  note c = pointer_copier_of [OF copier_Database [OF assms(1)], of Database_kind "zero_Database A", OF kinds_ok(14)]
  obtain p' h' where run: "Database_DeepCopy A p h = (Returned p', h')"
    using copier.copies [OF c assms(2,3)] by (auto simp: Database_DeepCopy_def)
  note indep = copier.independent [OF c assms(2,3) run [unfolded Database_DeepCopy_def]]
  from run show ?thesis by (blast intro: indep)
qed

theorem Database_DeepCopy_independent_witness:
  "\<exists>p' h'. Database_DeepCopy demo_Apimachinery (Ptr 5 0) demo_memory = (Returned p', h') \<and>
    (\<forall>h1. (\<forall>a. a \<notin> pointer_reach Database_kind (reach_Database demo_meta_reach) h' p' \<longrightarrow> cells h1 a = cells h' a) \<longrightarrow>
      pointer_val Database_kind (val_Database demo_meta_val) h1 (Ptr 5 0) = Some (Some demo_database_value)) \<and>
    (\<forall>h2. (\<forall>a. a \<notin> pointer_reach Database_kind (reach_Database demo_meta_reach) demo_memory (Ptr 5 0) \<longrightarrow>
        cells h2 a = cells h' a) \<longrightarrow>
      pointer_val Database_kind (val_Database demo_meta_val) h2 p' = Some (Some demo_database_value))"
  by (rule Database_DeepCopy_independent [OF demo_meta_copier demo_database_val])
    (simp add: demo_database_reach)

lemma deep_copy_nil_iff: "fst (deep_copy K zero cp p h) = Returned nil_pointer \<longleftrightarrow> p = nil_pointer"
  by (auto simp: deep_copy_def go_new_def go_alloc_apply go_bind_def go_return_def
      split: prod.splits outcome.splits)

lemma object_of_copy:
  assumes "\<And>c c'. mk c \<noteq> nil_object \<and> (mk c = mk c' \<longleftrightarrow> c = c')"
  shows "(fst (go_bind (deep_copy K zero cp p) (\<lambda>c. if c \<noteq> nil_pointer then go_return (mk c) else go_return nil_object) h)
      = Returned nil_object \<longleftrightarrow> p = nil_pointer) \<and>
    fst (go_bind (deep_copy K zero cp p) (\<lambda>c. if c \<noteq> nil_pointer then go_return (mk c) else go_return nil_object) h)
      \<noteq> Returned (mk nil_pointer)"
  using deep_copy_nil_iff [of K zero cp p h] assms
  by (auto simp: go_bind_def go_return_def split: prod.splits outcome.splits) metis+

text \<open>
  \<^verbatim>\<open>DeepCopyObject\<close> of a nil pointer is the nil interface value, and only
  of a nil pointer; a typed nil pointer never gets into a \<^verbatim>\<open>runtime.Object\<close>. This for all six
  object types.
\<close>

lemma DeepCopyObject_nil:
  "(fst (User_DeepCopyObject A p h) = Returned nil_object \<longleftrightarrow> p = nil_pointer) \<and>
     fst (User_DeepCopyObject A p h) \<noteq> Returned (User_object nil_pointer) \<and>
   (fst (UserList_DeepCopyObject A p h) = Returned nil_object \<longleftrightarrow> p = nil_pointer) \<and>
     fst (UserList_DeepCopyObject A p h) \<noteq> Returned (UserList_object nil_pointer) \<and>
   (fst (Privileges_DeepCopyObject A p h) = Returned nil_object \<longleftrightarrow> p = nil_pointer) \<and>
     fst (Privileges_DeepCopyObject A p h) \<noteq> Returned (Privileges_object nil_pointer) \<and>
   (fst (PrivilegesList_DeepCopyObject A p h) = Returned nil_object \<longleftrightarrow> p = nil_pointer) \<and>
     fst (PrivilegesList_DeepCopyObject A p h) \<noteq> Returned (PrivilegesList_object nil_pointer) \<and>
   (fst (Database_DeepCopyObject A p h) = Returned nil_object \<longleftrightarrow> p = nil_pointer) \<and>
     fst (Database_DeepCopyObject A p h) \<noteq> Returned (Database_object nil_pointer) \<and>
   (fst (DatabaseList_DeepCopyObject A p h) = Returned nil_object \<longleftrightarrow> p = nil_pointer) \<and>
     fst (DatabaseList_DeepCopyObject A p h) \<noteq> Returned (DatabaseList_object nil_pointer)"
  unfolding User_DeepCopyObject_def User_DeepCopy_def UserList_DeepCopyObject_def UserList_DeepCopy_def
    Privileges_DeepCopyObject_def Privileges_DeepCopy_def PrivilegesList_DeepCopyObject_def
    PrivilegesList_DeepCopy_def Database_DeepCopyObject_def Database_DeepCopy_def
    DatabaseList_DeepCopyObject_def DatabaseList_DeepCopy_def
  by (intro conjI object_of_copy [THEN conjunct1] object_of_copy [THEN conjunct2]) simp_all

end
