(* ===== verification/Operator_Main.thy ===== *)
theory Operator_Main
  imports User_Controller
begin

text \<open>
  \<^verbatim>\<open>src/main.go\<close>, \<^verbatim>\<open>groupversion_info.go\<close> and the \<^verbatim>\<open>init\<close> functions of the resource
  types: the start of the process. The command line is parsed as the \<^verbatim>\<open>flag\<close> package of
  the standard library does it; scheme builders, zap, the manager and the controller
  builder are controller-runtime and client-go, and therefore a parameter. The process
  state holds what outlives a call: the registered flags, the variables they set, the
  scheme, the state of the libraries, and the log of \<^verbatim>\<open>setupLog\<close>.
\<close>

section \<open>The API group\<close>

record GroupVersion =
  gv_Group :: string
  gv_Version :: string

definition v1alpha1_GroupVersion :: GroupVersion where
  "v1alpha1_GroupVersion = \<lparr>gv_Group = ''databaseusersoperator.com'', gv_Version = ''v1alpha1''\<rparr>"

text \<open>An empty object, which stands for its Go type.\<close>

datatype ApiObject = NoDatabase | NoDatabaseList | NoPrivileges | NoPrivilegesList | NoUser | NoUserList | NoSecret

section \<open>The command line\<close>

text \<open>
  A registered flag: whether it may stand without a value, and its \<^verbatim>\<open>Set\<close> method, which
  changes the variable behind it.
\<close>

record 'v Flag =
  IsBoolFlag :: bool
  Flag_Set :: "string \<Rightarrow> 'v \<Rightarrow> error + 'v"

type_synonym 'v FlagSet = "(string \<times> 'v Flag) list"

definition strconv_ParseBool :: "string \<Rightarrow> bool option" where
  "strconv_ParseBool s =
     (if s \<in> {''1'', ''t'', ''T'', ''true'', ''TRUE'', ''True''} then Some True
      else if s \<in> {''0'', ''f'', ''F'', ''false'', ''FALSE'', ''False''} then Some False
      else None)"

text \<open>The part of a flag before the first equals sign, which is not its first character.\<close>

definition split_flag :: "string \<Rightarrow> string \<times> string option" where
  "split_flag s =
     (hd s # takeWhile (\<lambda>c. c \<noteq> CHR ''='') (tl s),
      case dropWhile (\<lambda>c. c \<noteq> CHR ''='') (tl s) of [] \<Rightarrow> None | _ # value \<Rightarrow> Some value)"

datatype flag_error = ErrHelp | BadFlag

text \<open>One round of the loop of \<^verbatim>\<open>flag.Parse\<close>: the end of the flags, an error, or one flag set.\<close>

datatype 'v parsed = NoFlag | FlagError flag_error | FlagSeen "string list" 'v

definition flag_set :: "'v Flag \<Rightarrow> string \<Rightarrow> string list \<Rightarrow> 'v \<Rightarrow> 'v parsed" where
  "flag_set fl x args v = (case Flag_Set fl x v of Inl e \<Rightarrow> FlagError BadFlag | Inr v' \<Rightarrow> FlagSeen args v')"

definition flag_parseOne :: "'v FlagSet \<Rightarrow> string \<Rightarrow> string list \<Rightarrow> 'v \<Rightarrow> 'v parsed" where
  "flag_parseOne F s args v =
     (if length s < 2 \<or> hd s \<noteq> CHR ''-'' \<or> s = ''--'' then NoFlag
      else
        let name = (if s ! 1 = CHR ''-'' then drop 2 s else drop 1 s) in
        if name = [] \<or> hd name = CHR ''-'' \<or> hd name = CHR ''='' then FlagError BadFlag
        else
          case split_flag name of (name, given) \<Rightarrow>
          (case map_of F name of
            None \<Rightarrow> FlagError (if name = ''help'' \<or> name = ''h'' then ErrHelp else BadFlag)
          | Some fl \<Rightarrow>
              (case given of
                Some x \<Rightarrow> flag_set fl x args v
              | None \<Rightarrow>
                  if IsBoolFlag fl then flag_set fl ''true'' args v
                  else (case args of [] \<Rightarrow> FlagError BadFlag | x # rest \<Rightarrow> flag_set fl x rest v))))"

lemma flag_parseOne_shorter: "flag_parseOne F s args v = FlagSeen rest v' \<Longrightarrow> length rest \<le> length args"
  by (auto simp: flag_parseOne_def flag_set_def Let_def split: if_splits prod.splits option.splits sum.splits list.splits)

function flag_Parse_args :: "'v FlagSet \<Rightarrow> string list \<Rightarrow> 'v \<Rightarrow> flag_error option \<times> 'v" where
  "flag_Parse_args F [] v = (None, v)"
| "flag_Parse_args F (s # args) v =
     (case flag_parseOne F s args v of
       NoFlag \<Rightarrow> (None, v)
     | FlagError e \<Rightarrow> (Some e, v)
     | FlagSeen rest v' \<Rightarrow> flag_Parse_args F rest v')"
  by pat_completeness auto
termination
  by (relation "measure (\<lambda>(F, args, v). length args)") (auto dest: flag_parseOne_shorter)

text \<open>\<^verbatim>\<open>flag.CommandLine\<close> exits the process on an error.\<close>

fun flag_exit_code :: "flag_error \<Rightarrow> int" where
  "flag_exit_code ErrHelp = 0"
| "flag_exit_code BadFlag = 2"

section \<open>The process and its libraries\<close>

text \<open>The variables behind the flags; \<open>library_options\<close> are those of zap and client-go.\<close>

record 'o Variables =
  metricsAddr :: string
  enableLeaderElection :: bool
  probeAddr :: string
  library_options :: 'o

record 's ManagerOptions =
  mgr_Scheme :: 's
  MetricsBindAddress :: string
  mgr_Port :: int
  HealthProbeBindAddress :: string
  LeaderElection :: bool
  LeaderElectionID :: string

text \<open>What \<^verbatim>\<open>ctrl.NewControllerManagedBy\<close> is told: the watched type and the owned ones.\<close>

record Controller =
  For_object :: ApiObject
  Owns_objects :: "ApiObject list"

datatype Checker = healthz_Ping

record ('o, 's, 'm) Process =
  formal :: "'o Variables FlagSet"
  variables :: "'o Variables"
  scheme :: 's
  runtime :: 'm
  setupLog :: "string list"

type_synonym ('k, 'd) reconcile = "NamespacedName \<Rightarrow> (('k, 'd) World, error option) go"

record ('o, 's, 'b, 'c, 'm, 'k, 'd) Runtime =
  Builder_new :: "GroupVersion \<Rightarrow> 'b"
  Builder_Register :: "ApiObject list \<Rightarrow> 'b \<Rightarrow> 'b"
  Builder_AddToScheme :: "'b \<Rightarrow> 's \<Rightarrow> error option \<times> 's"
  clientgoscheme_AddToScheme :: "'s \<Rightarrow> error option \<times> 's"
  zap_Development :: "bool \<Rightarrow> 'o \<Rightarrow> 'o"
  zap_flags :: "'o Variables FlagSet"
  ctrl_SetLogger :: "'o \<Rightarrow> 'm \<Rightarrow> 'm"
  ctrl_GetConfigOrDie :: "'o \<Rightarrow> 'm \<Rightarrow> (int + 'c) \<times> 'm"
  ctrl_NewManager :: "'c \<Rightarrow> 's ManagerOptions \<Rightarrow> 'm \<Rightarrow> error option \<times> 'm"
  mgr_GetClient :: "'m \<Rightarrow> 'k Client"
  Builder_Complete :: "Controller \<Rightarrow> ('k, 'd) reconcile \<Rightarrow> 'm \<Rightarrow> error option \<times> 'm"
  mgr_AddHealthzCheck :: "string \<Rightarrow> Checker \<Rightarrow> 'm \<Rightarrow> error option \<times> 'm"
  mgr_AddReadyzCheck :: "string \<Rightarrow> Checker \<Rightarrow> 'm \<Rightarrow> error option \<times> 'm"
  mgr_Start :: "'m \<Rightarrow> error option \<times> 'm"

text \<open>Steps that change one part of the process.\<close>

definition on_runtime :: "('m \<Rightarrow> 'a \<times> 'm) \<Rightarrow> (('o, 's, 'm) Process, 'a) go" where
  "on_runtime f = (\<lambda>p. case f (runtime p) of (a, m) \<Rightarrow> (Returned a, p\<lparr>runtime := m\<rparr>))"

definition setupLog_write :: "string \<Rightarrow> (('o, 's, 'm) Process, unit) go" where
  "setupLog_write msg = go_modify (\<lambda>p. p\<lparr>setupLog := setupLog p @ [msg]\<rparr>)"

text \<open>Registering a flag sets its variable to the default; a second flag of a name panics.\<close>

definition flag_Var :: "string \<Rightarrow> 'o Variables Flag \<Rightarrow> (('o, 's, 'm) Process, unit) go" where
  "flag_Var name fl = (\<lambda>p.
     if map_of (formal p) name = None then (Returned (), p\<lparr>formal := (name, fl) # formal p\<rparr>)
     else (Panicked, p))"

definition flag_StringVar ::
  "(string \<Rightarrow> 'o Variables \<Rightarrow> 'o Variables) \<Rightarrow> string \<Rightarrow> string \<Rightarrow> (('o, 's, 'm) Process, unit) go" where
  "flag_StringVar assign name dflt =
     go_bind (go_modify (\<lambda>p. p\<lparr>variables := assign dflt (variables p)\<rparr>)) (\<lambda>_.
     flag_Var name \<lparr>IsBoolFlag = False, Flag_Set = \<lambda>x v. Inr (assign x v)\<rparr>)"

definition flag_BoolVar ::
  "(bool \<Rightarrow> 'o Variables \<Rightarrow> 'o Variables) \<Rightarrow> string \<Rightarrow> bool \<Rightarrow> (('o, 's, 'm) Process, unit) go" where
  "flag_BoolVar assign name dflt =
     go_bind (go_modify (\<lambda>p. p\<lparr>variables := assign dflt (variables p)\<rparr>)) (\<lambda>_.
     flag_Var name \<lparr>IsBoolFlag = True, Flag_Set = \<lambda>x v.
       case strconv_ParseBool x of None \<Rightarrow> Inl (ErrorString ''parse error'') | Some b \<Rightarrow> Inr (assign b v)\<rparr>)"

primrec zap_BindFlags :: "'o Variables FlagSet \<Rightarrow> (('o, 's, 'm) Process, unit) go" where
  "zap_BindFlags [] = go_return ()"
| "zap_BindFlags (f # fs) = go_bind (flag_Var (fst f) (snd f)) (\<lambda>_. zap_BindFlags fs)"

text \<open>\<^verbatim>\<open>flag.Parse()\<close>: the exit code of the process if it ends here.\<close>

definition flag_Parse :: "string list \<Rightarrow> (('o, 's, 'm) Process, int option) go" where
  "flag_Parse args = (\<lambda>p. case flag_Parse_args (formal p) args (variables p) of
     (res, v) \<Rightarrow> (Returned (map_option flag_exit_code res), p\<lparr>variables := v\<rparr>))"

section \<open>groupversion\_info.go and the init functions of the types\<close>

definition v1alpha1_SchemeBuilder ::
  "('o, 's, 'b, 'c, 'm, 'k, 'd) Runtime \<Rightarrow> 'b" where
  "v1alpha1_SchemeBuilder R = Builder_new R v1alpha1_GroupVersion"

definition database_types_init :: "('o, 's, 'b, 'c, 'm, 'k, 'd) Runtime \<Rightarrow> 'b \<Rightarrow> 'b" where
  "database_types_init R b = Builder_Register R [NoDatabase, NoDatabaseList] b"

definition privileges_types_init :: "('o, 's, 'b, 'c, 'm, 'k, 'd) Runtime \<Rightarrow> 'b \<Rightarrow> 'b" where
  "privileges_types_init R b = Builder_Register R [NoPrivileges, NoPrivilegesList] b"

definition user_types_init :: "('o, 's, 'b, 'c, 'm, 'k, 'd) Runtime \<Rightarrow> 'b \<Rightarrow> 'b" where
  "user_types_init R b = Builder_Register R [NoUser, NoUserList] b"

definition v1alpha1_AddToScheme ::
  "('o, 's, 'b, 'c, 'm, 'k, 'd) Runtime \<Rightarrow> 's \<Rightarrow> error option \<times> 's" where
  "v1alpha1_AddToScheme R =
     Builder_AddToScheme R
       (user_types_init R (privileges_types_init R (database_types_init R (v1alpha1_SchemeBuilder R))))"

section \<open>main.go\<close>

text \<open>\<^verbatim>\<open>utilruntime.Must\<close> panics on an error.\<close>

definition utilruntime_Must :: "('s \<Rightarrow> error option \<times> 's) \<Rightarrow> (('o, 's, 'm) Process, unit) go" where
  "utilruntime_Must f = (\<lambda>p. case f (scheme p) of
     (None, s) \<Rightarrow> (Returned (), p\<lparr>scheme := s\<rparr>)
   | (Some e, s) \<Rightarrow> (Panicked, p\<lparr>scheme := s\<rparr>))"

definition main_init :: "('o, 's, 'b, 'c, 'm, 'k, 'd) Runtime \<Rightarrow> (('o, 's, 'm) Process, unit) go" where
  "main_init R =
     go_bind (utilruntime_Must (clientgoscheme_AddToScheme R)) (\<lambda>_.
     utilruntime_Must (v1alpha1_AddToScheme R))"

text \<open>
  \<^verbatim>\<open>if err != nil { setupLog.Error(err, msg); os.Exit(1) }\<close> in front of \<open>k\<close>. \<^verbatim>\<open>main\<close> defers
  nothing, so an exit is a return of the exit code; the end of \<^verbatim>\<open>main\<close> is exit code 0.
\<close>

definition exit_on :: "string \<Rightarrow> (('o, 's, 'm) Process, error option) go \<Rightarrow>
    (('o, 's, 'm) Process, int) go \<Rightarrow> (('o, 's, 'm) Process, int) go" where
  "exit_on msg m k = go_bind m (\<lambda>err.
     case err of
       Some e \<Rightarrow> go_bind (setupLog_write (msg @ '': '' @ error_Error e)) (\<lambda>_. go_return 1)
     | None \<Rightarrow> k)"

definition main_flags :: "('o, 's, 'b, 'c, 'm, 'k, 'd) Runtime \<Rightarrow> (('o, 's, 'm) Process, unit) go" where
  "main_flags R =
     go_bind (flag_StringVar (\<lambda>x v. v\<lparr>metricsAddr := x\<rparr>) ''metrics-bind-address'' '':8080'') (\<lambda>_.
     go_bind (flag_StringVar (\<lambda>x v. v\<lparr>probeAddr := x\<rparr>) ''health-probe-bind-address'' '':8081'') (\<lambda>_.
     go_bind (flag_BoolVar (\<lambda>x v. v\<lparr>enableLeaderElection := x\<rparr>) ''leader-elect'' False) (\<lambda>_.
     go_bind (go_modify (\<lambda>p. p\<lparr>variables := (variables p)
         \<lparr>library_options := zap_Development R True (library_options (variables p))\<rparr>\<rparr>)) (\<lambda>_.
     zap_BindFlags (zap_flags R)))))"

definition main_options :: "('o, 's, 'm) Process \<Rightarrow> 's ManagerOptions" where
  "main_options p = \<lparr>
     mgr_Scheme = scheme p,
     MetricsBindAddress = metricsAddr (variables p),
     mgr_Port = 9443,
     HealthProbeBindAddress = probeAddr (variables p),
     LeaderElection = enableLeaderElection (variables p),
     LeaderElectionID = ''54429e69.databaseusersoperator.com''\<rparr>"

definition UserReconciler_SetupWithManager ::
  "('o, 's, 'b, 'c, 'm, 'k, 'd) Runtime \<Rightarrow> ('k, 'd) UserReconciler \<Rightarrow> (('o, 's, 'm) Process, error option) go" where
  "UserReconciler_SetupWithManager R r =
     on_runtime (Builder_Complete R \<lparr>For_object = NoUser, Owns_objects = [NoSecret]\<rparr> (UserReconciler_Reconcile r))"

definition main_manager ::
  "('o, 's, 'b, 'c, 'm, 'k, 'd) Runtime \<Rightarrow> 'd Sqlx \<Rightarrow> Crypto \<Rightarrow> (URL \<Rightarrow> error + string) \<Rightarrow> 'c \<Rightarrow>
     (('o, 's, 'm) Process, int) go" where
  "main_manager R X K G config =
     exit_on ''unable to start manager''
       (go_bind (go_get main_options) (\<lambda>opts. on_runtime (ctrl_NewManager R config opts)))
     (exit_on ''unable to create controller''
       (go_bind (go_get (\<lambda>p. mgr_GetClient R (runtime p))) (\<lambda>E.
          UserReconciler_SetupWithManager R (manager_reconciler X K G E)))
     (exit_on ''unable to set up health check'' (on_runtime (mgr_AddHealthzCheck R ''healthz'' healthz_Ping))
     (exit_on ''unable to set up ready check'' (on_runtime (mgr_AddReadyzCheck R ''readyz'' healthz_Ping))
     (go_bind (setupLog_write ''starting manager'') (\<lambda>_.
      exit_on ''problem running manager'' (on_runtime (mgr_Start R)) (go_return 0))))))"

definition main_main ::
  "('o, 's, 'b, 'c, 'm, 'k, 'd) Runtime \<Rightarrow> 'd Sqlx \<Rightarrow> Crypto \<Rightarrow> (URL \<Rightarrow> error + string) \<Rightarrow> string list \<Rightarrow>
     (('o, 's, 'm) Process, int) go" where
  "main_main R X K G args =
     go_bind (main_flags R) (\<lambda>_.
     go_bind (flag_Parse args) (\<lambda>exit.
     case exit of
       Some code \<Rightarrow> go_return code
     | None \<Rightarrow>
         go_bind (go_get (\<lambda>p. library_options (variables p))) (\<lambda>opts.
         go_bind (on_runtime (\<lambda>m. ((), ctrl_SetLogger R opts m))) (\<lambda>_.
         go_bind (on_runtime (ctrl_GetConfigOrDie R opts)) (\<lambda>res.
         case res of
           Inl code \<Rightarrow> go_return code
         | Inr config \<Rightarrow> main_manager R X K G config)))))"

text \<open>The process: the \<^verbatim>\<open>init\<close> function, then \<^verbatim>\<open>main\<close>.\<close>

definition operator_process ::
  "('o, 's, 'b, 'c, 'm, 'k, 'd) Runtime \<Rightarrow> 'd Sqlx \<Rightarrow> Crypto \<Rightarrow> (URL \<Rightarrow> error + string) \<Rightarrow> string list \<Rightarrow>
     (('o, 's, 'm) Process, int) go" where
  "operator_process R X K G args = go_bind (main_init R) (\<lambda>_. main_main R X K G args)"

end
