(* ===== verification/Operator_Main_Properties.thy ===== *)
theory Operator_Main_Properties
  imports Operator_Main Mem_Cluster
begin

text \<open>
  What the start of the process guarantees: a manager only starts once everything is
  registered with it, and it starts with the options of the command line.
\<close>

section \<open>Steps of the process\<close>

lemma on_runtime_apply [go_simps]:
  "on_runtime f p = (Returned (fst (f (runtime p))), p\<lparr>runtime := snd (f (runtime p))\<rparr>)"
  by (simp add: on_runtime_def split: prod.splits)

lemma setupLog_write_apply [go_simps]:
  "setupLog_write msg p = (Returned (), p\<lparr>setupLog := setupLog p @ [msg]\<rparr>)"
  by (simp add: setupLog_write_def go_simps)

text \<open>The check of an error in \<^verbatim>\<open>main\<close>: the process exits with 1, or goes on.\<close>

lemma exit_on_runtime:
  "exit_on msg (on_runtime f) k p =
     (case f (runtime p) of
       (Some e, m) \<Rightarrow> (Returned 1, p\<lparr>runtime := m, setupLog := setupLog p @ [msg @ '': '' @ error_Error e]\<rparr>)
     | (None, m) \<Rightarrow> k (p\<lparr>runtime := m\<rparr>))"
  by (simp add: exit_on_def go_bind_def go_return_def on_runtime_def setupLog_write_apply split: prod.split option.split)

lemma exit_on_get:
  "exit_on msg (go_bind (go_get g) h) k p = exit_on msg (h (g p)) k p"
  by (simp add: exit_on_def go_bind_def go_get_def)

section \<open>What a started manager serves\<close>

record ('s, 'k, 'd) Serving =
  served_options :: "'s ManagerOptions"
  served_controllers :: "(Controller \<times> ('k, 'd) reconcile) list"
  served_healthz :: "(string \<times> Checker) list"
  served_readyz :: "(string \<times> Checker) list"

text \<open>
  The documented behaviour of the manager: creating one fixes its options, each successful
  registration adds to what it serves, and only \<^verbatim>\<open>Start\<close> starts it.
\<close>

definition registers ::
  "('m \<Rightarrow> ('s, 'k, 'd) Serving) \<Rightarrow> ('m \<Rightarrow> bool) \<Rightarrow> ('m \<Rightarrow> 'k Client) \<Rightarrow>
     (('s, 'k, 'd) Serving \<Rightarrow> ('s, 'k, 'd) Serving) \<Rightarrow> ('m \<Rightarrow> error option \<times> 'm) \<Rightarrow> bool" where
  "registers serves started client add f \<longleftrightarrow> (\<forall>m. started (snd (f m)) = started m \<and> client (snd (f m)) = client m \<and>
     (fst (f m) = None \<longrightarrow> serves (snd (f m)) = add (serves m)))"

definition runtime_tracked ::
  "('o, 's, 'b, 'c, 'm, 'k, 'd) Runtime \<Rightarrow> ('m \<Rightarrow> ('s, 'k, 'd) Serving) \<Rightarrow> ('m \<Rightarrow> bool) \<Rightarrow> bool" where
  "runtime_tracked R serves started \<longleftrightarrow>
     (\<forall>opts m. started (ctrl_SetLogger R opts m) = started m) \<and>
     (\<forall>opts m. started (snd (ctrl_GetConfigOrDie R opts m)) = started m) \<and>
     (\<forall>c opts m. started (snd (ctrl_NewManager R c opts m)) = started m \<and>
        (fst (ctrl_NewManager R c opts m) = None \<longrightarrow> serves (snd (ctrl_NewManager R c opts m)) =
           \<lparr>served_options = opts, served_controllers = [], served_healthz = [], served_readyz = []\<rparr>)) \<and>
     (\<forall>c f. registers serves started (mgr_GetClient R)
        (\<lambda>s. s\<lparr>served_controllers := served_controllers s @ [(c, f)]\<rparr>) (Builder_Complete R c f)) \<and>
     (\<forall>n c. registers serves started (mgr_GetClient R)
        (\<lambda>s. s\<lparr>served_healthz := served_healthz s @ [(n, c)]\<rparr>) (mgr_AddHealthzCheck R n c)) \<and>
     (\<forall>n c. registers serves started (mgr_GetClient R)
        (\<lambda>s. s\<lparr>served_readyz := served_readyz s @ [(n, c)]\<rparr>) (mgr_AddReadyzCheck R n c)) \<and>
     (\<forall>m. serves (snd (mgr_Start R m)) = serves m \<and> mgr_GetClient R (snd (mgr_Start R m)) = mgr_GetClient R m)"

definition operator_serving ::
  "'d Sqlx \<Rightarrow> Crypto \<Rightarrow> (URL \<Rightarrow> error + string) \<Rightarrow> 'k Client \<Rightarrow> 's ManagerOptions \<Rightarrow> ('s, 'k, 'd) Serving" where
  "operator_serving X K G E opts = \<lparr>
     served_options = opts,
     served_controllers = [(\<lparr>For_object = NoUser, Owns_objects = [NoSecret]\<rparr>,
        UserReconciler_Reconcile (manager_reconciler X K G E))],
     served_healthz = [(''healthz'', healthz_Ping)],
     served_readyz = [(''readyz'', healthz_Ping)]\<rparr>"

lemma registersD:
  assumes "registers serves started client add f"
  shows "f m = (r, m') \<Longrightarrow> started m' = started m"
    and "f m = (r, m') \<Longrightarrow> client m' = client m"
    and "f m = (None, m') \<Longrightarrow> serves m' = add (serves m)"
proof -
  note reg = assms [unfolded registers_def, rule_format, of m]
  from reg show "f m = (r, m') \<Longrightarrow> started m' = started m" "f m = (r, m') \<Longrightarrow> client m' = client m"
    "f m = (None, m') \<Longrightarrow> serves m' = add (serves m)"
    by auto
qed

lemma runtime_trackedD:
  assumes "runtime_tracked R serves started"
  shows "started (ctrl_SetLogger R opts m) = started m"
    and "started (snd (ctrl_GetConfigOrDie R opts m)) = started m"
    and "ctrl_NewManager R c mo m = (e, m') \<Longrightarrow> started m' = started m"
    and "ctrl_NewManager R c mo m = (e, m') \<Longrightarrow> e = None \<Longrightarrow> serves m' =
      \<lparr>served_options = mo, served_controllers = [], served_healthz = [], served_readyz = []\<rparr>"
    and "registers serves started (mgr_GetClient R)
      (\<lambda>s. s\<lparr>served_controllers := served_controllers s @ [(ct, f)]\<rparr>) (Builder_Complete R ct f)"
    and "registers serves started (mgr_GetClient R)
      (\<lambda>s. s\<lparr>served_healthz := served_healthz s @ [(n, k)]\<rparr>) (mgr_AddHealthzCheck R n k)"
    and "registers serves started (mgr_GetClient R)
      (\<lambda>s. s\<lparr>served_readyz := served_readyz s @ [(n, k)]\<rparr>) (mgr_AddReadyzCheck R n k)"
    and "mgr_Start R m = (e, m') \<Longrightarrow> serves m' = serves m"
    and "mgr_Start R m = (e, m') \<Longrightarrow> mgr_GetClient R m' = mgr_GetClient R m"
proof -
  note tracked = assms [unfolded runtime_tracked_def]
  from tracked show "started (ctrl_SetLogger R opts m) = started m" by blast
  from tracked show "started (snd (ctrl_GetConfigOrDie R opts m)) = started m" by blast
  from tracked have new: "started (snd (ctrl_NewManager R c mo m)) = started m \<and>
      (fst (ctrl_NewManager R c mo m) = None \<longrightarrow> serves (snd (ctrl_NewManager R c mo m)) =
        \<lparr>served_options = mo, served_controllers = [], served_healthz = [], served_readyz = []\<rparr>)" by blast
  then show "ctrl_NewManager R c mo m = (e, m') \<Longrightarrow> started m' = started m"
    "ctrl_NewManager R c mo m = (e, m') \<Longrightarrow> e = None \<Longrightarrow> serves m' =
      \<lparr>served_options = mo, served_controllers = [], served_healthz = [], served_readyz = []\<rparr>" by simp_all
  from tracked have start: "serves (snd (mgr_Start R m)) = serves m \<and> mgr_GetClient R (snd (mgr_Start R m)) = mgr_GetClient R m"
    by blast
  then show "mgr_Start R m = (e, m') \<Longrightarrow> serves m' = serves m"
    "mgr_Start R m = (e, m') \<Longrightarrow> mgr_GetClient R m' = mgr_GetClient R m" by simp_all
qed (use assms in \<open>unfold runtime_tracked_def, blast+\<close>)

lemma main_manager_serves:
  assumes R: "runtime_tracked R serves started"
    and run: "main_manager R X K G config p = (r, p')"
    and new: "\<not> started (runtime p)" "started (runtime p')"
  shows "serves (runtime p') = operator_serving X K G (mgr_GetClient R (runtime p')) (main_options p)
    \<and> (r = Returned 0 \<or> r = Returned 1)"
proof -
  note tracked = R [unfolded runtime_tracked_def]
  let ?C = "\<lparr>For_object = NoUser, Owns_objects = [NoSecret]\<rparr>"
  obtain e1 m1 where m1: "ctrl_NewManager R config (main_options p) (runtime p) = (e1, m1)" by fastforce
  let ?rec = "UserReconciler_Reconcile (manager_reconciler X K G (mgr_GetClient R m1))"
  obtain e2 m2 where m2: "Builder_Complete R ?C ?rec m1 = (e2, m2)" by fastforce
  obtain e3 m3 where m3: "mgr_AddHealthzCheck R ''healthz'' healthz_Ping m2 = (e3, m3)" by fastforce
  obtain e4 m4 where m4: "mgr_AddReadyzCheck R ''readyz'' healthz_Ping m3 = (e4, m4)" by fastforce
  obtain e5 m5 where m5: "mgr_Start R m4 = (e5, m5)" by fastforce
  have s1: "\<not> started m1" "e1 = None \<Longrightarrow> serves m1 =
      \<lparr>served_options = main_options p, served_controllers = [], served_healthz = [], served_readyz = []\<rparr>"
    using runtime_trackedD(3,4) [OF R m1] new(1) by simp_all
  note complete = runtime_trackedD(5) [OF R, of ?C ?rec]
    and health = runtime_trackedD(6) [OF R, of "''healthz''" healthz_Ping]
    and ready = runtime_trackedD(7) [OF R, of "''readyz''" healthz_Ping]
  have s2: "\<not> started m2" "\<not> started m3" "\<not> started m4"
    using s1(1) registersD(1) [OF complete m2] registersD(1) [OF health m3] registersD(1) [OF ready m4] by simp_all
  note steps = main_manager_def exit_on_get UserReconciler_SetupWithManager_def exit_on_runtime m1 m2 m3 m4 m5
    go_return_def go_bind_def [of "setupLog_write _"] setupLog_write_apply main_options_def
  have "e1 = None" "e2 = None" "e3 = None" "e4 = None" and r: "runtime p' = m5" "r = Returned 0 \<or> r = Returned 1"
    using run new(2) s1(1) s2
    by (auto simp: steps m1 [unfolded main_options_def] split: option.splits)
  with m2 m3 m4 have s5: "serves m4 = operator_serving X K G (mgr_GetClient R m1) (main_options p)"
    using registersD(3) [OF complete, of m1 m2] registersD(3) [OF health, of m2 m3] registersD(3) [OF ready, of m3 m4]
    by (simp add: s1(2) operator_serving_def)
  have "mgr_GetClient R m4 = mgr_GetClient R m1"
    using registersD(2) [OF complete m2] registersD(2) [OF health m3] registersD(2) [OF ready m4] by simp
  with s5 show ?thesis
    using r runtime_trackedD(8,9) [OF R m5] by simp
qed

section \<open>Before the manager\<close>

lemma main_keeps_runtime:
  "keeps runtime (main_init R)" "keeps runtime (main_flags R)" "keeps runtime (flag_Parse args)"
proof -
  have must: "keeps runtime (utilruntime_Must f)" for f
    by (simp add: keeps_def utilruntime_Must_def split: prod.split option.split)
  show "keeps runtime (main_init R)" unfolding main_init_def by (intro inv_intros must)
  have var: "keeps runtime (flag_Var n fl)" for n fl by (simp add: keeps_def flag_Var_def)
  have mod: "keeps runtime (go_modify (\<lambda>p. p\<lparr>variables := g p\<rparr>))" for g by (simp add: keeps_def go_modify_def)
  have zap: "keeps runtime (zap_BindFlags fs)" for fs
    by (induction fs) (auto intro!: inv_intros var)
  show "keeps runtime (main_flags R)"
    unfolding main_flags_def flag_StringVar_def flag_BoolVar_def by (intro inv_intros var mod zap)
  show "keeps runtime (flag_Parse args)"
    by (simp add: keeps_def flag_Parse_def split: prod.split)
qed

text \<open>
  The variables as \<^verbatim>\<open>main\<close> declares them, before the command line is parsed: the flags of the
  libraries are registered without touching them.
\<close>

lemma zap_BindFlags_variables: "keeps variables (zap_BindFlags fs)"
proof -
  have var: "keeps variables (flag_Var n fl)" for n fl by (simp add: keeps_def flag_Var_def)
  show ?thesis by (induction fs) (auto intro!: inv_intros var)
qed

lemma declared_flag:
  "go_bind (flag_StringVar assign n d) f p = (Returned y, q) \<Longrightarrow>
     \<exists>p1. f () p1 = (Returned y, q) \<and> variables p1 = assign d (variables p)"
  "go_bind (flag_BoolVar assign' n b) f p = (Returned y, q) \<Longrightarrow>
     \<exists>p1. f () p1 = (Returned y, q) \<and> variables p1 = assign' b (variables p)"
  by (auto simp: flag_StringVar_def flag_BoolVar_def flag_Var_def go_bind_def go_modify_def split: if_splits)

lemma main_flags_variables:
  assumes "main_flags R p = (Returned (), q)"
  shows "metricsAddr (variables q) = '':8080'' \<and> probeAddr (variables q) = '':8081'' \<and> \<not> enableLeaderElection (variables q)"
  using assms unfolding main_flags_def
  by (elim declared_flag [THEN exE] conjE)
    (auto simp: go_bind_def go_modify_def dest!: keepsD [OF zap_BindFlags_variables])

text \<open>A run of the process that reaches the manager.\<close>

lemma operator_process_cases:
  assumes run: "operator_process R X K G args p = (r, p')" and R: "runtime_tracked R serves started"
  obtains (stopped) "started (runtime p') = started (runtime p)"
  | (managed) config q v m where "go_bind (main_init R) (\<lambda>_. main_flags R) p = (Returned (), q)"
      "flag_Parse_args (formal q) args (variables q) = (None, v)"
      "main_manager R X K G config (q\<lparr>variables := v, runtime := m\<rparr>) = (r, p')" "started m = started (runtime p)"
proof -
  obtain r1 p1 where i: "main_init R p = (r1, p1)" by fastforce
  obtain r2 p2 where f: "main_flags R p1 = (r2, p2)" by fastforce
  obtain e v where a: "flag_Parse_args (formal p2) args (variables p2) = (e, v)" by fastforce
  let ?opts = "library_options v" and ?p3 = "p2\<lparr>variables := v\<rparr>"
  obtain r4 m4 where c: "ctrl_GetConfigOrDie R ?opts (ctrl_SetLogger R ?opts (runtime p2)) = (r4, m4)" by fastforce
  have same: "runtime p1 = runtime p" "runtime p2 = runtime p"
    using keepsD [OF main_keeps_runtime(1) i] keepsD [OF main_keeps_runtime(2) f] by simp_all
  have m4: "started m4 = started (runtime p)"
    using runtime_trackedD(1) [OF R, of ?opts "runtime p2"]
      runtime_trackedD(2) [OF R, of ?opts "ctrl_SetLogger R ?opts (runtime p2)"] c same by simp
  show thesis
  proof (cases "started (runtime p') = started (runtime p)")
    case True
    then show thesis by (rule stopped)
  next
    case False
    then have "r1 = Returned () \<and> r2 = Returned () \<and> e = None \<and>
        (\<exists>config. r4 = Inr config \<and> main_manager R X K G config (?p3\<lparr>runtime := m4\<rparr>) = (r, p'))"
      using run i f a c same m4
      by (auto simp: operator_process_def main_main_def go_bind_def go_return_def go_get_def on_runtime_def flag_Parse_def
          split: option.splits outcome.splits sum.splits)
    with m4 i f a show thesis by (auto simp: go_bind_def intro: managed)
  qed
qed

text \<open>
  \<^bold>\<open>C17\<close> (safety). The manager only starts once everything is registered: in a process in which
  it started on the command line \<open>args\<close>, both initialisations went through, the flags of \<open>args\<close>
  were parsed without error over the defaults \<^verbatim>\<open>:8080\<close>, \<^verbatim>\<open>:8081\<close> and no leader election, and what
  the manager serves is: the options with the values this parse gave, one controller for \<^verbatim>\<open>User\<close>
  resources and the secrets they own whose \<^verbatim>\<open>Reconcile\<close> is the one of this development over the
  manager's client, and the two probes. The process exits with 0 or 1.
\<close>

theorem main_starts_complete_manager:
  assumes "runtime_tracked R serves started"
    and "operator_process R X K G args p = (r, p')"
    and "\<not> started (runtime p)" and "started (runtime p')"
  shows "\<exists>q v. go_bind (main_init R) (\<lambda>_. main_flags R) p = (Returned (), q)
    \<and> metricsAddr (variables q) = '':8080'' \<and> probeAddr (variables q) = '':8081'' \<and> \<not> enableLeaderElection (variables q)
    \<and> flag_Parse_args (formal q) args (variables q) = (None, v)
    \<and> serves (runtime p') = operator_serving X K G (mgr_GetClient R (runtime p'))
        \<lparr>mgr_Scheme = scheme q, MetricsBindAddress = metricsAddr v, mgr_Port = 9443, HealthProbeBindAddress = probeAddr v,
         LeaderElection = enableLeaderElection v, LeaderElectionID = ''54429e69.databaseusersoperator.com''\<rparr>
    \<and> (r = Returned 0 \<or> r = Returned 1)"
  using assms(2,1)
proof (cases rule: operator_process_cases)
  case stopped
  with assms(3,4) show ?thesis by simp
next
  case (managed config q v m)
  then have "\<not> started (runtime (q\<lparr>variables := v, runtime := m\<rparr>))" using assms(3) by simp
  note served = main_manager_serves [OF assms(1) managed(3) this assms(4)]
  from managed(1) obtain p1 where "main_flags R p1 = (Returned (), q)"
    by (auto simp: go_bind_def split: prod.splits outcome.splits)
  with managed(1,2) served show ?thesis by (auto simp: main_options_def main_flags_variables)
qed

section \<open>A manager in memory\<close>

text \<open>Libraries whose manager accepts everything and remembers what it serves.\<close>

record Demo_Manager =
  demo_serves :: "(ApiObject list, Cluster, Server) Serving"
  demo_started :: bool

type_synonym Demo_Runtime =
  "(unit, ApiObject list, ApiObject list, unit, Demo_Manager, Cluster, Server) Runtime"

definition demo_runtime :: Demo_Runtime where
  "demo_runtime = \<lparr>
     Builder_new = (\<lambda>gv. []),
     Builder_Register = (\<lambda>os b. b @ os),
     Builder_AddToScheme = (\<lambda>b s. (None, s @ b)),
     clientgoscheme_AddToScheme = (\<lambda>s. (None, s @ [NoSecret])),
     zap_Development = (\<lambda>b opts. opts),
     zap_flags = [(''zap-devel'', \<lparr>IsBoolFlag = True, Flag_Set = \<lambda>x v. Inr v\<rparr>)],
     ctrl_SetLogger = (\<lambda>opts m. m),
     ctrl_GetConfigOrDie = (\<lambda>opts m. (Inr (), m)),
     ctrl_NewManager = (\<lambda>c opts m. (None, m\<lparr>demo_serves := \<lparr>served_options = opts, served_controllers = [],
        served_healthz = [], served_readyz = []\<rparr>\<rparr>)),
     mgr_GetClient = (\<lambda>m. mem_Client),
     Builder_Complete = (\<lambda>c f m. (None, m\<lparr>demo_serves := (demo_serves m)
        \<lparr>served_controllers := served_controllers (demo_serves m) @ [(c, f)]\<rparr>\<rparr>)),
     mgr_AddHealthzCheck = (\<lambda>n c m. (None, m\<lparr>demo_serves := (demo_serves m)
        \<lparr>served_healthz := served_healthz (demo_serves m) @ [(n, c)]\<rparr>\<rparr>)),
     mgr_AddReadyzCheck = (\<lambda>n c m. (None, m\<lparr>demo_serves := (demo_serves m)
        \<lparr>served_readyz := served_readyz (demo_serves m) @ [(n, c)]\<rparr>\<rparr>)),
     mgr_Start = (\<lambda>m. (None, m\<lparr>demo_started := True\<rparr>))\<rparr>"

lemma demo_runtime_tracked: "runtime_tracked demo_runtime demo_serves demo_started"
  by (simp add: runtime_tracked_def registers_def demo_runtime_def)

definition demo_process :: "(unit, ApiObject list, Demo_Manager) Process" where
  "demo_process = \<lparr>
     formal = [(''kubeconfig'', \<lparr>IsBoolFlag = False, Flag_Set = \<lambda>x v. Inr v\<rparr>)],
     variables = \<lparr>metricsAddr = [], enableLeaderElection = False, probeAddr = [], library_options = ()\<rparr>,
     scheme = [],
     runtime = \<lparr>demo_serves = \<lparr>served_options = \<lparr>mgr_Scheme = [], MetricsBindAddress = [], mgr_Port = 0,
        HealthProbeBindAddress = [], LeaderElection = False, LeaderElectionID = []\<rparr>,
        served_controllers = [], served_healthz = [], served_readyz = []\<rparr>, demo_started = False\<rparr>,
     setupLog = []\<rparr>"

definition demo_startup :: "int outcome \<times> (unit, ApiObject list, Demo_Manager) Process" where
  "demo_startup = operator_process demo_runtime mem_Sqlx no_Crypto mem_GenMysql [''-leader-elect''] demo_process"

lemma demo_flags:
  "\<exists>q. main_flags demo_runtime p = (Returned (), q)" if "formal p = formal demo_process"
  using that
  by (simp add: main_flags_def flag_StringVar_def flag_BoolVar_def flag_Var_def go_bind_def go_modify_def go_return_def
      demo_runtime_def demo_process_def)

lemma demo_startup_ends: "fst demo_startup = Returned 0 \<and> demo_started (runtime (snd demo_startup))
  \<and> LeaderElection (served_options (demo_serves (runtime (snd demo_startup))))"
  by (simp add: demo_startup_def operator_process_def main_init_def utilruntime_Must_def v1alpha1_AddToScheme_def
      main_main_def main_flags_def flag_StringVar_def flag_BoolVar_def flag_Var_def go_bind_def go_modify_def go_return_def
      go_get_def on_runtime_def flag_Parse_def flag_parseOne_def split_flag_def flag_set_def strconv_ParseBool_def
      main_manager_def exit_on_def setupLog_write_apply UserReconciler_SetupWithManager_def
      main_options_def demo_runtime_def demo_process_def)

theorem main_starts_complete_manager_witness:
  "\<exists>(q :: (unit, ApiObject list, Demo_Manager) Process) v. flag_Parse_args (formal q) [''-leader-elect''] (variables q) = (None, v) \<and> enableLeaderElection v \<and>
     served_options (demo_serves (runtime (snd demo_startup))) = \<lparr>mgr_Scheme = scheme q, MetricsBindAddress = metricsAddr v,
       mgr_Port = 9443, HealthProbeBindAddress = probeAddr v, LeaderElection = True,
       LeaderElectionID = ''54429e69.databaseusersoperator.com''\<rparr>"
proof -
  obtain r p' where run: "demo_startup = (r, p')" by fastforce
  have started: "demo_started (runtime p')" using demo_startup_ends by (simp add: run)
  have idle: "\<not> demo_started (runtime demo_process)" by (simp add: demo_process_def)
  have elects: "LeaderElection (served_options (demo_serves (runtime p')))" using demo_startup_ends by (simp add: run)
  from main_starts_complete_manager [OF demo_runtime_tracked run [unfolded demo_startup_def] idle started]
  obtain q :: "(unit, ApiObject list, Demo_Manager) Process" and v where parsed: "flag_Parse_args (formal q) [''-leader-elect''] (variables q) = (None, v)"
    and served: "demo_serves (runtime p') = operator_serving mem_Sqlx no_Crypto mem_GenMysql
       (mgr_GetClient demo_runtime (runtime p')) \<lparr>mgr_Scheme = scheme q, MetricsBindAddress = metricsAddr v,
       mgr_Port = 9443, HealthProbeBindAddress = probeAddr v, LeaderElection = enableLeaderElection v,
       LeaderElectionID = ''54429e69.databaseusersoperator.com''\<rparr>"
    by blast
  show ?thesis
  proof (intro exI conjI)
    show "flag_Parse_args (formal q) [''-leader-elect''] (variables q) = (None, v)" by (rule parsed)
    show "enableLeaderElection v" using elects served by (simp add: operator_serving_def)
  qed (use elects served in \<open>simp add: operator_serving_def run\<close>)
qed

section \<open>Flags\<close>

lemma flag_Var_formal:
  "flag_Var n fl p = (Returned (), p') \<Longrightarrow> map_of (formal p') = (map_of (formal p))(n \<mapsto> fl) \<and> map_of (formal p) n = None
     \<and> variables p' = variables p"
  by (auto simp: flag_Var_def split: if_splits)

text \<open>A flag stays registered while others are added.\<close>

definition still_registered :: "('o, 's, 'm) Process \<Rightarrow> ('o, 's, 'm) Process \<Rightarrow> bool" where
  "still_registered p q \<longleftrightarrow> (\<forall>n fl. map_of (formal p) n = Some fl \<longrightarrow> map_of (formal q) n = Some fl)"

lemma still_registered_trans: "still_registered p q \<Longrightarrow> still_registered q t \<Longrightarrow> still_registered p t"
  by (simp add: still_registered_def)

lemma flag_Var_registered:
  "flag_Var n fl p = (Returned (), q) \<Longrightarrow> map_of (formal q) n = Some fl \<and> still_registered p q"
  by (auto simp: still_registered_def flag_Var_def split: if_splits)

lemma flag_StringVar_registered:
  assumes "go_bind (flag_StringVar assign n dflt) k p = (Returned x, t)"
  obtains q where "k () q = (Returned x, t)" "still_registered p q"
    "map_of (formal q) n = Some \<lparr>IsBoolFlag = False, Flag_Set = \<lambda>x v. Inr (assign x v)\<rparr>"
  using assms flag_Var_registered
  by (fastforce simp: flag_StringVar_def go_bind_def go_modify_def still_registered_def split: prod.splits outcome.splits)

lemma flag_BoolVar_registered:
  assumes "go_bind (flag_BoolVar assign n dflt) k p = (Returned x, t)"
  obtains q where "k () q = (Returned x, t)" "still_registered p q"
    "map_of (formal q) n = Some \<lparr>IsBoolFlag = True, Flag_Set = \<lambda>x v.
       case strconv_ParseBool x of None \<Rightarrow> Inl (ErrorString ''parse error'') | Some b \<Rightarrow> Inr (assign b v)\<rparr>"
  using assms flag_Var_registered
  by (fastforce simp: flag_BoolVar_def go_bind_def go_modify_def still_registered_def split: prod.splits outcome.splits)

lemma zap_BindFlags_registered: "zap_BindFlags fs p = (Returned (), q) \<Longrightarrow> still_registered p q"
proof (induction fs arbitrary: p)
  case Nil
  then show ?case by (simp add: go_return_def still_registered_def)
next
  case (Cons f fs)
  then obtain t where "flag_Var (fst f) (snd f) p = (Returned (), t)" "zap_BindFlags fs t = (Returned (), q)"
    by (auto simp: go_bind_def split: prod.splits outcome.splits)
  with Cons.IH flag_Var_registered show ?case by (blast intro: still_registered_trans)
qed

text \<open>The flags of the operator itself, once they are registered.\<close>

lemma main_flags_formal:
  assumes "main_flags R p = (Returned (), t)"
  shows "map_of (formal t) ''metrics-bind-address'' =
      Some \<lparr>IsBoolFlag = False, Flag_Set = \<lambda>x v. Inr (v\<lparr>metricsAddr := x\<rparr>)\<rparr>"
    and "map_of (formal t) ''health-probe-bind-address'' =
      Some \<lparr>IsBoolFlag = False, Flag_Set = \<lambda>x v. Inr (v\<lparr>probeAddr := x\<rparr>)\<rparr>"
    and "map_of (formal t) ''leader-elect'' = Some \<lparr>IsBoolFlag = True, Flag_Set = \<lambda>x v.
       case strconv_ParseBool x of None \<Rightarrow> Inl (ErrorString ''parse error'') | Some b \<Rightarrow> Inr (v\<lparr>enableLeaderElection := b\<rparr>)\<rparr>"
proof -
  from assms obtain q1 q2 q3 where
    q1: "map_of (formal q1) ''metrics-bind-address'' =
      Some \<lparr>IsBoolFlag = False, Flag_Set = \<lambda>x v. Inr (v\<lparr>metricsAddr := x\<rparr>)\<rparr>" and
    s2: "still_registered q1 q2" and
    q2: "map_of (formal q2) ''health-probe-bind-address'' =
      Some \<lparr>IsBoolFlag = False, Flag_Set = \<lambda>x v. Inr (v\<lparr>probeAddr := x\<rparr>)\<rparr>" and
    s3: "still_registered q2 q3" and
    q3: "map_of (formal q3) ''leader-elect'' = Some \<lparr>IsBoolFlag = True, Flag_Set = \<lambda>x v.
       case strconv_ParseBool x of None \<Rightarrow> Inl (ErrorString ''parse error'') | Some b \<Rightarrow> Inr (v\<lparr>enableLeaderElection := b\<rparr>)\<rparr>" and
    q4: "zap_BindFlags (zap_flags R) (q3\<lparr>variables := (variables q3)
      \<lparr>library_options := zap_Development R True (library_options (variables q3))\<rparr>\<rparr>) = (Returned (), t)"
    unfolding main_flags_def
    by (elim flag_StringVar_registered flag_BoolVar_registered) (rule that, assumption+, simp add: go_bind_def go_modify_def)
  have s4: "still_registered q3 t"
    using zap_BindFlags_registered [OF q4] by (simp add: still_registered_def)
  from q1 q2 q3 s2 s3 s4 show
    "map_of (formal t) ''metrics-bind-address'' =
      Some \<lparr>IsBoolFlag = False, Flag_Set = \<lambda>x v. Inr (v\<lparr>metricsAddr := x\<rparr>)\<rparr>"
    "map_of (formal t) ''health-probe-bind-address'' =
      Some \<lparr>IsBoolFlag = False, Flag_Set = \<lambda>x v. Inr (v\<lparr>probeAddr := x\<rparr>)\<rparr>"
    "map_of (formal t) ''leader-elect'' = Some \<lparr>IsBoolFlag = True, Flag_Set = \<lambda>x v.
       case strconv_ParseBool x of None \<Rightarrow> Inl (ErrorString ''parse error'') | Some b \<Rightarrow> Inr (v\<lparr>enableLeaderElection := b\<rparr>)\<rparr>"
    unfolding still_registered_def by blast+
qed

text \<open>A flag with its value behind an equals sign.\<close>

lemma cut_at:
  "c \<notin> set n \<Longrightarrow> takeWhile (\<lambda>a. a \<noteq> c) (n @ c # x) = n"
  "c \<notin> set n \<Longrightarrow> dropWhile (\<lambda>a. a \<noteq> c) (n @ c # x) = c # x"
  by (induction n) auto

lemma split_flag_assign:
  "CHR ''='' \<notin> set n \<Longrightarrow> n \<noteq> [] \<Longrightarrow> split_flag (n @ CHR ''='' # x) = (n, Some x)"
  by (cases n) (auto simp: split_flag_def cut_at)

lemma flag_parseOne_assign:
  assumes "map_of F n = Some fl" and "CHR ''='' \<notin> set n" and "n \<noteq> []" and "hd n \<noteq> CHR ''-''"
    and "Flag_Set fl x v = Inr v'"
  shows "flag_parseOne F (CHR ''-'' # n @ CHR ''='' # x) args v = FlagSeen args v'"
    and "flag_parseOne F (CHR ''-'' # CHR ''-'' # n @ CHR ''='' # x) args v = FlagSeen args v'"
proof -
  obtain c m where n: "n = c # m" using assms(3) by (cases n) auto
  have c: "c \<noteq> CHR ''-''" "c \<noteq> CHR ''=''" using assms(2,4) n by auto
  have sp: "split_flag (c # m @ CHR ''='' # x) = (n, Some x)"
    using split_flag_assign [of n x] assms(2) n by simp
  have set: "flag_set fl x args v = FlagSeen args v'" using assms(5) by (simp add: flag_set_def)
  show "flag_parseOne F (CHR ''-'' # n @ CHR ''='' # x) args v = FlagSeen args v'"
    by (simp add: flag_parseOne_def n c sp set assms(1) [unfolded n])
  show "flag_parseOne F (CHR ''-'' # CHR ''-'' # n @ CHR ''='' # x) args v = FlagSeen args v'"
    by (simp add: flag_parseOne_def n c sp set assms(1) [unfolded n])
qed

text \<open>\<^verbatim>\<open>fmt\<close>'s text of a boolean.\<close>

definition bool_text :: "bool \<Rightarrow> string" where
  "bool_text b = (if b then ''true'' else ''false'')"

lemma ParseBool_text [simp]: "strconv_ParseBool (bool_text b) = Some b"
  by (simp add: strconv_ParseBool_def bool_text_def)

text \<open>
  \<^bold>\<open>C25\<close> (roundtrip). What the deployment writes on the command line is what the manager is
  configured with: whatever the addresses are, and with one dash or two, the three flags of the
  operator parse back to their values, on top of any flags of the libraries.
\<close>

theorem main_flags_roundtrip:
  assumes "main_flags R p = (Returned (), q)"
  shows "\<exists>p'. flag_Parse [''-metrics-bind-address='' @ metrics, ''--health-probe-bind-address='' @ probe,
      ''-leader-elect='' @ bool_text elect] q = (Returned None, p') \<and>
    main_options p' = \<lparr>mgr_Scheme = scheme q, MetricsBindAddress = metrics, mgr_Port = 9443,
      HealthProbeBindAddress = probe, LeaderElection = elect,
      LeaderElectionID = ''54429e69.databaseusersoperator.com''\<rparr>"
proof -
  note flags = main_flags_formal [OF assms]
  have "flag_parseOne (formal q) (''-metrics-bind-address='' @ metrics) args v = FlagSeen args (v\<lparr>metricsAddr := metrics\<rparr>)"
    for args v
    using flag_parseOne_assign(1) [OF flags(1), of metrics v _ args] by simp
  moreover have "flag_parseOne (formal q) (''--health-probe-bind-address='' @ probe) args v = FlagSeen args (v\<lparr>probeAddr := probe\<rparr>)"
    for args v
    using flag_parseOne_assign(2) [OF flags(2), of probe v _ args] by simp
  moreover have "flag_parseOne (formal q) (''-leader-elect='' @ bool_text elect) args v = FlagSeen args (v\<lparr>enableLeaderElection := elect\<rparr>)"
    for args v
    using flag_parseOne_assign(1) [OF flags(3), of "bool_text elect" v _ args] by simp
  ultimately show ?thesis by (simp add: flag_Parse_def main_options_def)
qed

theorem main_flags_roundtrip_witness:
  "\<exists>q p'. main_flags demo_runtime demo_process = (Returned (), q) \<and>
     flag_Parse [''-metrics-bind-address=127.0.0.1:8080'', ''--health-probe-bind-address=:8081'',
       ''-leader-elect=true''] q = (Returned None, p') \<and>
     MetricsBindAddress (main_options p') = ''127.0.0.1:8080'' \<and> LeaderElection (main_options p')"
proof -
  obtain q where q: "main_flags demo_runtime demo_process = (Returned (), q)" using demo_flags by blast
  from main_flags_roundtrip [OF q, of "''127.0.0.1:8080''" "'':8081''" True] q show ?thesis
    by (auto simp: bool_text_def)
qed

end
