(* ===== verification/Secret_Properties.thy ===== *)
theory Secret_Properties
  imports Driver_Properties
begin

text \<open>
  From the certificate bundle that a driver issues, through the secret that
  \<^verbatim>\<open>createUserInDatabase\<close> stores, to the data that a \<^verbatim>\<open>Database\<close> which names this secret
  reads.
\<close>

text \<open>
  What the operator relies on in the API server for a secret it creates: the owner is all
  that \<^verbatim>\<open>SetControllerReference\<close> sets, and a secret without data is stored with its
  \<^verbatim>\<open>stringData\<close> as data and found under its name.
\<close>

definition secret_store :: "'k Client \<Rightarrow> bool" where
  "secret_store E \<longleftrightarrow>
     (\<forall>u s t. ctrl_SetControllerReference E u s = Inr t \<longrightarrow>
        secret_key t = secret_key s \<and> k8ssecret_Data t = k8ssecret_Data s \<and> k8ssecret_StringData t = k8ssecret_StringData s) \<and>
     (\<forall>s k. fst (Client_Create_Secret E s k) = None \<and> k8ssecret_Data s = [] \<longrightarrow>
        (\<exists>t. fst (Client_Get_Secret E (secret_key s) (snd (Client_Create_Secret E s k))) = Inr t \<and>
           k8ssecret_Data t = k8ssecret_StringData s))"

lemma mem_secret_store: "secret_store mem_Client"
  by (auto simp: secret_store_def mem_Create_Secret_def fst_mem_get secret_key_def split: option.splits)

lemma createUserInDatabase_stores:
  assumes store: "secret_store E"
    and pw: "UserReconciler_userPassword (manager_reconciler X K G E) (ref_PasswordSecret ref) w = (Returned (Inr pw), w1)"
    and cu: "Database_CreateUser db (meta_Name (user_Meta u)) pw w1 = (Returned (data, None), w2)" "data \<noteq> []"
    and nf: "fst (Client_Get_Secret E (ref_CreatedSecret ref) (kube w2)) = Inl err"
    and run: "UserReconciler_createUserInDatabase (manager_reconciler X K G E) db u ref w = (Returned None, w')"
    and keys: "distinct (map fst data)"
  shows "\<exists>d k. utils_DecodeSecretData E (ref_CreatedSecret ref) w' = (Returned (Inr d), w'\<lparr>kube := k\<rparr>) \<and> map_of d = map_of data"
proof -
  let ?nn = "ref_CreatedSecret ref" and ?k = "snd (Client_Get_Secret E (ref_CreatedSecret ref) (kube w2))"
  have nn: "\<lparr>nn_Namespace = nn_Namespace ?nn, nn_Name = nn_Name ?nn\<rparr> = ?nn" by simp
  obtain s where s: "ctrl_SetControllerReference E u (newSecret ?nn data) = Inr s"
    and created: "fst (Client_Create_Secret E s ?k) = None" "kube w' = snd (Client_Create_Secret E s ?k)"
    using run pw cu nf
    by (auto simp: UserReconciler_createUserInDatabase_def go_bind_def go_return_def Let_def utils_Secret_apply nn
        on_kube_apply manager_reconciler_def split: sum.splits if_splits)
  have s': "secret_key s = ?nn" "k8ssecret_Data s = []" "k8ssecret_StringData s = data"
    using store s unfolding secret_store_def by (auto simp: newSecret_def secret_key_def)
  then obtain t where "fst (Client_Get_Secret E ?nn (kube w')) = Inr t" "k8ssecret_Data t = data"
    using store created unfolding secret_store_def by metis
  with keys show ?thesis
    by (auto simp: utils_DecodeSecretData_def utils_Secret_apply go_bind_def go_return_def map_of_copy_data)
qed

text \<open>
  \<^bold>\<open>C19\<close> A created secret can be used: if the PostgreSQL driver issued a bundle for a new
  user and \<^verbatim>\<open>createUserInDatabase\<close>, which found no secret of that name, succeeded, then what
  the constructors of the drivers read from the created secret decodes to a certificate and
  its private key; the certificate was signed with the key of the authority for the common
  name of the user; and the authority's certificate stands beside it.
\<close>

theorem created_bundle_readable:
  assumes "secret_store E"
    and pw: "UserReconciler_userPassword (manager_reconciler X K G E) (ref_PasswordSecret ref) w = (Returned (Inr pw), w1)"
    and cu: "Postgresql_CreateUser C K p (meta_Name (user_Meta u)) pw w1 = (Returned (data, None), w2)" "data \<noteq> []"
    and nf: "fst (Client_Get_Secret E (ref_CreatedSecret ref) (kube w2)) = Inl err"
    and run: "UserReconciler_createUserInDatabase (manager_reconciler X K G E) (Postgresql_Database C K p) u ref w = (Returned None, w')"
  shows "\<exists>d k cert priv ca caKey n tmpl.
    utils_DecodeSecretData E (ref_CreatedSecret ref) w' = (Returned (Inr d), w'\<lparr>kube := k\<rparr>) \<and>
    pem_Decode (map_index d ''tls.crt'') = Some \<lparr>block_Type = ''CERTIFICATE'', block_Bytes = cert\<rparr> \<and>
    pem_Decode (map_index d ''tls.key'') =
      Some \<lparr>block_Type = ''RSA PRIVATE KEY'', block_Bytes = x509_MarshalPKCS1PrivateKey K priv\<rparr> \<and>
    map_index d ''ca.crt'' = SSLCACert (pg_config p) \<and>
    authority_key K (pg_config p) = Some caKey \<and> authority_cert K (pg_config p) = Some ca \<and>
    x509_CreateCertificate K n tmpl ca (rsa_PublicKey K priv) caKey = Inr cert \<and>
    tmpl_CommonName tmpl = meta_Name (user_Meta u)"
proof -
  from pg_CreateUser_issued [OF cu] obtain caKey ca n1 n2 n3 n priv cert where
    issued: "authority_key K (pg_config p) = Some caKey" "authority_cert K (pg_config p) = Some ca"
      "x509_CreateCertificate K n \<lparr>tmpl_SerialNumber = rand_Int63 K n1, tmpl_CommonName = meta_Name (user_Meta u),
        tmpl_NotBefore = time_Now K n2, tmpl_NotAfter = time_AddDate K (time_Now K n3) 1 0 0\<rparr> ca (rsa_PublicKey K priv) caKey =
       Inr cert"
      "data = [(''tls.crt'', pem_EncodeToMemory ''CERTIFICATE'' cert),
        (''tls.key'', pem_EncodeToMemory ''RSA PRIVATE KEY'' (x509_MarshalPKCS1PrivateKey K priv)),
        (''ca.crt'', SSLCACert (pg_config p))]"
    and decodes: "map_option pem_Decode (map_of data ''tls.crt'') = Some (Some \<lparr>block_Type = ''CERTIFICATE'', block_Bytes = cert\<rparr>)"
      "map_option pem_Decode (map_of data ''tls.key'') =
        Some (Some \<lparr>block_Type = ''RSA PRIVATE KEY'', block_Bytes = x509_MarshalPKCS1PrivateKey K priv\<rparr>)"
    by blast
  have cu': "Database_CreateUser (Postgresql_Database C K p) (meta_Name (user_Meta u)) pw w1 = (Returned (data, None), w2)"
    using cu(1) by simp
  have "distinct (map fst data)" by (simp add: issued(4))
  from createUserInDatabase_stores [OF assms(1) pw cu' cu(2) nf run this] obtain d k where
    d: "utils_DecodeSecretData E (ref_CreatedSecret ref) w' = (Returned (Inr d), w'\<lparr>kube := k\<rparr>)" "map_of d = map_of data" by blast
  have "pem_Decode (map_index d ''tls.crt'') = Some \<lparr>block_Type = ''CERTIFICATE'', block_Bytes = cert\<rparr>"
    "pem_Decode (map_index d ''tls.key'') =
      Some \<lparr>block_Type = ''RSA PRIVATE KEY'', block_Bytes = x509_MarshalPKCS1PrivateKey K priv\<rparr>"
    "map_index d ''ca.crt'' = SSLCACert (pg_config p)"
    using decodes by (auto simp: map_index_def d(2) issued(4))
  with d(1) issued(1-3) show ?thesis by (metis CertTemplate.select_convs(2))
qed

lemma demo_absent: "cl_secrets (kube demo_connected) (ref_CreatedSecret demo_ref) = None"
  by (simp add: demo_connected_def demo_world_def empty_world_def demo_cluster_def demo_ref_def)

text \<open>Witness: the driver of the test authority and a new user.\<close>

theorem created_bundle_readable_witness:
  "\<exists>w' d k cert. UserReconciler_createUserInDatabase demo_reconciler
      (Postgresql_Database (DefaultConnector_Connection mem_Sqlx) no_Crypto issuing_driver)
      (demo_user [userFinalizer] None) demo_ref demo_connected = (Returned None, w') \<and>
    utils_DecodeSecretData mem_Client (ref_CreatedSecret demo_ref) w' = (Returned (Inr d), w'\<lparr>kube := k\<rparr>) \<and>
    pem_Decode (map_index d ''tls.crt'') = Some \<lparr>block_Type = ''CERTIFICATE'', block_Bytes = cert\<rparr>"
proof -
  let ?C = "DefaultConnector_Connection mem_Sqlx" and ?u = "demo_user [userFinalizer] None"
  let ?r = "manager_reconciler mem_Sqlx no_Crypto mem_GenMysql mem_Client"
  have name: "meta_Name (user_Meta ?u) = ''john''" by (simp add: demo_user_def demo_meta_def)
  have pw: "UserReconciler_userPassword ?r (ref_PasswordSecret demo_ref) demo_connected = (Returned (Inr ''secret''), demo_connected)"
    using demo_password by (simp add: demo_reconciler_def)
  from issuing_CreateUser obtain data w2 where
    cu: "Postgresql_CreateUser ?C no_Crypto issuing_driver ''john'' ''secret'' demo_connected = (Returned (data, None), w2)" "data \<noteq> []"
    by blast
  have cu': "Postgresql_CreateUser ?C no_Crypto issuing_driver (meta_Name (user_Meta ?u)) ''secret'' demo_connected =
      (Returned (data, None), w2)" using cu(1) by (simp only: name)
  have "keeps kube (Database_CreateUser (Postgresql_Database ?C no_Crypto issuing_driver) ''john'' ''secret'')"
    by (rule dc.pg.keeps_kube)
  then have k: "kube w2 = kube demo_connected" using cu(1) by (auto dest: keepsD)
  then have nf: "fst (Client_Get_Secret mem_Client (ref_CreatedSecret demo_ref) (kube w2)) = Inl mem_NotFound"
    by (simp add: fst_mem_get demo_absent)
  have nn: "\<lparr>nn_Namespace = nn_Namespace (ref_CreatedSecret demo_ref), nn_Name = nn_Name (ref_CreatedSecret demo_ref)\<rparr> =
      ref_CreatedSecret demo_ref" by simp
  have "\<exists>w'. UserReconciler_createUserInDatabase ?r (Postgresql_Database ?C no_Crypto issuing_driver) ?u demo_ref demo_connected =
      (Returned None, w')"
    using pw cu cu(2) nf k
    by (simp add: UserReconciler_createUserInDatabase_def go_bind_def go_return_def Let_def utils_Secret_apply name
        manager_reconciler_def nn on_kube_apply mem_Create_Secret_def secret_key_def newSecret_def demo_absent Suc_le_eq)
  then obtain w' where run: "UserReconciler_createUserInDatabase ?r (Postgresql_Database ?C no_Crypto issuing_driver) ?u demo_ref
      demo_connected = (Returned None, w')" by blast
  from created_bundle_readable [OF mem_secret_store pw cu' cu(2) nf run] run show ?thesis
    unfolding demo_reconciler_def by blast
qed

end
