(* ===== verification/Served.thy ===== *)
theory Served
  imports Databases
begin

text \<open>
  Connections behind which everything is accepted, as a contract: the calls that the other
  side has seen so far, and what each operation adds to them. The servers behind a
  \<^verbatim>\<open>DefaultConnector\<close> keep it when they accept what they are sent, and the \<^verbatim>\<open>FakeConnection\<close> of
  the tests keeps it always. With it come the rules for computations that send calls.
\<close>

section \<open>Calls\<close>

text \<open>
  The calls a server sees. Handles are numbered in the order of the connections; a
  connection carries the driver's name and the connection string.
\<close>

datatype Call =
    Connected DBHandle string string
  | Executed DBHandle string "Arg list"
  | Closed DBHandle

fun is_connected :: "Call \<Rightarrow> bool" where
  "is_connected (Connected h driver cs) = True"
| "is_connected _ = False"

definition connects :: "Call list \<Rightarrow> nat" where
  "connects cs = length (filter is_connected cs)"

lemma connects_simps [simp]:
  "connects [] = 0" "connects (c # cs) = (if is_connected c then Suc (connects cs) else connects cs)"
  "connects (cs @ ds) = connects cs + connects ds"
  by (simp_all add: connects_def)

text \<open>PostgreSQL may say of a role to create that it exists, as after an earlier run.\<close>

definition creates_role :: "string \<Rightarrow> Arg list \<Rightarrow> bool" where
  "creates_role q as \<longleftrightarrow> as = [] \<and> prefix ''CREATE USER'' q"

text \<open>A loop whose calls depend on how many connections there were before.\<close>

primrec thread :: "(nat \<Rightarrow> 'a \<Rightarrow> Call list) \<Rightarrow> nat \<Rightarrow> 'a list \<Rightarrow> Call list" where
  "thread g n [] = []"
| "thread g n (x # xs) = g n x @ thread g (n + connects (g n x)) xs"

section \<open>Computations that send calls\<close>

text \<open>
  \<open>sends S opened calls m w x cs w'\<close>: from \<open>w\<close> the computation returns \<open>x\<close> in \<open>w'\<close>, where the
  calls so far have become \<open>calls @ cs\<close> and \<open>S\<close>, which relates them to the world, holds; it
  records no event, and every connection with a handle keeps it.
\<close>

definition sends :: "(Call list \<Rightarrow> ('k, 'd) World \<Rightarrow> bool) \<Rightarrow> ('c \<Rightarrow> DBHandle \<Rightarrow> ('k, 'd) World \<Rightarrow> bool) \<Rightarrow>
    Call list \<Rightarrow> (('k, 'd) World, 'a) go \<Rightarrow> ('k, 'd) World \<Rightarrow> 'a \<Rightarrow> Call list \<Rightarrow> ('k, 'd) World \<Rightarrow> bool" where
  "sends S opened calls m w x cs w' \<longleftrightarrow>
     m w = (Returned x, w') \<and> S (calls @ cs) w' \<and> events w' = events w \<and>
     (\<forall>c h. opened c h w \<longrightarrow> opened c h w')"

lemma sendsD:
  assumes "sends S opened calls m w x cs w'"
  shows "m w = (Returned x, w')" "S (calls @ cs) w'" "events w' = events w" "opened c h w \<Longrightarrow> opened c h w'"
  using assms by (auto simp: sends_def)

lemma sends_return: "S calls w \<Longrightarrow> sends S opened calls (go_return x) w x [] w"
  by (simp add: sends_def go_return_def)

lemma sends_bind:
  "sends S opened calls m w x cs w1 \<Longrightarrow> sends S opened (calls @ cs) (f x) w1 y ds w2 \<Longrightarrow>
     sends S opened calls (go_bind m f) w y (cs @ ds) w2"
  by (simp add: sends_def go_bind_def)

lemma sends_check:
  "sends S opened calls m w None cs w1 \<Longrightarrow> sends S opened (calls @ cs) k w1 y ds w2 \<Longrightarrow>
     sends S opened calls (go_check m k) w y (cs @ ds) w2"
  by (simp add: sends_def go_check_def go_bind_def)

lemma sends_try:
  "sends S opened calls m w (Inr x) cs w1 \<Longrightarrow> sends S opened (calls @ cs) (k x) w1 y ds w2 \<Longrightarrow>
     sends S opened calls (go_try h m k) w y (cs @ ds) w2"
  by (simp add: sends_def go_try_def go_bind_def)

lemma sends_defer:
  "sends S opened calls m w x cs w1 \<Longrightarrow> sends S opened (calls @ cs) d w1 y ds w2 \<Longrightarrow>
     sends S opened calls (go_defer d m) w x (cs @ ds) w2"
  by (simp add: sends_def go_defer_def)

text \<open>A step that ends by returning something else about its result.\<close>

lemma sends_map:
  "sends S opened calls m w x cs w' \<Longrightarrow> sends S opened calls (go_bind m (\<lambda>x. go_return (f x))) w (f x) cs w'"
  by (simp add: sends_def go_bind_def go_return_def)

text \<open>A step that sends nothing and whose effect is known.\<close>

lemma sends_silent:
  "m w = (Returned x, w') \<Longrightarrow> S calls w' \<Longrightarrow> events w' = events w \<Longrightarrow> (\<And>c h. opened c h w \<Longrightarrow> opened c h w') \<Longrightarrow>
     sends S opened calls m w x [] w'"
  by (simp add: sends_def)

lemma sends_for:
  assumes step: "\<And>x calls w. x \<in> set xs \<Longrightarrow> S calls w \<Longrightarrow> P w \<Longrightarrow>
      \<exists>w'. sends S opened calls (f x) w None (g (connects calls) x) w' \<and> P w'"
    and "S calls w" "P w"
  shows "\<exists>w'. sends S opened calls (go_for f xs) w None (thread g (connects calls) xs) w' \<and> P w'"
  using assms
proof (induction xs arbitrary: calls w)
  case Nil
  then show ?case by (auto intro: sends_return exI [of _ w])
next
  case (Cons x xs)
  obtain w1 where w1: "sends S opened calls (f x) w None (g (connects calls) x) w1" "P w1"
    using Cons.prems(1) [of x calls w] Cons.prems(2,3) by auto
  have "\<exists>w'. sends S opened (calls @ g (connects calls) x) (go_for f xs) w1 None
      (thread g (connects (calls @ g (connects calls) x)) xs) w' \<and> P w'"
    by (rule Cons.IH [OF _ sendsD(2) [OF w1(1)] w1(2)]) (use Cons.prems(1) in auto)
  then obtain w2 where w2: "sends S opened (calls @ g (connects calls) x) (go_for f xs) w1 None
      (thread g (connects (calls @ g (connects calls) x)) xs) w2" "P w2" by blast
  from sends_check [OF w1(1) w2(1)] w2(2) show ?case by auto
qed

section \<open>The contract\<close>

text \<open>
  What a run has around it: the other side saw \<open>calls\<close>, the cluster keeps \<open>I\<close>, the home
  directory is \<open>home\<close>, and the certificate files \<open>Fs\<close> can be written.
\<close>

definition surroundings ::
  "(Call list \<Rightarrow> ('k, 'd) World \<Rightarrow> bool) \<Rightarrow> ('k \<Rightarrow> bool) \<Rightarrow> string \<Rightarrow> string set \<Rightarrow> Call list \<Rightarrow> ('k, 'd) World \<Rightarrow> bool" where
  "surroundings saw I home Fs calls w \<longleftrightarrow>
     saw calls w \<and> I (kube w) \<and> env_HOME w = home \<and> writable_certs (filesystem w) Fs"

text \<open>
  \<open>saw calls w\<close>: the other side has seen exactly \<open>calls\<close>; \<open>unused c w\<close>: \<open>c\<close> has not been
  connected; \<open>opened c h w\<close>: it has the handle \<open>h\<close>. \<open>new_conn\<close> is where a creator of drivers
  gets its connection from.
\<close>

locale served = connection C valid live
  for C :: "('c, ('k, 'd) World) Connection" and valid live +
  fixes saw :: "Call list \<Rightarrow> ('k, 'd) World \<Rightarrow> bool"
    and unused :: "'c \<Rightarrow> ('k, 'd) World \<Rightarrow> bool"
    and opened :: "'c \<Rightarrow> DBHandle \<Rightarrow> ('k, 'd) World \<Rightarrow> bool"
    and new_conn :: "(('k, 'd) World, 'c) go"
  assumes saw_local: "saw calls (w\<lparr>kube := k\<rparr>) = saw calls w" "saw calls (w\<lparr>filesystem := fs\<rparr>) = saw calls w"
      "saw calls (w\<lparr>logs := ls\<rparr>) = saw calls w" "saw calls (w\<lparr>draws := n\<rparr>) = saw calls w"
      "saw calls (w\<lparr>events := ev\<rparr>) = saw calls w"
    and unused_local: "unused c (w\<lparr>kube := k\<rparr>) = unused c w" "unused c (w\<lparr>filesystem := fs\<rparr>) = unused c w"
    and opened_local: "opened c h (w\<lparr>kube := k\<rparr>) = opened c h w" "opened c h (w\<lparr>filesystem := fs\<rparr>) = opened c h w"
      "opened c h (w\<lparr>logs := ls\<rparr>) = opened c h w" "opened c h (w\<lparr>draws := n\<rparr>) = opened c h w"
    and opened_stays: "preserves (opened c' h) (Connection_Copy C c)" "preserves (opened c' h) (Connection_Close C c)"
      "unused c w \<Longrightarrow> opened c' h w \<Longrightarrow> opened c' h (snd (Connection_Connect C c driver cs w))"
      "preserves (opened c' h) (Connection_Exec C c l q as)"
      "preserves (opened c' h) new_conn"
    and new_frame: "keeps beyond_conn new_conn"
    and made: "saw calls w \<Longrightarrow> \<exists>c w'. new_conn w = (Returned c, w') \<and> saw calls w' \<and> unused c w'"
    and copied: "saw calls w \<Longrightarrow> \<exists>c' w'. Connection_Copy C c w = (Returned c', w') \<and> saw calls w' \<and> unused c' w'"
    and connected: "saw calls w \<Longrightarrow> unused c w \<Longrightarrow>
      \<exists>w'. Connection_Connect C c driver cs w = (Returned None, w') \<and>
        saw (calls @ [Connected (connects calls) driver cs]) w' \<and> opened c (connects calls) w'"
    and executed: "saw calls w \<Longrightarrow> opened c h w \<Longrightarrow>
      \<exists>err w'. Connection_Exec C c l q as w = (Returned err, w') \<and> saw (calls @ [Executed h q as]) w' \<and>
        (err = None \<or> creates_role q as \<and> isAlreadyExists err)"
    and closed: "saw calls w \<Longrightarrow> opened c h w \<Longrightarrow>
      \<exists>r w'. Connection_Close C c w = (Returned r, w') \<and> saw (calls @ [Closed h]) w'"
begin

text \<open>An operation of the connection sends what the other side saw of it.\<close>

lemma sends_op:
  assumes "surroundings saw I home Fs calls w" and "keeps beyond_conn m"
    and "m w = (Returned x, w')" and "saw (calls @ cs) w'"
    and "\<And>c h. opened c h w \<Longrightarrow> opened c h w'"
  shows "sends (surroundings saw I home Fs) opened calls m w x cs w'"
proof -
  have "beyond_conn w' = beyond_conn w" using assms(2,3) by (blast dest: keepsD)
  with assms show ?thesis by (auto simp: sends_def surroundings_def beyond_conn_def)
qed

lemma sends_made:
  assumes S: "surroundings saw I home Fs calls w"
  shows "\<exists>c w'. sends (surroundings saw I home Fs) opened calls new_conn w c [] w' \<and> unused c w'"
proof -
  have "saw calls w" using S by (simp add: surroundings_def)
  then obtain c w' where w': "new_conn w = (Returned c, w')" "saw (calls @ []) w'" "unused c w'" using made by fastforce
  with sends_op [OF S new_frame w'(1,2) preservesD [OF opened_stays(5) _ w'(1)]] show ?thesis by blast
qed

lemma sends_copied:
  assumes S: "surroundings saw I home Fs calls w"
  shows "\<exists>c' w'. sends (surroundings saw I home Fs) opened calls (Connection_Copy C c) w c' [] w' \<and> unused c' w'"
proof -
  have "saw calls w" using S by (simp add: surroundings_def)
  then obtain c' w' where w': "Connection_Copy C c w = (Returned c', w')" "saw (calls @ []) w'" "unused c' w'"
    using copied by fastforce
  with sends_op [OF S frame(1) w'(1,2) preservesD [OF opened_stays(1) _ w'(1)]] show ?thesis by blast
qed

lemma sends_connected:
  assumes S: "surroundings saw I home Fs calls w" and c: "unused c w"
  shows "\<exists>w'. sends (surroundings saw I home Fs) opened calls (Connection_Connect C c driver cs) w None
      [Connected (connects calls) driver cs] w' \<and> opened c (connects calls) w'"
proof -
  have "saw calls w" using S by (simp add: surroundings_def)
  with c obtain w' where w': "Connection_Connect C c driver cs w = (Returned None, w')"
    "saw (calls @ [Connected (connects calls) driver cs]) w'" "opened c (connects calls) w'" using connected by blast
  have "opened c' h w'" if "opened c' h w" for c' h using opened_stays(3) [OF c that, of driver cs] w'(1) by simp
  from sends_op [OF S frame(3) w'(1,2) this] w'(3) show ?thesis by blast
qed

lemma sends_executed_any:
  assumes S: "surroundings saw I home Fs calls w" and c: "opened c h w"
  shows "\<exists>w' err. sends (surroundings saw I home Fs) opened calls (Connection_Exec C c l q as) w err [Executed h q as] w' \<and>
      (err = None \<or> creates_role q as \<and> isAlreadyExists err)"
proof -
  have "saw calls w" using S by (simp add: surroundings_def)
  with c obtain err w' where w': "Connection_Exec C c l q as w = (Returned err, w')" "saw (calls @ [Executed h q as]) w'"
    "err = None \<or> creates_role q as \<and> isAlreadyExists err" using executed by blast
  from sends_op [OF S frame(4) w'(1,2) preservesD [OF opened_stays(4) _ w'(1)]] w'(3) show ?thesis by blast
qed

lemma sends_executed:
  assumes "surroundings saw I home Fs calls w" and "opened c h w" and "\<not> creates_role q as"
  shows "\<exists>w'. sends (surroundings saw I home Fs) opened calls (Connection_Exec C c l q as) w None [Executed h q as] w'"
  using sends_executed_any [OF assms(1,2), of l q as] assms(3) by auto

lemma sends_closed:
  assumes S: "surroundings saw I home Fs calls w" and c: "opened c h w"
  shows "\<exists>w' r. sends (surroundings saw I home Fs) opened calls (Connection_Close C c) w r [Closed h] w'"
proof -
  have "saw calls w" using S by (simp add: surroundings_def)
  with c obtain r w' where w': "Connection_Close C c w = (Returned r, w')" "saw (calls @ [Closed h]) w'"
    using closed by blast
  from sends_op [OF S frame(2) w'(1,2) preservesD [OF opened_stays(2) _ w'(1)]] show ?thesis by blast
qed

text \<open>Calls on the cluster and the log.\<close>

lemma surroundings_kube:
  "surroundings saw I home Fs calls w \<Longrightarrow> I k \<Longrightarrow> surroundings saw I home Fs calls (w\<lparr>kube := k\<rparr>)"
  by (simp add: surroundings_def saw_local)

lemma sends_kube:
  "surroundings saw I home Fs calls w \<Longrightarrow> m w = (Returned x, w\<lparr>kube := k\<rparr>) \<Longrightarrow> I k \<Longrightarrow>
     sends (surroundings saw I home Fs) opened calls m w x [] (w\<lparr>kube := k\<rparr>)"
  by (rule sends_silent) (simp_all add: surroundings_kube opened_local)

lemma sends_logged:
  "surroundings saw I home Fs calls w \<Longrightarrow>
     sends (surroundings saw I home Fs) opened calls (log_Info msg) w () [] (w\<lparr>logs := logs w @ [msg]\<rparr>)"
  by (rule sends_silent) (simp_all add: log_Info_apply surroundings_def saw_local opened_local)

end

section \<open>Servers that accept\<close>

text \<open>
  Servers that accept every call, except that PostgreSQL may say of a role to create that it
  exists; \<open>tr\<close> is the list of the calls so far.
\<close>

definition accepting :: "'d Sqlx \<Rightarrow> ('d \<Rightarrow> Call list) \<Rightarrow> bool" where
  "accepting X tr \<longleftrightarrow>
     (\<forall>driver cs fs d. fst (sqlx_ConnectContext X driver cs fs d) = Inr (connects (tr d)) \<and>
        tr (snd (sqlx_ConnectContext X driver cs fs d)) = tr d @ [Connected (connects (tr d)) driver cs]) \<and>
     (\<forall>h n fs d. tr (snd (sqlx_SetMaxIdleConns X h n fs d)) = tr d) \<and>
     (\<forall>h n fs d. tr (snd (sqlx_SetMaxOpenConns X h n fs d)) = tr d) \<and>
     (\<forall>h fs d. tr (snd (sqlx_Close X h fs d)) = tr d @ [Closed h]) \<and>
     (\<forall>h q as fs d. (fst (sqlx_ExecContext X h q as fs d) = None \<or>
          creates_role q as \<and> isAlreadyExists (fst (sqlx_ExecContext X h q as fs d))) \<and>
        tr (snd (sqlx_ExecContext X h q as fs d)) = tr d @ [Executed h q as])"

definition servers_saw :: "('d \<Rightarrow> Call list) \<Rightarrow> Call list \<Rightarrow> ('k, 'd) World \<Rightarrow> bool" where
  "servers_saw tr calls w \<longleftrightarrow> tr (dbms w) = calls"

definition connector_unused :: "nat \<Rightarrow> ('k, 'd) World \<Rightarrow> bool" where
  "connector_unused c w \<longleftrightarrow> c < length (connectors w) \<and> connector_db (connectors w ! c) = None"

definition connector_opened :: "nat \<Rightarrow> DBHandle \<Rightarrow> ('k, 'd) World \<Rightarrow> bool" where
  "connector_opened c h w \<longleftrightarrow> c < length (connectors w) \<and> connector_db (connectors w ! c) = Some h"

lemmas connector_states = servers_saw_def connector_unused_def connector_opened_def

locale accepting_servers =
  fixes X :: "'d Sqlx" and tr :: "'d \<Rightarrow> Call list"
  assumes accepting: "accepting X tr"
begin

lemma answers_of:
  "fst (sqlx_ConnectContext X driver cs fs d) = Inr (connects (tr d))"
  "tr (snd (sqlx_ConnectContext X driver cs fs d)) = tr d @ [Connected (connects (tr d)) driver cs]"
  "tr (snd (sqlx_SetMaxIdleConns X h n fs d)) = tr d" "tr (snd (sqlx_SetMaxOpenConns X h n fs d)) = tr d"
  "tr (snd (sqlx_Close X h fs d)) = tr d @ [Closed h]"
  "tr (snd (sqlx_ExecContext X h q as fs d)) = tr d @ [Executed h q as]"
  "fst (sqlx_ExecContext X h q as fs d) = None \<or>
     creates_role q as \<and> isAlreadyExists (fst (sqlx_ExecContext X h q as fs d))"
  using accepting by (simp_all add: accepting_def)

end

sublocale accepting_servers \<subseteq> accepted: served "DefaultConnector_Connection X" connector_valid connector_live
  "servers_saw tr" connector_unused connector_opened NewDefaultConnector
  by unfold_locales
    (use answers_of in \<open>auto simp: connector_states connector_defs keeps_def preserves_def beyond_conn_def
      nth_append nth_list_update less_Suc_eq DisableLogger_def split: sum.splits option.splits if_splits\<close>)

context accepting_servers
begin

lemma accepted: "served (DefaultConnector_Connection X) connector_valid connector_live
    (servers_saw tr) connector_unused connector_opened NewDefaultConnector"
  by unfold_locales

end

end
