(* ===== verification/Target_Calls.thy ===== *)
theory Target_Calls
  imports Served
begin

text \<open>
  What the drivers send for one reference of a user to a database, computed from the
  resources alone, and the proof that both drivers send it over any connection that keeps
  the contract \<open>served\<close>: the account, the privileges with their own connections, the removal.
\<close>

section \<open>The reference: calls from the resources\<close>

text \<open>
  One reference of a user to a database, with everything that has to be read for it: the
  specification of the database, the operator's password and the certificates for it, the
  password of the user there, and the privileges.
\<close>

record TLS =
  tls_CA :: string
  tls_Cert :: string
  tls_Key :: string
  tls_CAKey :: string

definition no_TLS :: TLS where
  "no_TLS = \<lparr>tls_CA = [], tls_Cert = [], tls_Key = [], tls_CAKey = []\<rparr>"

record Target =
  target_Spec :: DatabaseSpec
  target_AdminPassword :: string
  target_TLS :: TLS
  target_UserPassword :: string
  target_Privileges :: "PrivilegeSpec list"

text \<open>The certificate files and the connection strings.\<close>

definition pg_cert_file :: "string \<Rightarrow> PostgreSQLConfig \<Rightarrow> string \<Rightarrow> string \<Rightarrow> string" where
  "pg_cert_file home s dbname ext =
     filepath_Join [home, ''postgres-certs/'' @ pgspec_Host s @ ''/'' @ dbname @ ''_'' @ pgspec_User s @ ''.'' @ ext]"

definition pg_conninfo :: "string \<Rightarrow> Target \<Rightarrow> PostgreSQLConfig \<Rightarrow> string \<Rightarrow> string" where
  "pg_conninfo home t s dbname = strings_Join
     ([''host='' @ pgspec_Host s, ''user='' @ pgspec_User s, ''port='' @ fmt_d (pgspec_Port s)] @
      (if dbname \<noteq> [] then [''dbname='' @ dbname] else []) @
      (if target_AdminPassword t \<noteq> [] then [''password='' @ target_AdminPassword t] else []) @
      (if pgspec_SSLMode s \<noteq> [] then [''sslmode='' @ pgspec_SSLMode s] else []) @
      (if tls_CA (target_TLS t) \<noteq> [] then [''sslrootcert='' @ pg_cert_file home s dbname ''ca''] else []) @
      (if tls_Cert (target_TLS t) \<noteq> [] then [''sslcert='' @ pg_cert_file home s dbname ''crt''] else []) @
      (if tls_Key (target_TLS t) \<noteq> [] then [''sslkey='' @ pg_cert_file home s dbname ''key''] else [])) '' ''"

definition my_dsn :: "(URL \<Rightarrow> error + string) \<Rightarrow> MySQLConfig \<Rightarrow> string \<Rightarrow> error + string" where
  "my_dsn GenMysql c password = GenMysql \<lparr>
     url_Scheme = ''mysql'', url_Host = myspec_Host c @ '':'' @ fmt_d (myspec_Port c),
     url_User = (if password \<noteq> [] then UserPassword (myspec_User c) password else UserOnly (myspec_User c)),
     url_Path = myspec_DatabaseName c, url_RawQuery = ''interpolateParams=true'', url_Transport = ''tcp''\<rparr>"

definition my_hostname :: "MySQLConfig \<Rightarrow> string" where
  "my_hostname c = (if myspec_UsersHostname c = [] then ''*'' else myspec_UsersHostname c)"

text \<open>
  One privilege in PostgreSQL, over the connection \<open>h\<close>: a privilege on an object inside a
  database has a connection of its own to that database.
\<close>

definition pg_privilege_calls ::
  "string \<Rightarrow> Target \<Rightarrow> PostgreSQLConfig \<Rightarrow> string \<Rightarrow> string \<Rightarrow> string \<Rightarrow> DBHandle \<Rightarrow> nat \<Rightarrow> PrivilegeSpec \<Rightarrow> Call list" where
  "pg_privilege_calls home t s verb prep user h n pr =
     (let statement = (\<lambda>dbname on. pg_prepareStatementForPrivilege verb prep user dbname on (Privilege pr)) in
      if Database pr \<noteq> [] \<and> On pr \<noteq> []
      then [Connected n ''pgx'' (pg_conninfo home t s (Database pr)),
            Executed n (statement (Database pr) (On pr)) [], Closed n]
      else [Executed h (statement (Database pr) []) []])"

definition my_privilege_calls :: "string \<Rightarrow> string \<Rightarrow> string \<Rightarrow> DBHandle \<Rightarrow> nat \<Rightarrow> PrivilegeSpec \<Rightarrow> Call list" where
  "my_privilege_calls verb prep user h n pr =
     (case my_prepareStatementForPrivilege verb prep user (Database pr) (On pr) (Privilege pr) of
        (query, args) \<Rightarrow> [Executed h query args])"

text \<open>The calls for one target; \<open>n\<close> is the handle its connection gets.\<close>

definition connect_call :: "string \<Rightarrow> (URL \<Rightarrow> error + string) \<Rightarrow> nat \<Rightarrow> Target \<Rightarrow> Call" where
  "connect_call home GenMysql n t =
     (case spec_PostgreSQL (target_Spec t) of
        Some c \<Rightarrow> Connected n ''pgx'' (pg_conninfo home t c (pgspec_DatabaseName c))
      | None \<Rightarrow> Connected n ''mysql'' (projr (my_dsn GenMysql (the (spec_MySQL (target_Spec t))) (target_AdminPassword t))))"

definition create_call :: "string \<Rightarrow> nat \<Rightarrow> Target \<Rightarrow> Call" where
  "create_call user n t =
     (case spec_PostgreSQL (target_Spec t) of
        Some c \<Rightarrow> Executed n (fst (createUserQuery user (target_UserPassword t))) []
      | None \<Rightarrow> Executed n ''CREATE USER ?@? IDENTIFIED BY ?''
          [ArgString user, ArgString (my_hostname (the (spec_MySQL (target_Spec t)))), ArgString (target_UserPassword t)])"

definition drop_call :: "string \<Rightarrow> nat \<Rightarrow> Target \<Rightarrow> Call" where
  "drop_call user n t =
     (case spec_PostgreSQL (target_Spec t) of
        Some c \<Rightarrow> Executed n (deleteUserQuery user) []
      | None \<Rightarrow> Executed n ''DROP USER ?@?''
          [ArgString user, ArgString (my_hostname (the (spec_MySQL (target_Spec t))))])"

definition privileges_calls :: "string \<Rightarrow> string \<Rightarrow> string \<Rightarrow> string \<Rightarrow> DBHandle \<Rightarrow> nat \<Rightarrow> Target \<Rightarrow> Call list" where
  "privileges_calls home verb prep user h n t =
     thread (case spec_PostgreSQL (target_Spec t) of
        Some c \<Rightarrow> pg_privilege_calls home t c verb prep user h
      | None \<Rightarrow> my_privilege_calls verb prep user h) n (target_Privileges t)"

text \<open>A user in one database: connect, the account and the privileges, close; and its removal.\<close>

definition apply_calls :: "string \<Rightarrow> (URL \<Rightarrow> error + string) \<Rightarrow> string \<Rightarrow> nat \<Rightarrow> Target \<Rightarrow> Call list" where
  "apply_calls home GenMysql user n t =
     [connect_call home GenMysql n t, create_call user n t] @
     privileges_calls home ''GRANT'' ''TO'' user n (Suc n) t @ [Closed n]"

definition remove_calls :: "string \<Rightarrow> (URL \<Rightarrow> error + string) \<Rightarrow> string \<Rightarrow> nat \<Rightarrow> Target \<Rightarrow> Call list" where
  "remove_calls home GenMysql user n t =
     [connect_call home GenMysql n t] @ privileges_calls home ''REVOKE'' ''FROM'' user n (Suc n) t @
     [drop_call user n t, Closed n]"

text \<open>
  The driver of a target issues certificates when it has a client certificate or a key of its
  own; then the authority has to be able to issue them: its key and its certificate are PEM
  texts that parse, and generating a key and signing succeed.
\<close>

definition issuing :: "Target \<Rightarrow> bool" where
  "issuing t \<longleftrightarrow> spec_PostgreSQL (target_Spec t) \<noteq> None \<and> (tls_Cert (target_TLS t) \<noteq> [] \<or> tls_Key (target_TLS t) \<noteq> [])"

definition authority_issues :: "Crypto \<Rightarrow> TLS \<Rightarrow> bool" where
  "authority_issues K tls \<longleftrightarrow>
     (\<exists>kb key cb ca. pem_Decode (tls_CAKey tls) = Some kb \<and> x509_ParsePKCS1PrivateKey K (block_Bytes kb) = Inr key \<and>
        pem_Decode (tls_CA tls) = Some cb \<and> x509_ParseCertificate K (block_Bytes cb) = Inr ca \<and>
        (\<forall>n. \<exists>priv. rsa_GenerateKey K n 4096 = Inr priv) \<and>
        (\<forall>n tmpl pub. \<exists>cert. x509_CreateCertificate K n tmpl ca pub key = Inr cert))"

text \<open>
  A target that can be served: a valid specification; in PostgreSQL every privilege names
  one, and what issues certificates can; in MySQL there is a data source name.
\<close>

definition servable :: "Crypto \<Rightarrow> (URL \<Rightarrow> error + string) \<Rightarrow> Target \<Rightarrow> bool" where
  "servable K GenMysql t \<longleftrightarrow> DatabaseSpec_XValidation (target_Spec t) \<and>
     (issuing t \<longrightarrow> authority_issues K (target_TLS t)) \<and>
     (spec_PostgreSQL (target_Spec t) \<noteq> None \<longrightarrow> (\<forall>pr \<in> set (target_Privileges t). Privilege pr \<noteq> [])) \<and>
     (case spec_MySQL (target_Spec t) of None \<Rightarrow> True
      | Some c \<Rightarrow> \<exists>dsn. my_dsn GenMysql c (target_AdminPassword t) = Inr dsn)"

text \<open>The certificate files of the connections of a target.\<close>

definition cert_set :: "string \<Rightarrow> PostgreSQLConfig \<Rightarrow> string \<Rightarrow> string set" where
  "cert_set home s dbname = pg_cert_file home s dbname ` {''ca'', ''crt'', ''key''}"

definition target_databases :: "Target \<Rightarrow> PostgreSQLConfig \<Rightarrow> string list" where
  "target_databases t s = pgspec_DatabaseName s #
     map Database (filter (\<lambda>pr. Database pr \<noteq> [] \<and> On pr \<noteq> []) (target_Privileges t))"

definition target_files :: "string \<Rightarrow> Target \<Rightarrow> string set" where
  "target_files home t =
     (case spec_PostgreSQL (target_Spec t) of None \<Rightarrow> {}
      | Some s \<Rightarrow> if target_TLS t = no_TLS then {} else \<Union> (cert_set home s ` set (target_databases t s)))"

section \<open>Connection strings and files\<close>

text \<open>The configuration of a driver for a target.\<close>

definition config_for :: "Target \<Rightarrow> PostgreSQLConfig \<Rightarrow> Config \<Rightarrow> bool" where
  "config_for t s c \<longleftrightarrow>
     Host c = pgspec_Host s \<and> config_User c = pgspec_User s \<and> Port c = pgspec_Port s \<and>
     Password c = target_AdminPassword t \<and> SSLMode c = pgspec_SSLMode s \<and>
     SSLCACert c = tls_CA (target_TLS t) \<and> SSLUserCert c = tls_Cert (target_TLS t) \<and>
     SSLUserKey c = tls_Key (target_TLS t) \<and> SSLCAKey c = tls_CAKey (target_TLS t) \<and>
     (createCertificates c \<longrightarrow> tls_Cert (target_TLS t) \<noteq> [] \<or> tls_Key (target_TLS t) \<noteq> [])"

lemma cert_step_fine:
  assumes "writable_certs fs Fs" and "data = [] \<or> f \<in> Fs"
  shows "\<exists>fs'. cert_step f data fs = (None, fs') \<and> writable_certs fs' Fs"
proof (cases "data = []")
  case True
  with assms(1) show ?thesis by (simp add: cert_step_def)
next
  case False
  with assms(2) have "f \<in> Fs" by simp
  with assms(1) show ?thesis by (rule cert_step_succeeds)
qed

lemma ConnString_for:
  assumes cfg: "config_for t s c" and w: "env_HOME w = home" "writable_certs (filesystem w) Fs"
    and files: "target_TLS t = no_TLS \<or> cert_set home s (DatabaseName c) \<subseteq> Fs"
  shows "\<exists>c' fs'. Config_ConnString c w = (Returned (c', Inr (pg_conninfo home t s (DatabaseName c))), w\<lparr>filesystem := fs'\<rparr>) \<and>
    writable_certs fs' Fs \<and> config_for t s c' \<and> DatabaseName c' = DatabaseName c \<and>
    (createCertificates c' \<longleftrightarrow> tls_Cert (target_TLS t) \<noteq> [] \<or> tls_Key (target_TLS t) \<noteq> [])"
proof -
  let ?c1 = "with_cert_paths home c" and ?file = "pg_cert_file home s (DatabaseName c)"
  let ?c3 = "markCreateCerts (SSLUserKey c) (markCreateCerts (SSLUserCert c) ?c1)"
  have paths: "sslCACertFile ?c1 = ?file ''ca''" "sslUserCertFile ?c1 = ?file ''crt''" "sslUserKeyFile ?c1 = ?file ''key''"
    using cfg by (simp_all add: with_cert_paths_def pg_cert_file_def cert_path_def config_for_def)
  have mem: "SSLCACert c = [] \<or> ?file ''ca'' \<in> Fs" "SSLUserCert c = [] \<or> ?file ''crt'' \<in> Fs" "SSLUserKey c = [] \<or> ?file ''key'' \<in> Fs"
    using files cfg by (auto simp: cert_set_def config_for_def no_TLS_def)
  obtain fs1 where s1: "cert_step (?file ''ca'') (SSLCACert c) (filesystem w) = (None, fs1)" "writable_certs fs1 Fs"
    using cert_step_fine [OF w(2) mem(1)] by blast
  obtain fs2 where s2: "cert_step (?file ''crt'') (SSLUserCert c) fs1 = (None, fs2)" "writable_certs fs2 Fs"
    using cert_step_fine [OF s1(2) mem(2)] by blast
  obtain fs3 where s3: "cert_step (?file ''key'') (SSLUserKey c) fs2 = (None, fs3)" "writable_certs fs3 Fs"
    using cert_step_fine [OF s2(2) mem(3)] by blast
  have sel: "Host ?c1 = Host c" "config_User ?c1 = config_User c" "Port ?c1 = Port c" "Password ?c1 = Password c"
    "SSLMode ?c1 = SSLMode c" "SSLCACert ?c1 = SSLCACert c" "SSLUserCert ?c1 = SSLUserCert c" "SSLUserKey ?c1 = SSLUserKey c"
    "DatabaseName ?c1 = DatabaseName c" by (simp_all add: with_cert_paths_def)
  have same: "conn_settings ?c3 = conn_settings ?c1" by simp
  have "map setting_text (conn_settings ?c1) =
      [''host='' @ pgspec_Host s, ''user='' @ pgspec_User s, ''port='' @ fmt_d (pgspec_Port s)] @
      (if DatabaseName c \<noteq> [] then [''dbname='' @ DatabaseName c] else []) @
      (if target_AdminPassword t \<noteq> [] then [''password='' @ target_AdminPassword t] else []) @
      (if pgspec_SSLMode s \<noteq> [] then [''sslmode='' @ pgspec_SSLMode s] else []) @
      (if tls_CA (target_TLS t) \<noteq> [] then [''sslrootcert='' @ ?file ''ca''] else []) @
      (if tls_Cert (target_TLS t) \<noteq> [] then [''sslcert='' @ ?file ''crt''] else []) @
      (if tls_Key (target_TLS t) \<noteq> [] then [''sslkey='' @ ?file ''key''] else [])"
    using cfg by (simp add: conn_settings_def sel paths config_for_def if_distrib [of "map setting_text"]
        cong: if_cong split del: if_split)
  then have "Config_ConnString c w = (Returned (?c3, Inr (pg_conninfo home t s (DatabaseName c))), w\<lparr>filesystem := fs3\<rparr>)"
    by (simp add: Config_ConnString_steps w(1) paths s1(1) s2(1) s3(1) pg_conninfo_def same
        split del: if_split)
  moreover have "config_for t s ?c3" "createCertificates ?c3 \<longleftrightarrow> tls_Cert (target_TLS t) \<noteq> [] \<or> tls_Key (target_TLS t) \<noteq> []"
    using cfg by (auto simp: config_for_def markCreateCerts_def with_cert_paths_def)
  moreover have "DatabaseName ?c3 = DatabaseName c" by (simp add: markCreateCerts_def with_cert_paths_def)
  ultimately show ?thesis using s3(2) by blast
qed

lemma writable_Remove: "writable_certs fs Fs \<Longrightarrow> writable_certs (snd (os_Remove p fs)) Fs"
  by (auto simp: writable_certs_def os_Remove_def split: option.split)

lemma genPostgresCertFromCA_succeeds:
  assumes "config_for t s c" and "authority_issues K (target_TLS t)"
  shows "\<exists>data n. genPostgresCertFromCA K c u w = (Returned (Inr data), w\<lparr>draws := n\<rparr>)"
proof -
  obtain kb key cb ca where a: "pem_Decode (SSLCAKey c) = Some kb" "x509_ParsePKCS1PrivateKey K (block_Bytes kb) = Inr key"
    "pem_Decode (SSLCACert c) = Some cb" "x509_ParseCertificate K (block_Bytes cb) = Inr ca"
    "\<And>n. \<exists>priv. rsa_GenerateKey K n 4096 = Inr priv" "\<And>n tmpl pub. \<exists>cert. x509_CreateCertificate K n tmpl ca pub key = Inr cert"
    using assms unfolding authority_issues_def config_for_def by auto
  let ?n = "draws w"
  obtain priv where priv: "rsa_GenerateKey K (Suc (Suc (Suc ?n))) 4096 = Inr priv" using a(5) by blast
  let ?tmpl = "\<lparr>tmpl_SerialNumber = rand_Int63 K ?n, tmpl_CommonName = u, tmpl_NotBefore = time_Now K (Suc ?n),
    tmpl_NotAfter = time_AddDate K (time_Now K (Suc (Suc ?n))) 1 0 0\<rparr>"
  obtain cert where "x509_CreateCertificate K (Suc (Suc (Suc (Suc ?n)))) ?tmpl ca (rsa_PublicKey K priv) key = Inr cert"
    using a(6) by blast
  with a(1-4) priv show ?thesis
    by (simp add: genPostgresCertFromCA_def go_bind_def go_return_def draw_apply Let_def) blast
qed

text \<open>No statement but the one that creates the account creates a role.\<close>

definition other_verb :: "string \<Rightarrow> bool" where
  "other_verb verb \<longleftrightarrow> (\<forall>x. \<not> prefix ''CREATE USER'' (verb @ x))"

lemma other_verbs: "other_verb ''GRANT''" "other_verb ''REVOKE''" "other_verb ''DROP USER ''"
  by (simp_all add: other_verb_def)

lemma other_statement: "other_verb verb \<Longrightarrow> \<not> creates_role (pg_prepareStatementForPrivilege verb prep u dbname on pr) as"
  by (simp add: other_verb_def creates_role_def pg_prepareStatementForPrivilege_def)

lemma other_drop: "\<not> creates_role (deleteUserQuery u) as"
  using other_verbs(3) by (simp add: other_verb_def creates_role_def deleteUserQuery_def)

lemma other_args: "\<not> creates_role q (a # as)"
  by (simp add: creates_role_def)

lemma my_other: "\<not> creates_role (fst (my_prepareStatementForPrivilege verb prep u dbname on pr))
    (snd (my_prepareStatementForPrivilege verb prep u dbname on pr))"
  by (simp add: creates_role_def my_prepareStatementForPrivilege_def Let_def)

end
