(* ===== verification/Served_Drivers.thy ===== *)
theory Served_Drivers
  imports Target_Calls
begin

text \<open>
  Both drivers, over any connection that keeps the contract \<open>served\<close>, send what the
  reference says of a target, with and without TLS.
\<close>

text \<open>
  A driver over a connection with the handle \<open>h\<close> that sends, operation by operation, what
  the reference says; \<open>S\<close> relates the calls so far to the world.
\<close>

definition drives :: "(Call list \<Rightarrow> ('k, 'd) World \<Rightarrow> bool) \<Rightarrow> ('c \<Rightarrow> DBHandle \<Rightarrow> ('k, 'd) World \<Rightarrow> bool) \<Rightarrow>
    string \<Rightarrow> string \<Rightarrow> Target \<Rightarrow> 'c \<Rightarrow> DBHandle \<Rightarrow> ('k, 'd) World Database \<Rightarrow> bool" where
  "drives S opened home u t c h db \<longleftrightarrow> (\<forall>calls w. S calls w \<longrightarrow> opened c h w \<longrightarrow>
     (\<exists>data w'. sends S opened calls (Database_CreateUser db u (target_UserPassword t)) w (data, None) [create_call u h t] w' \<and>
        (data \<noteq> [] \<longrightarrow> issuing t)) \<and>
     (\<exists>w'. sends S opened calls (Database_DeleteUser db u) w None [drop_call u h t] w') \<and>
     (\<exists>w'. sends S opened calls (Database_ApplyPrivileges db u (target_Privileges t)) w None
        (privileges_calls home ''GRANT'' ''TO'' u h (connects calls) t) w') \<and>
     (\<exists>w'. sends S opened calls (Database_RevokePrivileges db u (target_Privileges t)) w None
        (privileges_calls home ''REVOKE'' ''FROM'' u h (connects calls) t) w') \<and>
     (\<exists>w' r. sends S opened calls (Database_Close db) w r [Closed h] w'))"

context served
begin

section \<open>PostgreSQL\<close>

lemma sends_pg_Connect:
  assumes S: "surroundings saw I home Fs calls w" and cfg: "config_for t s (pg_config p)"
    and new: "unused (pg_db p) w"
    and files: "target_TLS t = no_TLS \<or> cert_set home s (DatabaseName (pg_config p)) \<subseteq> Fs"
  shows "\<exists>p' w'. sends (surroundings saw I home Fs) opened calls (Postgresql_Connect C p) w (p', None)
      [Connected (connects calls) ''pgx'' (pg_conninfo home t s (DatabaseName (pg_config p)))] w' \<and>
    opened (pg_db p') (connects calls) w' \<and> config_for t s (pg_config p') \<and> pg_db p' = pg_db p \<and>
    (createCertificates (pg_config p') \<longleftrightarrow> tls_Cert (target_TLS t) \<noteq> [] \<or> tls_Key (target_TLS t) \<noteq> [])"
proof -
  let ?cs = "pg_conninfo home t s (DatabaseName (pg_config p))"
  have w: "env_HOME w = home" "writable_certs (filesystem w) Fs" using S by (simp_all add: surroundings_def)
  obtain c' fs' where str: "Config_ConnString (pg_config p) w = (Returned (c', Inr ?cs), w\<lparr>filesystem := fs'\<rparr>)"
    and c': "writable_certs fs' Fs" "config_for t s c'"
      "createCertificates c' \<longleftrightarrow> tls_Cert (target_TLS t) \<noteq> [] \<or> tls_Key (target_TLS t) \<noteq> []"
    using ConnString_for [OF cfg w files] by blast
  have S1: "surroundings saw I home Fs calls (w\<lparr>filesystem := fs'\<rparr>)"
    using S c'(1) by (simp add: surroundings_def saw_local)
  have new1: "unused (pg_db p) (w\<lparr>filesystem := fs'\<rparr>)" using new by (simp add: unused_local)
  obtain w' where w': "sends (surroundings saw I home Fs) opened calls (Connection_Connect C (pg_db p) ''pgx'' ?cs)
      (w\<lparr>filesystem := fs'\<rparr>) None [Connected (connects calls) ''pgx'' ?cs] w'" "opened (pg_db p) (connects calls) w'"
    using sends_connected [OF S1 new1] by blast
  have "Postgresql_Connect C p w = (Returned (p\<lparr>pg_config := c'\<rparr>, None), w')"
    using str sendsD(1) [OF w'(1)] by (simp add: Postgresql_Connect_def go_bind_def go_return_def)
  with w' c' show ?thesis
    by (intro exI [of _ "p\<lparr>pg_config := c'\<rparr>"] exI [of _ w']) (simp add: sends_def opened_local)
qed

lemma sends_pg_Close:
  assumes S: "surroundings saw I home Fs calls w" and h: "opened (pg_db p) h w"
  shows "\<exists>w' r. sends (surroundings saw I home Fs) opened calls (Postgresql_Close C p) w r [Closed h] w'"
proof -
  let ?fs = "snd (os_Remove (sslCACertFile (pg_config p)) (snd (os_Remove (sslUserCertFile (pg_config p))
       (snd (os_Remove (sslUserKeyFile (pg_config p)) (filesystem w))))))"
  have "writable_certs ?fs Fs" using S by (auto simp: surroundings_def intro: writable_Remove)
  then have S1: "surroundings saw I home Fs calls (w\<lparr>filesystem := ?fs\<rparr>)"
    using S by (simp add: surroundings_def saw_local)
  have s1: "sends (surroundings saw I home Fs) opened calls (Config_Close (pg_config p)) w None [] (w\<lparr>filesystem := ?fs\<rparr>)"
    by (rule sends_silent) (simp_all add: Config_Close_apply S1 opened_local)
  have S2: "surroundings saw I home Fs (calls @ []) (w\<lparr>filesystem := ?fs\<rparr>)" using S1 by simp
  have h1: "opened (pg_db p) h (w\<lparr>filesystem := ?fs\<rparr>)" using h by (simp add: opened_local)
  obtain w' r where "sends (surroundings saw I home Fs) opened (calls @ []) (Connection_Close C (pg_db p))
      (w\<lparr>filesystem := ?fs\<rparr>) r [Closed h] w'"
    using sends_closed [OF S2 h1] by blast
  with sends_bind [OF s1, of "\<lambda>_. Connection_Close C (pg_db p)" r "[Closed h]" w'] show ?thesis
    unfolding Postgresql_Close_def by fastforce
qed

lemma sends_inDatabasePrivilege:
  assumes S: "surroundings saw I home Fs calls w" and cfg: "config_for t s (pg_config p)" and st: "other_verb st"
    and files: "target_TLS t = no_TLS \<or> cert_set home s dbname \<subseteq> Fs"
    and q: "pg_prepareStatementForPrivilege st arg u dbname on pr = q"
  shows "\<exists>w'. sends (surroundings saw I home Fs) opened calls (Postgresql_inDatabasePrivilege C p u dbname on pr st arg) w None
    [Connected (connects calls) ''pgx'' (pg_conninfo home t s dbname), Executed (connects calls) q [], Closed (connects calls)] w'"
proof -
  let ?S = "surroundings saw I home Fs" and ?n = "connects calls"
  let ?con = "[Connected ?n ''pgx'' (pg_conninfo home t s dbname)]"
  let ?new = "\<lambda>conn. NewPostgresql conn ((Config_Copy (pg_config p))\<lparr>DatabaseName := dbname\<rparr>)"
  obtain conn w1 where w1: "sends ?S opened calls (Connection_Copy C (pg_db p)) w conn [] w1" "unused conn w1"
    using sends_copied [OF S] by blast
  have conf: "config_for t s (pg_config (?new conn))" "DatabaseName (pg_config (?new conn)) = dbname" "pg_db (?new conn) = conn"
    using cfg by (simp_all add: config_for_def Config_Copy_def NewPostgresql_def)
  have S1: "?S calls w1" using sendsD(2) [OF w1(1)] by simp
  obtain p' w2 where w2: "sends ?S opened calls (Postgresql_Connect C (?new conn)) w1 (p', None) ?con w2"
    and h: "opened (pg_db p') ?n w2"
    using sends_pg_Connect [OF S1 conf(1)] w1(2) files unfolding conf(2,3) by blast
  obtain w3 where w3: "sends ?S opened (calls @ ?con) (Connection_Exec C (pg_db p') EnableLogger q []) w2 None [Executed ?n q []] w3"
    using sends_executed [OF sendsD(2) [OF w2] h] other_statement [OF st, of arg u dbname on pr "[]"] unfolding q by blast
  obtain w4 r where w4: "sends ?S opened ((calls @ ?con) @ [Executed ?n q []]) (Postgresql_Close C p') w3 r [Closed ?n] w4"
    using sends_pg_Close [OF sendsD(2) [OF w3] sendsD(4) [OF w3 h]] by blast
  have body: "sends ?S opened (calls @ ?con) (case (p', None) of (newP, err) \<Rightarrow> case err of Some e \<Rightarrow> go_return (Some e)
      | None \<Rightarrow> go_defer (Postgresql_Close C newP) (Connection_Exec C (pg_db newP) EnableLogger q [])) w2 None
      ([Executed ?n q []] @ [Closed ?n]) w4"
    using sends_defer [OF w3 w4] by simp
  have w1': "sends ?S opened calls (Connection_Copy C (pg_db p)) w conn [] w1" by (rule w1(1))
  have "sends ?S opened calls (Postgresql_inDatabasePrivilege C p u dbname on pr st arg) w None
      ([] @ ?con @ [Executed ?n q []] @ [Closed ?n]) w4"
    unfolding Postgresql_inDatabasePrivilege_def Let_def q
    by (rule sends_bind [OF w1'], simp only: append_Nil2, rule sends_bind [OF w2], rule body)
  then show ?thesis by auto
qed

lemma sends_pg_privileges:
  assumes S: "surroundings saw I home Fs calls w" and cfg: "config_for t s (pg_config p)"
    and h: "opened (pg_db p) h w" and prs: "\<forall>pr \<in> set prs. Privilege pr \<noteq> []" and verb: "other_verb verb"
    and files: "\<And>pr. pr \<in> set prs \<Longrightarrow> Database pr \<noteq> [] \<Longrightarrow> On pr \<noteq> [] \<Longrightarrow>
      target_TLS t = no_TLS \<or> cert_set home s (Database pr) \<subseteq> Fs"
  shows "\<exists>w'. sends (surroundings saw I home Fs) opened calls (Postgresql_privilegesProcessor C p u prs verb prep) w None
    (thread (pg_privilege_calls home t s verb prep u h) (connects calls) prs) w'"
proof -
  let ?S = "surroundings saw I home Fs"
  have step: "\<exists>w'. sends ?S opened calls (Postgresql_processPrivilege C p u verb prep pr) w None
      (pg_privilege_calls home t s verb prep u h (connects calls) pr) w' \<and> opened (pg_db p) h w'"
    if pr: "pr \<in> set prs" and S: "?S calls w" and h: "opened (pg_db p) h w" for pr calls w
  proof -
    have p: "Privilege pr \<noteq> []" using prs pr by blast
    have "\<exists>w'. sends ?S opened calls (Postgresql_processPrivilege C p u verb prep pr) w None
        (pg_privilege_calls home t s verb prep u h (connects calls) pr) w'"
    proof (cases "Database pr \<noteq> [] \<and> On pr \<noteq> []")
      case True
      with p sends_inDatabasePrivilege [OF S cfg verb files [OF pr] refl] show ?thesis
        by (simp add: Postgresql_processPrivilege_def pg_privilege_calls_def Let_def)
    next
      case False
      with p sends_executed [OF S h other_statement [OF verb], where l = EnableLogger] show ?thesis
        by (auto simp: Postgresql_processPrivilege_def pg_privilege_calls_def Let_def
            Postgresql_databasePrivilege_def Postgresql_privilege_def)
    qed
    with h show ?thesis by (blast dest: sendsD(4))
  qed
  have "\<exists>w'. sends ?S opened calls (go_for (Postgresql_processPrivilege C p u verb prep) prs) w None
      (thread (pg_privilege_calls home t s verb prep u h) (connects calls) prs) w' \<and> opened (pg_db p) h w'"
    by (rule sends_for [where P = "opened (pg_db p) h", OF step S h])
  then show ?thesis unfolding Postgresql_privilegesProcessor_def by blast
qed

lemma sends_pg_CreateUser:
  assumes S: "surroundings saw I home Fs calls w" and cfg: "config_for t s (pg_config p)"
    and certs: "createCertificates (pg_config p) \<longrightarrow> issuing t"
    and h: "opened (pg_db p) h w" and t: "spec_PostgreSQL (target_Spec t) = Some s"
    and K: "issuing t \<longrightarrow> authority_issues K (target_TLS t)"
  shows "\<exists>data w'. sends (surroundings saw I home Fs) opened calls (Postgresql_CreateUser C K p u (target_UserPassword t)) w
    (data, None) [create_call u h t] w' \<and> (data \<noteq> [] \<longrightarrow> issuing t)"
proof -
  let ?S = "surroundings saw I home Fs" and ?q = "createUserQuery u (target_UserPassword t)"
  obtain w1 err where run: "sends ?S opened calls (Connection_Exec C (pg_db p) (snd ?q) (fst ?q) []) w err [create_call u h t] w1"
    and err: "err = None \<or> isAlreadyExists err"
    using sends_executed_any [OF S h, where q = "fst ?q" and as = "[]" and l = "snd ?q"] t unfolding create_call_def by (simp, blast)
  have ok: "ignoreAlreadyExists err = None" using err by (auto simp: ignoreAlreadyExists_def)
  show ?thesis
  proof (cases "Config_CreateCerts (pg_config p) \<and> \<not> isAlreadyExists err")
    case True
    then have issuing: "issuing t" using certs by (simp add: Config_CreateCerts_def)
    then obtain data n where gen: "genPostgresCertFromCA K (pg_config p) u w1 = (Returned (Inr data), w1\<lparr>draws := n\<rparr>)"
      using genPostgresCertFromCA_succeeds [OF cfg] K by blast
    have "Postgresql_CreateUser C K p u (target_UserPassword t) w = (Returned (data, None), w1\<lparr>draws := n\<rparr>)"
      using True sendsD(1) [OF run] gen ok by (simp add: Postgresql_CreateUser_def case_prod_unfold go_bind_def go_return_def)
    with run issuing show ?thesis
      by (intro exI [of _ data] exI [of _ "w1\<lparr>draws := n\<rparr>"]) (simp add: sends_def surroundings_def saw_local opened_local)
  next
    case False
    then have "Postgresql_CreateUser C K p u (target_UserPassword t) w = (Returned ([], None), w1)"
      using sendsD(1) [OF run] ok by (auto simp: Postgresql_CreateUser_def case_prod_unfold go_bind_def go_return_def)
    with run show ?thesis by (auto simp: sends_def)
  qed
qed

lemma pg_drives:
  assumes cfg: "config_for t s (pg_config p)" and certs: "createCertificates (pg_config p) \<longrightarrow> issuing t"
    and t: "spec_PostgreSQL (target_Spec t) = Some s" "servable K G t" and files: "target_files home t \<subseteq> Fs"
  shows "drives (surroundings saw I home Fs) opened home u t (pg_db p) h (Postgresql_Database C K p)"
  unfolding drives_def
proof (intro allI impI conjI)
  fix calls w
  let ?S = "surroundings saw I home Fs"
  assume S: "?S calls w" and h: "opened (pg_db p) h w"
  have K: "issuing t \<longrightarrow> authority_issues K (target_TLS t)" and prs: "\<forall>pr \<in> set (target_Privileges t). Privilege pr \<noteq> []"
    using t by (simp_all add: servable_def)
  have fs: "target_TLS t = no_TLS \<or> cert_set home s (Database pr) \<subseteq> Fs"
    if "pr \<in> set (target_Privileges t)" "Database pr \<noteq> []" "On pr \<noteq> []" for pr
    using files that t(1) by (auto simp: target_files_def target_databases_def split: if_splits)
  show "\<exists>data w'. sends ?S opened calls (Database_CreateUser (Postgresql_Database C K p) u (target_UserPassword t)) w (data, None)
      [create_call u h t] w' \<and> (data \<noteq> [] \<longrightarrow> issuing t)"
    using sends_pg_CreateUser [OF S cfg certs h t(1) K] by simp
  obtain w2 where "sends ?S opened calls (Connection_Exec C (pg_db p) EnableLogger (deleteUserQuery u) []) w None [drop_call u h t] w2"
    using sends_executed [OF S h other_drop] t unfolding drop_call_def by (simp, blast)
  from sends_map [OF this, of ignoreNotExists]
  show "\<exists>w'. sends ?S opened calls (Database_DeleteUser (Postgresql_Database C K p) u) w None [drop_call u h t] w'"
    by (auto simp: Postgresql_DeleteUser_def ignoreNotExists_def)
  note privileges = sends_pg_privileges [OF S cfg h prs _ fs, where u = u]
  show "\<exists>w'. sends ?S opened calls (Database_ApplyPrivileges (Postgresql_Database C K p) u (target_Privileges t)) w None
      (privileges_calls home ''GRANT'' ''TO'' u h (connects calls) t) w'"
    using privileges [OF other_verbs(1)] t(1) by (simp add: Postgresql_ApplyPrivileges_def privileges_calls_def)
  obtain w3 where "sends ?S opened calls (Postgresql_privilegesProcessor C p u (target_Privileges t) ''REVOKE'' ''FROM'') w None
      (privileges_calls home ''REVOKE'' ''FROM'' u h (connects calls) t) w3"
    using privileges [OF other_verbs(2)] t(1) by (auto simp: privileges_calls_def)
  from sends_map [OF this, of ignoreNotExists]
  show "\<exists>w'. sends ?S opened calls (Database_RevokePrivileges (Postgresql_Database C K p) u (target_Privileges t)) w None
      (privileges_calls home ''REVOKE'' ''FROM'' u h (connects calls) t) w'"
    by (auto simp: Postgresql_RevokePrivileges_def ignoreNotExists_def)
  show "\<exists>w' r. sends ?S opened calls (Database_Close (Postgresql_Database C K p)) w r [Closed h] w'"
    using sends_pg_Close [OF S h] by simp
qed

section \<open>MySQL\<close>

lemma sends_my_privileges:
  assumes S: "surroundings saw I home Fs calls w" and h: "opened (my_db m) h w"
  shows "\<exists>w'. sends (surroundings saw I home Fs) opened calls (Mysql_privilegesProcessor C m u prs verb prep) w None
    (thread (my_privilege_calls verb prep u h) (connects calls) prs) w'"
proof -
  let ?S = "surroundings saw I home Fs"
  let ?prep = "\<lambda>pr. my_prepareStatementForPrivilege verb prep u (Database pr) (On pr) (Privilege pr)"
  have step: "\<exists>w'. sends ?S opened calls (case ?prep pr of (query, args) \<Rightarrow> Connection_Exec C (my_db m) EnableLogger query args)
      w None (my_privilege_calls verb prep u h (connects calls) pr) w' \<and> opened (my_db m) h w'"
    if S: "?S calls w" and h: "opened (my_db m) h w" for calls w pr
  proof -
    obtain w' where "sends ?S opened calls (Connection_Exec C (my_db m) EnableLogger (fst (?prep pr)) (snd (?prep pr))) w None
        [Executed h (fst (?prep pr)) (snd (?prep pr))] w'"
      using sends_executed [OF S h my_other] by blast
    then show ?thesis using h sendsD(4) by (fastforce simp: my_privilege_calls_def case_prod_unfold)
  qed
  have "\<exists>w'. sends ?S opened calls (go_for (\<lambda>pr. case ?prep pr of (query, args) \<Rightarrow> Connection_Exec C (my_db m) EnableLogger query args)
      prs) w None (thread (my_privilege_calls verb prep u h) (connects calls) prs) w' \<and> opened (my_db m) h w'"
    by (rule sends_for [where P = "opened (my_db m) h", OF step S h])
  then show ?thesis by (auto simp: Mysql_privilegesProcessor_def)
qed

lemma my_drives:
  assumes t: "spec_PostgreSQL (target_Spec t) = None" "spec_MySQL (target_Spec t) = Some s"
    and m: "mysql_usersHostname (my_config m) = myspec_UsersHostname s"
  shows "drives (surroundings saw I home Fs) opened home u t (my_db m) h (Mysql_Database C m)"
  unfolding drives_def
proof (intro allI impI conjI)
  fix calls w
  let ?S = "surroundings saw I home Fs"
  assume S: "?S calls w" and h: "opened (my_db m) h w"
  have host: "MysqlConfig_UsersHostname (my_config m) = my_hostname s"
    by (simp add: MysqlConfig_UsersHostname_def my_hostname_def m)
  note exec = sends_executed [OF S h other_args] and privileges = sends_my_privileges [OF S h, of u "target_Privileges t"]
  show "\<exists>w'. sends ?S opened calls (Database_ApplyPrivileges (Mysql_Database C m) u (target_Privileges t)) w None
      (privileges_calls home ''GRANT'' ''TO'' u h (connects calls) t) w'"
    using privileges t(1) by (simp add: Mysql_ApplyPrivileges_def privileges_calls_def)
  show "\<exists>w'. sends ?S opened calls (Database_RevokePrivileges (Mysql_Database C m) u (target_Privileges t)) w None
      (privileges_calls home ''REVOKE'' ''FROM'' u h (connects calls) t) w'"
    using privileges t(1) by (simp add: Mysql_RevokePrivileges_def privileges_calls_def)
  obtain w1 where "sends ?S opened calls (Connection_Exec C (my_db m) DisableLogger ''CREATE USER ?@? IDENTIFIED BY ?''
      [ArgString u, ArgString (my_hostname s), ArgString (target_UserPassword t)]) w None [create_call u h t] w1"
    using exec t unfolding create_call_def by (simp, blast)
  from sends_map [OF this, of "\<lambda>err. ([], err)"]
  show "\<exists>data w'. sends ?S opened calls (Database_CreateUser (Mysql_Database C m) u (target_UserPassword t)) w (data, None)
      [create_call u h t] w' \<and> (data \<noteq> [] \<longrightarrow> issuing t)"
    by (auto simp: Mysql_CreateUser_def host)
  show "\<exists>w'. sends ?S opened calls (Database_DeleteUser (Mysql_Database C m) u) w None [drop_call u h t] w'"
    using exec t by (simp add: Mysql_DeleteUser_def drop_call_def host)
  show "\<exists>w' r. sends ?S opened calls (Database_Close (Mysql_Database C m)) w r [Closed h] w'"
    using sends_closed [OF S h] by (simp add: Mysql_Close_def)
qed

end

end
