(* ===== verification/Served_Reconciler.thy ===== *)
theory Served_Reconciler
  imports Served_Drivers User_Controller
begin

text \<open>
  The reconciler over connections that keep the contract \<open>served\<close>, in a cluster that holds
  what a user refers to: every reference resolves to a target, and the reconciler sends what
  the reference says of the targets, one after the other.
\<close>

section \<open>A cluster that answers\<close>

text \<open>
  What the cluster holds for a run: the resources and the secrets, by name. \<open>answers\<close>: in
  every state with \<open>I\<close> the reads return what \<open>V\<close> holds, and reading keeps \<open>I\<close>.
\<close>

record View =
  view_Database :: "NamespacedName \<Rightarrow> DatabaseCR option"
  view_Privileges :: "NamespacedName \<Rightarrow> Privileges option"
  view_Secret :: "NamespacedName \<Rightarrow> K8sSecret option"

definition answers :: "'k Client \<Rightarrow> View \<Rightarrow> ('k \<Rightarrow> bool) \<Rightarrow> bool" where
  "answers E V I \<longleftrightarrow> (\<forall>k. I k \<longrightarrow>
     (\<forall>nn x. view_Database V nn = Some x \<longrightarrow> fst (Client_Get_Database E nn k) = Inr x) \<and>
     (\<forall>nn x. view_Privileges V nn = Some x \<longrightarrow> fst (Client_Get_Privileges E nn k) = Inr x) \<and>
     (\<forall>nn x. view_Secret V nn = Some x \<longrightarrow> fst (Client_Get_Secret E nn k) = Inr x) \<and>
     (\<forall>nn. I (snd (Client_Get_User E nn k)) \<and> I (snd (Client_Get_Database E nn k)) \<and>
        I (snd (Client_Get_Privileges E nn k)) \<and> I (snd (Client_Get_Secret E nn k))))"

text \<open>The passwords: an incomplete reference means that there is none.\<close>

definition complete_ref :: "SecretRef \<Rightarrow> bool" where
  "complete_ref s \<longleftrightarrow> secret_Key s \<noteq> [] \<and> nn_Name (secret_Secret s) \<noteq> [] \<and> nn_Namespace (secret_Secret s) \<noteq> []"

definition admin_password :: "View \<Rightarrow> SecretRef \<Rightarrow> string option" where
  "admin_password V s =
     (if complete_ref s
      then map_option (\<lambda>secret. map_index (copy_data (k8ssecret_Data secret)) (secret_Key s)) (view_Secret V (secret_Secret s))
      else Some [])"

definition user_password :: "View \<Rightarrow> SecretRef \<Rightarrow> string option" where
  "user_password V s =
     (if complete_ref s
      then Option.bind (view_Secret V (secret_Secret s)) (\<lambda>secret. map_of (copy_data (k8ssecret_Data secret)) (secret_Key s))
      else Some [])"

text \<open>The certificates of a PostgreSQL database, from its two secrets when the mode asks for TLS.\<close>

definition tls_material :: "View \<Rightarrow> PostgreSQLConfig \<Rightarrow> TLS option" where
  "tls_material V c =
     (if uses_ssl (pgspec_SSLMode c)
      then Option.bind (view_Secret V (pgspec_SSLCredentialsSecret c)) (\<lambda>sec.
           map_option (\<lambda>ca. \<lparr>tls_CA = map_index (copy_data (k8ssecret_Data sec)) ''ca.crt'',
               tls_Cert = map_index (copy_data (k8ssecret_Data sec)) ''tls.crt'',
               tls_Key = map_index (copy_data (k8ssecret_Data sec)) ''tls.key'',
               tls_CAKey = map_index (copy_data (k8ssecret_Data ca)) (secret_Key (pgspec_SSLCAKey c))\<rparr>)
             (view_Secret V (secret_Secret (pgspec_SSLCAKey c))))
      else Some no_TLS)"

primrec view_privileges :: "View \<Rightarrow> Name list \<Rightarrow> PrivilegeSpec list option" where
  "view_privileges V [] = Some []"
| "view_privileges V (nn # nns) =
     Option.bind (view_Privileges V (Name_ToNamespacedName nn)) (\<lambda>p.
       map_option (\<lambda>ps. privileges_Privileges p @ ps) (view_privileges V nns))"

definition admin_secret :: "DatabaseSpec \<Rightarrow> SecretRef" where
  "admin_secret s = (case spec_PostgreSQL s of
     Some c \<Rightarrow> pgspec_PasswordSecret c | None \<Rightarrow> myspec_PasswordSecret (the (spec_MySQL s)))"

text \<open>The target of a reference, when everything it needs is there and can be served.\<close>

definition resolves :: "Crypto \<Rightarrow> (URL \<Rightarrow> error + string) \<Rightarrow> View \<Rightarrow> DatabaseRef \<Rightarrow> Target \<Rightarrow> bool" where
  "resolves K GenMysql V ref t \<longleftrightarrow>
     (\<exists>dbc. view_Database V \<lparr>nn_Namespace = [], nn_Name = ref_Name ref\<rparr> = Some dbc \<and> database_Spec dbc = target_Spec t) \<and>
     admin_password V (admin_secret (target_Spec t)) = Some (target_AdminPassword t) \<and>
     (case spec_PostgreSQL (target_Spec t) of None \<Rightarrow> target_TLS t = no_TLS | Some c \<Rightarrow> tls_material V c = Some (target_TLS t)) \<and>
     user_password V (ref_PasswordSecret ref) = Some (target_UserPassword t) \<and>
     view_privileges V (ref_Privileges ref) = Some (target_Privileges t) \<and>
     servable K GenMysql t"

text \<open>
  The API server takes the secret for a reference: when there is none, the owner can be set,
  creating it succeeds, and \<open>I\<close> still holds.
\<close>

definition takes_secret :: "'k Client \<Rightarrow> ('k \<Rightarrow> bool) \<Rightarrow> DatabaseRef \<Rightarrow> bool" where
  "takes_secret E I ref \<longleftrightarrow> (\<forall>k err u data. I k \<longrightarrow> fst (Client_Get_Secret E (ref_CreatedSecret ref) k) = Inl err \<longrightarrow>
     (\<exists>s. ctrl_SetControllerReference E u (newSecret (ref_CreatedSecret ref) data) = Inr s \<and>
        fst (Client_Create_Secret E s (snd (Client_Get_Secret E (ref_CreatedSecret ref) k))) = None \<and>
        I (snd (Client_Create_Secret E s (snd (Client_Get_Secret E (ref_CreatedSecret ref) k))))))"

text \<open>The reads return what the view holds.\<close>

lemma read_passwords:
  fixes w :: "('k, 'd) World"
  assumes E: "answers E V I" and w: "I (kube w)"
  shows "admin_password V s = Some pw \<Longrightarrow> \<exists>k. passwordFromSecret E s w = (Returned (Inr pw), w\<lparr>kube := k\<rparr>) \<and> I k"
    and "r_Client r = E \<Longrightarrow> user_password V s = Some pw \<Longrightarrow>
      \<exists>k. UserReconciler_userPassword r s w = (Returned (Inr pw), w\<lparr>kube := k\<rparr>) \<and> I k"
  using E w
  by (auto simp: admin_password_def user_password_def complete_ref_def passwordFromSecret_def UserReconciler_userPassword_def
      utils_DecodeSecretData_def utils_Secret_apply go_bind_def go_return_def answers_def bind_eq_Some_conv
      intro: exI [of _ "kube w"] split: if_splits)

lemma read_secret:
  assumes "answers E V I" and "I (kube w)" and "view_Secret V nn = Some s"
  shows "\<exists>k. utils_DecodeSecretData E nn w = (Returned (Inr (copy_data (k8ssecret_Data s))), w\<lparr>kube := k\<rparr>) \<and> I k"
  using assms by (auto simp: answers_def utils_DecodeSecretData_def utils_Secret_apply go_bind_def go_return_def)

lemma read_material:
  assumes E: "answers E V I" and w: "I (kube w)" and tls: "tls_material V c = Some tls"
  shows "\<exists>sslData k. sslMaterial E c w = (Returned (Inr (sslData, tls_CAKey tls)), w\<lparr>kube := k\<rparr>) \<and> I k \<and>
    map_index sslData ''ca.crt'' = tls_CA tls \<and> map_index sslData ''tls.crt'' = tls_Cert tls \<and>
    map_index sslData ''tls.key'' = tls_Key tls"
proof (cases "uses_ssl (pgspec_SSLMode c)")
  case True
  with tls obtain sec ca where s: "view_Secret V (pgspec_SSLCredentialsSecret c) = Some sec"
    "view_Secret V (secret_Secret (pgspec_SSLCAKey c)) = Some ca"
    and tls': "tls_CA tls = map_index (copy_data (k8ssecret_Data sec)) ''ca.crt''"
      "tls_Cert tls = map_index (copy_data (k8ssecret_Data sec)) ''tls.crt''"
      "tls_Key tls = map_index (copy_data (k8ssecret_Data sec)) ''tls.key''"
      "tls_CAKey tls = map_index (copy_data (k8ssecret_Data ca)) (secret_Key (pgspec_SSLCAKey c))"
    by (auto simp: tls_material_def bind_eq_Some_conv)
  obtain k1 where k1: "utils_DecodeSecretData E (pgspec_SSLCredentialsSecret c) w =
      (Returned (Inr (copy_data (k8ssecret_Data sec))), w\<lparr>kube := k1\<rparr>)" "I k1" using read_secret [OF E w s(1)] by blast
  have "I (kube (w\<lparr>kube := k1\<rparr>))" using k1(2) by simp
  from read_secret [OF E this s(2)] obtain k2 where k2: "utils_DecodeSecretData E (secret_Secret (pgspec_SSLCAKey c)) (w\<lparr>kube := k1\<rparr>) =
      (Returned (Inr (copy_data (k8ssecret_Data ca))), w\<lparr>kube := k2\<rparr>)" "I k2" by auto
  with k1 True tls' show ?thesis by (simp add: sslMaterial_def go_bind_def go_return_def) blast
next
  case False
  with tls w show ?thesis
    by (auto simp: sslMaterial_def tls_material_def no_TLS_def map_index_def go_return_def intro: exI [of _ "kube w"])
qed

lemma read_privileges:
  assumes E: "answers E V I" and r: "r_Client r = E"
  shows "I (kube w) \<Longrightarrow> view_privileges V nns = Some ps \<Longrightarrow>
    \<exists>k. privileges_loop r ps0 nns w = (Returned (Inr (ps0 @ ps)), w\<lparr>kube := k\<rparr>) \<and> I k"
proof (induction nns arbitrary: w ps ps0)
  case Nil
  then show ?case by (auto simp: go_return_def intro: exI [of _ "kube w"])
next
  case (Cons nn nns)
  then obtain p qs where p: "view_Privileges V (Name_ToNamespacedName nn) = Some p" "view_privileges V nns = Some qs"
    "ps = privileges_Privileges p @ qs" by (auto simp: bind_eq_Some_conv)
  let ?k = "snd (Client_Get_Privileges E (Name_ToNamespacedName nn) (kube w))"
  have got: "fst (Client_Get_Privileges E (Name_ToNamespacedName nn) (kube w)) = Inr p" "I ?k"
    using E Cons.prems(1) p(1) by (auto simp: answers_def)
  from Cons.IH [of "w\<lparr>kube := ?k\<rparr>" qs "ps0 @ privileges_Privileges p"] got(2) p(2) obtain k where
    "privileges_loop r (ps0 @ privileges_Privileges p) nns (w\<lparr>kube := ?k\<rparr>) =
      (Returned (Inr ((ps0 @ privileges_Privileges p) @ qs)), w\<lparr>kube := k\<rparr>)" "I k" by auto
  with got p(3) show ?case by (auto simp: go_bind_def on_kube_apply r)
qed

section \<open>The reconciler sends what the reference says\<close>

text \<open>A reconciler whose drivers get their connection from \<open>new_conn\<close>.\<close>

definition reconciles_over :: "('c, ('k, 'd) World) Connection \<Rightarrow> (('k, 'd) World, 'c) go \<Rightarrow> Crypto \<Rightarrow>
    (URL \<Rightarrow> error + string) \<Rightarrow> 'k Client \<Rightarrow> ('k, 'd) UserReconciler \<Rightarrow> bool" where
  "reconciles_over C new_conn K GenMysql E r \<longleftrightarrow> r_Client r = E \<and>
     (\<forall>s. r_DatabaseCreator r E s = go_bind new_conn (\<lambda>conn. newDatabase C K GenMysql E conn s))"

lemma manager_reconciles_over:
  "reconciles_over (DefaultConnector_Connection X) NewDefaultConnector K G E (manager_reconciler X K G E)"
  by (simp add: reconciles_over_def manager_reconciler_def NewDatabase_def)

lemma test_reconciles_over:
  "reconciles_over FakeConnection_Connection (go_return ()) K G E (test_reconciler K G E)"
  by (simp add: reconciles_over_def test_reconciler_def FakeDatabase_DatabaseCreatorFunc_def)

definition target_calls :: "bool \<Rightarrow> string \<Rightarrow> (URL \<Rightarrow> error + string) \<Rightarrow> string \<Rightarrow> nat \<Rightarrow> Target \<Rightarrow> Call list" where
  "target_calls del = (if del then remove_calls else apply_calls)"

context served
begin

text \<open>Creating the driver of a target: one connection, over which the driver then works.\<close>

lemma sends_newPostgresql:
  assumes E: "answers E V I" and S: "surroundings saw I home Fs calls w" and t: "servable K G t" "target_files home t \<subseteq> Fs"
    and c: "spec_PostgreSQL (target_Spec t) = Some c"
    and pw: "admin_password V (pgspec_PasswordSecret c) = Some (target_AdminPassword t)"
    and tls: "tls_material V c = Some (target_TLS t)" and new: "unused conn w"
  shows "\<exists>db w'. sends (surroundings saw I home Fs) opened calls (newPostgresql C K E conn (Some c)) w (Inr db)
      [connect_call home G (connects calls) t] w' \<and> opened conn (connects calls) w' \<and>
    (\<forall>u. drives (surroundings saw I home Fs) opened home u t conn (connects calls) db)"
proof -
  let ?S = "surroundings saw I home Fs" and ?n = "connects calls" and ?pw = "target_AdminPassword t" and ?t = "target_TLS t"
  let ?cfg = "NewConfig (pgspec_Host c) (pgspec_Port c) (pgspec_User c) ?pw (pgspec_DatabaseName c) (pgspec_SSLMode c)
    (tls_CA ?t) (tls_Cert ?t) (tls_Key ?t) (tls_CAKey ?t)"
  have I: "I (kube w)" using S by (simp add: surroundings_def)
  obtain d k1 where ssl: "sslMaterial E c w = (Returned (Inr (d, tls_CAKey ?t)), w\<lparr>kube := k1\<rparr>)" "I k1"
    and d: "map_index d ''ca.crt'' = tls_CA ?t" "map_index d ''tls.crt'' = tls_Cert ?t" "map_index d ''tls.key'' = tls_Key ?t"
    using read_material [OF E I tls] by blast
  have "I (kube (w\<lparr>kube := k1\<rparr>))" using ssl(2) by simp
  from read_passwords(1) [OF E this pw] obtain k2 where
    k2: "passwordFromSecret E (pgspec_PasswordSecret c) (w\<lparr>kube := k1\<rparr>) = (Returned (Inr ?pw), w\<lparr>kube := k2\<rparr>)" "I k2" by auto
  have cfg: "config_for t c (pg_config (NewPostgresql conn ?cfg))" "pg_db (NewPostgresql conn ?cfg) = conn"
    "DatabaseName (pg_config (NewPostgresql conn ?cfg)) = pgspec_DatabaseName c"
    by (simp_all add: config_for_def NewPostgresql_def NewConfig_def)
  have files: "?t = no_TLS \<or> cert_set home c (pgspec_DatabaseName c) \<subseteq> Fs"
    using t(2) c by (auto simp: target_files_def target_databases_def split: if_splits)
  have S2: "?S calls (w\<lparr>kube := k2\<rparr>)" by (rule surroundings_kube [OF S k2(2)])
  have new2: "unused conn (w\<lparr>kube := k2\<rparr>)" using new by (simp add: unused_local)
  obtain p' w' where con: "sends ?S opened calls (Postgresql_Connect C (NewPostgresql conn ?cfg)) (w\<lparr>kube := k2\<rparr>) (p', None)
      [Connected ?n ''pgx'' (pg_conninfo home t c (pgspec_DatabaseName c))] w'"
    and p': "opened conn ?n w'" "config_for t c (pg_config p')" "pg_db p' = conn"
      "createCertificates (pg_config p') \<longleftrightarrow> tls_Cert ?t \<noteq> [] \<or> tls_Key ?t \<noteq> []"
    using sends_pg_Connect [OF S2 cfg(1)] new2 files unfolding cfg(2,3) by metis
  have "newPostgresql C K E conn (Some c) w = (Returned (Inr (Postgresql_Database C K p')), w')"
    using ssl(1) k2(1) sendsD(1) [OF con] by (simp add: newPostgresql_def d go_bind_def go_return_def)
  with con have "sends ?S opened calls (newPostgresql C K E conn (Some c)) w (Inr (Postgresql_Database C K p'))
      [connect_call home G ?n t] w'"
    by (simp add: sends_def connect_call_def c opened_local)
  moreover have "createCertificates (pg_config p') \<longrightarrow> issuing t" using p'(4) c by (simp add: issuing_def)
  then have "drives ?S opened home u t conn ?n (Postgresql_Database C K p')" for u
    using pg_drives [OF p'(2) _ c t] p'(3) by blast
  ultimately show ?thesis using p'(1) by blast
qed

lemma sends_newMysql:
  assumes E: "answers E V I" and S: "surroundings saw I home Fs calls w"
    and c: "spec_PostgreSQL (target_Spec t) = None" "spec_MySQL (target_Spec t) = Some c"
    and pw: "admin_password V (myspec_PasswordSecret c) = Some (target_AdminPassword t)"
    and dsn: "my_dsn G c (target_AdminPassword t) = Inr dsn" and new: "unused conn w"
  shows "\<exists>db w'. sends (surroundings saw I home Fs) opened calls (newMysql C G E conn (Some c)) w (Inr db)
      [connect_call home G (connects calls) t] w' \<and> opened conn (connects calls) w' \<and>
    (\<forall>u. drives (surroundings saw I home Fs) opened home u t conn (connects calls) db)"
proof -
  let ?S = "surroundings saw I home Fs" and ?n = "connects calls" and ?pw = "target_AdminPassword t"
  let ?cfg = "mysql_NewConfig (myspec_Host c) (myspec_Port c) (myspec_User c) ?pw (myspec_DatabaseName c) (myspec_UsersHostname c)"
  have I: "I (kube w)" using S by (simp add: surroundings_def)
  obtain k where k: "passwordFromSecret E (myspec_PasswordSecret c) w = (Returned (Inr ?pw), w\<lparr>kube := k\<rparr>)" "I k"
    using read_passwords(1) [OF E I pw] by blast
  have str: "MysqlConfig_ConnString G ?cfg = Inr dsn"
    using dsn by (auto simp: MysqlConfig_ConnString_def mysql_NewConfig_def my_dsn_def Let_def)
  have new': "unused conn (w\<lparr>kube := k\<rparr>)" using new by (simp add: unused_local)
  obtain w' where con: "sends ?S opened calls (Connection_Connect C conn ''mysql'' dsn) (w\<lparr>kube := k\<rparr>) None
      [Connected ?n ''mysql'' dsn] w'" and at: "opened conn ?n w'"
    using sends_connected [OF surroundings_kube [OF S k(2)] new'] by blast
  have "newMysql C G E conn (Some c) w = (Returned (Inr (Mysql_Database C (NewMysql conn ?cfg))), w')"
    using k(1) sendsD(1) [OF con] str
    by (simp add: newMysql_def Mysql_Connect_def NewMysql_def go_bind_def go_return_def)
  with con have "sends ?S opened calls (newMysql C G E conn (Some c)) w (Inr (Mysql_Database C (NewMysql conn ?cfg)))
      [connect_call home G ?n t] w'"
    by (simp add: sends_def connect_call_def c dsn opened_local)
  moreover have "drives ?S opened home u t conn ?n (Mysql_Database C (NewMysql conn ?cfg))" for u
    using my_drives [OF c, of "NewMysql conn ?cfg" I home Fs u ?n] by (simp add: NewMysql_def mysql_NewConfig_def)
  ultimately show ?thesis using at by blast
qed

lemma sends_creator:
  assumes E: "answers E V I" and S: "surroundings saw I home Fs calls w" and t: "resolves K G V ref t" "target_files home t \<subseteq> Fs"
  shows "\<exists>db c w'. sends (surroundings saw I home Fs) opened calls
      (go_bind new_conn (\<lambda>conn. newDatabase C K G E conn (target_Spec t))) w (Inr db) [connect_call home G (connects calls) t] w' \<and>
    opened c (connects calls) w' \<and> (\<forall>u. drives (surroundings saw I home Fs) opened home u t c (connects calls) db)"
proof -
  let ?S = "surroundings saw I home Fs" and ?n = "connects calls"
  obtain conn w1 where w1: "sends ?S opened calls new_conn w conn [] w1" "unused conn w1"
    using sends_made [OF S] by blast
  have S1: "?S calls w1" using sendsD(2) [OF w1(1)] by simp
  have sv: "servable K G t" and pw: "admin_password V (admin_secret (target_Spec t)) = Some (target_AdminPassword t)"
    using t(1) by (simp_all add: resolves_def)
  have "\<exists>db w'. sends ?S opened calls (newDatabase C K G E conn (target_Spec t)) w1 (Inr db) [connect_call home G ?n t] w' \<and>
      opened conn ?n w' \<and> (\<forall>u. drives ?S opened home u t conn ?n db)"
  proof (cases "spec_PostgreSQL (target_Spec t)")
    case (Some c)
    have type: "spec_Type (target_Spec t) = PostgreSQL_type" using sv Some by (auto simp: servable_def DatabaseSpec_XValidation_def)
    have "tls_material V c = Some (target_TLS t)" using t(1) Some by (simp add: resolves_def)
    with sends_newPostgresql [OF E S1 sv t(2) Some _ _ w1(2)] pw Some type show ?thesis
      by (simp add: newDatabase_def admin_secret_def)
  next
    case None
    with sv obtain c dsn where c: "spec_Type (target_Spec t) = MySQL_type" "spec_MySQL (target_Spec t) = Some c"
      "my_dsn G c (target_AdminPassword t) = Inr dsn"
      by (auto simp: servable_def DatabaseSpec_XValidation_def)
    with sends_newMysql [OF E S1 None c(2) _ c(3) w1(2)] pw None show ?thesis
      by (simp add: newDatabase_def admin_secret_def)
  qed
  then obtain db w' where w': "sends ?S opened (calls @ []) (newDatabase C K G E conn (target_Spec t)) w1 (Inr db)
      [connect_call home G ?n t] w'" "opened conn ?n w'" "\<forall>u. drives ?S opened home u t conn ?n db" by auto
  have "sends ?S opened calls (go_bind new_conn (\<lambda>conn. newDatabase C K G E conn (target_Spec t))) w (Inr db)
      ([] @ [connect_call home G ?n t]) w'"
    by (rule sends_bind [OF w1(1)], rule w'(1))
  with w'(2,3) show ?thesis by auto
qed

lemma sends_createUserInDatabase:
  assumes E: "answers E V I" and S: "surroundings saw I home Fs calls w" and r: "r_Client r = E"
    and pw: "user_password V (ref_PasswordSecret ref) = Some (target_UserPassword t)"
    and db: "drives (surroundings saw I home Fs) opened home (meta_Name (user_Meta u)) t c h db" "opened c h w"
    and secret: "issuing t \<Longrightarrow> takes_secret E I ref"
  shows "\<exists>w'. sends (surroundings saw I home Fs) opened calls (UserReconciler_createUserInDatabase r db u ref) w None
    [create_call (meta_Name (user_Meta u)) h t] w'"
proof -
  let ?S = "surroundings saw I home Fs" and ?u = "meta_Name (user_Meta u)" and ?nn = "ref_CreatedSecret ref"
  have nn: "\<lparr>nn_Namespace = nn_Namespace ?nn, nn_Name = nn_Name ?nn\<rparr> = ?nn" by simp
  have I: "I (kube w)" using S by (simp add: surroundings_def)
  obtain k where k: "UserReconciler_userPassword r (ref_PasswordSecret ref) w = (Returned (Inr (target_UserPassword t)), w\<lparr>kube := k\<rparr>)"
    "I k" using read_passwords(2) [OF E I r pw] by blast
  have h: "opened c h (w\<lparr>kube := k\<rparr>)" using db(2) by (simp add: opened_local)
  obtain data w1 where w1: "sends ?S opened calls (Database_CreateUser db ?u (target_UserPassword t)) (w\<lparr>kube := k\<rparr>)
      (data, None) [create_call ?u h t] w1" and data: "data \<noteq> [] \<longrightarrow> issuing t"
    using db(1) surroundings_kube [OF S k(2)] h unfolding drives_def by blast
  note S1 = sendsD(2) [OF w1]
  have I1: "I (kube w1)" using S1 by (simp add: surroundings_def)
  let ?got = "Client_Get_Secret E ?nn (kube w1)"
  have I2: "I (snd ?got)" using E I1 by (simp add: answers_def)
  have "\<exists>k'. UserReconciler_createUserInDatabase r db u ref w = (Returned None, w1\<lparr>kube := k'\<rparr>) \<and> I k'"
  proof (cases "data = []")
    case True
    with k(1) sendsD(1) [OF w1] I1 show ?thesis
      by (auto simp: UserReconciler_createUserInDatabase_def go_bind_def go_return_def intro: exI [of _ "kube w1"])
  next
    case False
    show ?thesis
    proof (cases "fst ?got")
      case (Inr s)
      with False k(1) sendsD(1) [OF w1] I2 show ?thesis
        by (auto simp: UserReconciler_createUserInDatabase_def go_bind_def go_return_def Let_def nn utils_Secret_apply r
            intro: exI [of _ "snd ?got"])
    next
      case (Inl err)
      have "issuing t" using data False by blast
      with secret I1 Inl obtain s where s: "ctrl_SetControllerReference E u (newSecret ?nn data) = Inr s"
        "fst (Client_Create_Secret E s (snd ?got)) = None" "I (snd (Client_Create_Secret E s (snd ?got)))"
        unfolding takes_secret_def by blast
      with False k(1) sendsD(1) [OF w1] Inl show ?thesis
        by (auto simp: UserReconciler_createUserInDatabase_def go_bind_def go_return_def Let_def nn utils_Secret_apply r
            on_kube_apply intro: exI [of _ "snd (Client_Create_Secret E s (snd ?got))"])
    qed
  qed
  then obtain k' where k': "UserReconciler_createUserInDatabase r db u ref w = (Returned None, w1\<lparr>kube := k'\<rparr>)" "I k'" by blast
  with w1 surroundings_kube [OF S1 k'(2)] show ?thesis
    by (intro exI [of _ "w1\<lparr>kube := k'\<rparr>"]) (simp add: sends_def opened_local)
qed

lemma sends_withDatabase:
  assumes E: "answers E V I" and S: "surroundings saw I home Fs calls w" and r: "r_Client r = E" and t: "resolves K G V ref t"
    and db: "drives (surroundings saw I home Fs) opened home (meta_Name (user_Meta u)) t c n db" "opened c n w"
    and n: "connects calls = Suc n"
    and secret: "\<not> del \<Longrightarrow> issuing t \<Longrightarrow> takes_secret E I ref"
      "del \<Longrightarrow> \<forall>k. I k \<longrightarrow> I (snd (Client_Delete_Secret E (newSecret (ref_CreatedSecret ref) []) k))"
  shows "\<exists>w'. sends (surroundings saw I home Fs) opened calls (UserReconciler_withDatabase r u del ref (target_Privileges t) db) w None
    (tl (target_calls del home G (meta_Name (user_Meta u)) n t)) w'"
proof (cases del)
  case False
  let ?S = "surroundings saw I home Fs" and ?u = "meta_Name (user_Meta u)"
  let ?grants = "privileges_calls home ''GRANT'' ''TO'' ?u n (Suc n) t"
  have pw: "user_password V (ref_PasswordSecret ref) = Some (target_UserPassword t)" using t by (simp add: resolves_def)
  obtain w1 where w1: "sends ?S opened calls (UserReconciler_createUserInDatabase r db u ref) w None [create_call ?u n t] w1"
    using sends_createUserInDatabase [OF E S r pw db secret(1)] False by blast
  have n1: "connects (calls @ [create_call ?u n t]) = Suc n" using n by (simp add: create_call_def split: option.split)
  obtain w2 where w2: "sends ?S opened (calls @ [create_call ?u n t])
      (Database_ApplyPrivileges db ?u (target_Privileges t)) w1 None ?grants w2"
    using db(1) sendsD(2) [OF w1] sendsD(4) [OF w1 db(2)] unfolding drives_def n1 [symmetric] by blast
  note both = sends_check [OF w1 w2]
  obtain w3 x where w3: "sends ?S opened (calls @ [create_call ?u n t] @ ?grants) (Database_Close db) w2 x [Closed n] w3"
    using db(1) sendsD(2) [OF both] sendsD(4) [OF both db(2)] unfolding drives_def by blast
  from sends_defer [OF both w3] False show ?thesis
    by (auto simp: UserReconciler_withDatabase_def UserReconciler_databaseUserApply_def apply_calls_def target_calls_def)
next
  case True
  let ?S = "surroundings saw I home Fs" and ?u = "meta_Name (user_Meta u)"
  let ?revokes = "privileges_calls home ''REVOKE'' ''FROM'' ?u n (Suc n) t"
  let ?secret = "Client_Delete_Secret E (newSecret (ref_CreatedSecret ref) [])"
  obtain w1 where w1: "sends ?S opened calls (Database_RevokePrivileges db ?u (target_Privileges t)) w None ?revokes w1"
    using db S unfolding drives_def n [symmetric] by blast
  obtain w2 where w2: "sends ?S opened (calls @ ?revokes) (Database_DeleteUser db ?u) w1 None [drop_call ?u n t] w2"
    using db(1) sendsD(2) [OF w1] sendsD(4) [OF w1 db(2)] unfolding drives_def by blast
  note both = sends_check [OF w1 w2]
  have I2: "I (snd (?secret (kube w2)))" using sendsD(2) [OF both] secret(2) True by (simp add: surroundings_def)
  have del: "sends ?S opened (calls @ ?revokes @ [drop_call ?u n t]) (on_kube ?secret) w2 (fst (?secret (kube w2))) []
      (w2\<lparr>kube := snd (?secret (kube w2))\<rparr>)" (is "sends _ _ _ _ _ _ _ ?w3")
    by (rule sends_kube) (rule sendsD(2) [OF both], rule on_kube_apply, rule I2)
  note all = sends_defer [OF both del]
  have S3: "?S (calls @ ?revokes @ [drop_call ?u n t]) ?w3" using sendsD(2) [OF all] by simp
  obtain w4 x where w4: "sends ?S opened (calls @ ?revokes @ [drop_call ?u n t]) (Database_Close db) ?w3 x [Closed n] w4"
    using db(1) S3 sendsD(4) [OF all db(2)] unfolding drives_def by blast
  have "sends ?S opened calls (UserReconciler_withDatabase r u True ref (target_Privileges t) db) w None
      (((?revokes @ [drop_call ?u n t]) @ []) @ [Closed n]) w4"
    unfolding UserReconciler_withDatabase_def UserReconciler_databaseUserDelete_def NamespacedName_ToNamespacedName_def r if_True
    by (rule sends_defer [OF all]) (use w4 in simp)
  with True show ?thesis by (auto simp: remove_calls_def target_calls_def)
qed

text \<open>One reference, from the reads to the end of its connection.\<close>

lemma sends_databaseReconciler:
  assumes r: "reconciles_over C new_conn K G E r" and E: "answers E V I" and S: "surroundings saw I home Fs calls w"
    and t: "resolves K G V ref t" "target_files home t \<subseteq> Fs"
    and secret: "\<not> del \<Longrightarrow> issuing t \<Longrightarrow> takes_secret E I ref"
      "del \<Longrightarrow> \<forall>k. I k \<longrightarrow> I (snd (Client_Delete_Secret E (newSecret (ref_CreatedSecret ref) []) k))"
  shows "\<exists>w'. sends (surroundings saw I home Fs) opened calls (UserReconciler_databaseReconciler r u del ref) w None
    (target_calls del home G (meta_Name (user_Meta u)) (connects calls) t) w'"
proof -
  let ?S = "surroundings saw I home Fs" and ?n = "connects calls" and ?nn = "\<lparr>nn_Namespace = [], nn_Name = ref_Name ref\<rparr>"
  let ?calls = "target_calls del home G (meta_Name (user_Meta u)) ?n t"
  have I: "I (kube w)" using S by (simp add: surroundings_def)
  have rc: "r_Client r = E" "\<And>s. r_DatabaseCreator r (r_Client r) s = go_bind new_conn (\<lambda>conn. newDatabase C K G E conn s)"
    using r by (simp_all add: reconciles_over_def)
  obtain dbc where dbc: "view_Database V ?nn = Some dbc" "database_Spec dbc = target_Spec t" using t(1) by (auto simp: resolves_def)
  let ?k = "snd (Client_Get_Database E ?nn (kube w))"
  have get: "UserReconciler_database r ?nn w = (Returned (Inr dbc), w\<lparr>kube := ?k\<rparr>)" "I ?k"
    using E I dbc(1) by (simp_all add: UserReconciler_database_def on_kube_apply rc answers_def)
  have s1: "sends ?S opened calls (UserReconciler_database r ?nn) w (Inr dbc) [] (w\<lparr>kube := ?k\<rparr>)"
    by (rule sends_kube) (rule S, (rule get)+)
  obtain k where k: "UserReconciler_privileges r (ref_Privileges ref) (w\<lparr>kube := ?k\<rparr>) =
      (Returned (Inr (target_Privileges t)), w\<lparr>kube := k\<rparr>)" "I k"
    using read_privileges [OF E rc(1), of "w\<lparr>kube := ?k\<rparr>" "ref_Privileges ref" "target_Privileges t" "[]"] get(2) t(1)
    by (auto simp: UserReconciler_privileges_def resolves_def)
  have s2: "sends ?S opened calls (UserReconciler_privileges r (ref_Privileges ref)) (w\<lparr>kube := ?k\<rparr>) (Inr (target_Privileges t)) []
      (w\<lparr>kube := k\<rparr>)"
    by (rule sends_silent) (use k in \<open>simp_all add: surroundings_kube [OF S] opened_local\<close>)
  have S2: "?S calls (w\<lparr>kube := k\<rparr>)" by (rule surroundings_kube [OF S k(2)])
  obtain db c w1 where s3: "sends ?S opened calls (r_DatabaseCreator r (r_Client r) (target_Spec t)) (w\<lparr>kube := k\<rparr>) (Inr db)
      [connect_call home G ?n t] w1"
    and at: "opened c ?n w1" and db: "\<And>u. drives ?S opened home u t c ?n db"
    using sends_creator [OF E S2 t] unfolding rc(2) by blast
  have n1: "connects (calls @ [connect_call home G ?n t]) = Suc ?n" by (simp add: connect_call_def split: option.split)
  obtain w2 where s4: "sends ?S opened (calls @ [connect_call home G ?n t])
      (UserReconciler_withDatabase r u del ref (target_Privileges t) db) w1 None (tl ?calls) w2"
    using sends_withDatabase [OF E sendsD(2) [OF s3] rc(1) t(1) db at n1 secret] by blast
  have "sends ?S opened calls (UserReconciler_databaseReconciler r u del ref) w None
      ([] @ [] @ [connect_call home G ?n t] @ tl ?calls) w2"
    unfolding UserReconciler_databaseReconciler_def
    by (rule sends_try [OF s1], unfold append_Nil2 dbc(2), rule sends_try [OF s2], unfold append_Nil2,
        rule sends_try [OF s3], rule s4)
  then show ?thesis by (auto simp: apply_calls_def remove_calls_def target_calls_def)
qed

text \<open>All references of a user.\<close>

lemma sends_databases:
  assumes r: "reconciles_over C new_conn K G E r" and E: "answers E V I" and S: "surroundings saw I home Fs calls w"
    and ts: "list_all2 (resolves K G V) refs ts" "\<And>t. t \<in> set ts \<Longrightarrow> target_files home t \<subseteq> Fs"
    and secret: "\<And>ref t. \<not> del \<Longrightarrow> (ref, t) \<in> set (zip refs ts) \<Longrightarrow> issuing t \<Longrightarrow> takes_secret E I ref"
      "\<And>ref. del \<Longrightarrow> ref \<in> set refs \<Longrightarrow> \<forall>k. I k \<longrightarrow> I (snd (Client_Delete_Secret E (newSecret (ref_CreatedSecret ref) []) k))"
  shows "\<exists>w'. sends (surroundings saw I home Fs) opened calls (go_for (UserReconciler_databaseReconciler r u del) refs) w None
    (thread (target_calls del home G (meta_Name (user_Meta u))) (connects calls) ts) w'"
  using ts(1) S ts(2) secret
proof (induction refs ts arbitrary: calls w rule: list_all2_induct)
  case Nil
  then show ?case using sends_return by fastforce
next
  case (Cons ref refs t ts)
  let ?S = "surroundings saw I home Fs" and ?g = "target_calls del home G (meta_Name (user_Meta u))"
  obtain w1 where w1: "sends ?S opened calls (UserReconciler_databaseReconciler r u del ref) w None (?g (connects calls) t) w1"
    using sends_databaseReconciler [OF r E Cons.prems(1) Cons.hyps(1) Cons.prems(2), of del u] Cons.prems(3,4) by auto
  have "\<exists>w'. sends ?S opened (calls @ ?g (connects calls) t) (go_for (UserReconciler_databaseReconciler r u del) refs) w1 None
      (thread ?g (connects (calls @ ?g (connects calls) t)) ts) w'"
    by (rule Cons.IH [OF sendsD(2) [OF w1]]) (use Cons.prems(2-4) in auto)
  then obtain w2 where w2: "sends ?S opened (calls @ ?g (connects calls) t) (go_for (UserReconciler_databaseReconciler r u del) refs)
      w1 None (thread ?g (connects (calls @ ?g (connects calls) t)) ts) w2" by blast
  from sends_check [OF w1 w2] show ?case by auto
qed

end

end
