(* ===== verification/Served_Runs.thy ===== *)
theory Served_Runs
  imports Served_Reconciler
begin

text \<open>
  Whole runs of \<^verbatim>\<open>Reconcile\<close> over connections that keep the contract \<open>served\<close>: what the other
  side has seen afterwards is what the reference says, whatever the connection is.
\<close>

text \<open>
  The API server accepts a status of the user; and the update that adds the finalizer,
  after which the user that comes back has the specification, the namespace and name, and the status it
  had.
\<close>

definition takes_status :: "'k Client \<Rightarrow> ('k \<Rightarrow> bool) \<Rightarrow> User \<Rightarrow> bool" where
  "takes_status E I u \<longleftrightarrow> (\<forall>k st. I k \<longrightarrow> fst (fst (Client_Status_Update_User E (u\<lparr>user_Status := st\<rparr>) k)) = None)"

definition takes_finalizer :: "'k Client \<Rightarrow> ('k \<Rightarrow> bool) \<Rightarrow> User \<Rightarrow> bool" where
  "takes_finalizer E I u \<longleftrightarrow> (\<forall>k. I k \<longrightarrow>
     (\<exists>u' k'. Client_Update_User E (controllerutil_AddFinalizer E u userFinalizer) k = ((None, u'), k') \<and> I k' \<and>
        user_Spec u' = user_Spec u \<and> user_key u' = user_key u \<and>
        user_Status u' = user_Status u \<and> takes_status E I u'))"

definition same_user :: "User \<Rightarrow> User \<Rightarrow> bool" where
  "same_user u u' \<longleftrightarrow> user_Spec u' = user_Spec u \<and> user_key u' = user_key u \<and>
     user_Status u' = user_Status u"

lemma user_key_name: "user_key u' = user_key u \<Longrightarrow> meta_Name (user_Meta u') = meta_Name (user_Meta u)"
  by (simp add: user_key_def)

text \<open>
  What the API server has to hold and to accept for a run of a user that is not deleted: the
  user that is read, what its references resolve to, their secrets, its status and the
  finalizer.
\<close>

definition ready_to_apply :: "Crypto \<Rightarrow> (URL \<Rightarrow> error + string) \<Rightarrow> 'k Client \<Rightarrow> View \<Rightarrow> ('k \<Rightarrow> bool) \<Rightarrow> NamespacedName \<Rightarrow> 'k \<Rightarrow>
    User \<Rightarrow> Target list \<Rightarrow> bool" where
  "ready_to_apply K G E V I nn k u ts \<longleftrightarrow>
     answers E V I \<and> I k \<and> fst (Client_Get_User E nn k) = Inr u \<and> meta_DeletionTimestamp (user_Meta u) = None \<and>
     list_all2 (resolves K G V) (Databases (user_Spec u)) ts \<and>
     list_all2 (\<lambda>ref t. issuing t \<longrightarrow> takes_secret E I ref) (Databases (user_Spec u)) ts \<and>
     takes_status E I u \<and> takes_finalizer E I u"

text \<open>And for a user in deletion.\<close>

definition ready_to_remove :: "Crypto \<Rightarrow> (URL \<Rightarrow> error + string) \<Rightarrow> 'k Client \<Rightarrow> View \<Rightarrow> ('k \<Rightarrow> bool) \<Rightarrow> NamespacedName \<Rightarrow> 'k \<Rightarrow>
    User \<Rightarrow> Target list \<Rightarrow> bool" where
  "ready_to_remove K G E V I nn k u ts \<longleftrightarrow>
     answers E V I \<and> I k \<and> fst (Client_Get_User E nn k) = Inr u \<and> meta_DeletionTimestamp (user_Meta u) \<noteq> None \<and>
     controllerutil_ContainsFinalizer E u userFinalizer \<and>
     list_all2 (resolves K G V) (Databases (user_Spec u)) ts \<and>
     (\<forall>ref \<in> set (Databases (user_Spec u)). \<forall>k. I k \<longrightarrow>
        I (snd (Client_Delete_Secret E (newSecret (ref_CreatedSecret ref) []) k))) \<and>
     (\<forall>k. I k \<longrightarrow> fst (fst (Client_Update_User E (controllerutil_RemoveFinalizer E u userFinalizer) k)) = None)"

text \<open>The certificate files of all targets.\<close>

definition all_files :: "string \<Rightarrow> Target list \<Rightarrow> string set" where
  "all_files home ts = \<Union> (target_files home ` set ts)"

text \<open>What a run reports about the user, given how it was read.\<close>

definition reports_ready :: "'k Client \<Rightarrow> User \<Rightarrow> ('k, 'd) World \<Rightarrow> ('k, 'd) World \<Rightarrow> ('k \<Rightarrow> bool) \<Rightarrow> bool" where
  "reports_ready E u w w' I \<longleftrightarrow> (\<exists>u' k. same_user u u' \<and> I k \<and>
     (if Ready (Summary (user_Status u)) then events w' = events w \<and> kube w' = k
      else events w' = events w @ [\<lparr>event_Object = meta_Name (user_Meta u), event_Type = EventTypeNormal,
             event_Reason = ''SuccessfullyCreatedUser'', event_Message = successMsg\<rparr>] \<and>
           kube w' = snd (Client_Status_Update_User E
             (u'\<lparr>user_Status := \<lparr>Summary = \<lparr>Ready = True, Message = successMsg\<rparr>\<rparr>\<rparr>) k)))"

context served
begin

lemma sends_applyAll:
  assumes r: "reconciles_over C new_conn K G E r" and E: "answers E V I" and S: "surroundings saw I home (all_files home ts) calls w"
    and ts: "list_all2 (resolves K G V) (Databases (user_Spec u)) ts"
      "list_all2 (\<lambda>ref t. issuing t \<longrightarrow> takes_secret E I ref) (Databases (user_Spec u)) ts"
  shows "\<exists>w'. sends (surroundings saw I home (all_files home ts)) opened calls (UserReconciler_applyAll r u) w (False, None, u)
    (thread (apply_calls home G (meta_Name (user_Meta u))) (connects calls) ts) w'"
proof -
  let ?S = "surroundings saw I home (all_files home ts)" and ?cs = "thread (apply_calls home G (meta_Name (user_Meta u))) (connects calls) ts"
  obtain w1 where w1: "sends ?S opened calls (go_for (UserReconciler_databaseReconciler r u False) (Databases (user_Spec u))) w None ?cs w1"
    using sends_databases [OF r E S ts(1), of False u] ts(2)
    by (auto simp: all_files_def target_calls_def list_all2_iff)
  have log: "sends ?S opened (calls @ ?cs) (log_Info successMsg) w1 () [] (w1\<lparr>logs := logs w1 @ [successMsg]\<rparr>)"
    by (rule sends_logged [OF sendsD(2) [OF w1]])
  have tail: "sends ?S opened (calls @ ?cs) (case None of Some e \<Rightarrow> go_return (False, Some e, u)
      | None \<Rightarrow> go_bind (log_Info successMsg) (\<lambda>_. go_return (False, None, u))) w1 (False, None, u) []
      (w1\<lparr>logs := logs w1 @ [successMsg]\<rparr>)"
    using sends_map [OF log, where f = "\<lambda>_. (False, None, u)"] by simp
  have "sends ?S opened calls (UserReconciler_applyAll r u) w (False, None, u) (?cs @ []) (w1\<lparr>logs := logs w1 @ [successMsg]\<rparr>)"
    unfolding UserReconciler_applyAll_def by (rule sends_bind [OF w1], rule tail)
  then show ?thesis by auto
qed

text \<open>\<^verbatim>\<open>reconcile\<close> of a user that is not being deleted, with or without the finalizer.\<close>

lemma sends_reconcile:
  assumes r: "reconciles_over C new_conn K G E r" and E: "answers E V I" and S: "surroundings saw I home (all_files home ts) calls w"
    and ts: "list_all2 (resolves K G V) (Databases (user_Spec u)) ts"
      "list_all2 (\<lambda>ref t. issuing t \<longrightarrow> takes_secret E I ref) (Databases (user_Spec u)) ts"
    and alive: "meta_DeletionTimestamp (user_Meta u) = None" and upd: "takes_status E I u" "takes_finalizer E I u"
  shows "\<exists>u' w'. sends (surroundings saw I home (all_files home ts)) opened calls (UserReconciler_reconcile r u) w (False, None, u')
      (thread (apply_calls home G (meta_Name (user_Meta u))) (connects calls) ts) w' \<and> same_user u u' \<and> takes_status E I u'"
proof (cases "controllerutil_ContainsFinalizer E u userFinalizer")
  case True
  with sends_applyAll [OF r E S ts] alive upd(1) r show ?thesis
    by (intro exI [of _ u]) (simp add: UserReconciler_reconcile_def same_user_def reconciles_over_def)
next
  case False
  let ?S = "surroundings saw I home (all_files home ts)"
  let ?f = "controllerutil_AddFinalizer E u userFinalizer" and ?msg = "''Setting finalizer for resource''"
  have I: "I (kube w)" using S by (simp add: surroundings_def)
  obtain u' k' where u': "Client_Update_User E ?f (kube w) = ((None, u'), k')" "I k'" and same: "same_user u u'"
    and st: "takes_status E I u'"
    using upd(2) I unfolding takes_finalizer_def same_user_def by blast
  let ?w1 = "w\<lparr>logs := logs w @ [?msg], kube := k'\<rparr>"
  have S1: "?S calls ?w1" using S u'(2) by (simp add: surroundings_def saw_local)
  obtain w2 where w2: "sends ?S opened calls (UserReconciler_applyAll r u') ?w1 (False, None, u')
      (thread (apply_calls home G (meta_Name (user_Meta u'))) (connects calls) ts) w2"
    using sends_applyAll [OF r E S1, of u'] ts same user_key_name [of u' u] by (auto simp: same_user_def)
  have "UserReconciler_reconcile r u w = (Returned (False, None, u'), w2)"
    using False alive u'(1) sendsD(1) [OF w2] r
    by (simp add: UserReconciler_reconcile_def go_bind_def log_Info_apply on_kube_apply Let_def reconciles_over_def)
  with w2 same st user_key_name [of u' u] show ?thesis
    by (intro exI [of _ u'] exI [of _ w2]) (simp add: sends_def opened_local same_user_def)
qed

text \<open>A run of a user that is not deleted, and of one that is.\<close>

lemma run_completes:
  assumes r: "reconciles_over C new_conn K G E r" and E: "ready_to_apply K G E V I nn (kube w) u ts"
    and w: "saw calls w" "writable_certs (filesystem w) (all_files (env_HOME w) ts)"
  shows "\<exists>w'. UserReconciler_Reconcile r nn w = (Returned None, w') \<and>
    saw (calls @ thread (apply_calls (env_HOME w) G (meta_Name (user_Meta u))) (connects calls) ts) w' \<and>
    reports_ready E u w w' I"
proof -
  let ?S = "surroundings saw I (env_HOME w) (all_files (env_HOME w) ts)" and ?k = "snd (Client_Get_User E nn (kube w))"
  let ?cs = "thread (apply_calls (env_HOME w) G (meta_Name (user_Meta u))) (connects calls) ts"
  have E': "answers E V I" "I (kube w)" "fst (Client_Get_User E nn (kube w)) = Inr u" "meta_DeletionTimestamp (user_Meta u) = None"
    "list_all2 (resolves K G V) (Databases (user_Spec u)) ts"
    "list_all2 (\<lambda>ref t. issuing t \<longrightarrow> takes_secret E I ref) (Databases (user_Spec u)) ts"
    "takes_status E I u" "takes_finalizer E I u"
    using E by (simp_all add: ready_to_apply_def)
  have "I ?k" using E'(1,2) by (simp add: answers_def)
  then have S: "?S calls (w\<lparr>kube := ?k\<rparr>)" using w by (simp add: surroundings_def saw_local)
  obtain u' w1 where w1: "sends ?S opened calls (UserReconciler_reconcile r u) (w\<lparr>kube := ?k\<rparr>) (False, None, u') ?cs w1"
    and same: "same_user u u'" and st: "takes_status E I u'"
    using sends_reconcile [OF r E'(1) S E'(5,6,4,7,8)] by blast
  have read: "UserReconciler_user r nn w = (Returned (Some u, None), w\<lparr>kube := ?k\<rparr>)"
    using E'(3) r by (simp add: UserReconciler_user_def go_bind_def go_return_def on_kube_apply reconciles_over_def)
  have run: "UserReconciler_Reconcile r nn w = UserReconciler_report r (False, None, u') w1"
    using read sendsD(1) [OF w1] by (simp add: UserReconciler_Reconcile_def go_bind_def)
  have S1: "I (kube w1)" "saw (calls @ ?cs) w1" "events w1 = events w"
    using sendsD(2,3) [OF w1] by (simp_all add: surroundings_def)
  let ?st = "u'\<lparr>user_Status := \<lparr>Summary = \<lparr>Ready = True, Message = successMsg\<rparr>\<rparr>\<rparr>"
  obtain v where stored: "fst (Client_Status_Update_User E ?st (kube w1)) = (None, v)"
    using st S1(1) unfolding takes_status_def by (metis prod.collapse)
  have ready: "Ready (Summary (user_Status u')) = Ready (Summary (user_Status u))"
    and name: "meta_Name (user_Meta u') = meta_Name (user_Meta u)"
    using same user_key_name [of u' u] by (simp_all add: same_user_def)
  have "\<exists>w'. UserReconciler_report r (False, None, u') w1 = (Returned None, w') \<and> saw (calls @ ?cs) w' \<and>
      (if Ready (Summary (user_Status u)) then events w' = events w1 \<and> kube w' = kube w1
       else events w' = events w1 @ [\<lparr>event_Object = meta_Name (user_Meta u), event_Type = EventTypeNormal,
            event_Reason = ''SuccessfullyCreatedUser'', event_Message = successMsg\<rparr>] \<and>
          kube w' = snd (Client_Status_Update_User E ?st (kube w1)))"
    using stored r S1(2)
    by (simp add: UserReconciler_report_def UserReconciler_setStatus_def UserReconciler_addEvent_def reconciles_over_def
        ready name go_bind_def go_return_def go_modify_def on_kube_apply saw_local)
  with run S1(1,3) same show ?thesis unfolding reports_ready_def by metis
qed

lemma run_removes:
  assumes r: "reconciles_over C new_conn K G E r" and E: "ready_to_remove K G E V I nn (kube w) u ts"
    and w: "saw calls w" "writable_certs (filesystem w) (all_files (env_HOME w) ts)"
  shows "\<exists>w' k. UserReconciler_Reconcile r nn w = (Returned None, w') \<and>
    saw (calls @ thread (remove_calls (env_HOME w) G (meta_Name (user_Meta u))) (connects calls) ts) w' \<and>
    events w' = events w \<and> I k \<and>
    kube w' = snd (Client_Update_User E (controllerutil_RemoveFinalizer E u userFinalizer) k)"
proof -
  let ?Fs = "all_files (env_HOME w) ts"
  let ?S = "surroundings saw I (env_HOME w) ?Fs" and ?k = "snd (Client_Get_User E nn (kube w))"
  let ?cs = "thread (remove_calls (env_HOME w) G (meta_Name (user_Meta u))) (connects calls) ts"
  let ?w0 = "w\<lparr>kube := ?k, logs := logs w @ [''Received deletion event'']\<rparr>"
  let ?f = "controllerutil_RemoveFinalizer E u userFinalizer" and ?refs = "Databases (user_Spec u)"
  have E': "answers E V I" "I (kube w)" "fst (Client_Get_User E nn (kube w)) = Inr u" "meta_DeletionTimestamp (user_Meta u) \<noteq> None"
    "controllerutil_ContainsFinalizer E u userFinalizer" "list_all2 (resolves K G V) ?refs ts"
    using E by (simp_all add: ready_to_remove_def)
  have secrets: "\<forall>k. I k \<longrightarrow> I (snd (Client_Delete_Secret E (newSecret (ref_CreatedSecret ref) []) k))" if "ref \<in> set ?refs" for ref
    using E that by (simp add: ready_to_remove_def)
  have "I ?k" using E'(1,2) by (simp add: answers_def)
  then have S: "?S calls ?w0" using w by (simp add: surroundings_def saw_local)
  have Fs: "target_files (env_HOME w) t \<subseteq> ?Fs" if "t \<in> set ts" for t using that by (auto simp: all_files_def)
  obtain w1 where w1: "sends ?S opened calls (go_for (UserReconciler_databaseReconciler r u True) ?refs) ?w0 None ?cs w1"
    using sends_databases [OF r E'(1) S E'(6) Fs, of True u] secrets by (auto simp: target_calls_def)
  have S1: "I (kube w1)" "saw (calls @ ?cs) w1" using sendsD(2) [OF w1] by (simp_all add: surroundings_def)
  have "fst (fst (Client_Update_User E ?f (kube w1))) = None" using E S1(1) by (simp add: ready_to_remove_def)
  then obtain v where v: "fst (Client_Update_User E ?f (kube w1)) = (None, v)" by (metis prod.collapse)
  have read: "UserReconciler_user r nn w = (Returned (Some u, None), w\<lparr>kube := ?k\<rparr>)"
    using E'(3) r by (simp add: UserReconciler_user_def go_bind_def go_return_def on_kube_apply reconciles_over_def)
  have "\<exists>w'. UserReconciler_Reconcile r nn w = (Returned None, w') \<and> saw (calls @ ?cs) w' \<and> events w' = events w1 \<and>
      kube w' = snd (Client_Update_User E ?f (kube w1))"
    using read E'(4,5) sendsD(1) [OF w1] v r S1(2)
    by (auto simp: UserReconciler_Reconcile_def UserReconciler_reconcile_def UserReconciler_removeAll_def reconciles_over_def
        UserReconciler_report_def go_bind_def go_return_def log_Info_apply on_kube_apply Let_def saw_local)
  with S1(1) sendsD(3) [OF w1] show ?thesis by fastforce
qed

end

end
