(* ===== verification/Mem_Runs.thy ===== *)
theory Mem_Runs
  imports Served_Runs Mem_Cluster
begin

text \<open>
  The API server in memory answers and accepts what a whole run asks of it: the hypotheses
  \<open>ready_to_apply\<close> and \<open>ready_to_remove\<close> hold for every cluster that contains what the user
  refers to.
\<close>

text \<open>The resources and the secrets of a view are there, perhaps with others, and so is the user.\<close>

definition mem_holds :: "View \<Rightarrow> NamespacedName \<Rightarrow> UserStatus \<Rightarrow> Cluster \<Rightarrow> bool" where
  "mem_holds V nn st k \<longleftrightarrow> view_Database V \<subseteq>\<^sub>m cl_databases k \<and> view_Privileges V \<subseteq>\<^sub>m cl_privileges k \<and>
     view_Secret V \<subseteq>\<^sub>m cl_secrets k \<and> map_option user_Status (cl_users k nn) = Some st"

definition cluster_of :: "View \<Rightarrow> User \<Rightarrow> Cluster" where
  "cluster_of V u = \<lparr>cl_users = [user_key u \<mapsto> u], cl_databases = view_Database V,
     cl_privileges = view_Privileges V, cl_secrets = view_Secret V\<rparr>"

lemma mem_holds_start: "mem_holds V (user_key u) (user_Status u) (cluster_of V u)"
  by (simp add: mem_holds_def cluster_of_def)

lemma mem_user_start: "fst (Client_Get_User mem_Client (user_key u) (cluster_of V u)) = Inr u"
  by (simp add: fst_mem_get mem_user_def cluster_of_def user_key_def)

lemma map_le_Some: "m \<subseteq>\<^sub>m n \<Longrightarrow> m x = Some y \<Longrightarrow> n x = Some y"
  by (metis domI map_le_def)

lemma mem_answers: "answers mem_Client V (mem_holds V nn st)"
  by (auto simp: answers_def mem_holds_def fst_mem_get dest: map_le_Some)

lemma mem_takes_status: "user_key u = nn \<Longrightarrow> takes_status mem_Client (mem_holds V nn st) u"
  by (auto simp: takes_status_def mem_holds_def mem_Status_Update_def user_key_def Let_def split: option.splits)

lemma mem_finalizer_user:
  "user_key (mem_finalizers f u) = user_key u" "user_Spec (mem_finalizers f u) = user_Spec u"
  "user_Status (mem_finalizers f u) = user_Status u" "meta_Name (user_Meta (mem_finalizers f u)) = meta_Name (user_Meta u)"
  "meta_DeletionTimestamp (user_Meta (mem_finalizers f u)) = meta_DeletionTimestamp (user_Meta u)"
  "meta_Finalizers (user_Meta (mem_finalizers f u)) = f (meta_Finalizers (user_Meta u))"
  by (simp_all add: mem_finalizers_def user_key_def)

lemma mem_takes_finalizer:
  assumes u: "user_key u = nn" "user_Status u = st" "meta_DeletionTimestamp (user_Meta u) = None"
  shows "takes_finalizer mem_Client (mem_holds V nn st) u"
  unfolding takes_finalizer_def
proof (intro allI impI)
  fix k
  assume k: "mem_holds V nn st k"
  let ?f = "controllerutil_AddFinalizer mem_Client u userFinalizer"
  obtain old where old: "cl_users k nn = Some old" "user_Status old = st" using k by (auto simp: mem_holds_def)
  have f: "user_key ?f = nn" "user_Spec ?f = user_Spec u" "user_Status ?f = st"
    "meta_Name (user_Meta ?f) = meta_Name (user_Meta u)" "meta_DeletionTimestamp (user_Meta ?f) = None"
    by (simp_all add: mem_finalizer_user u)
  let ?k = "k\<lparr>cl_users := (cl_users k)(nn := Some ?f)\<rparr>"
  have same: "?f\<lparr>user_Status := st\<rparr> = ?f" using f(3) by simp
  have upd: "Client_Update_User mem_Client ?f k = ((None, ?f), ?k)"
    using old f(5) same unfolding mem_Client_sel(5) mem_Update_def f(1) by (simp add: Let_def)
  have "mem_holds V nn st ?k" using k f(3) by (simp add: mem_holds_def)
  then show "\<exists>u' k'. Client_Update_User mem_Client ?f k = ((None, u'), k') \<and> mem_holds V nn st k' \<and>
      user_Spec u' = user_Spec u \<and> user_key u' = user_key u \<and>
      user_Status u' = user_Status u \<and> takes_status mem_Client (mem_holds V nn st) u'"
    using upd f u(1,2) mem_takes_status [OF f(1), of V st] by (metis (no_types))
qed

text \<open>A secret that is not in the view comes and goes without a trace in it.\<close>

lemma map_le_upd_other: "m x = None \<Longrightarrow> m \<subseteq>\<^sub>m n \<Longrightarrow> m \<subseteq>\<^sub>m n(x := v)"
  by (auto simp: map_le_def)

lemma map_le_None: "m \<subseteq>\<^sub>m n \<Longrightarrow> n x = None \<Longrightarrow> m x = None"
  by (metis map_le_Some not_None_eq)

lemma name_collapse: "\<lparr>nn_Namespace = nn_Namespace n, nn_Name = nn_Name n\<rparr> = n" for n :: NamespacedName
  by (cases n) simp

lemma mem_takes_secret: "takes_secret mem_Client (mem_holds V nn st) ref"
  by (auto simp: takes_secret_def mem_holds_def fst_mem_get mem_Create_Secret_def secret_key_def newSecret_def name_collapse
      intro: map_le_upd_other map_le_None split: option.splits)

lemma mem_keeps_view:
  "view_Secret V (ref_CreatedSecret ref) = None \<Longrightarrow> mem_holds V nn st k \<Longrightarrow>
     mem_holds V nn st (snd (Client_Delete_Secret mem_Client (newSecret (ref_CreatedSecret ref) []) k))"
  by (auto simp: mem_holds_def mem_Delete_Secret_def secret_key_def newSecret_def name_collapse
      intro: map_le_upd_other split: option.splits)

lemma mem_removes:
  assumes "user_key u = nn" and "mem_holds V nn st k"
  shows "fst (fst (Client_Update_User mem_Client (controllerutil_RemoveFinalizer mem_Client u userFinalizer) k)) = None"
    and "\<not> mem_stored nn (snd (Client_Update_User mem_Client (controllerutil_RemoveFinalizer mem_Client u userFinalizer) k))"
proof -
  obtain old where old: "cl_users k nn = Some old" using assms(2) by (auto simp: mem_holds_def)
  show "fst (fst (Client_Update_User mem_Client (controllerutil_RemoveFinalizer mem_Client u userFinalizer) k)) = None"
    by (simp add: mem_Update_def mem_finalizer_user assms(1) old Let_def)
  show "\<not> mem_stored nn (snd (Client_Update_User mem_Client (controllerutil_RemoveFinalizer mem_Client u userFinalizer) k))"
    by (simp add: mem_Update_def mem_finalizer_user assms(1) old Let_def mem_stored_def)
qed

text \<open>A user that was not ready is stored as ready.\<close>

lemma mem_reports_ready:
  assumes "reports_ready mem_Client u w w' (mem_holds V nn st)" and "user_key u = nn" and "\<not> Ready (Summary (user_Status u))"
  shows "\<exists>stored. cl_users (kube w') nn = Some stored \<and> user_Status stored = \<lparr>Summary = \<lparr>Ready = True, Message = successMsg\<rparr>\<rparr>"
proof -
  obtain u' k where k: "same_user u u'" "mem_holds V nn st k" "kube w' = snd (mem_Status_Update
      (u'\<lparr>user_Status := \<lparr>Summary = \<lparr>Ready = True, Message = successMsg\<rparr>\<rparr>\<rparr>) k)"
    using assms(1,3) by (auto simp: reports_ready_def)
  obtain old where "cl_users k nn = Some old" using k(2) by (auto simp: mem_holds_def)
  moreover have "user_key (u'\<lparr>user_Status := x\<rparr>) = nn" for x
    using k(1) assms(2) by (simp add: same_user_def user_key_def)
  ultimately show ?thesis by (simp add: k(3) mem_Status_Update_def Let_def)
qed

lemma mem_ready_to_apply:
  assumes "list_all2 (resolves K G V) (Databases (user_Spec u)) ts" and "meta_DeletionTimestamp (user_Meta u) = None"
  shows "ready_to_apply K G mem_Client V (mem_holds V (user_key u) (user_Status u)) (user_key u) (cluster_of V u) u ts"
proof -
  have "list_all2 (\<lambda>ref t. issuing t \<longrightarrow> takes_secret mem_Client (mem_holds V (user_key u) (user_Status u)) ref)
      (Databases (user_Spec u)) ts"
    by (rule list_all2_mono [OF assms(1)]) (simp only: mem_takes_secret simp_thms)
  with assms show ?thesis
    unfolding ready_to_apply_def
    by (intro conjI mem_answers mem_holds_start mem_user_start mem_takes_status mem_takes_finalizer refl)
qed

lemma mem_ready_to_remove:
  assumes "list_all2 (resolves K G V) (Databases (user_Spec u)) ts" and "meta_DeletionTimestamp (user_Meta u) \<noteq> None"
    and "userFinalizer \<in> set (meta_Finalizers (user_Meta u))"
    and "\<And>ref. ref \<in> set (Databases (user_Spec u)) \<Longrightarrow> view_Secret V (ref_CreatedSecret ref) = None"
  shows "ready_to_remove K G mem_Client V (mem_holds V (user_key u) (user_Status u)) (user_key u) (cluster_of V u) u ts"
proof -
  have "controllerutil_ContainsFinalizer mem_Client u userFinalizer" using assms(3) by simp
  with assms(1,2,4) show ?thesis
    unfolding ready_to_remove_def
    by (intro conjI ballI allI impI mem_answers mem_holds_start mem_user_start mem_keeps_view mem_removes(1) [OF refl])
qed

text \<open>In an empty file system the certificate files can be written unless one is the directory of another.\<close>

definition separate_files :: "string list \<Rightarrow> bool" where
  "separate_files ps \<longleftrightarrow> (\<forall>f \<in> set ps. filepath_Dir f \<noteq> [] \<and> (\<forall>d \<in> set (dirs_of (filepath_Dir f)). d \<notin> set ps))"

lemma writable_when_empty:
  "separate_files ps \<Longrightarrow> writable_certs \<lparr>fs_nodes = Map.empty, fs_deny = (\<lambda>_ _. None)\<rparr> (set ps)"
  by (simp add: writable_certs_def separate_files_def)

end
