(* ===== verification/Completed_Runs.thy ===== *)
theory Completed_Runs
  imports Mem_Runs Test_Certificates
begin

text \<open>
  Whole runs of the reconciler of \<^verbatim>\<open>main.go\<close> when nothing fails: the database servers receive
  exactly the calls computed from the resources, and the user ends with the ready status or
  without the finalizer.
\<close>

section \<open>The two theorems\<close>

text \<open>
  \<^bold>\<open>C3\<close> A run completes. Let the user that is read not be deleted, let every reference of
  it resolve in the cluster (the database, its password, with TLS its certificates and the
  key of its authority, the password of the user, the privileges), and let the API server
  and the database servers accept what they are sent, except that PostgreSQL may answer that
  the role exists already, as it does when an earlier run came that far; with TLS the
  certificate files can be written and the authority can issue. Then \<^verbatim>\<open>Reconcile\<close> returns nil; the servers have received exactly the calls
  computed from the resources: for each database in order one connection with the account
  first, the privileges in order, and the end of the connection, where a privilege on an
  object inside a PostgreSQL database has a connection of its own to that database, with
  certificate files of its own; and a
  user that was not ready is stored as ready with one normal event, while for one that
  was nothing is reported.
\<close>

theorem Reconcile_completes:
  fixes X :: "'d Sqlx" and w :: "('k, 'd) World"
  assumes X: "accepting X tr" and E: "ready_to_apply K G E V I nn (kube w) u ts"
    and files: "writable_certs (filesystem w) (all_files (env_HOME w) ts)"
  shows "\<exists>w'. UserReconciler_Reconcile (manager_reconciler X K G E) nn w = (Returned None, w') \<and>
    tr (dbms w') = tr (dbms w) @
      thread (apply_calls (env_HOME w) G (meta_Name (user_Meta u))) (connects (tr (dbms w))) ts \<and>
    reports_ready E u w w' I"
proof -
  have "servers_saw tr (tr (dbms w)) w" by (simp add: servers_saw_def)
  from served.run_completes [OF accepting_servers.accepted [OF accepting_servers.intro [OF X]] manager_reconciles_over E this files]
  show ?thesis by (simp add: servers_saw_def)
qed

text \<open>
  \<^bold>\<open>C4\<close> A removal completes. Let the user that is read be in deletion with the finalizer
  of the operator, every reference resolve, the servers accept, and the certificate files be
  writable. Then \<^verbatim>\<open>Reconcile\<close>
  returns nil without an event; the database servers have received exactly, for each
  database in order, a connection with the privileges taken back in order and then the
  account dropped; and the last thing that happened to the cluster is the update that
  takes the finalizer away.
\<close>

theorem Reconcile_completes_removal:
  fixes X :: "'d Sqlx" and w :: "('k, 'd) World"
  assumes X: "accepting X tr" and E: "ready_to_remove K G E V I nn (kube w) u ts"
    and files: "writable_certs (filesystem w) (all_files (env_HOME w) ts)"
  shows "\<exists>w' k. UserReconciler_Reconcile (manager_reconciler X K G E) nn w = (Returned None, w') \<and>
    tr (dbms w') = tr (dbms w) @
      thread (remove_calls (env_HOME w) G (meta_Name (user_Meta u))) (connects (tr (dbms w))) ts \<and>
    events w' = events w \<and> I k \<and>
    kube w' = snd (Client_Update_User E (controllerutil_RemoveFinalizer E u userFinalizer) k)"
proof -
  have "servers_saw tr (tr (dbms w)) w" by (simp add: servers_saw_def)
  from served.run_removes [OF accepting_servers.accepted [OF accepting_servers.intro [OF X]] manager_reconciles_over E this files]
  show ?thesis by (simp add: servers_saw_def)
qed

section \<open>A server that keeps its calls, and a user in three databases\<close>

text \<open>The server says that a role exists when it was asked for it before.\<close>

definition tracing_Sqlx :: "Call list Sqlx" where
  "tracing_Sqlx = \<lparr>
     sqlx_ConnectContext = (\<lambda>driver cs fs d. (Inr (connects d), d @ [Connected (connects d) driver cs])),
     sqlx_SetMaxIdleConns = (\<lambda>h n fs d. ((), d)),
     sqlx_SetMaxOpenConns = (\<lambda>h n fs d. ((), d)),
     sqlx_Close = (\<lambda>h fs d. (None, d @ [Closed h])),
     sqlx_ExecContext = (\<lambda>h q as fs d.
       (if creates_role q as \<and> (\<exists>c \<in> set d. \<exists>h'. c = Executed h' q as) then Some (PgError ''42710'' ''role exists'') else None,
        d @ [Executed h q as]))\<rparr>"

interpretation tracing: accepting_servers tracing_Sqlx "\<lambda>d. d"
  by unfold_locales (simp add: accepting_def tracing_Sqlx_def isAlreadyExists_iff)

text \<open>
  A MySQL database, a PostgreSQL database without TLS, where the role is left from an earlier
  attempt, and one with TLS and the authority of the test certificates.
\<close>

definition default_name :: "string \<Rightarrow> NamespacedName" where
  "default_name n = \<lparr>nn_Namespace = ''default'', nn_Name = n\<rparr>"

definition trio_pg :: "string \<Rightarrow> PostgresSSLMode \<Rightarrow> DatabaseSpec" where
  "trio_pg n mode = \<lparr>spec_Type = PostgreSQL_type,
     spec_PostgreSQL = Some \<lparr>pgspec_Host = ''pg'', pgspec_Port = 5432, pgspec_User = ''postgres'',
       pgspec_SSLMode = mode, pgspec_DatabaseName = n,
       pgspec_SSLCredentialsSecret = default_name ''pg-certs'',
       pgspec_SSLCAKey = \<lparr>secret_Secret = default_name ''pg-ca'', secret_Key = ''ca.key''\<rparr>,
       pgspec_PasswordSecret = \<lparr>secret_Secret = default_name ''john'', secret_Key = ''pass''\<rparr>\<rparr>,
     spec_MySQL = None\<rparr>"

definition trio_ref :: "string \<Rightarrow> string \<Rightarrow> DatabaseRef" where
  "trio_ref n key = demo_ref\<lparr>ref_Name := n, ref_PasswordSecret := \<lparr>secret_Secret = default_name ''john'', secret_Key = key\<rparr>\<rparr>"

definition trio_user :: "string list \<Rightarrow> int option \<Rightarrow> User" where
  "trio_user fins del = (demo_user fins del)\<lparr>user_Spec :=
     \<lparr>Databases = [trio_ref ''shop'' ''pass'', trio_ref ''crm'' ''pass'', trio_ref ''vault'' ''pin'']\<rparr>\<rparr>"

definition trio_secret :: "string \<Rightarrow> StrMap \<Rightarrow> K8sSecret" where
  "trio_secret n data = \<lparr>k8ssecret_Meta = demo_meta n [] None, k8ssecret_Data = data, k8ssecret_StringData = []\<rparr>"

definition trio_view :: View where
  "trio_view = \<lparr>
     view_Database = [cluster_name ''shop'' \<mapsto> demo_database,
       cluster_name ''crm'' \<mapsto> \<lparr>database_Meta = demo_meta ''crm'' [] None, database_Spec = trio_pg ''crm'' SSLModeDISABLE\<rparr>,
       cluster_name ''vault'' \<mapsto> \<lparr>database_Meta = demo_meta ''vault'' [] None, database_Spec = trio_pg ''vault'' SSLModeVERIFYFULL\<rparr>],
     view_Privileges = [cluster_name ''reader'' \<mapsto> \<lparr>privileges_Meta = demo_meta ''reader'' [] None,
       privileges_Privileges = [\<lparr>Privilege = ''SELECT'', On = ''orders'', Database = ''shop''\<rparr>]\<rparr>],
     view_Secret = [default_name ''john'' \<mapsto> trio_secret ''john'' [(''pass'', ''secret''), (''pin'', ''1234'')],
       default_name ''pg-certs'' \<mapsto> trio_secret ''pg-certs''
         [(''ca.crt'', test_SSLCACert), (''tls.crt'', test_SSLJohnCert), (''tls.key'', test_SSLJohnKey)],
       default_name ''pg-ca'' \<mapsto> trio_secret ''pg-ca'' [(''ca.key'', test_SSLCAKey)]]\<rparr>"

definition trio_earlier :: "Call list" where
  "trio_earlier = [Connected 0 ''pgx'' [], Executed 0 (fst (createUserQuery ''john'' ''secret'')) [], Closed 0]"

definition trio_world :: "User \<Rightarrow> (Cluster, Call list) World" where
  "trio_world u = \<lparr>
     kube = cluster_of trio_view u, dbms = trio_earlier, filesystem = \<lparr>fs_nodes = Map.empty, fs_deny = (\<lambda>_ _. None)\<rparr>,
     env_HOME = ''/root'', logs = [], events = [], connectors = [],
     fake = \<lparr>fake_queries = None, fake_count = 0, fake_connections = None\<rparr>, draws = 0\<rparr>"

definition test_TLS :: TLS where
  "test_TLS = \<lparr>tls_CA = test_SSLCACert, tls_Cert = test_SSLJohnCert, tls_Key = test_SSLJohnKey, tls_CAKey = test_SSLCAKey\<rparr>"

definition trio_target :: "DatabaseSpec \<Rightarrow> string \<Rightarrow> TLS \<Rightarrow> string \<Rightarrow> Target" where
  "trio_target s admin tls pw = \<lparr>target_Spec = s, target_AdminPassword = admin, target_TLS = tls, target_UserPassword = pw,
     target_Privileges = [\<lparr>Privilege = ''SELECT'', On = ''orders'', Database = ''shop''\<rparr>]\<rparr>"

definition trio_targets :: "Target list" where
  "trio_targets = [trio_target (database_Spec demo_database) [] no_TLS ''secret'',
     trio_target (trio_pg ''crm'' SSLModeDISABLE) ''secret'' no_TLS ''secret'',
     trio_target (trio_pg ''vault'' SSLModeVERIFYFULL) ''secret'' test_TLS ''1234'']"

section \<open>The cluster resolves and takes what it is sent\<close>

lemmas trio_names = cluster_name_def default_name_def

lemma trio_view_sel:
  "view_Secret trio_view (default_name ''john'') = Some (trio_secret ''john'' [(''pass'', ''secret''), (''pin'', ''1234'')])"
  "view_Secret trio_view (default_name ''pg-certs'') = Some (trio_secret ''pg-certs''
     [(''ca.crt'', test_SSLCACert), (''tls.crt'', test_SSLJohnCert), (''tls.key'', test_SSLJohnKey)])"
  "view_Secret trio_view (default_name ''pg-ca'') = Some (trio_secret ''pg-ca'' [(''ca.key'', test_SSLCAKey)])"
  "view_Secret trio_view (default_name ''john-certs'') = None"
  "view_Privileges trio_view \<lparr>nn_Namespace = [], nn_Name = ''reader''\<rparr> = Some \<lparr>privileges_Meta = demo_meta ''reader'' [] None,
       privileges_Privileges = [\<lparr>Privilege = ''SELECT'', On = ''orders'', Database = ''shop''\<rparr>]\<rparr>"
  "view_Database trio_view \<lparr>nn_Namespace = [], nn_Name = ''shop''\<rparr> = Some demo_database"
  "view_Database trio_view \<lparr>nn_Namespace = [], nn_Name = ''crm''\<rparr> =
     Some \<lparr>database_Meta = demo_meta ''crm'' [] None, database_Spec = trio_pg ''crm'' SSLModeDISABLE\<rparr>"
  "view_Database trio_view \<lparr>nn_Namespace = [], nn_Name = ''vault''\<rparr> =
     Some \<lparr>database_Meta = demo_meta ''vault'' [] None, database_Spec = trio_pg ''vault'' SSLModeVERIFYFULL\<rparr>"
  by (simp_all add: trio_view_def trio_names)

lemma test_not_Nil: "test_SSLJohnCert \<noteq> []" "test_SSLJohnKey \<noteq> []" "test_TLS \<noteq> no_TLS"
proof -
  have none: "pem_Decode [] = None" by code_simp
  show cert: "test_SSLJohnCert \<noteq> []" using test_SSLJohnCert_decodes none by force
  show "test_SSLJohnKey \<noteq> []" using test_SSLJohnKey_decodes none by force
  show "test_TLS \<noteq> no_TLS" using cert unfolding test_TLS_def no_TLS_def by blast
qed

lemma test_authority: "authority_issues no_Crypto test_TLS"
  using test_SSLCAKey_decodes test_SSLCACert_decodes
  by (auto simp: authority_issues_def test_TLS_def no_Crypto_def)

lemma mem_dsn: "\<exists>dsn. my_dsn mem_GenMysql c pw = Inr dsn"
  by (simp add: my_dsn_def mem_GenMysql_def)

lemma trio_modes [simp]: "\<not> uses_ssl SSLModeDISABLE" "uses_ssl SSLModeVERIFYFULL"
  by (simp_all add: uses_ssl_def ssl_mode_defs)

lemma trio_resolves: "list_all2 (resolves no_Crypto mem_GenMysql trio_view) (Databases (user_Spec (trio_user fins del))) trio_targets"
proof -
  note sel = trio_user_def trio_targets_def trio_target_def resolves_def servable_def DatabaseSpec_XValidation_def mem_dsn
    trio_ref_def demo_ref_def trio_view_sel admin_secret_def user_password_def admin_password_def complete_ref_def
    tls_material_def trio_secret_def copy_data_def map_index_def Name_ToNamespacedName_def
  have names: "nn_Namespace (default_name n) = ''default''" "nn_Name (default_name n) = n" for n
    by (simp_all add: default_name_def)
  have "resolves no_Crypto mem_GenMysql trio_view (trio_ref ''shop'' ''pass'') (trio_target (database_Spec demo_database) [] no_TLS ''secret'')"
    by (simp add: sel names demo_database_def issuing_def cluster_name_def)
  moreover have "resolves no_Crypto mem_GenMysql trio_view (trio_ref ''crm'' ''pass'')
      (trio_target (trio_pg ''crm'' SSLModeDISABLE) ''secret'' no_TLS ''secret'')"
    by (simp add: sel names trio_pg_def issuing_def no_TLS_def)
  moreover have "resolves no_Crypto mem_GenMysql trio_view (trio_ref ''vault'' ''pin'')
      (trio_target (trio_pg ''vault'' SSLModeVERIFYFULL) ''secret'' test_TLS ''1234'')"
    using test_authority by (simp add: sel names trio_pg_def test_TLS_def)
  ultimately show ?thesis by (simp add: trio_user_def trio_targets_def)
qed

text \<open>The certificate files: those of \<^verbatim>\<open>vault\<close> and those of the privilege in \<^verbatim>\<open>shop\<close> there.\<close>

definition trio_files :: "string list" where
  "trio_files = concat (map (\<lambda>n. map (\<lambda>ext. ''/root/postgres-certs/pg/'' @ n @ ''_postgres.'' @ ext) [''ca'', ''crt'', ''key''])
     [''vault'', ''shop''])"

lemma trio_separate: "separate_files trio_files"
  by code_simp

lemma trio_paths: "map (pg_cert_file ''/root'' (the (spec_PostgreSQL (trio_pg ''vault'' SSLModeVERIFYFULL))) n)
    [''ca'', ''crt'', ''key''] = map (\<lambda>ext. ''/root/postgres-certs/pg/'' @ n @ ''_postgres.'' @ ext) [''ca'', ''crt'', ''key'']"
  if "n \<in> {''vault'', ''shop''}"
  using that
proof (elim insertE emptyE)
  assume n: "n = ''vault''"
  show ?thesis unfolding n by code_simp
next
  assume n: "n = ''shop''"
  show ?thesis unfolding n by code_simp
qed

lemma trio_all_files: "all_files ''/root'' trio_targets = set trio_files"
  using trio_paths [of "''vault''"] trio_paths [of "''shop''"] test_not_Nil(3)
  by (simp add: all_files_def trio_targets_def trio_target_def target_files_def demo_database_def target_databases_def
      cert_set_def trio_files_def trio_pg_def insert_commute)

lemma trio_writable: "writable_certs (filesystem (trio_world u)) (all_files (env_HOME (trio_world u)) trio_targets)"
  using writable_when_empty [OF trio_separate] by (simp add: trio_world_def trio_all_files)

section \<open>The witnesses\<close>

lemma tracing_accepts: "accepting tracing_Sqlx (\<lambda>d. d)"
  using tracing.accepting_servers_axioms by (simp add: accepting_servers_def)

lemma trio_user_sel:
  "user_key (trio_user fins del) = cluster_name ''john''" "meta_Name (user_Meta (trio_user fins del)) = ''john''"
  "user_Status (trio_user fins del) = \<lparr>Summary = \<lparr>Ready = False, Message = []\<rparr>\<rparr>"
  "meta_DeletionTimestamp (user_Meta (trio_user fins del)) = del" "meta_Finalizers (user_Meta (trio_user fins del)) = fins"
  by (simp_all add: trio_user_def demo_user_def demo_meta_def user_key_def cluster_name_def)

lemma trio_ready:
  "ready_to_apply no_Crypto mem_GenMysql mem_Client trio_view
     (mem_holds trio_view (cluster_name ''john'') (user_Status (trio_user [] None)))
     (cluster_name ''john'') (kube (trio_world (trio_user [] None))) (trio_user [] None) trio_targets"
  using mem_ready_to_apply [OF trio_resolves, of "[]" None] by (simp add: trio_user_sel trio_world_def)

lemma trio_ready_to_remove:
  "ready_to_remove no_Crypto mem_GenMysql mem_Client trio_view
     (mem_holds trio_view (cluster_name ''john'') (user_Status (trio_user [userFinalizer] (Some 5))))
     (cluster_name ''john'') (kube (trio_world (trio_user [userFinalizer] (Some 5)))) (trio_user [userFinalizer] (Some 5)) trio_targets"
proof -
  have "ref_CreatedSecret ref = default_name ''john-certs''" if "ref \<in> set (Databases (user_Spec (trio_user fins del)))" for ref fins del
    using that by (auto simp: trio_user_def trio_ref_def demo_ref_def default_name_def)
  then show ?thesis
    using mem_ready_to_remove [OF trio_resolves, of "[userFinalizer]" "Some 5"] trio_view_sel(4)
    by (simp add: trio_user_sel trio_world_def)
qed

lemma trio_world_sel:
  "dbms (trio_world u) = trio_earlier" "env_HOME (trio_world u) = ''/root''" "events (trio_world u) = []" "connects trio_earlier = 1"
  by (simp_all add: trio_world_def trio_earlier_def)

text \<open>Five connections: one to \<^verbatim>\<open>shop\<close> and two to each of the others.\<close>

lemma trio_connects: "connects (thread (apply_calls home G user) n trio_targets) = 5"
  by (simp add: trio_targets_def trio_target_def apply_calls_def connect_call_def create_call_def privileges_calls_def
      my_privilege_calls_def pg_privilege_calls_def demo_database_def trio_pg_def Let_def split: prod.split)

theorem Reconcile_completes_witness:
  "\<exists>w'. UserReconciler_Reconcile (manager_reconciler tracing_Sqlx no_Crypto mem_GenMysql mem_Client) (cluster_name ''john'')
      (trio_world (trio_user [] None)) = (Returned None, w') \<and>
    dbms w' = trio_earlier @ thread (apply_calls ''/root'' mem_GenMysql ''john'') 1 trio_targets \<and>
    connects (dbms w') = 6 \<and> length (events w') = 1 \<and> mem_ready (cluster_name ''john'') (kube w')"
proof -
  let ?u = "trio_user [] None" and ?w = "trio_world (trio_user [] None)"
  obtain w' where w': "UserReconciler_Reconcile (manager_reconciler tracing_Sqlx no_Crypto mem_GenMysql mem_Client)
      (cluster_name ''john'') ?w = (Returned None, w')"
    "dbms w' = trio_earlier @ thread (apply_calls ''/root'' mem_GenMysql ''john'') 1 trio_targets"
    and r: "reports_ready mem_Client ?u ?w w' (mem_holds trio_view (cluster_name ''john'') (user_Status ?u))"
    using Reconcile_completes [OF tracing_accepts trio_ready trio_writable] trio_world_sel trio_user_sel by metis
  have "length (events w') = 1" using r by (auto simp: reports_ready_def trio_user_sel trio_world_sel)
  moreover have "mem_ready (cluster_name ''john'') (kube w')"
    using mem_reports_ready [OF r] by (auto simp: trio_user_sel mem_ready_def)
  ultimately show ?thesis using w' by (simp add: trio_world_sel trio_connects)
qed

theorem Reconcile_completes_removal_witness:
  "\<exists>w'. UserReconciler_Reconcile (manager_reconciler tracing_Sqlx no_Crypto mem_GenMysql mem_Client) (cluster_name ''john'')
      (trio_world (trio_user [userFinalizer] (Some 5))) = (Returned None, w') \<and>
    dbms w' = trio_earlier @ thread (remove_calls ''/root'' mem_GenMysql ''john'') 1 trio_targets \<and>
    \<not> mem_stored (cluster_name ''john'') (kube w')"
proof -
  let ?u = "trio_user [userFinalizer] (Some 5)"
  obtain w' k where w': "UserReconciler_Reconcile (manager_reconciler tracing_Sqlx no_Crypto mem_GenMysql mem_Client)
      (cluster_name ''john'') (trio_world ?u) = (Returned None, w')"
    "dbms w' = trio_earlier @ thread (remove_calls ''/root'' mem_GenMysql ''john'') 1 trio_targets"
    and k: "mem_holds trio_view (cluster_name ''john'') (user_Status ?u) k"
    "kube w' = snd (Client_Update_User mem_Client (controllerutil_RemoveFinalizer mem_Client ?u userFinalizer) k)"
    using Reconcile_completes_removal [OF tracing_accepts trio_ready_to_remove trio_writable] trio_world_sel trio_user_sel by metis
  with mem_removes(2) [OF trio_user_sel(1) k(1)] show ?thesis by metis
qed

end
