(* ===== verification/Served_Double.thy ===== *)
theory Served_Double
  imports Served_Runs
begin

text \<open>
  \<^verbatim>\<open>FakeConnection\<close> of \<^verbatim>\<open>src/pkg/database/connection/fake.go\<close> keeps the contract \<open>served\<close> without
  any hypothesis: what it has recorded is a function of the calls it was sent. The tests read
  the record; its closed form says what they can see.
\<close>

text \<open>What one call adds to the record; the handles are of no account.\<close>

fun fake_call :: "Call \<Rightarrow> FakeConnection \<Rightarrow> FakeConnection" where
  "fake_call (Connected h driver cs) f = f\<lparr>
     fake_queries := Some (case fake_queries f of None \<Rightarrow> Map.empty | Some q \<Rightarrow> q),
     fake_connections := Some ((case fake_connections f of None \<Rightarrow> Map.empty | Some c \<Rightarrow> c)(driver @ '':'' @ cs \<mapsto> True))\<rparr>"
| "fake_call (Executed h q as) f = f\<lparr>
     fake_count := fake_count f + 1,
     fake_queries := map_option (\<lambda>m. m(fmt_Sprint q as \<mapsto> fake_count f + 1)) (fake_queries f)\<rparr>"
| "fake_call (Closed h) f = f"

definition double_saw :: "FakeConnection \<Rightarrow> Call list \<Rightarrow> ('k, 'd) World \<Rightarrow> bool" where
  "double_saw f calls w \<longleftrightarrow> fake w = fold fake_call calls f"

definition double_opened :: "unit \<Rightarrow> DBHandle \<Rightarrow> ('k, 'd) World \<Rightarrow> bool" where
  "double_opened m h w \<longleftrightarrow> fake_queries (fake w) \<noteq> None"

definition double_unused :: "unit \<Rightarrow> ('k, 'd) World \<Rightarrow> bool" where
  "double_unused m w \<longleftrightarrow> True"

interpretation double: served FakeConnection_Connection fake_valid fake_live "double_saw f" double_unused double_opened
  "go_return ()" for f
  by unfold_locales
    (auto simp: double_saw_def double_opened_def double_unused_def fake_defs keeps_def preserves_def
      split: option.splits)

section \<open>The record in closed form\<close>

text \<open>The texts of the statements and of the connections.\<close>

fun statement_texts :: "Call list \<Rightarrow> string list" where
  "statement_texts (Executed h q as # calls) = fmt_Sprint q as # statement_texts calls"
| "statement_texts (Connected h driver cs # calls) = statement_texts calls"
| "statement_texts (Closed h # calls) = statement_texts calls"
| "statement_texts [] = []"

fun connection_texts :: "Call list \<Rightarrow> string list" where
  "connection_texts (Connected h driver cs # calls) = (driver @ '':'' @ cs) # connection_texts calls"
| "connection_texts (Executed h q as # calls) = connection_texts calls"
| "connection_texts (Closed h # calls) = connection_texts calls"
| "connection_texts [] = []"

definition seen :: "string list \<Rightarrow> string \<Rightarrow> bool option" where
  "seen ss = (\<lambda>s. if s \<in> set ss then Some True else None)"

lemma seen_Cons: "c ++ seen (s # ss) = c(s \<mapsto> True) ++ seen ss"
  by (auto simp: seen_def map_add_def fun_eq_iff)

lemma record_from:
  assumes "fake_queries f = Some q" and "fake_connections f = Some c"
  shows "fold fake_call calls f = \<lparr>
    fake_queries = Some (number_from (fake_count f) (statement_texts calls) q),
    fake_count = fake_count f + int (length (statement_texts calls)),
    fake_connections = Some (c ++ seen (connection_texts calls))\<rparr>"
  using assms
proof (induction calls arbitrary: f q c)
  case Nil
  then show ?case by (simp add: seen_def)
next
  case (Cons x calls)
  show ?case
  proof (cases x)
    case (Connected h driver cs)
    have "fake_queries (fake_call x f) = Some q" "fake_connections (fake_call x f) = Some (c(driver @ '':'' @ cs \<mapsto> True))"
      by (simp_all add: Connected Cons.prems del: append.simps append_Cons)
    from Cons.IH [OF this] show ?thesis
      unfolding Connected connection_texts.simps statement_texts.simps seen_Cons by (simp add: fun_upd_def)
  next
    case (Executed h st as)
    have "fake_queries (fake_call x f) = Some (q(fmt_Sprint st as \<mapsto> fake_count f + 1))"
      "fake_connections (fake_call x f) = Some c" by (simp_all add: Executed Cons.prems)
    from Cons.IH [OF this] show ?thesis unfolding Executed connection_texts.simps statement_texts.simps number_from.simps by (simp add: fun_upd_def)
  next
    case (Closed h)
    with Cons show ?thesis by simp
  qed
qed

text \<open>The double after \<^verbatim>\<open>NewFakeConnection\<close>, or after \<^verbatim>\<open>ResetDB\<close>, which keeps the count.\<close>

definition blank_double :: "FakeConnection \<Rightarrow> bool" where
  "blank_double f \<longleftrightarrow> fake_queries f \<in> {None, Some Map.empty} \<and> fake_connections f \<in> {None, Some Map.empty} \<and>
     0 \<le> fake_count f"

lemma blank_new: "blank_double (fake (snd (NewFakeConnection w)))"
  by (simp add: blank_double_def NewFakeConnection_def go_modify_def)

lemma blank_reset: "0 \<le> fake_count (fake w) \<Longrightarrow> blank_double (fake (snd (FakeConnection_ResetDB m w)))"
  by (simp add: blank_double_def FakeConnection_ResetDB_def go_modify_def)

lemma record_blank:
  assumes "blank_double f" and "is_connected x"
  shows "fold fake_call (x # calls) f = \<lparr>
    fake_queries = Some (number_from (fake_count f) (statement_texts (x # calls)) Map.empty),
    fake_count = fake_count f + int (length (statement_texts (x # calls))),
    fake_connections = Some (seen (connection_texts (x # calls)))\<rparr>"
proof -
  obtain h driver cs where x: "x = Connected h driver cs" using assms(2) by (cases x) simp_all
  have "fake_call x f = f\<lparr>fake_queries := Some Map.empty, fake_connections := Some [driver @ '':'' @ cs \<mapsto> True]\<rparr>"
    using assms(1) by (auto simp: x blank_double_def)
  then show ?thesis
    using record_from [of "fake_call x f" Map.empty "[driver @ '':'' @ cs \<mapsto> True]" calls]
      seen_Cons [of Map.empty "driver @ '':'' @ cs" "connection_texts calls"]
    by (simp add: x)
qed

lemma dom_number_from: "dom (number_from n ss m) = dom m \<union> set ss"
  by (induction n ss m rule: number_from.induct) (simp_all only: number_from.simps dom_fun_upd option.distinct if_False
    list.set Un_empty_right Un_insert_left Un_insert_right)

section \<open>The checks of the tests\<close>

text \<open>
  \<^verbatim>\<open>checkQueries\<close> and \<^verbatim>\<open>checkConnectionStrings\<close> of \<^verbatim>\<open>src/controllers/common_test.go\<close>: as many
  entries as expected, and each expected one there; the statements in the order of their
  numbers, none of which is 0, the value of an absent key.
\<close>

definition go_index :: "'v \<Rightarrow> ('k \<Rightarrow> 'v option) \<Rightarrow> 'k \<Rightarrow> 'v" where
  "go_index zero m x = (case m x of Some v \<Rightarrow> v | None \<Rightarrow> zero)"

primrec checkOrder :: "(string \<Rightarrow> int option) \<Rightarrow> int \<Rightarrow> string list \<Rightarrow> bool" where
  "checkOrder queries previous [] = True"
| "checkOrder queries previous (query # expected) =
     (let current = go_index 0 queries query in
      current \<noteq> 0 \<and> current > previous \<and> checkOrder queries current expected)"

definition checkQueries :: "(string \<Rightarrow> int option) \<Rightarrow> string list \<Rightarrow> bool" where
  "checkQueries queries expected \<longleftrightarrow> card (dom queries) = length expected \<and> checkOrder queries 0 expected"

definition checkConnectionStrings :: "(string \<Rightarrow> bool option) \<Rightarrow> string list \<Rightarrow> bool" where
  "checkConnectionStrings connections expected \<longleftrightarrow> card (dom connections) = length expected \<and>
     list_all (go_index False connections) expected"

lemma checkOrder_number_from: "distinct ss \<Longrightarrow> 0 \<le> n \<Longrightarrow> checkOrder (number_from n ss m) n ss"
  by (induction ss arbitrary: n m) (auto simp: go_index_def number_from_other)

lemma checkOrder_mono: "checkOrder q n ss \<Longrightarrow> p \<le> n \<Longrightarrow> checkOrder q p ss"
  by (cases ss) (auto simp: Let_def)

lemma checkQueries_number_from:
  "0 \<le> n \<Longrightarrow> checkQueries (number_from n ss Map.empty) ss \<longleftrightarrow> distinct ss"
proof -
  assume n: "0 \<le> n"
  have "dom (number_from n ss Map.empty) = set ss" by (simp add: dom_number_from)
  then show ?thesis
    using checkOrder_mono [OF checkOrder_number_from [OF _ n] n] card_distinct distinct_card
    unfolding checkQueries_def by metis
qed

lemma checkConnectionStrings_seen: "checkConnectionStrings (seen ss) ss \<longleftrightarrow> distinct ss"
proof -
  have "dom (seen ss) = set ss" by (auto simp: seen_def split: if_splits)
  moreover have "list_all (go_index False (seen ss)) ss" by (simp add: list_all_iff go_index_def seen_def)
  ultimately show ?thesis using card_distinct distinct_card unfolding checkConnectionStrings_def by metis
qed

end
