(* ===== verification/Test_Runs.thy ===== *)
theory Test_Runs
  imports Served_Double Completed_Runs
begin

text \<open>
  Whole runs of the reconciler of \<^verbatim>\<open>src/controllers/suite_test.go\<close>, which works over the test
  double: what the double has recorded afterwards, what the suite's own checks say of it, and
  the two contexts of \<^verbatim>\<open>src/controllers/user_controller_test.go\<close> as witnesses.
\<close>

section \<open>What the double records of a run\<close>

lemma thread_starts:
  assumes "ts \<noteq> []" and "\<And>n t. \<exists>x rest. g n t = x # rest \<and> is_connected x"
  shows "\<exists>x rest. thread g n ts = x # rest \<and> is_connected x"
proof -
  obtain t ts' where ts: "ts = t # ts'" using assms(1) by (cases ts) simp_all
  obtain x rest where "g n t = x # rest" "is_connected x" using assms(2) by blast
  then show ?thesis by (simp add: ts)
qed

lemma runs_connect: "is_connected (connect_call home G n t)"
  by (simp add: connect_call_def split: option.split)

lemma apply_calls_start: "\<exists>x rest. apply_calls home G user n t = x # rest \<and> is_connected x"
  and remove_calls_start: "\<exists>x rest. remove_calls home G user n t = x # rest \<and> is_connected x"
  by (simp_all add: apply_calls_def remove_calls_def runs_connect)

text \<open>What the tests read off the double, and what their checks say of it.\<close>

definition recorded :: "FakeConnection \<Rightarrow> Call list \<Rightarrow> ('k, 'd) World \<Rightarrow> bool" where
  "recorded f calls w \<longleftrightarrow>
     FakeConnection_Queries () w = (Returned (Some (number_from (fake_count f) (statement_texts calls) Map.empty)), w) \<and>
     FakeConnection_Connections () w = (Returned (Some (seen (connection_texts calls))), w)"

definition checks :: "('k, 'd) World \<Rightarrow> string list \<Rightarrow> string list \<Rightarrow> bool" where
  "checks w queries connections \<longleftrightarrow>
     (case (fst (FakeConnection_Queries () w), fst (FakeConnection_Connections () w)) of
        (Returned (Some qs), Returned (Some cs)) \<Rightarrow> checkQueries qs queries \<and> checkConnectionStrings cs connections
      | _ \<Rightarrow> False)"

text \<open>\<^verbatim>\<open>checkEvents\<close>: there are events, and the first one of the object for this reason has the message.\<close>

definition checkEvents :: "Event list \<Rightarrow> string \<Rightarrow> string \<Rightarrow> string \<Rightarrow> bool" where
  "checkEvents evs name reason msg \<longleftrightarrow> evs \<noteq> [] \<and>
     (case find (\<lambda>e. event_Object e = name \<and> event_Reason e = reason) evs of
        Some e \<Rightarrow> event_Message e = msg | None \<Rightarrow> False)"

lemma double_recorded:
  assumes "blank_double f" and "double_saw f calls w" and "\<exists>x rest. calls = x # rest \<and> is_connected x"
  shows "recorded f calls w"
    and "checks w (statement_texts calls) (connection_texts calls) \<longleftrightarrow>
      distinct (statement_texts calls) \<and> distinct (connection_texts calls)"
proof -
  obtain x rest where x: "calls = x # rest" "is_connected x" using assms(3) by blast
  have fake: "fake w = \<lparr>fake_queries = Some (number_from (fake_count f) (statement_texts calls) Map.empty),
      fake_count = fake_count f + int (length (statement_texts calls)), fake_connections = Some (seen (connection_texts calls))\<rparr>"
    using assms(2) record_blank [OF assms(1) x(2), of rest] by (simp add: double_saw_def x(1))
  then show "recorded f calls w"
    by (simp add: recorded_def FakeConnection_Queries_def FakeConnection_Connections_def go_get_def)
  show "checks w (statement_texts calls) (connection_texts calls) \<longleftrightarrow>
      distinct (statement_texts calls) \<and> distinct (connection_texts calls)"
    using assms(1) fake
    by (simp add: checks_def FakeConnection_Queries_def FakeConnection_Connections_def go_get_def
        checkQueries_number_from checkConnectionStrings_seen blank_double_def)
qed

lemma double_saw_start: "double_saw (fake w) [] w"
  by (simp add: double_saw_def)

text \<open>
  \<^bold>\<open>C15\<close> The test double sees a whole run. Let the user not be deleted and refer to some
  database, let everything it refers to resolve, the API server accept, the certificate
  files be writable, and the double be new or reset. Then \<^verbatim>\<open>Reconcile\<close> of the reconciler of the
  tests, which asks nothing of any server, returns nil; the double has recorded exactly the
  statements and the connections of the calls that the resources determine, the same calls
  that the database servers get from the operator, the statements numbered in their order;
  the user is reported ready; and \<^verbatim>\<open>checkQueries\<close> and \<^verbatim>\<open>checkConnectionStrings\<close> pass with these
  statements and connections exactly when no two of them have the same text.
\<close>

theorem test_Reconcile_records:
  fixes w :: "('k, 'd) World"
  assumes E: "ready_to_apply K G E V I nn (kube w) u ts"
    and files: "writable_certs (filesystem w) (all_files (env_HOME w) ts)"
    and fresh: "blank_double (fake w)" and some: "ts \<noteq> []"
    and calls: "calls = thread (apply_calls (env_HOME w) G (meta_Name (user_Meta u))) 0 ts"
  shows "\<exists>w'. UserReconciler_Reconcile (test_reconciler K G E) nn w = (Returned None, w') \<and>
    recorded (fake w) calls w' \<and> reports_ready E u w w' I \<and>
    (checks w' (statement_texts calls) (connection_texts calls) \<longleftrightarrow>
       distinct (statement_texts calls) \<and> distinct (connection_texts calls))"
proof -
  have start: "\<exists>x rest. calls = x # rest \<and> is_connected x"
    unfolding calls by (rule thread_starts [OF some apply_calls_start])
  obtain w' where w': "UserReconciler_Reconcile (test_reconciler K G E) nn w = (Returned None, w')"
      "double_saw (fake w) calls w'" "reports_ready E u w w' I"
    using double.run_completes [OF test_reconciles_over E double_saw_start files] by (auto simp: calls)
  with double_recorded [OF fresh w'(2) start] show ?thesis by blast
qed

text \<open>
  \<^bold>\<open>C16\<close> And of a removal: with the user in deletion and with the finalizer, the run returns
  nil, the double has recorded for each database in order the connection, the privileges
  taken back and the account dropped, no event is recorded, and the update that takes the
  finalizer away is the last thing that happens to the cluster.
\<close>

theorem test_Reconcile_records_removal:
  fixes w :: "('k, 'd) World"
  assumes E: "ready_to_remove K G E V I nn (kube w) u ts"
    and files: "writable_certs (filesystem w) (all_files (env_HOME w) ts)"
    and fresh: "blank_double (fake w)" and some: "ts \<noteq> []"
    and calls: "calls = thread (remove_calls (env_HOME w) G (meta_Name (user_Meta u))) 0 ts"
  shows "\<exists>w' k. UserReconciler_Reconcile (test_reconciler K G E) nn w = (Returned None, w') \<and>
    recorded (fake w) calls w' \<and> events w' = events w \<and> I k \<and>
    kube w' = snd (Client_Update_User E (controllerutil_RemoveFinalizer E u userFinalizer) k) \<and>
    (checks w' (statement_texts calls) (connection_texts calls) \<longleftrightarrow>
       distinct (statement_texts calls) \<and> distinct (connection_texts calls))"
proof -
  have start: "\<exists>x rest. calls = x # rest \<and> is_connected x"
    unfolding calls by (rule thread_starts [OF some remove_calls_start])
  obtain w' k where w': "UserReconciler_Reconcile (test_reconciler K G E) nn w = (Returned None, w')"
      "double_saw (fake w) calls w'" "events w' = events w" "I k"
      "kube w' = snd (Client_Update_User E (controllerutil_RemoveFinalizer E u userFinalizer) k)"
    using double.run_removes [OF test_reconciles_over E double_saw_start files] by (auto simp: calls)
  with double_recorded [OF fresh w'(2) start] show ?thesis by blast
qed

section \<open>The two contexts of the suite\<close>

text \<open>
  \<^verbatim>\<open>bundle\<close> and the configurations of \<^verbatim>\<open>common_test.go\<close> and \<^verbatim>\<open>user_controller_test.go\<close>, as
  the API server returns the objects: the string data of a secret have become its data.
\<close>

definition suite_secret :: "string \<Rightarrow> StrMap \<Rightarrow> K8sSecret" where
  "suite_secret n data = \<lparr>k8ssecret_Meta = (demo_meta n [] None)\<lparr>meta_Namespace := ''default''\<rparr>,
     k8ssecret_Data = data, k8ssecret_StringData = []\<rparr>"

definition suite_privileges :: "PrivilegeSpec list" where
  "suite_privileges =
     [\<lparr>Privilege = ''MY PRIVILEGE'', On = ''CUSTOM ON'', Database = ''DB''\<rparr>,
      \<lparr>Privilege = ''MY PRIVILEGE'', On = [], Database = ''DB''\<rparr>,
      \<lparr>Privilege = ''MY PRIVILEGE'', On = [], Database = []\<rparr>]"

definition suite_user :: "string \<Rightarrow> string list \<Rightarrow> int option \<Rightarrow> User" where
  "suite_user kind fins del = \<lparr>user_Meta = demo_meta (''user-'' @ kind) fins del,
     user_Spec = \<lparr>Databases = [\<lparr>ref_Name = ''database-'' @ kind,
       ref_PasswordSecret = \<lparr>secret_Secret = default_name (''user-password-'' @ kind), secret_Key = ''pass''\<rparr>,
       ref_CreatedSecret = default_name (''created-secret-'' @ kind),
       ref_Privileges = [\<lparr>name_Name = ''privileges-'' @ kind\<rparr>]\<rparr>]\<rparr>,
     user_Status = \<lparr>Summary = \<lparr>Ready = False, Message = []\<rparr>\<rparr>\<rparr>"

definition suite_PostgreSQL :: DatabaseSpec where
  "suite_PostgreSQL = \<lparr>spec_Type = PostgreSQL_type,
     spec_PostgreSQL = Some \<lparr>pgspec_Host = ''test-postgres'', pgspec_Port = 5432, pgspec_User = ''test-user'',
       pgspec_SSLMode = ''verify-full'', pgspec_DatabaseName = [],
       pgspec_SSLCredentialsSecret = default_name ''ssl-postgresql'',
       pgspec_SSLCAKey = \<lparr>secret_Secret = default_name ''cakey-postgresql'', secret_Key = ''ca.key''\<rparr>,
       pgspec_PasswordSecret = \<lparr>secret_Secret = default_name ''user-password-postgresql'', secret_Key = ''pass''\<rparr>\<rparr>,
     spec_MySQL = None\<rparr>"

definition suite_MySQL :: DatabaseSpec where
  "suite_MySQL = \<lparr>spec_Type = MySQL_type, spec_PostgreSQL = None,
     spec_MySQL = Some \<lparr>myspec_Host = ''test-mysql'', myspec_Port = 3306, myspec_DatabaseName = [],
       myspec_User = ''test-user'',
       myspec_PasswordSecret = \<lparr>secret_Secret = default_name ''user-password-mysql'', secret_Key = ''pass''\<rparr>,
       myspec_UsersHostname = []\<rparr>\<rparr>"

definition suite_view :: "string \<Rightarrow> DatabaseSpec \<Rightarrow> View" where
  "suite_view kind s = \<lparr>
     view_Database = [cluster_name (''database-'' @ kind) \<mapsto>
       \<lparr>database_Meta = demo_meta (''database-'' @ kind) [] None, database_Spec = s\<rparr>],
     view_Privileges = [cluster_name (''privileges-'' @ kind) \<mapsto>
       \<lparr>privileges_Meta = demo_meta (''privileges-'' @ kind) [] None, privileges_Privileges = suite_privileges\<rparr>],
     view_Secret = [
       default_name (''user-password-'' @ kind) \<mapsto> suite_secret (''user-password-'' @ kind) [(''pass'', ''mysupersecretpass'')],
       default_name ''cakey-postgresql'' \<mapsto> suite_secret ''cakey-postgresql'' [(''ca.key'', test_SSLCAKey)],
       default_name ''ssl-postgresql'' \<mapsto> suite_secret ''ssl-postgresql''
         [(''ca.crt'', test_SSLCACert), (''tls.key'', test_SSLJohnKey), (''tls.crt'', test_SSLJohnCert)]]\<rparr>"

definition suite_target :: "DatabaseSpec \<Rightarrow> TLS \<Rightarrow> Target" where
  "suite_target s tls = \<lparr>target_Spec = s, target_AdminPassword = ''mysupersecretpass'', target_TLS = tls,
     target_UserPassword = ''mysupersecretpass'', target_Privileges = suite_privileges\<rparr>"

text \<open>
  The data source name that the suite expects, \<^verbatim>\<open>user:password@tcp(host)/path?query\<close>; and the world
  after \<^verbatim>\<open>ResetDB\<close>, which keeps the count of the statements.
\<close>

definition suite_GenMysql :: "URL \<Rightarrow> error + string" where
  "suite_GenMysql u = Inr ((case url_User u of UserPassword n p \<Rightarrow> n @ '':'' @ p | UserOnly n \<Rightarrow> n) @ ''@'' @ url_Transport u @
     ''('' @ url_Host u @ '')/'' @ url_Path u @ ''?'' @ url_RawQuery u)"

definition suite_world :: "View \<Rightarrow> User \<Rightarrow> int \<Rightarrow> (Cluster, unit) World" where
  "suite_world V u n = \<lparr>
     kube = cluster_of V u, dbms = (), filesystem = \<lparr>fs_nodes = Map.empty, fs_deny = (\<lambda>_ _. None)\<rparr>,
     env_HOME = ''/root'', logs = [], events = [], connectors = [],
     fake = \<lparr>fake_queries = Some Map.empty, fake_count = n, fake_connections = Some Map.empty\<rparr>, draws = 0\<rparr>"

lemma suite_world_sel:
  "env_HOME (suite_world V u n) = ''/root''" "events (suite_world V u n) = []" "kube (suite_world V u n) = cluster_of V u"
  "0 \<le> n \<Longrightarrow> blank_double (fake (suite_world V u n))"
  by (simp_all add: suite_world_def blank_double_def)

lemma suite_user_sel:
  "user_key (suite_user kind fins del) = cluster_name (''user-'' @ kind)"
  "meta_Name (user_Meta (suite_user kind fins del)) = ''user-'' @ kind"
  "user_Status (suite_user kind fins del) = \<lparr>Summary = \<lparr>Ready = False, Message = []\<rparr>\<rparr>"
  "meta_DeletionTimestamp (user_Meta (suite_user kind fins del)) = del"
  "meta_Finalizers (user_Meta (suite_user kind fins del)) = fins"
  by (simp_all add: suite_user_def demo_meta_def user_key_def cluster_name_def)

text \<open>The references resolve.\<close>

lemma suite_view_sel:
  "view_Secret (suite_view kind s) (default_name (''user-password-'' @ kind)) =
     Some (suite_secret (''user-password-'' @ kind) [(''pass'', ''mysupersecretpass'')])"
  "view_Secret (suite_view kind s) (default_name ''cakey-postgresql'') =
     Some (suite_secret ''cakey-postgresql'' [(''ca.key'', test_SSLCAKey)])"
  "view_Secret (suite_view kind s) (default_name ''ssl-postgresql'') = Some (suite_secret ''ssl-postgresql''
     [(''ca.crt'', test_SSLCACert), (''tls.key'', test_SSLJohnKey), (''tls.crt'', test_SSLJohnCert)])"
  "view_Secret (suite_view kind s) (default_name (''created-secret-'' @ kind)) = None"
  "view_Privileges (suite_view kind s) \<lparr>nn_Namespace = [], nn_Name = ''privileges-'' @ kind\<rparr> =
     Some \<lparr>privileges_Meta = demo_meta (''privileges-'' @ kind) [] None, privileges_Privileges = suite_privileges\<rparr>"
  "view_Database (suite_view kind s) \<lparr>nn_Namespace = [], nn_Name = ''database-'' @ kind\<rparr> =
     Some \<lparr>database_Meta = demo_meta (''database-'' @ kind) [] None, database_Spec = s\<rparr>"
  by (simp_all add: suite_view_def trio_names)

lemmas suite_resolving = suite_user_def resolves_def suite_target_def servable_def DatabaseSpec_XValidation_def
  admin_secret_def user_password_def admin_password_def complete_ref_def tls_material_def suite_secret_def
  copy_data_def map_index_def Name_ToNamespacedName_def suite_privileges_def

lemma default_name_sel: "nn_Namespace (default_name n) = ''default''" "nn_Name (default_name n) = n"
  by (simp_all add: default_name_def)

lemma suite_resolves_PostgreSQL:
  "list_all2 (resolves no_Crypto G (suite_view ''postgresql'' suite_PostgreSQL))
     (Databases (user_Spec (suite_user ''postgresql'' fins del))) [suite_target suite_PostgreSQL test_TLS]"
proof -
  have mode: "uses_ssl ''verify-full''" by (simp add: uses_ssl_def ssl_mode_defs)
  have password: "view_Secret (suite_view ''postgresql'' suite_PostgreSQL) (default_name ''user-password-postgresql'') =
      Some (suite_secret ''user-password-postgresql'' [(''pass'', ''mysupersecretpass'')])"
    using suite_view_sel(1) [of "''postgresql''" suite_PostgreSQL] by simp
  show ?thesis
    using test_authority suite_view_sel(2,3,5,6) [of "''postgresql''" suite_PostgreSQL, simplified] mode password
    by (simp add: suite_resolving default_name_sel suite_PostgreSQL_def test_TLS_def)
qed

lemma suite_resolves_MySQL:
  "list_all2 (resolves K suite_GenMysql (suite_view ''mysql'' suite_MySQL))
     (Databases (user_Spec (suite_user ''mysql'' fins del))) [suite_target suite_MySQL no_TLS]"
  using suite_view_sel(1,5,6) [of "''mysql''" suite_MySQL, simplified]
  by (simp add: suite_resolving default_name_sel suite_MySQL_def issuing_def my_dsn_def suite_GenMysql_def)

text \<open>The certificate files.\<close>

definition suite_file :: "string \<Rightarrow> string \<Rightarrow> string" where
  "suite_file db ext = ''/root/postgres-certs/test-postgres/'' @ db @ ''_test-user.'' @ ext"

definition suite_files :: "string list" where
  "suite_files = concat (map (\<lambda>db. map (suite_file db) [''ca'', ''crt'', ''key'']) ['''', ''DB''])"

lemma suite_separate: "separate_files suite_files"
  by code_simp

definition suite_pgspec :: PostgreSQLConfig where
  "suite_pgspec = the (spec_PostgreSQL suite_PostgreSQL)"

lemma suite_paths:
  "pg_cert_file ''/root'' suite_pgspec [] ''ca'' = suite_file [] ''ca''"
  "pg_cert_file ''/root'' suite_pgspec [] ''crt'' = suite_file [] ''crt''"
  "pg_cert_file ''/root'' suite_pgspec [] ''key'' = suite_file [] ''key''"
  "pg_cert_file ''/root'' suite_pgspec ''DB'' ''ca'' = suite_file ''DB'' ''ca''"
  "pg_cert_file ''/root'' suite_pgspec ''DB'' ''crt'' = suite_file ''DB'' ''crt''"
  "pg_cert_file ''/root'' suite_pgspec ''DB'' ''key'' = suite_file ''DB'' ''key''"
  by code_simp+

lemma suite_pgspec_sel:
  "spec_PostgreSQL suite_PostgreSQL = Some suite_pgspec" "pgspec_Host suite_pgspec = ''test-postgres''"
  "pgspec_Port suite_pgspec = 5432" "pgspec_User suite_pgspec = ''test-user''" "pgspec_SSLMode suite_pgspec = ''verify-full''"
  "pgspec_DatabaseName suite_pgspec = []" "spec_PostgreSQL suite_MySQL = None"
  by (simp_all add: suite_pgspec_def suite_PostgreSQL_def suite_MySQL_def)

lemma suite_all_files: "all_files ''/root'' [suite_target suite_PostgreSQL test_TLS] = set suite_files"
  "all_files ''/root'' [suite_target suite_MySQL tls] = {}"
  using test_not_Nil(3)
  by (simp_all add: all_files_def suite_target_def target_files_def suite_pgspec_sel target_databases_def suite_privileges_def
      cert_set_def suite_paths suite_files_def insert_commute)

lemma suite_writable:
  "writable_certs (filesystem (suite_world V v n)) (all_files (env_HOME (suite_world V v n)) [suite_target suite_PostgreSQL test_TLS])"
  "writable_certs (filesystem (suite_world V v n)) (all_files (env_HOME (suite_world V v n)) [suite_target suite_MySQL tls])"
  using writable_when_empty [OF suite_separate] by (simp_all add: suite_world_def suite_all_files writable_certs_def)

text \<open>The expected texts of \<^verbatim>\<open>user_controller_test.go\<close>, for the home directory \<^verbatim>\<open>/root\<close>.\<close>

definition sslConnString :: "string \<Rightarrow> string" where
  "sslConnString db = ''sslmode=verify-full sslrootcert='' @ suite_file db ''ca'' @ '' sslcert='' @ suite_file db ''crt'' @
     '' sslkey='' @ suite_file db ''key''"

definition connStrings_PostgreSQL :: "string list" where
  "connStrings_PostgreSQL =
     [''pgx:host=test-postgres user=test-user port=5432 password=mysupersecretpass '' @ sslConnString [],
      ''pgx:host=test-postgres user=test-user port=5432 dbname=DB password=mysupersecretpass '' @ sslConnString ''DB'']"

definition connStrings_MySQL :: "string list" where
  "connStrings_MySQL = [''mysql:test-user:mysupersecretpass@tcp(test-mysql:3306)/?interpolateParams=true'']"

definition queries_PostgreSQL :: "string list" where
  "queries_PostgreSQL =
     [''CREATE USER \"user-postgresql\" WITH PASSWORD '' @ [CHR 0x27] @ ''mysupersecretpass'' @ [CHR 0x27],
      ''GRANT MY PRIVILEGE ON \"CUSTOM ON\" TO \"user-postgresql\"'',
      ''GRANT MY PRIVILEGE ON DATABASE \"DB\" TO \"user-postgresql\"'',
      ''GRANT MY PRIVILEGE TO \"user-postgresql\"'']"

definition removeQueries_PostgreSQL :: "string list" where
  "removeQueries_PostgreSQL =
     [''REVOKE MY PRIVILEGE ON \"CUSTOM ON\" FROM \"user-postgresql\"'',
      ''REVOKE MY PRIVILEGE ON DATABASE \"DB\" FROM \"user-postgresql\"'',
      ''REVOKE MY PRIVILEGE FROM \"user-postgresql\"'',
      ''DROP USER \"user-postgresql\"'']"

definition queries_MySQL :: "string list" where
  "queries_MySQL =
     [''CREATE USER ?@? IDENTIFIED BY ?user-mysql*mysupersecretpass'',
      ''GRANT ? ON ?.? TO ?MY PRIVILEGEDBCUSTOM ONuser-mysql'',
      ''GRANT ? ON ?.* TO ?MY PRIVILEGEDBuser-mysql'',
      ''GRANT ? TO ?MY PRIVILEGEuser-mysql'']"

definition removeQueries_MySQL :: "string list" where
  "removeQueries_MySQL =
     [''REVOKE ? ON ?.? FROM ?MY PRIVILEGEDBCUSTOM ONuser-mysql'',
      ''REVOKE ? ON ?.* FROM ?MY PRIVILEGEDBuser-mysql'',
      ''REVOKE ? FROM ?MY PRIVILEGEuser-mysql'',
      ''DROP USER ?@?user-mysql*'']"

lemma test_TLS_sel: "tls_CA test_TLS \<noteq> []" "tls_Cert test_TLS \<noteq> []" "tls_Key test_TLS \<noteq> []"
proof -
  have "pem_Decode [] = None" by code_simp
  then have "test_SSLCACert \<noteq> []" using test_SSLCACert_decodes by force
  with test_not_Nil(1,2) show "tls_CA test_TLS \<noteq> []" "tls_Cert test_TLS \<noteq> []" "tls_Key test_TLS \<noteq> []"
    by (simp_all add: test_TLS_def)
qed

lemma suite_ports: "fmt_d 5432 = ''5432''" "fmt_d 3306 = ''3306''"
  by (simp_all add: fmt_d_def fmt_nat.simps digit_char_def decimal_digits_def)

lemma suite_conninfo:
  "pg_conninfo ''/root'' (suite_target suite_PostgreSQL test_TLS) suite_pgspec [] =
     ''host=test-postgres user=test-user port=5432 password=mysupersecretpass '' @ sslConnString []"
  "pg_conninfo ''/root'' (suite_target suite_PostgreSQL test_TLS) suite_pgspec ''DB'' =
     ''host=test-postgres user=test-user port=5432 dbname=DB password=mysupersecretpass '' @ sslConnString ''DB''"
proof -
  show "pg_conninfo ''/root'' (suite_target suite_PostgreSQL test_TLS) suite_pgspec [] =
     ''host=test-postgres user=test-user port=5432 password=mysupersecretpass '' @ sslConnString []"
    "pg_conninfo ''/root'' (suite_target suite_PostgreSQL test_TLS) suite_pgspec ''DB'' =
     ''host=test-postgres user=test-user port=5432 dbname=DB password=mysupersecretpass '' @ sslConnString ''DB''"
    using test_TLS_sel
    by (simp_all add: pg_conninfo_def suite_pgspec_sel suite_paths sslConnString_def suite_ports suite_target_def)
qed

lemma suite_statements:
  "fst (createUserQuery ''user-postgresql'' ''mysupersecretpass'') = queries_PostgreSQL ! 0"
  "pg_prepareStatementForPrivilege ''GRANT'' ''TO'' ''user-postgresql'' ''DB'' ''CUSTOM ON'' ''MY PRIVILEGE'' = queries_PostgreSQL ! 1"
  "pg_prepareStatementForPrivilege ''GRANT'' ''TO'' ''user-postgresql'' ''DB'' [] ''MY PRIVILEGE'' = queries_PostgreSQL ! 2"
  "pg_prepareStatementForPrivilege ''GRANT'' ''TO'' ''user-postgresql'' [] [] ''MY PRIVILEGE'' = queries_PostgreSQL ! 3"
  "pg_prepareStatementForPrivilege ''REVOKE'' ''FROM'' ''user-postgresql'' ''DB'' ''CUSTOM ON'' ''MY PRIVILEGE'' = removeQueries_PostgreSQL ! 0"
  "pg_prepareStatementForPrivilege ''REVOKE'' ''FROM'' ''user-postgresql'' ''DB'' [] ''MY PRIVILEGE'' = removeQueries_PostgreSQL ! 1"
  "pg_prepareStatementForPrivilege ''REVOKE'' ''FROM'' ''user-postgresql'' [] [] ''MY PRIVILEGE'' = removeQueries_PostgreSQL ! 2"
  "deleteUserQuery ''user-postgresql'' = removeQueries_PostgreSQL ! 3"
  by code_simp+

lemma suite_target_sel:
  "target_Spec (suite_target s tls) = s" "target_UserPassword (suite_target s tls) = ''mysupersecretpass''"
  "target_AdminPassword (suite_target s tls) = ''mysupersecretpass''"
  "target_Privileges (suite_target s tls) = suite_privileges"
  by (simp_all add: suite_target_def)

lemmas suite_texts = apply_calls_def remove_calls_def connect_call_def create_call_def drop_call_def privileges_calls_def
  suite_target_sel suite_privileges_def fmt_Sprint_def

lemma suite_texts_PostgreSQL:
  "statement_texts (apply_calls ''/root'' G ''user-postgresql'' 0 (suite_target suite_PostgreSQL test_TLS)) =
     queries_PostgreSQL"
  "connection_texts (apply_calls ''/root'' G ''user-postgresql'' 0 (suite_target suite_PostgreSQL test_TLS)) =
     connStrings_PostgreSQL"
  "statement_texts (remove_calls ''/root'' G ''user-postgresql'' 0 (suite_target suite_PostgreSQL test_TLS)) =
     removeQueries_PostgreSQL"
  "connection_texts (remove_calls ''/root'' G ''user-postgresql'' 0 (suite_target suite_PostgreSQL test_TLS)) =
     connStrings_PostgreSQL"
  by (simp_all add: suite_texts suite_pgspec_sel pg_privilege_calls_def suite_statements suite_conninfo connStrings_PostgreSQL_def)
    (simp_all add: queries_PostgreSQL_def removeQueries_PostgreSQL_def)

lemma suite_texts_MySQL:
  "statement_texts (apply_calls ''/root'' suite_GenMysql ''user-mysql'' 0 (suite_target suite_MySQL no_TLS)) = queries_MySQL"
  "connection_texts (apply_calls ''/root'' suite_GenMysql ''user-mysql'' 0 (suite_target suite_MySQL no_TLS)) = connStrings_MySQL"
  "statement_texts (remove_calls ''/root'' suite_GenMysql ''user-mysql'' 0 (suite_target suite_MySQL no_TLS)) =
     removeQueries_MySQL"
  "connection_texts (remove_calls ''/root'' suite_GenMysql ''user-mysql'' 0 (suite_target suite_MySQL no_TLS)) =
     connStrings_MySQL"
  by (simp_all add: suite_texts suite_MySQL_def my_privilege_calls_def my_dsn_def my_hostname_def suite_GenMysql_def suite_ports
      my_prepareStatementForPrivilege_def queries_MySQL_def removeQueries_MySQL_def connStrings_MySQL_def)

lemma suite_distinct:
  "distinct queries_PostgreSQL" "distinct removeQueries_PostgreSQL" "distinct connStrings_PostgreSQL"
  "distinct queries_MySQL" "distinct removeQueries_MySQL" "distinct connStrings_MySQL"
  by (simp_all add: queries_PostgreSQL_def removeQueries_PostgreSQL_def connStrings_PostgreSQL_def
      queries_MySQL_def removeQueries_MySQL_def connStrings_MySQL_def)

section \<open>The witnesses\<close>

abbreviation suite_reconciler :: "(Cluster, unit) UserReconciler" where
  "suite_reconciler \<equiv> test_reconciler no_Crypto suite_GenMysql mem_Client"

text \<open>The worlds in which the two contexts let the user be made and removed.\<close>

definition suite_start :: "string \<Rightarrow> DatabaseSpec \<Rightarrow> int \<Rightarrow> (Cluster, unit) World" where
  "suite_start kind s n = suite_world (suite_view kind s) (suite_user kind [] None) n"

definition suite_deletion :: "string \<Rightarrow> DatabaseSpec \<Rightarrow> int \<Rightarrow> (Cluster, unit) World" where
  "suite_deletion kind s n = suite_world (suite_view kind s) (suite_user kind [userFinalizer] (Some 5)) n"

lemma suite_ready:
  assumes "list_all2 (resolves K G (suite_view kind s)) (Databases (user_Spec (suite_user kind [] None))) ts"
  shows "ready_to_apply K G mem_Client (suite_view kind s)
    (mem_holds (suite_view kind s) (cluster_name (''user-'' @ kind)) (user_Status (suite_user kind [] None)))
    (cluster_name (''user-'' @ kind)) (kube (suite_start kind s n)) (suite_user kind [] None) ts"
  using mem_ready_to_apply [OF assms] by (simp add: suite_start_def suite_world_sel suite_user_sel)

lemma suite_ready_to_remove:
  assumes "list_all2 (resolves K G (suite_view kind s)) (Databases (user_Spec (suite_user kind [userFinalizer] (Some 5)))) ts"
  shows "ready_to_remove K G mem_Client (suite_view kind s)
    (mem_holds (suite_view kind s) (cluster_name (''user-'' @ kind)) (user_Status (suite_user kind [userFinalizer] (Some 5))))
    (cluster_name (''user-'' @ kind)) (kube (suite_deletion kind s n)) (suite_user kind [userFinalizer] (Some 5)) ts"
proof -
  have "view_Secret (suite_view kind s) (ref_CreatedSecret ref) = None"
    if "ref \<in> set (Databases (user_Spec (suite_user kind [userFinalizer] (Some 5))))" for ref
    using that suite_view_sel(4) [of kind s] by (simp add: suite_user_def)
  with mem_ready_to_remove [OF assms] show ?thesis by (simp add: suite_deletion_def suite_world_sel suite_user_sel)
qed

text \<open>The status that the suite fetches, and what it finds after a run that reports the user ready.\<close>

definition stored_status :: "(Cluster, unit) World \<Rightarrow> string \<Rightarrow> UserStatus option" where
  "stored_status w n = map_option user_Status (cl_users (kube w) (cluster_name n))"

lemma suite_reports_ready:
  assumes "reports_ready mem_Client (suite_user kind [] None) w w' (mem_holds V (cluster_name (''user-'' @ kind)) st)"
    and "events w = []"
  shows "stored_status w' (''user-'' @ kind) = Some \<lparr>Summary =
      \<lparr>Ready = True, Message = ''Successfully created user in all specified databases''\<rparr>\<rparr>"
    and "checkEvents (events w') (''user-'' @ kind) ''SuccessfullyCreatedUser'' ''Successfully created user in all specified databases''"
  using mem_reports_ready [OF assms(1)] assms
  by (auto simp: stored_status_def checkEvents_def successMsg_def suite_user_sel reports_ready_def)

text \<open>
  What the suite expects, in the world where it expects it: the MySQL context comes second,
  with the count of the first.
\<close>

theorem test_Reconcile_records_witness:
  "(\<exists>w'. UserReconciler_Reconcile suite_reconciler (cluster_name ''user-postgresql'') (suite_start ''postgresql'' suite_PostgreSQL 0) =
       (Returned None, w') \<and>
     checks w' queries_PostgreSQL connStrings_PostgreSQL \<and>
     stored_status w' ''user-postgresql'' = Some \<lparr>Summary =
       \<lparr>Ready = True, Message = ''Successfully created user in all specified databases''\<rparr>\<rparr> \<and>
     checkEvents (events w') ''user-postgresql'' ''SuccessfullyCreatedUser''
       ''Successfully created user in all specified databases'') \<and>
   (\<exists>w'. UserReconciler_Reconcile suite_reconciler (cluster_name ''user-mysql'') (suite_start ''mysql'' suite_MySQL 8) =
       (Returned None, w') \<and>
     checks w' queries_MySQL connStrings_MySQL \<and>
     stored_status w' ''user-mysql'' = Some \<lparr>Summary =
       \<lparr>Ready = True, Message = ''Successfully created user in all specified databases''\<rparr>\<rparr> \<and>
     checkEvents (events w') ''user-mysql'' ''SuccessfullyCreatedUser''
       ''Successfully created user in all specified databases'')"
proof
  let ?w = "suite_start ''postgresql'' suite_PostgreSQL 0"
  have w: "env_HOME ?w = ''/root''" "blank_double (fake ?w)" "events ?w = []"
    "writable_certs (filesystem ?w) (all_files (env_HOME ?w) [suite_target suite_PostgreSQL test_TLS])"
    unfolding suite_start_def using suite_world_sel suite_writable by simp_all
  from test_Reconcile_records [OF suite_ready [OF suite_resolves_PostgreSQL] w(4,2) _ refl, of suite_GenMysql]
  show "\<exists>w'. UserReconciler_Reconcile suite_reconciler (cluster_name ''user-postgresql'') ?w = (Returned None, w') \<and>
      checks w' queries_PostgreSQL connStrings_PostgreSQL \<and>
      stored_status w' ''user-postgresql'' = Some \<lparr>Summary =
        \<lparr>Ready = True, Message = ''Successfully created user in all specified databases''\<rparr>\<rparr> \<and>
      checkEvents (events w') ''user-postgresql'' ''SuccessfullyCreatedUser'' ''Successfully created user in all specified databases''"
    by (auto simp: w suite_user_sel suite_texts_PostgreSQL suite_distinct
        dest: suite_reports_ready [where kind = "''postgresql''", simplified, OF _ w(3)])
next
  let ?w = "suite_start ''mysql'' suite_MySQL 8"
  have w: "env_HOME ?w = ''/root''" "blank_double (fake ?w)" "events ?w = []"
    "writable_certs (filesystem ?w) (all_files (env_HOME ?w) [suite_target suite_MySQL no_TLS])"
    unfolding suite_start_def using suite_world_sel suite_writable by simp_all
  from test_Reconcile_records [OF suite_ready [OF suite_resolves_MySQL [of no_Crypto]] w(4,2) _ refl]
  show "\<exists>w'. UserReconciler_Reconcile suite_reconciler (cluster_name ''user-mysql'') ?w = (Returned None, w') \<and>
      checks w' queries_MySQL connStrings_MySQL \<and>
      stored_status w' ''user-mysql'' = Some \<lparr>Summary =
        \<lparr>Ready = True, Message = ''Successfully created user in all specified databases''\<rparr>\<rparr> \<and>
      checkEvents (events w') ''user-mysql'' ''SuccessfullyCreatedUser'' ''Successfully created user in all specified databases''"
    by (auto simp: w suite_user_sel suite_texts_MySQL suite_distinct
        dest: suite_reports_ready [where kind = "''mysql''", simplified, OF _ w(3)])
qed

theorem test_Reconcile_records_removal_witness:
  "(\<exists>w'. UserReconciler_Reconcile suite_reconciler (cluster_name ''user-postgresql'') (suite_deletion ''postgresql'' suite_PostgreSQL 4) =
       (Returned None, w') \<and>
     checks w' removeQueries_PostgreSQL connStrings_PostgreSQL \<and> \<not> mem_stored (cluster_name ''user-postgresql'') (kube w')) \<and>
   (\<exists>w'. UserReconciler_Reconcile suite_reconciler (cluster_name ''user-mysql'') (suite_deletion ''mysql'' suite_MySQL 12) =
       (Returned None, w') \<and>
     checks w' removeQueries_MySQL connStrings_MySQL \<and> \<not> mem_stored (cluster_name ''user-mysql'') (kube w'))"
proof
  let ?w = "suite_deletion ''postgresql'' suite_PostgreSQL 4"
  have w: "env_HOME ?w = ''/root''" "blank_double (fake ?w)"
    "writable_certs (filesystem ?w) (all_files (env_HOME ?w) [suite_target suite_PostgreSQL test_TLS])"
    unfolding suite_deletion_def using suite_world_sel suite_writable by simp_all
  from test_Reconcile_records_removal [OF suite_ready_to_remove [OF suite_resolves_PostgreSQL] w(3,2) _ refl, of suite_GenMysql]
  show "\<exists>w'. UserReconciler_Reconcile suite_reconciler (cluster_name ''user-postgresql'') ?w = (Returned None, w') \<and>
      checks w' removeQueries_PostgreSQL connStrings_PostgreSQL \<and> \<not> mem_stored (cluster_name ''user-postgresql'') (kube w')"
    using mem_removes(2) [OF suite_user_sel(1)]
    by (fastforce simp: w suite_user_sel suite_texts_PostgreSQL suite_distinct simp del: mem_Client_sel)
next
  let ?w = "suite_deletion ''mysql'' suite_MySQL 12"
  have w: "env_HOME ?w = ''/root''" "blank_double (fake ?w)"
    "writable_certs (filesystem ?w) (all_files (env_HOME ?w) [suite_target suite_MySQL no_TLS])"
    unfolding suite_deletion_def using suite_world_sel suite_writable by simp_all
  from test_Reconcile_records_removal [OF suite_ready_to_remove [OF suite_resolves_MySQL [of no_Crypto]] w(3,2) _ refl]
  show "\<exists>w'. UserReconciler_Reconcile suite_reconciler (cluster_name ''user-mysql'') ?w = (Returned None, w') \<and>
      checks w' removeQueries_MySQL connStrings_MySQL \<and> \<not> mem_stored (cluster_name ''user-mysql'') (kube w')"
    using mem_removes(2) [OF suite_user_sel(1)]
    by (fastforce simp: w suite_user_sel suite_texts_MySQL suite_distinct simp del: mem_Client_sel)
qed

end
