(* ===== verification/Spec2Isabelle.thy ===== *)
theory Spec2Isabelle
  imports Controller_Properties Operator_Runs Log_Properties Driver_Properties Boundary_Properties
    Sessions_Bounded Deep_Copy_Properties Operator_Main_Properties Secret_Properties
    Completed_Runs Test_Runs
begin

text \<open>
  \<^bold>\<open>A model of the database users operator\<close>

  The operator watches \<^verbatim>\<open>User\<close> resources of a Kubernetes cluster and creates, in every
  database a user refers to, an account with the privileges of the \<^verbatim>\<open>Privileges\<close>
  resources it names; when the resource is deleted it revokes the privileges and drops the
  account. This development models the Go code under \<^verbatim>\<open>src/\<close> that does so and proves what
  makes it correct, and in some places what makes it wrong.

  \<^bold>\<open>Parts of the program and theories.\<close>

  \<^item> \<open>Prelude\<close>: Go's errors (\<^verbatim>\<open>errors.As\<close>, \<^verbatim>\<open>errors.Join\<close>), computations over an explicit
    state that return or panic (\<open>go_bind\<close>, \<open>go_defer\<close> for \<^verbatim>\<open>defer\<close>, \<open>go_check\<close> and
    \<open>go_try\<close> for the early return of an error, \<open>go_for\<close> for the loops), and the three
    kinds of facts about them: \<open>preserves\<close>, \<open>keeps\<close> and \<open>returns\<close>, whose rules are
    collected in \<open>inv_intros\<close>.
  \<^item> \<open>Go_Stdlib\<close>: \<^verbatim>\<open>strings.Split\<close>, \<^verbatim>\<open>strings.ReplaceAll\<close>, \<^verbatim>\<open>%d\<close>, \<^verbatim>\<open>filepath\<close> on Unix,
    and a file system with the calls of \<^verbatim>\<open>os\<close> that the sources use.
  \<^item> \<open>Go_Encoding\<close>: \<^verbatim>\<open>encoding/base64\<close> and \<^verbatim>\<open>encoding/pem\<close>, with the proof that decoding
    undoes encoding. \<open>Test_Certificates\<close>: \<^verbatim>\<open>src/pkg/utils/tests_utils\<close>, the PEM texts of the
    tests, which decode.
  \<^item> \<open>Api_Types\<close>: \<^verbatim>\<open>src/api/v1alpha1\<close>, the custom resources as records and the validation
    rule of \<^verbatim>\<open>DatabaseSpec\<close>.
  \<^item> \<open>World\<close>: the state of a run: cluster, database servers, files, log, events, the heap
    of connectors, the fake connection.
  \<^item> \<open>Connection\<close>: \<^verbatim>\<open>src/pkg/database/connection\<close>, with the locale \<open>connection\<close> that states
    the contract of the interface and its interpretations \<open>dc\<close> (\<^verbatim>\<open>DefaultConnector\<close>) and
    \<open>fc\<close> (\<^verbatim>\<open>FakeConnection\<close>).
  \<^item> \<open>Pg_Utils\<close>, \<open>Pg_Config\<close>, \<open>Postgresql\<close>: \<^verbatim>\<open>src/pkg/database/postgresql\<close> (\<^verbatim>\<open>utils.go\<close>,
    \<^verbatim>\<open>config.go\<close>, \<^verbatim>\<open>postgresql.go\<close>): quoting against a lexer of SQL, connection strings and
    certificate files, the driver.
  \<^item> \<open>Mysql\<close>: \<^verbatim>\<open>src/pkg/database/mysql\<close>.
  \<^item> \<open>Db_Interface\<close>: the \<^verbatim>\<open>Database\<close> interface of \<^verbatim>\<open>src/pkg/database/database.go\<close> and the
    locale \<open>database\<close> with its contract; both drivers are sublocales over any
    \<open>connection\<close>.
  \<^item> \<open>Kube\<close>: the Kubernetes client as a parameter, and \<^verbatim>\<open>src/pkg/utils/utils.go\<close>.
  \<^item> \<open>Databases\<close>: the rest of \<^verbatim>\<open>database.go\<close> and \<^verbatim>\<open>fake.go\<close>, with the locale
    \<open>database_creator\<close>, interpreted for \<^verbatim>\<open>NewDatabase\<close> and for the creator of the test
    double.
  \<^item> \<open>User_Controller\<close>: \<^verbatim>\<open>src/controllers/user_controller.go\<close>, with the locale
    \<open>user_controller\<close> that extends \<open>database_creator\<close>, interpreted for the reconciler of
    \<^verbatim>\<open>main.go\<close> (\<open>manager\<close>) and for that of the tests (\<open>testing\<close>).
  \<^item> \<open>Operator_Main\<close>: \<^verbatim>\<open>src/main.go\<close>, \<^verbatim>\<open>groupversion_info.go\<close> and the \<^verbatim>\<open>init\<close> functions of
    the types: the command line, the options of the manager, the registration of the
    controller and the probes, the exit codes.
  \<^item> \<open>Go_Heap\<close>, \<open>Deep_Copy\<close>: \<^verbatim>\<open>zz_generated.deepcopy.go\<close> over an explicit memory of arrays
    that pointers and slices refer to. \<open>Go_Heap\<close> states the contract of a copy routine as
    the locale \<open>copier\<close> (what the copy stands for, which memory it may use, that it only
    adds to the memory) and derives pointers, slices and structs from it;
    \<open>Deep_Copy\<close> has one definition per generated method.
  \<^item> \<open>Mem_Cluster\<close>: an API server and a database server in memory, with which the
    witnesses run the model.
  \<^item> \<open>Controller_Properties\<close>, \<open>Driver_Properties\<close>, \<open>Boundary_Properties\<close>,
    \<open>Connections_Balanced\<close>, \<open>Sessions_Bounded\<close>, \<open>Log_Properties\<close>: the properties of one
    run, which need a world to run in. \<open>Operator_Runs\<close>: sequences of runs, with an environment that edits the
    cluster in between, as a step relation that refines an abstract lifecycle of a user.
    \<open>Secret_Properties\<close>: the bundle of a user from the driver through the created
    secret to its reader.
    \<open>Operator_Main_Properties\<close> and \<open>Deep_Copy_Properties\<close>: the start of the process, and
    the copies.

  \<^item> Whole runs, in nine theories. \<open>Served\<close>: what the other side of a connection has seen, as
    a list of calls, rules for computations that send calls, and the locale \<open>served\<close> that
    extends \<open>connection\<close>: every call is accepted and added to the list. The locale
    \<open>accepting_servers\<close> makes the \<^verbatim>\<open>DefaultConnector\<close> over servers that accept a sublocale
    of it; \<open>Served_Double\<close> interprets it for \<^verbatim>\<open>FakeConnection\<close>, without any hypothesis, and
    gives its record in closed form. \<open>Target_Calls\<close>: the calls for one reference of a user,
    computed from the resources. \<open>Served_Drivers\<close>, \<open>Served_Reconciler\<close>, \<open>Served_Runs\<close>: proved
    once inside \<open>served\<close>, that the drivers, the reconciler of a reference and a whole run send
    exactly these. \<open>Completed_Runs\<close>: the runs of the operator, from \<open>accepting_servers\<close>;
    \<open>Test_Runs\<close>: those of the reconciler of the tests, from \<open>Served_Double\<close>, with the two
    contexts of \<^verbatim>\<open>src/controllers/user_controller_test.go\<close> and the checks of
    \<^verbatim>\<open>common_test.go\<close>. \<open>Mem_Runs\<close>: the API server in memory answers and accepts what a run
    asks of it.

  A Go pointer receiver whose object changes is threaded: \<open>Config_ConnString\<close> returns the
  configuration with the fields it assigned, \<open>UserReconciler_reconcile\<close> the user. A Go
  interface value is a record of its methods. A body that is long in the source is cut at
  its early returns, and the pieces are mapped to their lines.

  \<^bold>\<open>What the lemmas show.\<close>

  \<^item> Reconciler: the finalizer protects what a run creates and goes only after a complete
    removal; the status says ready only after a complete creation. Both are stated over the
    states of the run itself: \<open>removed_from\<close> and \<open>applied_in\<close> say what happens for one
    reference between two states, \<open>along\<close> chains them over the references. What is reported;
    no panic; every connected handle is given back; at most two of them at the same time.
  \<^item> Whole runs: when everything a user refers to is there, the servers accept and, with
    TLS, the certificate files can be written and the authority can issue, a run
    ends, reports success and has sent exactly the connections and statements of a list
    that is computed from the resources; the removal likewise. Over the test double the
    same calls are recorded, and the checks of the suite pass with the very texts of its
    two contexts.
  \<^item> Lifecycle: over any number of runs, interleaved with any changes by others that do not
    take the finalizer off the stored user, the operator behaves like a small state machine in which an account may exist
    only while the finalizer is stored; no account is orphaned.
  \<^item> Log: no line of a run is made from a secret.
  \<^item> Start: the manager only starts when everything is registered, with the options that
    parsing the command line over the defaults gives.
  \<^item> Copies: a deep copy stands for the same value as the original and shares no memory
    with it.
  \<^item> Statements: for every user name, password and object the PostgreSQL statements are
    the intended token sequences; MySQL statements have the right arguments.
  \<^item> Errors: the result of the account operations for every answer of the server; exactly
    when the loops over privileges succeed and where they stop, over what the server answers
    to one privilege (\<open>privilege_answered\<close>); when the constructor panics.
  \<^item> Files: which certificate files exist after which calls, and in which directory.
  \<^item> Certificates: the bundle of a user is signed by the authority of the database, is
    stored once, and decodes to the certificate and the key when it is read again.
  \<^item> Faults: behaviours that contradict the intention of the code are proved as
    properties of the model as it is (the handle of a failed ping that is never closed,
    shared certificate files, a key left on disk, a
    truncated revocation, a secret that is never created, a crash on a malformed secret,
    a database name that leads out of the certificate directory, a hash sign that stays, MySQL accounts that cannot be reconciled twice).

  \<^bold>\<open>Parameters.\<close> Not under \<^verbatim>\<open>src/\<close> and therefore arguments of the model: the controller-runtime
  client and its helpers (\<open>Client\<close>), its manager, controller builder and scheme builder, zap
  and the flags that libraries register (\<open>Runtime\<close>), \<^verbatim>\<open>sqlx\<close> and the servers behind it
  (\<open>Sqlx\<close>), \<^verbatim>\<open>dburl.GenMysql\<close>, X.509 and RSA (\<open>Crypto\<close>), and the copies of
  \<^verbatim>\<open>ObjectMeta\<close> and \<^verbatim>\<open>ListMeta\<close> (\<open>Apimachinery\<close>). What a property needs of them is a
  named hypothesis (\<open>finalizer_tracked\<close>, \<open>others_tracked\<close>, \<open>ready_tracked\<close>,
  \<open>sqlx_tracked\<close>, \<open>peak_tracked\<close>, \<open>runtime_tracked\<close>, \<open>holds_safe_databases\<close>,
  \<open>accepting\<close>, \<open>ready_to_apply\<close> and \<open>ready_to_remove\<close> with their parts \<open>answers\<close>,
  \<open>resolves\<close>, \<open>authority_issues\<close>, \<open>takes_secret\<close>, \<open>takes_status\<close> and \<open>takes_finalizer\<close>,
  \<open>secret_store\<close>, and for \<open>Apimachinery\<close> that its
  routines are copiers) that an instance in \<open>Mem_Cluster\<close> or in the theory of the property
  satisfies. \<open>sqlx_tracked\<close> is \<^verbatim>\<open>sqlx.ConnectContext\<close> as it is, which opens a handle before it
  pings the server and returns it with the error when the ping fails. Of the file system \<open>writable_certs\<close> says that the certificate files can be written.

  \<^bold>\<open>Bounds.\<close> There is no fuel: every loop of the sources runs over a list, and the loop over
  the command line takes at least one argument in every round, and each round of
  \<^verbatim>\<open>pem.Decode\<close> leaves a shorter text. Go's \<^verbatim>\<open>int\<close> occurs
  as a port number and as the counter of the test double and is an \<open>int\<close>. The memory of the
  deep copies is unbounded.

  \<^bold>\<open>Not modelled.\<close> The structure of log records beyond their message, contexts and
  their cancellation, the mutex of the test double (one call is one step), and the usage text
  of the flags. Of \<^verbatim>\<open>pem.Decode\<close> the headers of a block and the rest of the text are not part
  of the result, because the sources drop them. Of the tests the API server they start and
  their waiting are not modelled. Generated marker comments, license headers and imports have
  nothing to model; every function of the implementation has its definition.
\<close>

end
